(* ===== verification/Prelude.thy ===== *)
theory Prelude
  imports Main "HOL-Library.Word" "HOL-Library.Sublist"
begin

unbundle bit_operations_syntax

text \<open>
  Shared foundations of the development.

  \<^item> Results. Rust's \<^verbatim>\<open>Result<T, E>\<close> is the sum type \<open>'e + 'a\<close>; \<open>Err\<close> and \<open>Ok\<close> name its
    two sides and \<open>try_then\<close> is the \<^verbatim>\<open>?\<close> operator (\<^verbatim>\<open>and_then\<close>).
  \<^item> Bytes and strings. A byte slice is a list of \<open>8 word\<close>. A Rust string is a \<open>string\<close>, the list
    of its UTF-8 bytes, so \<open>length\<close> is \<^verbatim>\<open>str::len\<close>; \<open>chars\<close> decodes it into Unicode scalar
    values, and \<open>is_control\<close>, \<open>is_whitespace\<close> and \<open>trim\<close> work on these.
  \<^item> Tables. A database table is a list of rows in row-id order. \<open>sql_insert\<close>, \<open>sql_update\<close> and
    \<open>sql_delete\<close> are the three kinds of statement the store executes, each with the constraints
    that the engine checks, and the lemmas here say what a statement that succeeds leaves behind.
  The collection \<open>sql_spec\<close> gathers these lemmas, \<open>result_simps\<close> the ones on results and \<open>wp\<close> the
  rules that compute what a composed operation ensures when it succeeds.
\<close>

named_theorems result_simps
named_theorems sql_spec
named_theorems wp

section \<open>Results\<close>

type_synonym ('e, 'a) result = "'e + 'a"

abbreviation Err :: "'e \<Rightarrow> 'e + 'a" where "Err \<equiv> Inl"
abbreviation Ok :: "'a \<Rightarrow> 'e + 'a" where "Ok \<equiv> Inr"

definition try_then :: "'e + 'a \<Rightarrow> ('a \<Rightarrow> 'e + 'b) \<Rightarrow> 'e + 'b" where
  "try_then m f = (case m of Inl e \<Rightarrow> Inl e | Inr x \<Rightarrow> f x)"

definition map_err :: "('e \<Rightarrow> 'f) \<Rightarrow> 'e + 'a \<Rightarrow> 'f + 'a" where
  "map_err g m = (case m of Inl e \<Rightarrow> Inl (g e) | Inr x \<Rightarrow> Inr x)"

definition ok_or :: "'e \<Rightarrow> 'a option \<Rightarrow> 'e + 'a" where
  "ok_or e x = (case x of None \<Rightarrow> Inl e | Some y \<Rightarrow> Inr y)"

definition require :: "bool \<Rightarrow> 'e \<Rightarrow> 'e + unit" where
  "require c e = (if c then Inr () else Inl e)"

lemma try_then_simps [simp, code]:
  "try_then (Inl e) f = Inl e"
  "try_then (Inr x) f = f x"
  by (simp_all add: try_then_def)

lemma try_then_Ok [simp, result_simps]:
  "try_then m f = Inr y \<longleftrightarrow> (\<exists>x. m = Inr x \<and> f x = Inr y)"
  by (cases m) auto

lemma try_then_Err [result_simps]:
  "try_then m f = Inl e \<longleftrightarrow> m = Inl e \<or> (\<exists>x. m = Inr x \<and> f x = Inl e)"
  by (cases m) auto

lemma map_err_simps [simp, code]:
  "map_err g (Inl e) = Inl (g e)"
  "map_err g (Inr x) = Inr x"
  by (simp_all add: map_err_def)

lemma map_err_Ok [simp, result_simps]: "map_err g m = Inr y \<longleftrightarrow> m = Inr y"
  by (cases m) auto

lemma ok_or_simps [simp, code]:
  "ok_or e None = Inl e"
  "ok_or e (Some y) = Inr y"
  by (simp_all add: ok_or_def)

lemma ok_or_Ok [simp, result_simps]: "ok_or e x = Inr y \<longleftrightarrow> x = Some y"
  by (cases x) auto

lemma ok_or_Err [simp, result_simps]: "ok_or e x = Inl e' \<longleftrightarrow> x = None \<and> e' = e"
  by (cases x) auto

lemma require_Ok [simp, result_simps]: "require c e = Inr u \<longleftrightarrow> c"
  by (simp add: require_def)

lemma require_Err [simp, result_simps]: "require c e = Inl e' \<longleftrightarrow> \<not> c \<and> e' = e"
  by (auto simp: require_def)

lemma require_code [code]: "require c e = (if c then Inr () else Inl e)"
  by (simp add: require_def)

text \<open>\<open>ensures m Q\<close>: if \<open>m\<close> returns \<open>Ok x\<close> then \<open>Q x\<close>. The rules of the collection \<open>wp\<close> compute the
  condition under which a composed operation ensures \<open>Q\<close>, one rule per program construct.\<close>

definition ensures :: "'e + 'a \<Rightarrow> ('a \<Rightarrow> bool) \<Rightarrow> bool" where
  "ensures m Q \<longleftrightarrow> (case m of Inl e \<Rightarrow> True | Inr x \<Rightarrow> Q x)"

lemma ensures_simps [simp]: "ensures (Inl e) Q" "ensures (Inr x) Q \<longleftrightarrow> Q x"
  by (simp_all add: ensures_def)

lemma ensuresI: "(\<And>x. m = Inr x \<Longrightarrow> Q x) \<Longrightarrow> ensures m Q"
  by (cases m) auto

lemma ensuresD: "ensures m Q \<Longrightarrow> m = Inr x \<Longrightarrow> Q x"
  by simp

lemma ensures_mono: "ensures m P \<Longrightarrow> (\<And>x. m = Inr x \<Longrightarrow> P x \<Longrightarrow> Q x) \<Longrightarrow> ensures m Q"
  by (cases m) auto

lemma ensures_conj: "ensures m P \<Longrightarrow> ensures m Q \<Longrightarrow> ensures m (\<lambda>x. P x \<and> Q x)"
  by (cases m) auto

lemma ensures_Err [wp]: "ensures (Inl e) Q"
  by simp

lemma ensures_Ok [wp]: "Q x \<Longrightarrow> ensures (Inr x) Q"
  by simp

lemma ensures_try_then [wp]: "ensures m (\<lambda>x. ensures (f x) Q) \<Longrightarrow> ensures (try_then m f) Q"
  by (cases m) auto

lemma ensures_map_err [wp]: "ensures m Q \<Longrightarrow> ensures (map_err g m) Q"
  by (cases m) auto

lemma ensures_require [wp]: "(c \<Longrightarrow> Q ()) \<Longrightarrow> ensures (require c e) Q"
  by (simp add: require_def)

lemma ensures_ok_or [wp]: "(\<And>y. x = Some y \<Longrightarrow> Q y) \<Longrightarrow> ensures (ok_or e x) Q"
  by (cases x) auto

lemma ensures_if [wp]:
  "(c \<Longrightarrow> ensures m Q) \<Longrightarrow> (\<not> c \<Longrightarrow> ensures n Q) \<Longrightarrow> ensures (if c then m else n) Q"
  by simp

lemma ensures_case_option [wp]:
  "(x = None \<Longrightarrow> ensures m Q) \<Longrightarrow> (\<And>y. x = Some y \<Longrightarrow> ensures (f y) Q)
   \<Longrightarrow> ensures (case x of None \<Rightarrow> m | Some y \<Rightarrow> f y) Q"
  by (cases x) auto

lemma ensures_case_prod [wp]:
  "(\<And>a b. p = (a, b) \<Longrightarrow> ensures (f a b) Q) \<Longrightarrow> ensures (case p of (a, b) \<Rightarrow> f a b) Q"
  by (cases p) auto

lemma ensures_case_sum [wp]:
  "(\<And>e. s = Inl e \<Longrightarrow> ensures (f e) Q) \<Longrightarrow> (\<And>x. s = Inr x \<Longrightarrow> ensures (g x) Q)
   \<Longrightarrow> ensures (case s of Inl e \<Rightarrow> f e | Inr x \<Rightarrow> g x) Q"
  by (cases s) auto

lemma ensures_Let [wp]: "(\<And>y. y = x \<Longrightarrow> ensures (f y) Q) \<Longrightarrow> ensures (Let x f) Q"
  by (simp add: Let_def)

section \<open>Bytes and strings\<close>

type_synonym byte = "8 word"
type_synonym blob = "byte list"

definition byte_of_char :: "char \<Rightarrow> byte" where
  "byte_of_char c = word_of_nat (of_char c)"

definition char_of_byte :: "byte \<Rightarrow> char" where
  "char_of_byte b = char_of (unat b)"

definition as_bytes :: "string \<Rightarrow> blob" where
  "as_bytes = map byte_of_char"

definition string_of_bytes :: "blob \<Rightarrow> string" where
  "string_of_bytes = map char_of_byte"

lemma unat_byte_less [simp]: "unat (b :: byte) < 256"
  using unsigned_less [of b] by simp

lemma byte_of_char_inverse [simp]: "char_of_byte (byte_of_char c) = c"
  by (simp add: char_of_byte_def byte_of_char_def unat_of_nat)

lemma char_of_byte_inverse [simp]: "byte_of_char (char_of_byte b) = b"
  by (simp add: char_of_byte_def byte_of_char_def of_char_of)

lemma string_of_as_bytes [simp]: "string_of_bytes (as_bytes s) = s"
  by (simp add: string_of_bytes_def as_bytes_def comp_def)

lemma as_bytes_string_of [simp]: "as_bytes (string_of_bytes b) = b"
  by (simp add: string_of_bytes_def as_bytes_def comp_def)

lemma length_as_bytes [simp]: "length (as_bytes s) = length s"
  by (simp add: as_bytes_def)

lemma as_bytes_append [simp]: "as_bytes (s @ t) = as_bytes s @ as_bytes t"
  by (simp add: as_bytes_def)

text \<open>ASCII classes of \<^verbatim>\<open>u8\<close> and \<^verbatim>\<open>char\<close>.\<close>

definition is_ascii_lowercase :: "char \<Rightarrow> bool" where
  "is_ascii_lowercase c \<longleftrightarrow> (97::nat) \<le> of_char c \<and> of_char c \<le> (122::nat)"

definition is_ascii_uppercase :: "char \<Rightarrow> bool" where
  "is_ascii_uppercase c \<longleftrightarrow> (65::nat) \<le> of_char c \<and> of_char c \<le> (90::nat)"

definition is_ascii_digit :: "char \<Rightarrow> bool" where
  "is_ascii_digit c \<longleftrightarrow> (48::nat) \<le> of_char c \<and> of_char c \<le> (57::nat)"

definition is_ascii_alphanumeric :: "char \<Rightarrow> bool" where
  "is_ascii_alphanumeric c \<longleftrightarrow>
     is_ascii_lowercase c \<or> is_ascii_uppercase c \<or> is_ascii_digit c"

definition is_ascii_hexdigit :: "char \<Rightarrow> bool" where
  "is_ascii_hexdigit c \<longleftrightarrow>
     is_ascii_digit c \<or> ((97::nat) \<le> of_char c \<and> of_char c \<le> (102::nat))
     \<or> ((65::nat) \<le> of_char c \<and> of_char c \<le> (70::nat))"

definition is_lower_hexdigit :: "char \<Rightarrow> bool" where
  "is_lower_hexdigit c \<longleftrightarrow> is_ascii_digit c \<or> ((97::nat) \<le> of_char c \<and> of_char c \<le> (102::nat))"

lemmas ascii_defs = is_ascii_lowercase_def is_ascii_uppercase_def is_ascii_digit_def
  is_ascii_alphanumeric_def is_ascii_hexdigit_def is_lower_hexdigit_def

text \<open>Decoding UTF-8 into scalar values (\<^verbatim>\<open>str::chars\<close>). A Rust string is always well formed, so
  the treatment of a truncated sequence is never reached.\<close>

fun utf8_scalars :: "nat list \<Rightarrow> nat list" where
  "utf8_scalars [] = []"
| "utf8_scalars (b # bs) =
     (if b < 128 then b # utf8_scalars bs
      else if b < 224 then
        (case bs of c # r \<Rightarrow> ((b mod 32) * 64 + c mod 64) # utf8_scalars r
         | [] \<Rightarrow> [65533])
      else if b < 240 then
        (case bs of c # d # r \<Rightarrow> ((b mod 16) * 4096 + (c mod 64) * 64 + d mod 64) # utf8_scalars r
         | _ \<Rightarrow> [65533])
      else
        (case bs of c # d # e # r \<Rightarrow>
           ((b mod 8) * 262144 + (c mod 64) * 4096 + (d mod 64) * 64 + e mod 64) # utf8_scalars r
         | _ \<Rightarrow> [65533]))"

definition chars :: "string \<Rightarrow> nat list" where
  "chars s = utf8_scalars (map of_char s)"

definition is_control :: "nat \<Rightarrow> bool" where
  "is_control c \<longleftrightarrow> c < 32 \<or> (127 \<le> c \<and> c < 160)"

definition is_whitespace :: "nat \<Rightarrow> bool" where
  "is_whitespace c \<longleftrightarrow> (9 \<le> c \<and> c \<le> 13) \<or> c = 32 \<or> c = 133 \<or> c = 160 \<or> c = 5760
     \<or> (8192 \<le> c \<and> c \<le> 8202) \<or> c = 8232 \<or> c = 8233 \<or> c = 8239 \<or> c = 8287 \<or> c = 12288"

definition trim :: "nat list \<Rightarrow> nat list" where
  "trim cs = rev (dropWhile is_whitespace (rev (dropWhile is_whitespace cs)))"

definition newline :: char where "newline = CHR 0x0A"

fun split_on :: "'a \<Rightarrow> 'a list \<Rightarrow> 'a list list" where
  "split_on c [] = [[]]"
| "split_on c (x # xs) =
     (if x = c then [] # split_on c xs
      else (case split_on c xs of p # ps \<Rightarrow> (x # p) # ps | [] \<Rightarrow> [[x]]))"

lemma split_on_nonempty [simp]: "split_on c xs \<noteq> []"
  by (induction xs) (auto split: list.splits)

lemma split_on_none: "c \<notin> set xs \<Longrightarrow> split_on c xs = [xs]"
  by (induction xs) auto

lemma split_on_append: "c \<notin> set xs \<Longrightarrow> split_on c (xs @ c # ys) = xs # split_on c ys"
  by (induction xs) auto

lemma split_on_append_delimiter: "split_on c (xs @ c # ys) = split_on c xs @ split_on c ys"
  by (induction xs) (auto split: list.splits)

lemma hd_split_on_append: "hd (split_on c xs @ ys) = hd (split_on c xs)"
  by (cases "split_on c xs") auto

lemma split_on_single: "split_on c xs = [p] \<Longrightarrow> xs = p"
  by (induction xs arbitrary: p) (auto split: if_splits list.splits)

lemma split_on_more: "split_on c xs = p # q # ps \<Longrightarrow> \<exists>ys. xs = p @ c # ys \<and> split_on c ys = q # ps"
proof (induction xs arbitrary: p)
  case (Cons x xs)
  show ?case
  proof (cases "x = c")
    case True
    with Cons.prems show ?thesis by auto
  next
    case False
    then obtain p' where p': "split_on c xs = p' # q # ps" "p = x # p'"
      using Cons.prems by (auto split: list.splits)
    from Cons.IH [OF p'(1)] p'(2) show ?thesis by auto
  qed
qed simp

text \<open>The \<^verbatim>\<open>n\<close>-th field of a line, as an iterator over a split yields it.\<close>

definition nth_field :: "'a list list \<Rightarrow> nat \<Rightarrow> 'a list option" where
  "nth_field parts n = (if n < length parts then Some (parts ! n) else None)"

definition strip_prefix :: "'a list \<Rightarrow> 'a list \<Rightarrow> 'a list option" where
  "strip_prefix p s = (if take (length p) s = p then Some (drop (length p) s) else None)"

definition strip_suffix :: "'a list \<Rightarrow> 'a list \<Rightarrow> 'a list option" where
  "strip_suffix p s =
     (if length p \<le> length s \<and> drop (length s - length p) s = p
      then Some (take (length s - length p) s) else None)"

lemma strip_prefix_append [simp]: "strip_prefix p (p @ s) = Some s"
  by (simp add: strip_prefix_def)

lemma strip_suffix_append [simp]: "strip_suffix p (s @ p) = Some s"
  by (simp add: strip_suffix_def)

lemma strip_prefix_Some: "strip_prefix p s = Some t \<longleftrightarrow> s = p @ t"
  by (auto simp: strip_prefix_def) (metis append_take_drop_id)

lemma strip_suffix_Some: "strip_suffix p s = Some t \<longleftrightarrow> s = t @ p"
  by (auto simp: strip_suffix_def) (metis append_take_drop_id)

text \<open>Decimal rendering of an integer, as \<^verbatim>\<open>format!\<close> prints it.\<close>

fun show_nat :: "nat \<Rightarrow> string" where
  "show_nat n = (if n < 10 then [char_of (48 + n)]
                 else show_nat (n div 10) @ [char_of (48 + n mod 10)])"

declare show_nat.simps [simp del]

section \<open>Tables\<close>

datatype sqlite_error = CheckViolation | UniqueViolation | ForeignKeyViolation | QueryReturnedNoRows

text \<open>\<open>sql_insert\<close> appends a row; the engine checks the CHECK constraints, then the unique keys, then
  the foreign keys. \<open>sql_update\<close> rewrites the rows that match and returns how many did.\<close>

definition sql_insert :: "('r \<Rightarrow> bool) \<Rightarrow> ('r list \<Rightarrow> bool) \<Rightarrow> ('r \<Rightarrow> bool) \<Rightarrow> 'r \<Rightarrow> 'r list
    \<Rightarrow> (sqlite_error, 'r list) result" where
  "sql_insert chk uniq fk r t =
     (if \<not> chk r then Err CheckViolation
      else if \<not> uniq (t @ [r]) then Err UniqueViolation
      else if \<not> fk r then Err ForeignKeyViolation
      else Ok (t @ [r]))"

definition sql_update :: "('r \<Rightarrow> bool) \<Rightarrow> ('r list \<Rightarrow> bool) \<Rightarrow> ('r \<Rightarrow> bool) \<Rightarrow> ('r \<Rightarrow> 'r) \<Rightarrow> 'r list
    \<Rightarrow> (sqlite_error, 'r list \<times> nat) result" where
  "sql_update chk uniq P f t =
     (let t' = map (\<lambda>r. if P r then f r else r) t in
      if \<not> list_all (\<lambda>r. P r \<longrightarrow> chk (f r)) t then Err CheckViolation
      else if \<not> uniq t' then Err UniqueViolation
      else Ok (t', length (filter P t)))"

definition sql_delete :: "('r \<Rightarrow> bool) \<Rightarrow> 'r list \<Rightarrow> 'r list \<times> nat" where
  "sql_delete P t = (filter (\<lambda>r. \<not> P r) t, length (filter P t))"

definition sql_exists :: "('r \<Rightarrow> bool) \<Rightarrow> 'r list \<Rightarrow> bool" where
  "sql_exists P t = list_ex P t"

definition next_rowid :: "('r \<Rightarrow> int) \<Rightarrow> 'r list \<Rightarrow> int" where
  "next_rowid key t = foldr (\<lambda>r m. max (key r) m) t 0 + 1"

lemma sql_insert_Ok [sql_spec]:
  "sql_insert chk uniq fk r t = Inr t' \<longleftrightarrow> chk r \<and> uniq (t @ [r]) \<and> fk r \<and> t' = t @ [r]"
  by (auto simp: sql_insert_def)

lemma sql_update_Ok [sql_spec]:
  "sql_update chk uniq P f t = Inr (t', n) \<longleftrightarrow>
     list_all (\<lambda>r. P r \<longrightarrow> chk (f r)) t \<and> uniq t' \<and> t' = map (\<lambda>r. if P r then f r else r) t
     \<and> n = length (filter P t)"
  by (auto simp: sql_update_def Let_def)

lemma sql_update_checks:
  assumes "sql_update chk uniq P f t = Inr (t', n)" and "list_all chk t"
  shows "list_all chk t'"
  using assms by (auto simp: sql_update_Ok list_all_iff)

lemma sql_delete_set [simp]: "set (fst (sql_delete P t)) = {r \<in> set t. \<not> P r}"
  by (auto simp: sql_delete_def)

lemma next_rowid_greater: "r \<in> set t \<Longrightarrow> key r < next_rowid key t"
  by (induction t) (auto simp: next_rowid_def max_def)

lemma next_rowid_fresh: "next_rowid key t \<notin> key ` set t"
  by (auto dest: next_rowid_greater [of _ t key])

lemma next_rowid_positive: "0 < next_rowid key t"
proof -
  have "0 \<le> foldr (\<lambda>r m. max (key r) m) t 0"
    by (induction t) (auto simp: max_def)
  then show ?thesis by (simp add: next_rowid_def)
qed

lemma distinct_map_filter_key: "distinct (map key t) \<Longrightarrow> distinct (map key (filter P t))"
  by (rule distinct_map_filter)

lemma find_unique_key:
  assumes "distinct (map key t)" and "r \<in> set t" and "P r" and "\<And>q. P q \<Longrightarrow> key q = key r"
  shows "find P t = Some r"
  using assms
proof (induction t)
  case Nil
  then show ?case by simp
next
  case (Cons a t)
  show ?case
  proof (cases "a = r")
    case True
    with Cons.prems(3) show ?thesis by simp
  next
    case False
    with Cons.prems(1,2) have "r \<in> set t" and "key a \<noteq> key r" by auto
    then have "\<not> P a" using Cons.prems(4) by blast
    moreover from Cons.prems(1) have "distinct (map key t)" by simp
    then have "find P t = Some r"
      using \<open>r \<in> set t\<close> Cons.prems(3,4) by (rule Cons.IH)
    ultimately show ?thesis by simp
  qed
qed

lemma find_SomeD: "find P t = Some r \<Longrightarrow> r \<in> set t \<and> P r"
  by (auto simp: find_Some_iff)

lemma find_None: "find P t = None \<longleftrightarrow> (\<forall>r\<in>set t. \<not> P r)"
  by (auto simp: find_None_iff)

lemma find_product_unique:
  assumes "distinct (map k1 xs)" and "distinct (map k2 ys)" and "x \<in> set xs" and "y \<in> set ys" and "P (x, y)"
    and "\<And>x' y'. x' \<in> set xs \<Longrightarrow> y' \<in> set ys \<Longrightarrow> P (x', y') \<Longrightarrow> k1 x' = k1 x \<and> k2 y' = k2 y"
  shows "find P (List.product xs ys) = Some (x, y)"
proof -
  have "(x', y') = (x, y)" if "(x', y') \<in> set (List.product xs ys)" "P (x', y')" for x' y'
    using that assms(3,4) assms(6) [of x' y'] assms(1,2) by (auto simp: distinct_map inj_on_def)
  moreover obtain p where "find P (List.product xs ys) = Some p"
    using assms(3-5) by (cases "find P (List.product xs ys)") (auto simp: find_None)
  ultimately show ?thesis by (metis find_SomeD surj_pair)
qed

lemma filter_cleared: "(\<And>x. \<not> P (f x)) \<Longrightarrow> filter P (map (\<lambda>x. if P x then f x else x) t) = []"
  by (induction t) auto

lemma length_filter_split:
  "length (filter P t) = length (filter (\<lambda>x. P x \<and> Q x) t) + length (filter (\<lambda>x. P x \<and> \<not> Q x) t)"
  by (induction t) auto

lemma not_isl_Ok: "\<not> isl m \<Longrightarrow> m = Ok (projr m)"
  by (simp add: sum.collapse(2))

end
