(* ===== verification/Codec.thy ===== *)
theory Codec
  imports Prelude
begin

text \<open>
  The hexadecimal codec of \<^verbatim>\<open>src/codec.rs\<close>: the encoder of secrets, identifiers and nonces and the
  two decoders (lower case only, or either case). The lemmas show that encoding and lower-case
  decoding are inverse bijections between byte strings and canonical hexadecimal text, which is what
  makes an encoded secret a faithful name for its bytes.
\<close>

definition HEX :: string where "HEX = ''0123456789abcdef''"

fun encode_lower_hex :: "blob \<Rightarrow> string" where
  "encode_lower_hex [] = []"
| "encode_lower_hex (byte # bytes) =
     HEX ! unat (drop_bit 4 byte) # HEX ! unat (byte AND 0x0f) # encode_lower_hex bytes"

definition decode_nibble :: "byte \<Rightarrow> bool \<Rightarrow> byte option" where
  "decode_nibble byte uppercase =
     (if 48 \<le> byte \<and> byte \<le> 57 then Some (byte - 48)
      else if 97 \<le> byte \<and> byte \<le> 102 then Some (byte - 97 + 10)
      else if 65 \<le> byte \<and> byte \<le> 70 \<and> uppercase then Some (byte - 65 + 10)
      else None)"

fun decode_pairs :: "blob \<Rightarrow> bool \<Rightarrow> blob option" where
  "decode_pairs (hi # lo # rest) uppercase =
     (case decode_nibble hi uppercase of None \<Rightarrow> None
      | Some h \<Rightarrow> (case decode_nibble lo uppercase of None \<Rightarrow> None
      | Some l \<Rightarrow> (case decode_pairs rest uppercase of None \<Rightarrow> None
      | Some bs \<Rightarrow> Some ((push_bit 4 h OR l) # bs))))"
| "decode_pairs _ uppercase = Some []"

definition decode_hex :: "blob \<Rightarrow> bool \<Rightarrow> blob option" where
  "decode_hex encoded uppercase =
     (if length encoded mod 2 \<noteq> 0 then None else decode_pairs encoded uppercase)"

definition decode_lower_hex :: "blob \<Rightarrow> blob option" where
  "decode_lower_hex encoded = decode_hex encoded False"

definition decode_ascii_hex :: "blob \<Rightarrow> blob option" where
  "decode_ascii_hex encoded = decode_hex encoded True"

section \<open>Nibbles\<close>

lemma length_HEX [simp]: "length HEX = 16"
  by (simp add: HEX_def)

lemma nibble_mask: "(0x0f :: byte) = mask 4"
  by (simp add: mask_eq_exp_minus_1)

lemma drop_bit_nibble_less [simp]: "unat (drop_bit 4 (b :: byte)) < 16"
proof -
  have "unat b div 16 < 16" using unat_byte_less [of b] by linarith
  then show ?thesis by (simp only: unat_drop_bit_eq) (simp add: drop_bit_eq_div)
qed

lemma and_nibble_less [simp]: "unat (b AND 0x0f :: byte) < 16"
  unfolding nibble_mask take_bit_eq_mask [symmetric] unsigned_take_bit_eq
  by (simp only: take_bit_eq_mod) simp

lemma nibbles_join: "push_bit 4 (drop_bit 4 b) OR (b AND 0x0f) = (b :: byte)"
  unfolding nibble_mask by (rule bit_word_eqI) (auto simp: bit_simps)

lemma nibble_bits: "unat (h :: byte) < 16 \<Longrightarrow> bit h n \<Longrightarrow> n < 4"
proof -
  assume less: "unat h < 16" and set: "bit h n"
  from less have "unat (take_bit 4 h) = unat h"
    unfolding unsigned_take_bit_eq by (simp only: take_bit_eq_mod) simp
  then have "take_bit 4 h = h" by (simp only: unsigned_word_eqI)
  with set show "n < 4" using bit_take_bit_iff by metis
qed

lemma nibbles_split:
  assumes "unat h < 16" and "unat l < 16"
  shows "drop_bit 4 (push_bit 4 h OR l) = (h :: byte)"
    and "(push_bit 4 h OR l) AND 0x0f = (l :: byte)"
proof -
  note bits = nibble_bits [OF assms(1)] nibble_bits [OF assms(2)]
  show "drop_bit 4 (push_bit 4 h OR l) = h"
    using bits by (intro bit_word_eqI) (fastforce simp: bit_simps)
  show "(push_bit 4 h OR l) AND 0x0f = l"
    unfolding nibble_mask using bits by (intro bit_word_eqI) (fastforce simp: bit_simps)
qed

lemma decode_nibble_HEX_table:
  "\<forall>n\<in>set [0..<16]. decode_nibble (byte_of_char (HEX ! n)) u = Some (word_of_nat n)"
  by (cases u) code_simp+

lemma decode_nibble_HEX [simp]:
  "n < 16 \<Longrightarrow> decode_nibble (byte_of_char (HEX ! n)) u = Some (word_of_nat n)"
  using decode_nibble_HEX_table [of u] by simp

lemma decode_nibble_table:
  "\<forall>n\<in>set [0..<256]. (case decode_nibble (word_of_nat n) False of None \<Rightarrow> True
     | Some h \<Rightarrow> unat h < 16 \<and> byte_of_char (HEX ! unat h) = word_of_nat n)"
  by code_simp

lemma decode_nibble_lower_Some:
  assumes "decode_nibble b False = Some h"
  shows "unat h < 16 \<and> byte_of_char (HEX ! unat h) = b"
proof -
  have "unat b \<in> set [0..<256]" by simp
  from bspec [OF decode_nibble_table this] assms show ?thesis by simp
qed

lemma decode_nibble_mono: "decode_nibble b False = Some h \<Longrightarrow> decode_nibble b True = Some h"
  by (auto simp: decode_nibble_def split: if_splits)

section \<open>Encoding and decoding are inverse\<close>

lemma length_encode_lower_hex [simp]: "length (encode_lower_hex bs) = 2 * length bs"
  by (induction bs) auto

lemma decode_pairs_encode: "decode_pairs (as_bytes (encode_lower_hex bs)) u = Some bs"
  by (induction bs) (simp_all add: as_bytes_def nibbles_join)

lemma decode_pairs_lower_Some:
  "decode_pairs e False = Some bs \<Longrightarrow> even (length e) \<Longrightarrow> as_bytes (encode_lower_hex bs) = e"
proof (induction e False arbitrary: bs rule: decode_pairs.induct)
  case (1 hi lo rest)
  from 1(2) obtain h l bs' where nib: "decode_nibble hi False = Some h" "decode_nibble lo False = Some l"
    and rest: "decode_pairs rest False = Some bs'" and bs: "bs = (push_bit 4 h OR l) # bs'"
    by (auto split: option.splits)
  from 1(3) have "even (length rest)" by simp
  with 1(1) nib rest have IH: "as_bytes (encode_lower_hex bs') = rest" by simp
  note dec = decode_nibble_lower_Some [OF nib(1)] decode_nibble_lower_Some [OF nib(2)]
  with IH show ?case
    using nibbles_split [of h l] by (simp only: bs encode_lower_hex.simps as_bytes_def list.map)
qed (auto simp: as_bytes_def)

lemma decode_pairs_mono: "decode_pairs e False = Some bs \<Longrightarrow> decode_pairs e True = Some bs"
proof (induction e False arbitrary: bs rule: decode_pairs.induct)
  case (1 hi lo rest)
  from 1(2) obtain h l bs' where nib: "decode_nibble hi False = Some h" "decode_nibble lo False = Some l"
    and rest: "decode_pairs rest False = Some bs'" and bs: "bs = (push_bit 4 h OR l) # bs'"
    by (auto split: option.splits)
  then show ?case using 1(1) by (simp add: nib [THEN decode_nibble_mono])
qed auto

lemma decode_tolerant: "decode_lower_hex e = Some bs \<Longrightarrow> decode_ascii_hex e = Some bs"
  by (auto simp: decode_lower_hex_def decode_ascii_hex_def decode_hex_def dest: decode_pairs_mono split: if_splits)

text \<open>Lower-case hexadecimal is a bijection between byte strings and the texts the strict decoder accepts: a text
  decodes to \<open>bs\<close> exactly if it is the encoding of \<open>bs\<close>. So every secret, nonce and identifier survives being written out and
  read back, and no two texts name the same bytes.\<close>

lemma hex_roundtrip: "decode_lower_hex e = Some bs \<longleftrightarrow> e = as_bytes (encode_lower_hex bs)"
  by (auto simp: decode_lower_hex_def decode_hex_def decode_pairs_encode even_iff_mod_2_eq_zero
      dest: decode_pairs_lower_Some split: if_splits)

end
