(* ===== verification/Names.thy ===== *)
theory Names
  imports Codec
begin

text \<open>
  Names of accounts, organizations and repositories. \<open>validate_slug\<close> is \<^verbatim>\<open>src/domain/repository.rs\<close>,
  \<open>validate_username\<close> the function of the same name in \<^verbatim>\<open>src/auth.rs\<close>; \<open>slug_check\<close>,
  \<open>username_check\<close> and \<open>namespace_slug_check\<close> are the CHECK constraints that the final database schema
  puts on the same columns (migrations 004 and 025). The theorems show that the two sides of each pair
  accept exactly the same names, so a name the application lets through is never refused by the
  database and the database never holds a name the application would refuse.
\<close>

section \<open>Reserved names and the two validators\<close>

datatype repository_name_error = InvalidSlug

datatype auth_error =
    InputTooLarge string
  | PublicKey
  | UnsupportedKeyAlgorithm
  | UndersizedRsa nat nat
  | InvalidUsername
  | InvalidOrigin
  | InvalidLifetime
  | MalformedChallenge
  | WrongOrigin
  | WrongUsername
  | ExpiredChallenge
  | SignatureEnvelope
  | UnsupportedSignatureAlgorithm
  | SignatureVerification

definition MAX_SLUG_BYTES :: nat where "MAX_SLUG_BYTES = 100"

definition RESERVED_SLUGS :: "string list" where
  "RESERVED_SLUGS = [''admin'', ''api'', ''assets'', ''feeds'', ''issues'', ''setup'']"

definition ends_with :: "'a list \<Rightarrow> 'a list \<Rightarrow> bool" where
  "ends_with s p \<longleftrightarrow> length p \<le> length s \<and> drop (length s - length p) s = p"

definition starts_with :: "'a list \<Rightarrow> 'a list \<Rightarrow> bool" where
  "starts_with s p \<longleftrightarrow> take (length p) s = p"

definition slug_char :: "char \<Rightarrow> bool" where
  "slug_char c \<longleftrightarrow> is_ascii_lowercase c \<or> is_ascii_digit c \<or> c \<in> set ''._-''"

definition validate_slug :: "string \<Rightarrow> (repository_name_error, unit) result" where
  "validate_slug slug =
     (if slug = []
         \<or> length slug > MAX_SLUG_BYTES
         \<or> ends_with slug ''.git''
         \<or> slug \<in> set RESERVED_SLUGS
         \<or> \<not> list_all slug_char slug
         \<or> \<not> is_ascii_alphanumeric (hd slug)
         \<or> \<not> is_ascii_alphanumeric (last slug)
      then Err InvalidSlug else Ok ())"

definition valid_character :: "char \<Rightarrow> bool" where
  "valid_character c \<longleftrightarrow> is_ascii_lowercase c \<or> is_ascii_digit c"

definition validate_username :: "string \<Rightarrow> (auth_error, unit) result" where
  "validate_username username =
     (if \<not> (1 \<le> length username \<and> length username \<le> 40)
         \<or> \<not> valid_character (hd username)
         \<or> \<not> valid_character (last username)
         \<or> \<not> list_all (\<lambda>c. valid_character c \<or> c = CHR ''-'') username
         \<or> username \<in> set [''admin'', ''api'', ''assets'', ''feeds'', ''issues'', ''setup'']
      then Err InvalidUsername else Ok ())"

section \<open>The column constraints of the schema\<close>

text \<open>SQLite's \<^verbatim>\<open>length\<close> of a text counts its characters up to the first NUL.\<close>

definition sql_length :: "string \<Rightarrow> nat" where
  "sql_length s = length (takeWhile (\<lambda>c. c \<noteq> 0) (chars s))"

definition sql_first :: "string \<Rightarrow> string" where "sql_first s = take 1 s"

definition sql_last :: "nat \<Rightarrow> string \<Rightarrow> string" where "sql_last n s = drop (length s - n) s"

text \<open>\<^verbatim>\<open>x NOT GLOB '*[^set]*'\<close>: no character lies outside the set.\<close>

definition not_glob_outside :: "(char \<Rightarrow> bool) \<Rightarrow> string \<Rightarrow> bool" where
  "not_glob_outside P s \<longleftrightarrow> list_all P s"

definition glob_one :: "(char \<Rightarrow> bool) \<Rightarrow> string \<Rightarrow> bool" where
  "glob_one P s \<longleftrightarrow> (case s of [c] \<Rightarrow> P c | _ \<Rightarrow> False)"

definition slug_check :: "string \<Rightarrow> bool" where
  "slug_check slug \<longleftrightarrow>
     1 \<le> sql_length slug \<and> sql_length slug \<le> 100
     \<and> not_glob_outside slug_char slug
     \<and> glob_one valid_character (sql_first slug)
     \<and> glob_one valid_character (sql_last 1 slug)
     \<and> sql_last 4 slug \<noteq> ''.git''
     \<and> slug \<notin> set [''admin'', ''api'', ''assets'', ''feeds'', ''issues'', ''setup'']"

definition username_check :: "string \<Rightarrow> bool" where
  "username_check username \<longleftrightarrow>
     1 \<le> sql_length username \<and> sql_length username \<le> 40
     \<and> not_glob_outside (\<lambda>c. valid_character c \<or> c = CHR ''-'') username
     \<and> sql_first username \<noteq> ''-''
     \<and> sql_last 1 username \<noteq> ''-''"

definition namespace_slug_check :: "string \<Rightarrow> bool" where
  "namespace_slug_check slug \<longleftrightarrow>
     username_check slug
     \<and> slug \<notin> set [''admin'', ''api'', ''assets'', ''feeds'', ''issues'', ''setup'']"

text \<open>Identifiers of rows: 32 lower-case hexadecimal characters.\<close>

definition hex_id_check :: "string \<Rightarrow> bool" where
  "hex_id_check s \<longleftrightarrow> length s = 32 \<and> list_all is_lower_hexdigit s"

section \<open>Lengths of ASCII text\<close>

definition plain_ascii :: "char \<Rightarrow> bool" where
  "plain_ascii c \<longleftrightarrow> (0::nat) < of_char c \<and> of_char c < (128::nat)"

lemma utf8_scalars_ascii: "list_all (\<lambda>b. b < 128) bs \<Longrightarrow> utf8_scalars bs = bs"
  by (induction bs) auto

lemma chars_ascii: "list_all plain_ascii s \<Longrightarrow> chars s = map of_char s"
  unfolding chars_def by (rule utf8_scalars_ascii) (auto simp: list_all_iff plain_ascii_def)

lemma sql_length_ascii: "list_all plain_ascii s \<Longrightarrow> sql_length s = length s"
proof -
  assume a: "list_all plain_ascii s"
  then have "\<forall>c\<in>set (map of_char s). c \<noteq> (0::nat)"
    by (auto simp: list_all_iff plain_ascii_def)
  then have "takeWhile (\<lambda>c. c \<noteq> 0) (map of_char s) = (map of_char s :: nat list)"
    by (simp only: takeWhile_eq_all_conv)
  then show ?thesis by (simp only: sql_length_def chars_ascii [OF a] length_map)
qed

lemma slug_char_plain: "slug_char c \<Longrightarrow> plain_ascii c"
  by (auto simp: slug_char_def plain_ascii_def ascii_defs)

lemma username_char_plain: "valid_character c \<or> c = CHR ''-'' \<Longrightarrow> plain_ascii c"
  by (auto simp: valid_character_def plain_ascii_def ascii_defs)

lemma list_all_mono: "list_all P xs \<Longrightarrow> (\<And>x. P x \<Longrightarrow> Q x) \<Longrightarrow> list_all Q xs"
  by (auto simp: list_all_iff)

lemma glob_one_first: "s \<noteq> [] \<Longrightarrow> glob_one P (sql_first s) \<longleftrightarrow> P (hd s)"
  by (cases s) (auto simp: glob_one_def sql_first_def)

lemma sql_last_one: "s \<noteq> [] \<Longrightarrow> sql_last (Suc 0) s = [last s]"
  by (cases s rule: rev_cases) (auto simp: sql_last_def)

lemma glob_one_last: "s \<noteq> [] \<Longrightarrow> glob_one P (sql_last (Suc 0) s) \<longleftrightarrow> P (last s)"
  by (simp add: sql_last_one glob_one_def)

lemma sql_first_neq: "s \<noteq> [] \<Longrightarrow> sql_first s \<noteq> [c] \<longleftrightarrow> hd s \<noteq> c"
  by (cases s) (auto simp: sql_first_def)

lemma ends_with_sql_last: "ends_with s p \<longleftrightarrow> sql_last (length p) s = p"
proof -
  have "length p \<le> length s" if "drop (length s - length p) s = p"
    using that by (metis diff_le_self length_drop)
  then show ?thesis by (auto simp: ends_with_def sql_last_def)
qed

lemma ends_with_git: "ends_with s ''.git'' \<longleftrightarrow> sql_last 4 s = ''.git''"
  by (simp add: ends_with_sql_last numeral_eq_Suc)

lemma slug_char_alphanumeric: "slug_char c \<Longrightarrow> is_ascii_alphanumeric c \<longleftrightarrow> valid_character c"
  by (auto simp: slug_char_def valid_character_def ascii_defs)

lemma hyphen_not_valid: "\<not> valid_character (CHR ''-'')"
  by (simp add: valid_character_def ascii_defs)

section \<open>The validators and the constraints agree\<close>

text \<open>A repository name passes \<open>validate_slug\<close> exactly when it satisfies the CHECK constraint on
  \<^verbatim>\<open>repository.slug\<close>.\<close>

lemma validate_slug_iff: "validate_slug slug = Ok () \<longleftrightarrow> slug_check slug"
proof (cases "slug \<noteq> [] \<and> list_all slug_char slug")
  case True
  then have len: "sql_length slug = length slug" and
    ends: "slug_char (hd slug)" "slug_char (last slug)"
    by (auto intro: sql_length_ascii list_all_mono slug_char_plain)
      (simp_all add: list_all_iff)
  from True have "1 \<le> length slug" by (cases slug) auto
  with True len show ?thesis
    by (auto simp: validate_slug_def slug_check_def MAX_SLUG_BYTES_def RESERVED_SLUGS_def
        not_glob_outside_def glob_one_first glob_one_last ends_with_git
        slug_char_alphanumeric ends)
next
  case False
  then show ?thesis
    by (auto simp: validate_slug_def slug_check_def not_glob_outside_def sql_length_def chars_def)
qed

text \<open>An account or organization name passes \<open>validate_username\<close> exactly when it satisfies both the
  CHECK constraint on \<^verbatim>\<open>account.username\<close> and the one on \<^verbatim>\<open>namespace.slug\<close>, which the trigger on
  \<^verbatim>\<open>account\<close> fills.\<close>

lemma validate_username_iff:
  "validate_username username = Ok () \<longleftrightarrow> username_check username \<and> namespace_slug_check username"
proof (cases "username \<noteq> [] \<and> list_all (\<lambda>c. valid_character c \<or> c = CHR ''-'') username")
  case True
  then have len: "sql_length username = length username"
    by (auto intro: sql_length_ascii list_all_mono username_char_plain)
  from True have ends: "valid_character (hd username) \<longleftrightarrow> hd username \<noteq> CHR ''-''"
    "valid_character (last username) \<longleftrightarrow> last username \<noteq> CHR ''-''"
    using hyphen_not_valid by (auto simp: list_all_iff)
  from True have "1 \<le> length username" by (cases username) auto
  with True len show ?thesis
    by (auto simp: validate_username_def username_check_def namespace_slug_check_def
        not_glob_outside_def sql_first_neq sql_last_one ends)
next
  case False
  then show ?thesis
    by (auto simp: validate_username_def username_check_def not_glob_outside_def sql_length_def
        chars_def)
qed

text \<open>The validators of names accept exactly what the database does: a repository name passes \<open>validate_slug\<close> if and
  only if it satisfies the CHECK constraint of its column, an account or organization name \<open>validate_username\<close> if and only if
  it satisfies those of the two columns it is stored in. No name that was validated is refused later, and none enters
  the database around the validators.\<close>

lemma name_validators_exact:
  "(validate_slug slug = Ok () \<longleftrightarrow> slug_check slug)
   \<and> (validate_username username = Ok () \<longleftrightarrow> username_check username \<and> namespace_slug_check username)"
  by (simp add: validate_slug_iff validate_username_iff)

end
