(* ===== verification/Sql.thy ===== *)
theory Sql
  imports Names
begin

named_theorems sql_wp
named_theorems keep

text \<open>
  The statement layer between the store and its tables. A table descriptor says how to read and replace
  the rows of one table in the database and which CHECK constraints and unique keys its schema gives it.
  \<open>exec_insert\<close>, \<open>exec_update\<close>, \<open>exec_delete\<close> and \<open>query_row\<close> are the rusqlite calls
  \<^verbatim>\<open>Transaction::execute\<close> and \<^verbatim>\<open>query_row(..).optional()\<close> over a descriptor.

  The locale \<open>lawful_table\<close> is the contract between the store and a table: reading back what was
  written, unique keys that survive a deletion, and a database-wide invariant to which the table
  contributes exactly its own constraints. Inside it, once and for all, every statement that succeeds is
  shown to keep that invariant. \<open>Schema\<close> interprets it for each table.
\<close>

section \<open>Table descriptors and statements\<close>

record ('db, 'r) table =
  rows :: "'db \<Rightarrow> 'r list"
  set_rows :: "'r list \<Rightarrow> 'db \<Rightarrow> 'db"
  chk :: "'r \<Rightarrow> bool"
  uniq :: "'r list \<Rightarrow> bool"

definition exec_insert :: "('db, 'r) table \<Rightarrow> ('r \<Rightarrow> bool) \<Rightarrow> 'r \<Rightarrow> 'db \<Rightarrow> (sqlite_error, 'db) result" where
  "exec_insert T fk r db =
     (case sql_insert (chk T) (uniq T) fk r (rows T db) of
        Inl e \<Rightarrow> Err e | Inr t \<Rightarrow> Ok (set_rows T t db))"

definition exec_update :: "('db, 'r) table \<Rightarrow> ('r \<Rightarrow> bool) \<Rightarrow> ('r \<Rightarrow> 'r) \<Rightarrow> 'db
    \<Rightarrow> (sqlite_error, 'db \<times> nat) result" where
  "exec_update T P f db =
     (case sql_update (chk T) (uniq T) P f (rows T db) of
        Inl e \<Rightarrow> Err e | Inr (t, n) \<Rightarrow> Ok (set_rows T t db, n))"

definition exec_delete :: "('db, 'r) table \<Rightarrow> ('r \<Rightarrow> bool) \<Rightarrow> 'db \<Rightarrow> 'db \<times> nat" where
  "exec_delete T P db = (let (t, n) = sql_delete P (rows T db) in (set_rows T t db, n))"

text \<open>\<^verbatim>\<open>INSERT .. ON CONFLICT (key) DO UPDATE\<close>: rewrite the row with the same key, or insert a new one.\<close>

definition exec_upsert :: "('db, 'r) table \<Rightarrow> ('r \<Rightarrow> bool) \<Rightarrow> ('r \<Rightarrow> bool) \<Rightarrow> 'r \<Rightarrow> ('r \<Rightarrow> 'r) \<Rightarrow> 'db
    \<Rightarrow> (sqlite_error, 'db) result" where
  "exec_upsert T fk same r f db =
     (if \<not> chk T r then Err CheckViolation
      else if sql_exists same (rows T db) then map_sum id fst (exec_update T same f db)
      else exec_insert T fk r db)"

definition query_row :: "('db, 'r) table \<Rightarrow> ('r \<Rightarrow> bool) \<Rightarrow> 'db \<Rightarrow> 'r option" where
  "query_row T P db = find P (rows T db)"

definition count_rows :: "('db, 'r) table \<Rightarrow> ('r \<Rightarrow> bool) \<Rightarrow> 'db \<Rightarrow> nat" where
  "count_rows T P db = length (filter P (rows T db))"

lemma exec_insert_Ok [sql_spec]:
  "exec_insert T fk r db = Inr db' \<longleftrightarrow>
     chk T r \<and> uniq T (rows T db @ [r]) \<and> fk r \<and> db' = set_rows T (rows T db @ [r]) db"
  by (auto simp: exec_insert_def sql_insert_def)

lemma exec_insert_Unique [sql_spec]:
  "exec_insert T fk r db = Inl UniqueViolation \<longleftrightarrow> chk T r \<and> \<not> uniq T (rows T db @ [r])"
  by (auto simp: exec_insert_def sql_insert_def)

lemma exec_update_Ok [sql_spec]:
  "exec_update T P f db = Inr (db', n) \<longleftrightarrow>
     (\<forall>r\<in>set (rows T db). P r \<longrightarrow> chk T (f r))
     \<and> uniq T (map (\<lambda>r. if P r then f r else r) (rows T db))
     \<and> db' = set_rows T (map (\<lambda>r. if P r then f r else r) (rows T db)) db
     \<and> n = count_rows T P db"
  by (auto simp: exec_update_def sql_update_def Let_def list_all_iff count_rows_def)

lemma exec_delete_eq [sql_spec]:
  "exec_delete T P db = (set_rows T (filter (\<lambda>r. \<not> P r) (rows T db)) db, count_rows T P db)"
  by (simp add: exec_delete_def sql_delete_def count_rows_def)

lemma query_row_Some: "query_row T P db = Some r \<Longrightarrow> r \<in> set (rows T db) \<and> P r"
  by (auto simp: query_row_def find_Some_iff)

lemma query_row_None: "query_row T P db = None \<longleftrightarrow> (\<forall>r\<in>set (rows T db). \<not> P r)"
  by (auto simp: query_row_def find_None_iff)

lemma count_rows_pos: "0 < count_rows T P db \<longleftrightarrow> (\<exists>r\<in>set (rows T db). P r)"
  by (auto simp: count_rows_def filter_empty_conv)

text \<open>What a statement ensures, in the form the \<open>wp\<close> rules compose. The collection \<open>keep\<close> holds, for the
  same constructs, the rules that carry an invariant through an operation.\<close>

lemma exec_insert_ensures [sql_wp]:
  "(chk T r \<Longrightarrow> uniq T (rows T db @ [r]) \<Longrightarrow> fk r \<Longrightarrow> Q (set_rows T (rows T db @ [r]) db))
   \<Longrightarrow> ensures (exec_insert T fk r db) Q"
  by (rule ensuresI) (auto simp: exec_insert_Ok)

lemma exec_update_ensures [sql_wp]:
  "(\<And>db' n. exec_update T P f db = Inr (db', n)
      \<Longrightarrow> db' = set_rows T (map (\<lambda>r. if P r then f r else r) (rows T db)) db
      \<Longrightarrow> n = count_rows T P db \<Longrightarrow> Q (db', n))
   \<Longrightarrow> ensures (exec_update T P f db) Q"
  by (rule ensuresI) (auto simp: exec_update_Ok)

lemma exec_upsert_ensures [sql_wp]:
  "(\<And>t. t = rows T db @ [r] \<and> \<not> sql_exists same (rows T db)
       \<or> t = map (\<lambda>r. if same r then f r else r) (rows T db) \<and> sql_exists same (rows T db)
      \<Longrightarrow> Q (set_rows T t db))
   \<Longrightarrow> ensures (exec_upsert T fk same r f db) Q"
  by (rule ensuresI, cases "exec_update T same f db")
    (auto simp: exec_upsert_def exec_insert_Ok exec_update_Ok split: if_splits)

section \<open>Unique keys\<close>

definition unique_by :: "('r \<Rightarrow> 'k) \<Rightarrow> 'r list \<Rightarrow> bool" where
  "unique_by key t \<longleftrightarrow> distinct (map key t)"

definition unique_where :: "('r \<Rightarrow> bool) \<Rightarrow> ('r \<Rightarrow> 'k) \<Rightarrow> 'r list \<Rightarrow> bool" where
  "unique_where P key t \<longleftrightarrow> distinct (map key (filter P t))"

lemma unique_by_filter: "unique_by key t \<Longrightarrow> unique_by key (filter P t)"
  by (simp add: unique_by_def distinct_map_filter)

lemma unique_where_filter: "unique_where P key t \<Longrightarrow> unique_where P key (filter Q t)"
proof -
  assume "unique_where P key t"
  then have "distinct (map key (filter Q (filter P t)))"
    unfolding unique_where_def by (rule distinct_map_filter)
  then show ?thesis by (simp add: unique_where_def conj_commute)
qed

lemma unique_by_key: "unique_by key t \<Longrightarrow> r \<in> set t \<Longrightarrow> q \<in> set t \<Longrightarrow> key r = key q \<Longrightarrow> r = q"
  by (auto simp: unique_by_def distinct_map inj_on_def)

lemma unique_by_append: "unique_by key (t @ [r]) \<longleftrightarrow> unique_by key t \<and> key r \<notin> key ` set t"
  by (auto simp: unique_by_def)

lemma unique_by_map: "(\<And>r. r \<in> set t \<Longrightarrow> key (f r) = key r) \<Longrightarrow> unique_by key (map f t) \<longleftrightarrow> unique_by key t"
  by (simp add: unique_by_def comp_def cong: map_cong)

lemma unique_by_count:
  assumes "unique_by key t" and "\<And>r. P r \<Longrightarrow> key r = k"
  shows "length (filter P t) \<le> 1"
proof -
  have "distinct (map key (filter P t))"
    using assms(1) unfolding unique_by_def by (rule distinct_map_filter)
  then have "length (filter P t) = card (key ` set (filter P t))"
    using distinct_card by fastforce
  also have "key ` set (filter P t) \<subseteq> {k}" using assms(2) by auto
  then have "card (key ` set (filter P t)) \<le> card {k}" by (intro card_mono) auto
  finally show ?thesis by simp
qed

text \<open>\<open>all_spent key spent h t\<close>: every row with key \<open>h\<close> has been used up. An update that hits exactly one row
  of a unique key, and uses that row up, leaves the key spent.\<close>

definition all_spent :: "('r \<Rightarrow> 'k) \<Rightarrow> ('r \<Rightarrow> bool) \<Rightarrow> 'k \<Rightarrow> 'r list \<Rightarrow> bool" where
  "all_spent key spent h t \<longleftrightarrow> (\<forall>r\<in>set t. key r = h \<longrightarrow> spent r)"

lemma all_spent_update:
  assumes "unique_by key t" and "length (filter P t) = 1" and "\<And>r. P r \<Longrightarrow> key r = h"
    and "\<And>r. P r \<Longrightarrow> spent (f r)" and "\<And>r. key (f r) = key r"
  shows "all_spent key spent h (map (\<lambda>r. if P r then f r else r) t)"
proof -
  obtain j where j: "j \<in> set t" "P j"
    using assms(2) by (metis filter_False length_0_conv zero_neq_one)
  have "spent (if P i then f i else i)" if "i \<in> set t" and "key (if P i then f i else i) = h" for i
  proof -
    have "key i = key j" using that(2) assms(3,5) j(2) by (metis (full_types))
    then have "i = j" using unique_by_key [OF assms(1)] that(1) j(1) by blast
    with j(2) assms(4) show ?thesis by simp
  qed
  then show ?thesis unfolding all_spent_def set_map by blast
qed

section \<open>The contract of a table\<close>

locale lawful_table =
  fixes T :: "('db, 'r) table" and ok :: "'db \<Rightarrow> bool"
  assumes rows_set_rows: "rows T (set_rows T t db) = t"
    and set_rows_rows: "set_rows T (rows T db) db = db"
    and ok_chk: "ok db \<Longrightarrow> list_all (chk T) (rows T db)"
    and ok_uniq: "ok db \<Longrightarrow> uniq T (rows T db)"
    and ok_set_rows: "ok db \<Longrightarrow> list_all (chk T) t \<Longrightarrow> uniq T t \<Longrightarrow> ok (set_rows T t db)"
    and uniq_filter: "uniq T t \<Longrightarrow> uniq T (filter P t)"
begin

lemma insert_keeps_ok: "exec_insert T fk r db = Ok db' \<Longrightarrow> ok db \<Longrightarrow> ok db'"
  by (auto simp: exec_insert_Ok list_all_iff intro!: ok_set_rows dest: ok_chk)

lemma insert_rows: "exec_insert T fk r db = Ok db' \<Longrightarrow> rows T db' = rows T db @ [r]"
  by (auto simp: exec_insert_Ok rows_set_rows)

lemma update_keeps_ok: "exec_update T P f db = Ok (db', n) \<Longrightarrow> ok db \<Longrightarrow> ok db'"
  using ok_chk [of db] by (auto simp: exec_update_Ok list_all_iff intro!: ok_set_rows)

lemma update_rows:
  "exec_update T P f db = Ok (db', n) \<Longrightarrow> rows T db' = map (\<lambda>r. if P r then f r else r) (rows T db)"
  by (auto simp: exec_update_Ok rows_set_rows)

lemma update_none:
  assumes "ok db" and "\<And>r. r \<in> set (rows T db) \<Longrightarrow> \<not> P r"
  shows "exec_update T P f db = Ok (db, 0)"
proof -
  have "map (\<lambda>r. if P r then f r else r) (rows T db) = rows T db"
    using assms(2) by (intro map_idI) simp
  then show ?thesis
    using assms ok_uniq [OF assms(1)] set_rows_rows [of db]
    by (simp add: exec_update_Ok count_rows_def filter_empty_conv)
qed

lemma delete_keeps_ok: "exec_delete T P db = (db', n) \<Longrightarrow> ok db \<Longrightarrow> ok db'"
  by (auto simp: exec_delete_eq list_all_iff intro!: ok_set_rows uniq_filter dest: ok_chk ok_uniq)

lemma delete_rows: "exec_delete T P db = (db', n) \<Longrightarrow> rows T db' = filter (\<lambda>r. \<not> P r) (rows T db)"
  by (auto simp: exec_delete_eq rows_set_rows)

lemma upsert_keeps_ok: "exec_upsert T fk same r f db = Ok db' \<Longrightarrow> ok db \<Longrightarrow> ok db'"
  by (cases "exec_update T same f db")
    (auto simp: exec_upsert_def split: if_splits intro: insert_keeps_ok update_keeps_ok)

lemma insert_keep: "ok db \<Longrightarrow> (\<And>db'. ok db' \<Longrightarrow> Q db') \<Longrightarrow> ensures (exec_insert T fk r db) Q"
  by (rule ensuresI) (blast intro: insert_keeps_ok)

lemma update_keep:
  "ok db \<Longrightarrow> (\<And>db' n. ok db' \<Longrightarrow> n = count_rows T P db \<Longrightarrow> Q (db', n))
   \<Longrightarrow> ensures (exec_update T P f db) Q"
  by (rule ensuresI) (metis exec_update_Ok surj_pair update_keeps_ok)

lemma upsert_keep: "ok db \<Longrightarrow> (\<And>db'. ok db' \<Longrightarrow> Q db') \<Longrightarrow> ensures (exec_upsert T fk same r f db) Q"
  by (rule ensuresI) (blast intro: upsert_keeps_ok)

lemma delete_ok: "ok db \<Longrightarrow> ok (fst (exec_delete T P db))"
  by (cases "exec_delete T P db") (auto intro: delete_keeps_ok)

lemmas keep_rules = insert_keep update_keep upsert_keep

lemmas keeps_ok = insert_keeps_ok update_keeps_ok delete_keeps_ok upsert_keeps_ok

end

end
