(* ===== verification/Schema.thy ===== *)
theory Schema
  imports Sql
begin

text \<open>
  The database of the store: the tables of the schema at version 26 (\<^verbatim>\<open>src/store/migrations\<close>, as the
  last migration leaves them), each as a record of its columns, its CHECK constraints (\<open>*_chk\<close>) and
  its unique keys (\<open>*_uniq\<close>), and the store's errors. Timestamps and row ids are \<open>int\<close>: SQLite
  integers are 64 bits wide and the store only compares them and counts up from the largest row id.
  State and role columns hold the texts the code compares.

  \<open>db_ok\<close> is the schema invariant. Every table is interpreted as a \<open>lawful_table\<close> over it, so
  that \<open>statement_keeps_ok\<close> says of every statement on every table that it keeps the invariant.
\<close>

section \<open>Errors of the store\<close>

datatype store_error =
    Sqlite sqlite_error
  | Integrity string
  | IntentState string
  | AlreadyInitialized
  | AccountNotFound string
  | UsernameUnavailable string
  | NamespaceNotFound string
  | NamespaceUnavailable string
  | OrganizationDenied
  | OrganizationMemberNotFound string
  | LastOrganizationOwner
  | InvalidOrganizationRole
  | InvalidInvitation
  | InvalidRecovery
  | KeyExists
  | KeyNotFound
  | LastKey
  | LoginIdentity
  | LoginNonceLimit
  | InvalidLoginChallenge
  | InvalidLoginApproval
  | LoginApprovalPending
  | InvalidSession
  | RepositoryNotFound string string
  | RepositoryExists string string
  | RepositoryIdentifierCollision
  | RepositoryArchived string string
  | InvalidRepositoryVisibility
  | InvalidDefaultBranch
  | DefaultBranchIntentState string
  | InvalidCollaboratorRole
  | OwnerCollaborator
  | CollaboratorNotFound string
  | EventLimit
  | EventPayload
  | AuditLimit
  | IssueNotFound string string int
  | IssueDenied
  | IssueHidden
  | IssueState string
  | PullRequestNotFound string string int
  | PullRequestDenied
  | PullRequestHidden
  | PullRequestState
  | PullRequestRevisionNotFound
  | PullRequestReviewAnchor
  | PullRequestIntentState string
  | WatchDenied
  | FeedTokenNotFound
  | FeedTokenLimit
  | InvalidFeedScope
  | NewerSchema int
  | Panic string  \<comment> \<open>a Rust panic: the call unwinds and its transaction is rolled back\<close>

abbreviation sqlite :: "(sqlite_error, 'a) result \<Rightarrow> (store_error, 'a) result" where
  "sqlite \<equiv> map_err Sqlite"

section \<open>Event kinds and payloads\<close>

datatype event_kind =
    RepositoryCreated | RepositoryImported | Push
  | RefCreated | RefUpdated | RefDeleted
  | TagCreated | TagUpdated | TagDeleted
  | IssueCreated | IssueEdited | IssueCommented | IssueClosed | IssueReopened
  | PullRequestCreated | PullRequestRevised | PullRequestEdited | PullRequestClosed
  | PullRequestReopened | PullRequestCommented | PullRequestLineCommented
  | PullRequestApproved | PullRequestChangesRequested | PullRequestMerged

text \<open>The JSON values that \<^verbatim>\<open>serde_json::json!\<close> builds for event payloads.\<close>

datatype json = JNull | JInt int | JStr string | JObject "(string \<times> json) list"

definition payload_version_of :: "json \<Rightarrow> int option" where
  "payload_version_of j =
     (case j of JObject fs \<Rightarrow> (case map_of fs ''version'' of Some (JInt v) \<Rightarrow> Some v | _ \<Rightarrow> None)
      | _ \<Rightarrow> None)"

text \<open>The CHECK that ties the kind of an event to the columns it fills.\<close>

definition event_shape :: "event_kind \<Rightarrow> string option \<Rightarrow> string option \<Rightarrow> string option \<Rightarrow> blob option
    \<Rightarrow> string option \<Rightarrow> string option \<Rightarrow> bool" where
  "event_shape kind source_intent issue pull_request ref_name old_target new_target \<longleftrightarrow>
     (if kind \<in> {RepositoryCreated, RepositoryImported, Push} then
        issue = None \<and> pull_request = None \<and> ref_name = None \<and> old_target = None \<and> new_target = None
      else if kind \<in> {RefCreated, RefUpdated, RefDeleted, TagCreated, TagUpdated, TagDeleted} then
        issue = None \<and> pull_request = None \<and> ref_name \<noteq> None
        \<and> (old_target \<noteq> None \<or> new_target \<noteq> None)
      else if kind \<in> {IssueCreated, IssueEdited, IssueCommented, IssueClosed, IssueReopened} then
        issue \<noteq> None \<and> pull_request = None \<and> source_intent = None
        \<and> ref_name = None \<and> old_target = None \<and> new_target = None
      else
        issue = None \<and> pull_request \<noteq> None \<and> (source_intent = None \<or> kind = PullRequestMerged)
        \<and> ref_name = None \<and> old_target = None \<and> new_target = None)"

section \<open>Column constraints shared by several tables\<close>

definition text_between :: "int \<Rightarrow> int \<Rightarrow> string \<Rightarrow> bool" where
  "text_between lo hi s \<longleftrightarrow> lo \<le> int (sql_length s) \<and> int (sql_length s) \<le> hi"

definition bytes_between :: "int \<Rightarrow> int \<Rightarrow> string \<Rightarrow> bool" where
  "bytes_between lo hi s \<longleftrightarrow> lo \<le> int (length s) \<and> int (length s) \<le> hi"

definition null_or_ge :: "int option \<Rightarrow> int \<Rightarrow> bool" where
  "null_or_ge x lo \<longleftrightarrow> (case x of None \<Rightarrow> True | Some v \<Rightarrow> lo \<le> v)"

definition object_id_check :: "string \<Rightarrow> bool" where
  "object_id_check s \<longleftrightarrow> (length s = 40 \<or> length s = 64) \<and> list_all is_lower_hexdigit s"

definition branch_name_check :: "string \<Rightarrow> bool" where
  "branch_name_check s \<longleftrightarrow> text_between 12 1024 s \<and> take 11 s = ''refs/heads/''"

lemma null_or_ge_simps [simp]: "null_or_ge None lo" "null_or_ge (Some v) lo \<longleftrightarrow> lo \<le> v"
  by (simp_all add: null_or_ge_def)

section \<open>Tables\<close>

record git_operation_intent =
  goi_id :: string
  goi_repository_path :: string
  goi_actor :: string
  goi_initial_refs :: blob
  goi_proposed_refs :: blob
  goi_event_payload :: blob
  goi_quarantine_path :: string
  goi_state :: string
  goi_pack_name :: "string option"
  goi_created_at :: int

definition git_operation_intent_chk :: "git_operation_intent \<Rightarrow> bool" where
  "git_operation_intent_chk r \<longleftrightarrow>
     sql_length (goi_id r) = 32
     \<and> text_between 1 4096 (goi_repository_path r)
     \<and> text_between 1 256 (goi_actor r)
     \<and> text_between 1 4096 (goi_quarantine_path r)
     \<and> goi_state r \<in> {''pending'', ''promoted'', ''completed'', ''abandoned''}
     \<and> 0 \<le> goi_created_at r"

definition git_operation_intent_uniq :: "git_operation_intent list \<Rightarrow> bool" where
  "git_operation_intent_uniq t \<longleftrightarrow>
     unique_by goi_id t"

record git_operation_event =
  goe_id :: int
  goe_intent_id :: string
  goe_payload :: blob

definition git_operation_event_chk :: "git_operation_event \<Rightarrow> bool" where
  "git_operation_event_chk r \<longleftrightarrow>
     True"

definition git_operation_event_uniq :: "git_operation_event list \<Rightarrow> bool" where
  "git_operation_event_uniq t \<longleftrightarrow>
     unique_by goe_id t
     \<and> unique_by goe_intent_id t"

record account =
  acct_id :: int
  acct_username :: string
  acct_is_administrator :: bool
  acct_state :: string
  acct_created_at :: int
  acct_bio :: string
  acct_contact_email :: string

definition account_chk :: "account \<Rightarrow> bool" where
  "account_chk r \<longleftrightarrow>
     username_check (acct_username r)
     \<and> acct_state r \<in> {''active'', ''suspended''}
     \<and> 0 \<le> acct_created_at r
     \<and> int (length (acct_bio r)) \<le> 512
     \<and> int (length (acct_contact_email r)) \<le> 254"

definition account_uniq :: "account list \<Rightarrow> bool" where
  "account_uniq t \<longleftrightarrow>
     unique_by acct_id t
     \<and> unique_by acct_username t"

record ssh_public_key =
  key_id :: int
  key_account_id :: int
  key_canonical_key :: string
  key_fingerprint :: string
  key_created_at :: int
  key_label :: string
  key_last_used_at :: "int option"
  key_revoked_at :: "int option"

definition ssh_public_key_chk :: "ssh_public_key \<Rightarrow> bool" where
  "ssh_public_key_chk r \<longleftrightarrow>
     text_between 1 16384 (key_canonical_key r)
     \<and> text_between 1 256 (key_fingerprint r)
     \<and> 0 \<le> key_created_at r
     \<and> text_between 1 80 (key_label r)
     \<and> null_or_ge (key_last_used_at r) (key_created_at r)
     \<and> null_or_ge (key_revoked_at r) (key_created_at r)"

definition ssh_public_key_uniq :: "ssh_public_key list \<Rightarrow> bool" where
  "ssh_public_key_uniq t \<longleftrightarrow>
     unique_by key_id t
     \<and> unique_by key_fingerprint t
     \<and> unique_by (\<lambda>r. (key_account_id r, key_canonical_key r)) t"

record recovery_credential =
  rec_account_id :: int
  rec_credential_hash :: blob
  rec_created_at :: int

definition recovery_credential_chk :: "recovery_credential \<Rightarrow> bool" where
  "recovery_credential_chk r \<longleftrightarrow>
     length (rec_credential_hash r) = 32
     \<and> 0 \<le> rec_created_at r"

definition recovery_credential_uniq :: "recovery_credential list \<Rightarrow> bool" where
  "recovery_credential_uniq t \<longleftrightarrow>
     unique_by rec_account_id t
     \<and> unique_by rec_credential_hash t"

record signup_invitation =
  inv_id :: int
  inv_code_hash :: blob
  inv_created_at :: int
  inv_expires_at :: int
  inv_consumed_at :: "int option"

definition signup_invitation_chk :: "signup_invitation \<Rightarrow> bool" where
  "signup_invitation_chk r \<longleftrightarrow>
     length (inv_code_hash r) = 32
     \<and> 0 \<le> inv_created_at r
     \<and> inv_created_at r < inv_expires_at r
     \<and> null_or_ge (inv_consumed_at r) (inv_created_at r)"

definition signup_invitation_uniq :: "signup_invitation list \<Rightarrow> bool" where
  "signup_invitation_uniq t \<longleftrightarrow>
     unique_by inv_id t
     \<and> unique_by inv_code_hash t"

record login_nonce =
  nonce_id :: int
  nonce_nonce_hash :: blob
  nonce_csrf_hash :: blob
  nonce_account_id :: int
  nonce_ssh_public_key_id :: "int option"
  nonce_created_at :: int
  nonce_expires_at :: int
  nonce_consumed_at :: "int option"

definition login_nonce_chk :: "login_nonce \<Rightarrow> bool" where
  "login_nonce_chk r \<longleftrightarrow>
     length (nonce_nonce_hash r) = 32
     \<and> length (nonce_csrf_hash r) = 32
     \<and> 0 \<le> nonce_created_at r
     \<and> nonce_created_at r < nonce_expires_at r
     \<and> null_or_ge (nonce_consumed_at r) (nonce_created_at r)"

definition login_nonce_uniq :: "login_nonce list \<Rightarrow> bool" where
  "login_nonce_uniq t \<longleftrightarrow>
     unique_by nonce_id t
     \<and> unique_by nonce_nonce_hash t"

record ssh_login_approval =
  appr_id :: int
  appr_secret_hash :: blob
  appr_csrf_hash :: blob
  appr_account_id :: "int option"
  appr_ssh_public_key_id :: "int option"
  appr_created_at :: int
  appr_expires_at :: int
  appr_approved_at :: "int option"
  appr_consumed_at :: "int option"
  appr_purpose :: string
  appr_expected_account_id :: "int option"

definition ssh_login_approval_chk :: "ssh_login_approval \<Rightarrow> bool" where
  "ssh_login_approval_chk r \<longleftrightarrow>
     length (appr_secret_hash r) = 32
     \<and> length (appr_csrf_hash r) = 32
     \<and> 0 \<le> appr_created_at r
     \<and> appr_created_at r < appr_expires_at r
     \<and> null_or_ge (appr_approved_at r) (appr_created_at r)
     \<and> null_or_ge (appr_consumed_at r) (appr_created_at r)
     \<and> (appr_account_id r = None \<and> appr_ssh_public_key_id r = None \<and> appr_approved_at r = None
      \<or> appr_account_id r \<noteq> None \<and> appr_ssh_public_key_id r \<noteq> None \<and> appr_approved_at r \<noteq> None)
     \<and> appr_purpose r \<in> {''login'', ''account-key''}"

definition ssh_login_approval_uniq :: "ssh_login_approval list \<Rightarrow> bool" where
  "ssh_login_approval_uniq t \<longleftrightarrow>
     unique_by appr_id t
     \<and> unique_by appr_secret_hash t"

record web_session =
  sess_id :: int
  sess_session_hash :: blob
  sess_csrf_hash :: blob
  sess_account_id :: int
  sess_created_at :: int
  sess_expires_at :: int
  sess_ended_at :: "int option"
  sess_ssh_public_key_id :: "int option"

definition web_session_chk :: "web_session \<Rightarrow> bool" where
  "web_session_chk r \<longleftrightarrow>
     length (sess_session_hash r) = 32
     \<and> length (sess_csrf_hash r) = 32
     \<and> 0 \<le> sess_created_at r
     \<and> sess_created_at r < sess_expires_at r
     \<and> null_or_ge (sess_ended_at r) (sess_created_at r)"

definition web_session_uniq :: "web_session list \<Rightarrow> bool" where
  "web_session_uniq t \<longleftrightarrow>
     unique_by sess_id t
     \<and> unique_by sess_session_hash t"

record namespace =
  ns_id :: int
  ns_slug :: string
  ns_kind :: string
  ns_account_id :: "int option"
  ns_created_at :: int

definition namespace_chk :: "namespace \<Rightarrow> bool" where
  "namespace_chk r \<longleftrightarrow>
     namespace_slug_check (ns_slug r)
     \<and> (ns_kind r = ''account'' \<and> ns_account_id r \<noteq> None \<or> ns_kind r = ''organization'' \<and> ns_account_id r = None)
     \<and> 0 \<le> ns_created_at r"

definition namespace_uniq :: "namespace list \<Rightarrow> bool" where
  "namespace_uniq t \<longleftrightarrow>
     unique_by ns_id t
     \<and> unique_by ns_slug t
     \<and> unique_where (\<lambda>r. ns_account_id r \<noteq> None) ns_account_id t"

record organization =
  org_namespace_id :: int
  org_display_name :: string
  org_description :: string
  org_state :: string
  org_created_at :: int

definition organization_chk :: "organization \<Rightarrow> bool" where
  "organization_chk r \<longleftrightarrow>
     bytes_between 1 100 (org_display_name r)
     \<and> int (length (org_description r)) \<le> 512
     \<and> org_state r \<in> {''active'', ''archived''}
     \<and> 0 \<le> org_created_at r"

definition organization_uniq :: "organization list \<Rightarrow> bool" where
  "organization_uniq t \<longleftrightarrow>
     unique_by org_namespace_id t"

record organization_member =
  mem_organization_id :: int
  mem_account_id :: int
  mem_role :: string
  mem_created_at :: int

definition organization_member_chk :: "organization_member \<Rightarrow> bool" where
  "organization_member_chk r \<longleftrightarrow>
     mem_role r \<in> {''owner'', ''maintainer'', ''writer'', ''reader''}
     \<and> 0 \<le> mem_created_at r"

definition organization_member_uniq :: "organization_member list \<Rightarrow> bool" where
  "organization_member_uniq t \<longleftrightarrow>
     unique_by (\<lambda>r. (mem_organization_id r, mem_account_id r)) t"

record repository =
  repo_id :: string
  repo_owner_namespace_id :: int
  repo_slug :: string
  repo_visibility :: string
  repo_state :: string
  repo_object_format :: string
  repo_created_at :: int
  repo_archived_at :: "int option"

definition repository_chk :: "repository \<Rightarrow> bool" where
  "repository_chk r \<longleftrightarrow>
     hex_id_check (repo_id r)
     \<and> slug_check (repo_slug r)
     \<and> repo_visibility r \<in> {''public'', ''private''}
     \<and> repo_state r \<in> {''active'', ''archived''}
     \<and> repo_object_format r \<in> {''sha1'', ''sha256''}
     \<and> 0 \<le> repo_created_at r
     \<and> null_or_ge (repo_archived_at r) (repo_created_at r)
     \<and> (repo_state r = ''active'' \<and> repo_archived_at r = None \<or> repo_state r = ''archived'' \<and> repo_archived_at r \<noteq> None)"

definition repository_uniq :: "repository list \<Rightarrow> bool" where
  "repository_uniq t \<longleftrightarrow>
     unique_by repo_id t
     \<and> unique_by (\<lambda>r. (repo_owner_namespace_id r, repo_slug r)) t"

record repository_collaborator =
  collab_repository_id :: string
  collab_account_id :: int
  collab_role :: string
  collab_created_at :: int

definition repository_collaborator_chk :: "repository_collaborator \<Rightarrow> bool" where
  "repository_collaborator_chk r \<longleftrightarrow>
     collab_role r \<in> {''maintainer'', ''writer'', ''reader''}
     \<and> 0 \<le> collab_created_at r"

definition repository_collaborator_uniq :: "repository_collaborator list \<Rightarrow> bool" where
  "repository_collaborator_uniq t \<longleftrightarrow>
     unique_by (\<lambda>r. (collab_repository_id r, collab_account_id r)) t"

record repository_profile =
  prof_repository_id :: string
  prof_description :: string

definition repository_profile_chk :: "repository_profile \<Rightarrow> bool" where
  "repository_profile_chk r \<longleftrightarrow>
     int (length (prof_description r)) \<le> 512"

definition repository_profile_uniq :: "repository_profile list \<Rightarrow> bool" where
  "repository_profile_uniq t \<longleftrightarrow>
     unique_by prof_repository_id t"

record repository_default_branch =
  branch_repository_id :: string
  branch_ref_name :: string

definition repository_default_branch_chk :: "repository_default_branch \<Rightarrow> bool" where
  "repository_default_branch_chk r \<longleftrightarrow>
     branch_name_check (branch_ref_name r)"

definition repository_default_branch_uniq :: "repository_default_branch list \<Rightarrow> bool" where
  "repository_default_branch_uniq t \<longleftrightarrow>
     unique_by branch_repository_id t"

record repository_default_branch_intent =
  bint_id :: string
  bint_repository_id :: string
  bint_actor :: string
  bint_previous_ref_name :: string
  bint_proposed_ref_name :: string
  bint_created_at :: int

definition repository_default_branch_intent_chk :: "repository_default_branch_intent \<Rightarrow> bool" where
  "repository_default_branch_intent_chk r \<longleftrightarrow>
     hex_id_check (bint_id r)
     \<and> branch_name_check (bint_previous_ref_name r)
     \<and> branch_name_check (bint_proposed_ref_name r)
     \<and> 0 \<le> bint_created_at r"

definition repository_default_branch_intent_uniq :: "repository_default_branch_intent list \<Rightarrow> bool" where
  "repository_default_branch_intent_uniq t \<longleftrightarrow>
     unique_by bint_id t
     \<and> unique_by bint_repository_id t"

record repository_counter =
  ctr_repository_id :: string
  ctr_next_issue_number :: int
  ctr_next_pull_request_number :: int

definition repository_counter_chk :: "repository_counter \<Rightarrow> bool" where
  "repository_counter_chk r \<longleftrightarrow>
     1 \<le> ctr_next_issue_number r
     \<and> 1 \<le> ctr_next_pull_request_number r"

definition repository_counter_uniq :: "repository_counter list \<Rightarrow> bool" where
  "repository_counter_uniq t \<longleftrightarrow>
     unique_by ctr_repository_id t"

record issue =
  issue_id :: string
  issue_repository_id :: string
  issue_number :: int
  issue_title :: string
  issue_body :: string
  issue_state :: string
  issue_author_account_id :: int
  issue_created_at :: int
  issue_updated_at :: int
  issue_closed_at :: "int option"

definition issue_chk :: "issue \<Rightarrow> bool" where
  "issue_chk r \<longleftrightarrow>
     hex_id_check (issue_id r)
     \<and> 1 \<le> issue_number r
     \<and> bytes_between 1 200 (issue_title r)
     \<and> int (length (issue_body r)) \<le> 262144
     \<and> issue_state r \<in> {''open'', ''closed''}
     \<and> 0 \<le> issue_created_at r
     \<and> issue_created_at r \<le> issue_updated_at r
     \<and> null_or_ge (issue_closed_at r) (issue_created_at r)
     \<and> (issue_state r = ''open'' \<and> issue_closed_at r = None \<or> issue_state r = ''closed'' \<and> issue_closed_at r \<noteq> None)"

definition issue_uniq :: "issue list \<Rightarrow> bool" where
  "issue_uniq t \<longleftrightarrow>
     unique_by issue_id t
     \<and> unique_by (\<lambda>r. (issue_repository_id r, issue_number r)) t"

record issue_comment =
  cmt_id :: string
  cmt_issue_id :: string
  cmt_author_account_id :: int
  cmt_body :: string
  cmt_created_at :: int

definition issue_comment_chk :: "issue_comment \<Rightarrow> bool" where
  "issue_comment_chk r \<longleftrightarrow>
     hex_id_check (cmt_id r)
     \<and> bytes_between 1 262144 (cmt_body r)
     \<and> 0 \<le> cmt_created_at r"

definition issue_comment_uniq :: "issue_comment list \<Rightarrow> bool" where
  "issue_comment_uniq t \<longleftrightarrow>
     unique_by cmt_id t"

record repository_event =
  ev_id :: int
  ev_event_id :: string
  ev_repository_id :: string
  ev_sequence :: int
  ev_source_intent_id :: "string option"
  ev_source_ordinal :: "int option"
  ev_issue_id :: "string option"
  ev_pull_request_id :: "string option"
  ev_kind :: event_kind
  ev_actor :: string
  ev_ref_name :: "blob option"
  ev_old_target :: "string option"
  ev_new_target :: "string option"
  ev_payload_version :: int
  ev_payload :: json
  ev_created_at :: int

definition repository_event_chk :: "repository_event \<Rightarrow> bool" where
  "repository_event_chk r \<longleftrightarrow>
     hex_id_check (ev_event_id r)
     \<and> 1 \<le> ev_sequence r
     \<and> null_or_ge (ev_source_ordinal r) 0
     \<and> text_between 1 256 (ev_actor r)
     \<and> ev_payload_version r = 1
     \<and> payload_version_of (ev_payload r) = Some (ev_payload_version r)
     \<and> 0 \<le> ev_created_at r
     \<and> (ev_source_intent_id r = None) = (ev_source_ordinal r = None)
     \<and> event_shape (ev_kind r) (ev_source_intent_id r) (ev_issue_id r) (ev_pull_request_id r) (ev_ref_name r)
      (ev_old_target r) (ev_new_target r)"

definition repository_event_uniq :: "repository_event list \<Rightarrow> bool" where
  "repository_event_uniq t \<longleftrightarrow>
     unique_by ev_id t
     \<and> unique_by ev_event_id t
     \<and> unique_by (\<lambda>r. (ev_repository_id r, ev_sequence r)) t
     \<and> unique_where (\<lambda>r. ev_source_intent_id r \<noteq> None) (\<lambda>r. (ev_source_intent_id r, ev_source_ordinal r)) t"

record watch =
  watch_id :: string
  watch_repository_id :: string
  watch_account_id :: int
  watch_created_at :: int
  watch_updated_at :: int

definition watch_chk :: "watch \<Rightarrow> bool" where
  "watch_chk r \<longleftrightarrow>
     hex_id_check (watch_id r)
     \<and> 0 \<le> watch_created_at r
     \<and> watch_created_at r \<le> watch_updated_at r"

definition watch_uniq :: "watch list \<Rightarrow> bool" where
  "watch_uniq t \<longleftrightarrow>
     unique_by watch_id t
     \<and> unique_by (\<lambda>r. (watch_repository_id r, watch_account_id r)) t"

record feed_token =
  tok_id :: string
  tok_token_hash :: blob
  tok_account_id :: int
  tok_scope :: string
  tok_repository_id :: "string option"
  tok_created_at :: int
  tok_revoked_at :: "int option"

definition feed_token_chk :: "feed_token \<Rightarrow> bool" where
  "feed_token_chk r \<longleftrightarrow>
     hex_id_check (tok_id r)
     \<and> length (tok_token_hash r) = 32
     \<and> tok_scope r \<in> {''repository'', ''watched'', ''assignments'', ''mentions''}
     \<and> 0 \<le> tok_created_at r
     \<and> null_or_ge (tok_revoked_at r) (tok_created_at r)
     \<and> (tok_scope r = ''repository'') = (tok_repository_id r \<noteq> None)"

definition feed_token_uniq :: "feed_token list \<Rightarrow> bool" where
  "feed_token_uniq t \<longleftrightarrow>
     unique_by tok_id t
     \<and> unique_by tok_token_hash t
     \<and> unique_where (\<lambda>r. tok_revoked_at r = None) tok_account_id t"

record pull_request =
  pr_id :: string
  pr_repository_id :: string
  pr_number :: int
  pr_title :: string
  pr_body :: string
  pr_state :: string
  pr_author_account_id :: int
  pr_base_ref :: string
  pr_head_ref :: string
  pr_base_object_id :: string
  pr_head_object_id :: string
  pr_created_at :: int
  pr_updated_at :: int

definition pull_request_chk :: "pull_request \<Rightarrow> bool" where
  "pull_request_chk r \<longleftrightarrow>
     hex_id_check (pr_id r)
     \<and> 1 \<le> pr_number r
     \<and> bytes_between 1 200 (pr_title r)
     \<and> int (length (pr_body r)) \<le> 262144
     \<and> pr_state r \<in> {''open'', ''closed'', ''merged''}
     \<and> bytes_between 12 1024 (pr_base_ref r)
     \<and> bytes_between 12 1024 (pr_head_ref r)
     \<and> object_id_check (pr_base_object_id r)
     \<and> object_id_check (pr_head_object_id r)
     \<and> 0 \<le> pr_created_at r
     \<and> pr_created_at r \<le> pr_updated_at r"

definition pull_request_uniq :: "pull_request list \<Rightarrow> bool" where
  "pull_request_uniq t \<longleftrightarrow>
     unique_by pr_id t
     \<and> unique_by (\<lambda>r. (pr_repository_id r, pr_number r)) t"

record pull_request_revision =
  rev_id :: string
  rev_pull_request_id :: string
  rev_number :: int
  rev_author_account_id :: int
  rev_base_object_id :: string
  rev_head_object_id :: string
  rev_created_at :: int

definition pull_request_revision_chk :: "pull_request_revision \<Rightarrow> bool" where
  "pull_request_revision_chk r \<longleftrightarrow>
     hex_id_check (rev_id r)
     \<and> 1 \<le> rev_number r
     \<and> object_id_check (rev_base_object_id r)
     \<and> object_id_check (rev_head_object_id r)
     \<and> 0 \<le> rev_created_at r"

definition pull_request_revision_uniq :: "pull_request_revision list \<Rightarrow> bool" where
  "pull_request_revision_uniq t \<longleftrightarrow>
     unique_by rev_id t
     \<and> unique_by (\<lambda>r. (rev_pull_request_id r, rev_number r)) t"

record pull_request_ref_intent =
  rint_id :: string
  rint_repository_id :: string
  rint_pull_request_id :: string
  rint_pull_request_number :: int
  rint_revision_number :: int
  rint_operation :: string
  rint_title :: string
  rint_body :: string
  rint_author_account_id :: int
  rint_actor :: string
  rint_base_ref :: string
  rint_head_ref :: string
  rint_base_object_id :: string
  rint_old_head_object_id :: "string option"
  rint_head_object_id :: string
  rint_state :: string
  rint_created_at :: int

definition pull_request_ref_intent_chk :: "pull_request_ref_intent \<Rightarrow> bool" where
  "pull_request_ref_intent_chk r \<longleftrightarrow>
     hex_id_check (rint_id r)
     \<and> hex_id_check (rint_pull_request_id r)
     \<and> 1 \<le> rint_pull_request_number r
     \<and> 1 \<le> rint_revision_number r
     \<and> rint_operation r \<in> {''open'', ''revise''}
     \<and> bytes_between 1 200 (rint_title r)
     \<and> int (length (rint_body r)) \<le> 262144
     \<and> text_between 1 40 (rint_actor r)
     \<and> bytes_between 12 1024 (rint_base_ref r)
     \<and> bytes_between 12 1024 (rint_head_ref r)
     \<and> object_id_check (rint_base_object_id r)
     \<and> (case rint_old_head_object_id r of None \<Rightarrow> True | Some i \<Rightarrow> object_id_check i)
     \<and> object_id_check (rint_head_object_id r)
     \<and> rint_state r \<in> {''pending'', ''completed'', ''abandoned''}
     \<and> 0 \<le> rint_created_at r
     \<and> (rint_operation r = ''open'' \<and> rint_revision_number r = 1 \<and> rint_old_head_object_id r = None
      \<or> rint_operation r = ''revise'' \<and> 1 < rint_revision_number r \<and> rint_old_head_object_id r \<noteq> None)"

definition pull_request_ref_intent_uniq :: "pull_request_ref_intent list \<Rightarrow> bool" where
  "pull_request_ref_intent_uniq t \<longleftrightarrow>
     unique_by rint_id t"

record pull_request_review =
  rvw_id :: string
  rvw_pull_request_id :: string
  rvw_revision_id :: string
  rvw_author_account_id :: int
  rvw_kind :: string
  rvw_body :: string
  rvw_commit_object_id :: "string option"
  rvw_path :: "blob option"
  rvw_side :: "string option"
  rvw_line :: "int option"
  rvw_created_at :: int

definition pull_request_review_chk :: "pull_request_review \<Rightarrow> bool" where
  "pull_request_review_chk r \<longleftrightarrow>
     hex_id_check (rvw_id r)
     \<and> rvw_kind r \<in> {''comment'', ''line-comment'', ''approved'', ''changes-requested''}
     \<and> int (length (rvw_body r)) \<le> 262144
     \<and> (case rvw_commit_object_id r of None \<Rightarrow> True | Some i \<Rightarrow> object_id_check i)
     \<and> (case rvw_path r of None \<Rightarrow> True | Some p \<Rightarrow> 1 \<le> length p \<and> int (length p) \<le> 4096 \<and> 0 \<notin> set p)
     \<and> rvw_side r \<in> {None, Some ''base'', Some ''head''}
     \<and> null_or_ge (rvw_line r) 1
     \<and> 0 \<le> rvw_created_at r
     \<and> (rvw_kind r = ''line-comment'' \<and> 1 \<le> length (rvw_body r) \<and> rvw_commit_object_id r \<noteq> None \<and> rvw_path r \<noteq> None
        \<and> rvw_side r \<noteq> None \<and> rvw_line r \<noteq> None
      \<or> rvw_kind r \<noteq> ''line-comment'' \<and> rvw_commit_object_id r = None \<and> rvw_path r = None
        \<and> rvw_side r = None \<and> rvw_line r = None)
     \<and> (rvw_kind r \<notin> {''comment'', ''changes-requested''} \<or> 1 \<le> length (rvw_body r))"

definition pull_request_review_uniq :: "pull_request_review list \<Rightarrow> bool" where
  "pull_request_review_uniq t \<longleftrightarrow>
     unique_by rvw_id t"

record pull_request_merge_intent =
  mint_intent_id :: string
  mint_repository_id :: string
  mint_pull_request_id :: string
  mint_revision_id :: string
  mint_revision_number :: int
  mint_method :: string
  mint_base_ref :: string
  mint_old_target :: string
  mint_new_target :: string
  mint_created_at :: int

definition pull_request_merge_intent_chk :: "pull_request_merge_intent \<Rightarrow> bool" where
  "pull_request_merge_intent_chk r \<longleftrightarrow>
     1 \<le> mint_revision_number r
     \<and> mint_method r \<in> {''fast-forward'', ''merge-commit''}
     \<and> bytes_between 12 1024 (mint_base_ref r)
     \<and> object_id_check (mint_old_target r)
     \<and> object_id_check (mint_new_target r)
     \<and> 0 \<le> mint_created_at r"

definition pull_request_merge_intent_uniq :: "pull_request_merge_intent list \<Rightarrow> bool" where
  "pull_request_merge_intent_uniq t \<longleftrightarrow>
     unique_by mint_intent_id t
     \<and> unique_by mint_pull_request_id t"

record audit_event =
  aud_id :: int
  aud_action :: string
  aud_actor :: string
  aud_target :: string
  aud_outcome :: string
  aud_correlation_id :: string
  aud_created_at :: int

definition audit_event_chk :: "audit_event \<Rightarrow> bool" where
  "audit_event_chk r \<longleftrightarrow>
     text_between 1 80 (aud_action r)
     \<and> text_between 1 256 (aud_actor r)
     \<and> text_between 1 512 (aud_target r)
     \<and> aud_outcome r \<in> {''success'', ''failure''}
     \<and> text_between 1 128 (aud_correlation_id r)
     \<and> 0 \<le> aud_created_at r"

definition audit_event_uniq :: "audit_event list \<Rightarrow> bool" where
  "audit_event_uniq t \<longleftrightarrow>
     unique_by aud_id t"

section \<open>The database\<close>

record database =
  db_git_operation_intent :: "git_operation_intent list"
  db_git_operation_event :: "git_operation_event list"
  db_account :: "account list"
  db_ssh_public_key :: "ssh_public_key list"
  db_recovery_credential :: "recovery_credential list"
  db_signup_invitation :: "signup_invitation list"
  db_login_nonce :: "login_nonce list"
  db_ssh_login_approval :: "ssh_login_approval list"
  db_web_session :: "web_session list"
  db_namespace :: "namespace list"
  db_organization :: "organization list"
  db_organization_member :: "organization_member list"
  db_repository :: "repository list"
  db_repository_collaborator :: "repository_collaborator list"
  db_repository_profile :: "repository_profile list"
  db_repository_default_branch :: "repository_default_branch list"
  db_repository_default_branch_intent :: "repository_default_branch_intent list"
  db_repository_counter :: "repository_counter list"
  db_issue :: "issue list"
  db_issue_comment :: "issue_comment list"
  db_repository_event :: "repository_event list"
  db_watch :: "watch list"
  db_feed_token :: "feed_token list"
  db_pull_request :: "pull_request list"
  db_pull_request_revision :: "pull_request_revision list"
  db_pull_request_ref_intent :: "pull_request_ref_intent list"
  db_pull_request_review :: "pull_request_review list"
  db_pull_request_merge_intent :: "pull_request_merge_intent list"
  db_audit_event :: "audit_event list"

definition empty_database :: database where
  "empty_database = \<lparr>
     db_git_operation_intent = [],
     db_git_operation_event = [],
     db_account = [],
     db_ssh_public_key = [],
     db_recovery_credential = [],
     db_signup_invitation = [],
     db_login_nonce = [],
     db_ssh_login_approval = [],
     db_web_session = [],
     db_namespace = [],
     db_organization = [],
     db_organization_member = [],
     db_repository = [],
     db_repository_collaborator = [],
     db_repository_profile = [],
     db_repository_default_branch = [],
     db_repository_default_branch_intent = [],
     db_repository_counter = [],
     db_issue = [],
     db_issue_comment = [],
     db_repository_event = [],
     db_watch = [],
     db_feed_token = [],
     db_pull_request = [],
     db_pull_request_revision = [],
     db_pull_request_ref_intent = [],
     db_pull_request_review = [],
     db_pull_request_merge_intent = [],
     db_audit_event = []\<rparr>"

definition git_operation_intent_table :: "(database, git_operation_intent) table" where
  "git_operation_intent_table = \<lparr>rows = db_git_operation_intent, set_rows = \<lambda>t. db_git_operation_intent_update (\<lambda>_. t),
     chk = git_operation_intent_chk, uniq = git_operation_intent_uniq\<rparr>"

definition git_operation_event_table :: "(database, git_operation_event) table" where
  "git_operation_event_table = \<lparr>rows = db_git_operation_event, set_rows = \<lambda>t. db_git_operation_event_update (\<lambda>_. t),
     chk = git_operation_event_chk, uniq = git_operation_event_uniq\<rparr>"

definition account_table :: "(database, account) table" where
  "account_table = \<lparr>rows = db_account, set_rows = \<lambda>t. db_account_update (\<lambda>_. t),
     chk = account_chk, uniq = account_uniq\<rparr>"

definition ssh_public_key_table :: "(database, ssh_public_key) table" where
  "ssh_public_key_table = \<lparr>rows = db_ssh_public_key, set_rows = \<lambda>t. db_ssh_public_key_update (\<lambda>_. t),
     chk = ssh_public_key_chk, uniq = ssh_public_key_uniq\<rparr>"

definition recovery_credential_table :: "(database, recovery_credential) table" where
  "recovery_credential_table = \<lparr>rows = db_recovery_credential, set_rows = \<lambda>t. db_recovery_credential_update (\<lambda>_. t),
     chk = recovery_credential_chk, uniq = recovery_credential_uniq\<rparr>"

definition signup_invitation_table :: "(database, signup_invitation) table" where
  "signup_invitation_table = \<lparr>rows = db_signup_invitation, set_rows = \<lambda>t. db_signup_invitation_update (\<lambda>_. t),
     chk = signup_invitation_chk, uniq = signup_invitation_uniq\<rparr>"

definition login_nonce_table :: "(database, login_nonce) table" where
  "login_nonce_table = \<lparr>rows = db_login_nonce, set_rows = \<lambda>t. db_login_nonce_update (\<lambda>_. t),
     chk = login_nonce_chk, uniq = login_nonce_uniq\<rparr>"

definition ssh_login_approval_table :: "(database, ssh_login_approval) table" where
  "ssh_login_approval_table = \<lparr>rows = db_ssh_login_approval, set_rows = \<lambda>t. db_ssh_login_approval_update (\<lambda>_. t),
     chk = ssh_login_approval_chk, uniq = ssh_login_approval_uniq\<rparr>"

definition web_session_table :: "(database, web_session) table" where
  "web_session_table = \<lparr>rows = db_web_session, set_rows = \<lambda>t. db_web_session_update (\<lambda>_. t),
     chk = web_session_chk, uniq = web_session_uniq\<rparr>"

definition namespace_table :: "(database, namespace) table" where
  "namespace_table = \<lparr>rows = db_namespace, set_rows = \<lambda>t. db_namespace_update (\<lambda>_. t),
     chk = namespace_chk, uniq = namespace_uniq\<rparr>"

definition organization_table :: "(database, organization) table" where
  "organization_table = \<lparr>rows = db_organization, set_rows = \<lambda>t. db_organization_update (\<lambda>_. t),
     chk = organization_chk, uniq = organization_uniq\<rparr>"

definition organization_member_table :: "(database, organization_member) table" where
  "organization_member_table = \<lparr>rows = db_organization_member, set_rows = \<lambda>t. db_organization_member_update (\<lambda>_. t),
     chk = organization_member_chk, uniq = organization_member_uniq\<rparr>"

definition repository_table :: "(database, repository) table" where
  "repository_table = \<lparr>rows = db_repository, set_rows = \<lambda>t. db_repository_update (\<lambda>_. t),
     chk = repository_chk, uniq = repository_uniq\<rparr>"

definition repository_collaborator_table :: "(database, repository_collaborator) table" where
  "repository_collaborator_table = \<lparr>rows = db_repository_collaborator, set_rows = \<lambda>t. db_repository_collaborator_update (\<lambda>_. t),
     chk = repository_collaborator_chk, uniq = repository_collaborator_uniq\<rparr>"

definition repository_profile_table :: "(database, repository_profile) table" where
  "repository_profile_table = \<lparr>rows = db_repository_profile, set_rows = \<lambda>t. db_repository_profile_update (\<lambda>_. t),
     chk = repository_profile_chk, uniq = repository_profile_uniq\<rparr>"

definition repository_default_branch_table :: "(database, repository_default_branch) table" where
  "repository_default_branch_table = \<lparr>rows = db_repository_default_branch, set_rows = \<lambda>t. db_repository_default_branch_update (\<lambda>_. t),
     chk = repository_default_branch_chk, uniq = repository_default_branch_uniq\<rparr>"

definition repository_default_branch_intent_table :: "(database, repository_default_branch_intent) table" where
  "repository_default_branch_intent_table = \<lparr>rows = db_repository_default_branch_intent, set_rows = \<lambda>t. db_repository_default_branch_intent_update (\<lambda>_. t),
     chk = repository_default_branch_intent_chk, uniq = repository_default_branch_intent_uniq\<rparr>"

definition repository_counter_table :: "(database, repository_counter) table" where
  "repository_counter_table = \<lparr>rows = db_repository_counter, set_rows = \<lambda>t. db_repository_counter_update (\<lambda>_. t),
     chk = repository_counter_chk, uniq = repository_counter_uniq\<rparr>"

definition issue_table :: "(database, issue) table" where
  "issue_table = \<lparr>rows = db_issue, set_rows = \<lambda>t. db_issue_update (\<lambda>_. t),
     chk = issue_chk, uniq = issue_uniq\<rparr>"

definition issue_comment_table :: "(database, issue_comment) table" where
  "issue_comment_table = \<lparr>rows = db_issue_comment, set_rows = \<lambda>t. db_issue_comment_update (\<lambda>_. t),
     chk = issue_comment_chk, uniq = issue_comment_uniq\<rparr>"

definition repository_event_table :: "(database, repository_event) table" where
  "repository_event_table = \<lparr>rows = db_repository_event, set_rows = \<lambda>t. db_repository_event_update (\<lambda>_. t),
     chk = repository_event_chk, uniq = repository_event_uniq\<rparr>"

definition watch_table :: "(database, watch) table" where
  "watch_table = \<lparr>rows = db_watch, set_rows = \<lambda>t. db_watch_update (\<lambda>_. t),
     chk = watch_chk, uniq = watch_uniq\<rparr>"

definition feed_token_table :: "(database, feed_token) table" where
  "feed_token_table = \<lparr>rows = db_feed_token, set_rows = \<lambda>t. db_feed_token_update (\<lambda>_. t),
     chk = feed_token_chk, uniq = feed_token_uniq\<rparr>"

definition pull_request_table :: "(database, pull_request) table" where
  "pull_request_table = \<lparr>rows = db_pull_request, set_rows = \<lambda>t. db_pull_request_update (\<lambda>_. t),
     chk = pull_request_chk, uniq = pull_request_uniq\<rparr>"

definition pull_request_revision_table :: "(database, pull_request_revision) table" where
  "pull_request_revision_table = \<lparr>rows = db_pull_request_revision, set_rows = \<lambda>t. db_pull_request_revision_update (\<lambda>_. t),
     chk = pull_request_revision_chk, uniq = pull_request_revision_uniq\<rparr>"

definition pull_request_ref_intent_table :: "(database, pull_request_ref_intent) table" where
  "pull_request_ref_intent_table = \<lparr>rows = db_pull_request_ref_intent, set_rows = \<lambda>t. db_pull_request_ref_intent_update (\<lambda>_. t),
     chk = pull_request_ref_intent_chk, uniq = pull_request_ref_intent_uniq\<rparr>"

definition pull_request_review_table :: "(database, pull_request_review) table" where
  "pull_request_review_table = \<lparr>rows = db_pull_request_review, set_rows = \<lambda>t. db_pull_request_review_update (\<lambda>_. t),
     chk = pull_request_review_chk, uniq = pull_request_review_uniq\<rparr>"

definition pull_request_merge_intent_table :: "(database, pull_request_merge_intent) table" where
  "pull_request_merge_intent_table = \<lparr>rows = db_pull_request_merge_intent, set_rows = \<lambda>t. db_pull_request_merge_intent_update (\<lambda>_. t),
     chk = pull_request_merge_intent_chk, uniq = pull_request_merge_intent_uniq\<rparr>"

definition audit_event_table :: "(database, audit_event) table" where
  "audit_event_table = \<lparr>rows = db_audit_event, set_rows = \<lambda>t. db_audit_event_update (\<lambda>_. t),
     chk = audit_event_chk, uniq = audit_event_uniq\<rparr>"

text \<open>Reading a descriptor: rows, replacement of rows and constraints of each table.\<close>

lemma git_operation_intent_table_simps [simp]:
  "rows git_operation_intent_table = db_git_operation_intent"
  "set_rows git_operation_intent_table = (\<lambda>t. db_git_operation_intent_update (\<lambda>_. t))"
  "chk git_operation_intent_table = git_operation_intent_chk"
  "uniq git_operation_intent_table = git_operation_intent_uniq"
  by (simp_all add: git_operation_intent_table_def)

lemma git_operation_event_table_simps [simp]:
  "rows git_operation_event_table = db_git_operation_event"
  "set_rows git_operation_event_table = (\<lambda>t. db_git_operation_event_update (\<lambda>_. t))"
  "chk git_operation_event_table = git_operation_event_chk"
  "uniq git_operation_event_table = git_operation_event_uniq"
  by (simp_all add: git_operation_event_table_def)

lemma account_table_simps [simp]:
  "rows account_table = db_account"
  "set_rows account_table = (\<lambda>t. db_account_update (\<lambda>_. t))"
  "chk account_table = account_chk"
  "uniq account_table = account_uniq"
  by (simp_all add: account_table_def)

lemma ssh_public_key_table_simps [simp]:
  "rows ssh_public_key_table = db_ssh_public_key"
  "set_rows ssh_public_key_table = (\<lambda>t. db_ssh_public_key_update (\<lambda>_. t))"
  "chk ssh_public_key_table = ssh_public_key_chk"
  "uniq ssh_public_key_table = ssh_public_key_uniq"
  by (simp_all add: ssh_public_key_table_def)

lemma recovery_credential_table_simps [simp]:
  "rows recovery_credential_table = db_recovery_credential"
  "set_rows recovery_credential_table = (\<lambda>t. db_recovery_credential_update (\<lambda>_. t))"
  "chk recovery_credential_table = recovery_credential_chk"
  "uniq recovery_credential_table = recovery_credential_uniq"
  by (simp_all add: recovery_credential_table_def)

lemma signup_invitation_table_simps [simp]:
  "rows signup_invitation_table = db_signup_invitation"
  "set_rows signup_invitation_table = (\<lambda>t. db_signup_invitation_update (\<lambda>_. t))"
  "chk signup_invitation_table = signup_invitation_chk"
  "uniq signup_invitation_table = signup_invitation_uniq"
  by (simp_all add: signup_invitation_table_def)

lemma login_nonce_table_simps [simp]:
  "rows login_nonce_table = db_login_nonce"
  "set_rows login_nonce_table = (\<lambda>t. db_login_nonce_update (\<lambda>_. t))"
  "chk login_nonce_table = login_nonce_chk"
  "uniq login_nonce_table = login_nonce_uniq"
  by (simp_all add: login_nonce_table_def)

lemma ssh_login_approval_table_simps [simp]:
  "rows ssh_login_approval_table = db_ssh_login_approval"
  "set_rows ssh_login_approval_table = (\<lambda>t. db_ssh_login_approval_update (\<lambda>_. t))"
  "chk ssh_login_approval_table = ssh_login_approval_chk"
  "uniq ssh_login_approval_table = ssh_login_approval_uniq"
  by (simp_all add: ssh_login_approval_table_def)

lemma web_session_table_simps [simp]:
  "rows web_session_table = db_web_session"
  "set_rows web_session_table = (\<lambda>t. db_web_session_update (\<lambda>_. t))"
  "chk web_session_table = web_session_chk"
  "uniq web_session_table = web_session_uniq"
  by (simp_all add: web_session_table_def)

lemma namespace_table_simps [simp]:
  "rows namespace_table = db_namespace"
  "set_rows namespace_table = (\<lambda>t. db_namespace_update (\<lambda>_. t))"
  "chk namespace_table = namespace_chk"
  "uniq namespace_table = namespace_uniq"
  by (simp_all add: namespace_table_def)

lemma organization_table_simps [simp]:
  "rows organization_table = db_organization"
  "set_rows organization_table = (\<lambda>t. db_organization_update (\<lambda>_. t))"
  "chk organization_table = organization_chk"
  "uniq organization_table = organization_uniq"
  by (simp_all add: organization_table_def)

lemma organization_member_table_simps [simp]:
  "rows organization_member_table = db_organization_member"
  "set_rows organization_member_table = (\<lambda>t. db_organization_member_update (\<lambda>_. t))"
  "chk organization_member_table = organization_member_chk"
  "uniq organization_member_table = organization_member_uniq"
  by (simp_all add: organization_member_table_def)

lemma repository_table_simps [simp]:
  "rows repository_table = db_repository"
  "set_rows repository_table = (\<lambda>t. db_repository_update (\<lambda>_. t))"
  "chk repository_table = repository_chk"
  "uniq repository_table = repository_uniq"
  by (simp_all add: repository_table_def)

lemma repository_collaborator_table_simps [simp]:
  "rows repository_collaborator_table = db_repository_collaborator"
  "set_rows repository_collaborator_table = (\<lambda>t. db_repository_collaborator_update (\<lambda>_. t))"
  "chk repository_collaborator_table = repository_collaborator_chk"
  "uniq repository_collaborator_table = repository_collaborator_uniq"
  by (simp_all add: repository_collaborator_table_def)

lemma repository_profile_table_simps [simp]:
  "rows repository_profile_table = db_repository_profile"
  "set_rows repository_profile_table = (\<lambda>t. db_repository_profile_update (\<lambda>_. t))"
  "chk repository_profile_table = repository_profile_chk"
  "uniq repository_profile_table = repository_profile_uniq"
  by (simp_all add: repository_profile_table_def)

lemma repository_default_branch_table_simps [simp]:
  "rows repository_default_branch_table = db_repository_default_branch"
  "set_rows repository_default_branch_table = (\<lambda>t. db_repository_default_branch_update (\<lambda>_. t))"
  "chk repository_default_branch_table = repository_default_branch_chk"
  "uniq repository_default_branch_table = repository_default_branch_uniq"
  by (simp_all add: repository_default_branch_table_def)

lemma repository_default_branch_intent_table_simps [simp]:
  "rows repository_default_branch_intent_table = db_repository_default_branch_intent"
  "set_rows repository_default_branch_intent_table = (\<lambda>t. db_repository_default_branch_intent_update (\<lambda>_. t))"
  "chk repository_default_branch_intent_table = repository_default_branch_intent_chk"
  "uniq repository_default_branch_intent_table = repository_default_branch_intent_uniq"
  by (simp_all add: repository_default_branch_intent_table_def)

lemma repository_counter_table_simps [simp]:
  "rows repository_counter_table = db_repository_counter"
  "set_rows repository_counter_table = (\<lambda>t. db_repository_counter_update (\<lambda>_. t))"
  "chk repository_counter_table = repository_counter_chk"
  "uniq repository_counter_table = repository_counter_uniq"
  by (simp_all add: repository_counter_table_def)

lemma issue_table_simps [simp]:
  "rows issue_table = db_issue"
  "set_rows issue_table = (\<lambda>t. db_issue_update (\<lambda>_. t))"
  "chk issue_table = issue_chk"
  "uniq issue_table = issue_uniq"
  by (simp_all add: issue_table_def)

lemma issue_comment_table_simps [simp]:
  "rows issue_comment_table = db_issue_comment"
  "set_rows issue_comment_table = (\<lambda>t. db_issue_comment_update (\<lambda>_. t))"
  "chk issue_comment_table = issue_comment_chk"
  "uniq issue_comment_table = issue_comment_uniq"
  by (simp_all add: issue_comment_table_def)

lemma repository_event_table_simps [simp]:
  "rows repository_event_table = db_repository_event"
  "set_rows repository_event_table = (\<lambda>t. db_repository_event_update (\<lambda>_. t))"
  "chk repository_event_table = repository_event_chk"
  "uniq repository_event_table = repository_event_uniq"
  by (simp_all add: repository_event_table_def)

lemma watch_table_simps [simp]:
  "rows watch_table = db_watch"
  "set_rows watch_table = (\<lambda>t. db_watch_update (\<lambda>_. t))"
  "chk watch_table = watch_chk"
  "uniq watch_table = watch_uniq"
  by (simp_all add: watch_table_def)

lemma feed_token_table_simps [simp]:
  "rows feed_token_table = db_feed_token"
  "set_rows feed_token_table = (\<lambda>t. db_feed_token_update (\<lambda>_. t))"
  "chk feed_token_table = feed_token_chk"
  "uniq feed_token_table = feed_token_uniq"
  by (simp_all add: feed_token_table_def)

lemma pull_request_table_simps [simp]:
  "rows pull_request_table = db_pull_request"
  "set_rows pull_request_table = (\<lambda>t. db_pull_request_update (\<lambda>_. t))"
  "chk pull_request_table = pull_request_chk"
  "uniq pull_request_table = pull_request_uniq"
  by (simp_all add: pull_request_table_def)

lemma pull_request_revision_table_simps [simp]:
  "rows pull_request_revision_table = db_pull_request_revision"
  "set_rows pull_request_revision_table = (\<lambda>t. db_pull_request_revision_update (\<lambda>_. t))"
  "chk pull_request_revision_table = pull_request_revision_chk"
  "uniq pull_request_revision_table = pull_request_revision_uniq"
  by (simp_all add: pull_request_revision_table_def)

lemma pull_request_ref_intent_table_simps [simp]:
  "rows pull_request_ref_intent_table = db_pull_request_ref_intent"
  "set_rows pull_request_ref_intent_table = (\<lambda>t. db_pull_request_ref_intent_update (\<lambda>_. t))"
  "chk pull_request_ref_intent_table = pull_request_ref_intent_chk"
  "uniq pull_request_ref_intent_table = pull_request_ref_intent_uniq"
  by (simp_all add: pull_request_ref_intent_table_def)

lemma pull_request_review_table_simps [simp]:
  "rows pull_request_review_table = db_pull_request_review"
  "set_rows pull_request_review_table = (\<lambda>t. db_pull_request_review_update (\<lambda>_. t))"
  "chk pull_request_review_table = pull_request_review_chk"
  "uniq pull_request_review_table = pull_request_review_uniq"
  by (simp_all add: pull_request_review_table_def)

lemma pull_request_merge_intent_table_simps [simp]:
  "rows pull_request_merge_intent_table = db_pull_request_merge_intent"
  "set_rows pull_request_merge_intent_table = (\<lambda>t. db_pull_request_merge_intent_update (\<lambda>_. t))"
  "chk pull_request_merge_intent_table = pull_request_merge_intent_chk"
  "uniq pull_request_merge_intent_table = pull_request_merge_intent_uniq"
  by (simp_all add: pull_request_merge_intent_table_def)

lemma audit_event_table_simps [simp]:
  "rows audit_event_table = db_audit_event"
  "set_rows audit_event_table = (\<lambda>t. db_audit_event_update (\<lambda>_. t))"
  "chk audit_event_table = audit_event_chk"
  "uniq audit_event_table = audit_event_uniq"
  by (simp_all add: audit_event_table_def)

section \<open>The schema invariant\<close>

text \<open>\<open>db_ok\<close>: every row of every table satisfies its CHECK constraints and every unique key is unique.\<close>

definition table_ok :: "(database, 'r) table \<Rightarrow> database \<Rightarrow> bool" where
  "table_ok T db \<longleftrightarrow> list_all (chk T) (rows T db) \<and> uniq T (rows T db)"

definition db_ok :: "database \<Rightarrow> bool" where
  "db_ok db \<longleftrightarrow>
     table_ok git_operation_intent_table db
     \<and> table_ok git_operation_event_table db
     \<and> table_ok account_table db
     \<and> table_ok ssh_public_key_table db
     \<and> table_ok recovery_credential_table db
     \<and> table_ok signup_invitation_table db
     \<and> table_ok login_nonce_table db
     \<and> table_ok ssh_login_approval_table db
     \<and> table_ok web_session_table db
     \<and> table_ok namespace_table db
     \<and> table_ok organization_table db
     \<and> table_ok organization_member_table db
     \<and> table_ok repository_table db
     \<and> table_ok repository_collaborator_table db
     \<and> table_ok repository_profile_table db
     \<and> table_ok repository_default_branch_table db
     \<and> table_ok repository_default_branch_intent_table db
     \<and> table_ok repository_counter_table db
     \<and> table_ok issue_table db
     \<and> table_ok issue_comment_table db
     \<and> table_ok repository_event_table db
     \<and> table_ok watch_table db
     \<and> table_ok feed_token_table db
     \<and> table_ok pull_request_table db
     \<and> table_ok pull_request_revision_table db
     \<and> table_ok pull_request_ref_intent_table db
     \<and> table_ok pull_request_review_table db
     \<and> table_ok pull_request_merge_intent_table db
     \<and> table_ok audit_event_table db"

lemma empty_database_ok: "db_ok empty_database"
  by (simp add: db_ok_def table_ok_def empty_database_def unique_by_def unique_where_def
      git_operation_intent_uniq_def
      git_operation_event_uniq_def
      account_uniq_def
      ssh_public_key_uniq_def
      recovery_credential_uniq_def
      signup_invitation_uniq_def
      login_nonce_uniq_def
      ssh_login_approval_uniq_def
      web_session_uniq_def
      namespace_uniq_def
      organization_uniq_def
      organization_member_uniq_def
      repository_uniq_def
      repository_collaborator_uniq_def
      repository_profile_uniq_def
      repository_default_branch_uniq_def
      repository_default_branch_intent_uniq_def
      repository_counter_uniq_def
      issue_uniq_def
      issue_comment_uniq_def
      repository_event_uniq_def
      watch_uniq_def
      feed_token_uniq_def
      pull_request_uniq_def
      pull_request_revision_uniq_def
      pull_request_ref_intent_uniq_def
      pull_request_review_uniq_def
      pull_request_merge_intent_uniq_def
      audit_event_uniq_def)

lemmas table_laws = db_ok_def table_ok_def unique_by_filter unique_where_filter

interpretation goi: lawful_table git_operation_intent_table db_ok
  by unfold_locales (simp_all add: table_laws git_operation_intent_uniq_def)

interpretation goe: lawful_table git_operation_event_table db_ok
  by unfold_locales (simp_all add: table_laws git_operation_event_uniq_def)

interpretation acct: lawful_table account_table db_ok
  by unfold_locales (simp_all add: table_laws account_uniq_def)

interpretation key: lawful_table ssh_public_key_table db_ok
  by unfold_locales (simp_all add: table_laws ssh_public_key_uniq_def)

interpretation rec: lawful_table recovery_credential_table db_ok
  by unfold_locales (simp_all add: table_laws recovery_credential_uniq_def)

interpretation inv: lawful_table signup_invitation_table db_ok
  by unfold_locales (simp_all add: table_laws signup_invitation_uniq_def)

interpretation nonce: lawful_table login_nonce_table db_ok
  by unfold_locales (simp_all add: table_laws login_nonce_uniq_def)

interpretation appr: lawful_table ssh_login_approval_table db_ok
  by unfold_locales (simp_all add: table_laws ssh_login_approval_uniq_def)

interpretation sess: lawful_table web_session_table db_ok
  by unfold_locales (simp_all add: table_laws web_session_uniq_def)

interpretation ns: lawful_table namespace_table db_ok
  by unfold_locales (simp_all add: table_laws namespace_uniq_def)

interpretation org: lawful_table organization_table db_ok
  by unfold_locales (simp_all add: table_laws organization_uniq_def)

interpretation mem: lawful_table organization_member_table db_ok
  by unfold_locales (simp_all add: table_laws organization_member_uniq_def)

interpretation repo: lawful_table repository_table db_ok
  by unfold_locales (simp_all add: table_laws repository_uniq_def)

interpretation collab: lawful_table repository_collaborator_table db_ok
  by unfold_locales (simp_all add: table_laws repository_collaborator_uniq_def)

interpretation prof: lawful_table repository_profile_table db_ok
  by unfold_locales (simp_all add: table_laws repository_profile_uniq_def)

interpretation branch: lawful_table repository_default_branch_table db_ok
  by unfold_locales (simp_all add: table_laws repository_default_branch_uniq_def)

interpretation bint: lawful_table repository_default_branch_intent_table db_ok
  by unfold_locales (simp_all add: table_laws repository_default_branch_intent_uniq_def)

interpretation ctr: lawful_table repository_counter_table db_ok
  by unfold_locales (simp_all add: table_laws repository_counter_uniq_def)

interpretation issue: lawful_table issue_table db_ok
  by unfold_locales (simp_all add: table_laws issue_uniq_def)

interpretation cmt: lawful_table issue_comment_table db_ok
  by unfold_locales (simp_all add: table_laws issue_comment_uniq_def)

interpretation ev: lawful_table repository_event_table db_ok
  by unfold_locales (simp_all add: table_laws repository_event_uniq_def)

interpretation watch: lawful_table watch_table db_ok
  by unfold_locales (simp_all add: table_laws watch_uniq_def)

interpretation tok: lawful_table feed_token_table db_ok
  by unfold_locales (simp_all add: table_laws feed_token_uniq_def)

interpretation pr: lawful_table pull_request_table db_ok
  by unfold_locales (simp_all add: table_laws pull_request_uniq_def)

interpretation rev: lawful_table pull_request_revision_table db_ok
  by unfold_locales (simp_all add: table_laws pull_request_revision_uniq_def)

interpretation rint: lawful_table pull_request_ref_intent_table db_ok
  by unfold_locales (simp_all add: table_laws pull_request_ref_intent_uniq_def)

interpretation rvw: lawful_table pull_request_review_table db_ok
  by unfold_locales (simp_all add: table_laws pull_request_review_uniq_def)

interpretation mint: lawful_table pull_request_merge_intent_table db_ok
  by unfold_locales (simp_all add: table_laws pull_request_merge_intent_uniq_def)

interpretation aud: lawful_table audit_event_table db_ok
  by unfold_locales (simp_all add: table_laws audit_event_uniq_def)

lemmas statement_keeps_ok =
  goi.keeps_ok
  goe.keeps_ok
  acct.keeps_ok
  key.keeps_ok
  rec.keeps_ok
  inv.keeps_ok
  nonce.keeps_ok
  appr.keeps_ok
  sess.keeps_ok
  ns.keeps_ok
  org.keeps_ok
  mem.keeps_ok
  repo.keeps_ok
  collab.keeps_ok
  prof.keeps_ok
  branch.keeps_ok
  bint.keeps_ok
  ctr.keeps_ok
  issue.keeps_ok
  cmt.keeps_ok
  ev.keeps_ok
  watch.keeps_ok
  tok.keeps_ok
  pr.keeps_ok
  rev.keeps_ok
  rint.keeps_ok
  rvw.keeps_ok
  mint.keeps_ok
  aud.keeps_ok

lemmas statement_keep [keep] =
  goi.keep_rules
  goe.keep_rules
  acct.keep_rules
  key.keep_rules
  rec.keep_rules
  inv.keep_rules
  nonce.keep_rules
  appr.keep_rules
  sess.keep_rules
  ns.keep_rules
  org.keep_rules
  mem.keep_rules
  repo.keep_rules
  collab.keep_rules
  prof.keep_rules
  branch.keep_rules
  bint.keep_rules
  ctr.keep_rules
  issue.keep_rules
  cmt.keep_rules
  ev.keep_rules
  watch.keep_rules
  tok.keep_rules
  pr.keep_rules
  rev.keep_rules
  rint.keep_rules
  rvw.keep_rules
  mint.keep_rules
  aud.keep_rules

end
