(* ===== verification/Sample.thy ===== *)
theory Sample
  imports Schema
begin

text \<open>
  A small instance of the database, on which the witnesses of the development evaluate its definitions:
  an administrator \<^verbatim>\<open>alice\<close>, an account \<^verbatim>\<open>bob\<close>, a suspended account \<^verbatim>\<open>carol\<close>, an account \<^verbatim>\<open>dave\<close> with a session, a feed
  token and two keys, the organization \<^verbatim>\<open>acme\<close> (owner \<^verbatim>\<open>alice\<close>, writer \<^verbatim>\<open>bob\<close>), the private repository
  \<^verbatim>\<open>alice/tool\<close> (collaborator \<^verbatim>\<open>dave\<close>), the public repository \<^verbatim>\<open>acme/site\<close> with an issue and a pull request, and
  the archived repository \<^verbatim>\<open>alice/old\<close>.
\<close>

definition hash_of :: "nat \<Rightarrow> blob" where
  "hash_of n = replicate 32 (word_of_nat n)"

definition id32 :: "char \<Rightarrow> string" where
  "id32 c = replicate 32 c"

definition id40 :: "char \<Rightarrow> string" where
  "id40 c = replicate 40 c"

definition account_row :: "int \<Rightarrow> string \<Rightarrow> bool \<Rightarrow> string \<Rightarrow> account" where
  "account_row i u adm st = \<lparr>acct_id = i, acct_username = u, acct_is_administrator = adm, acct_state = st,
     acct_created_at = 1, acct_bio = [], acct_contact_email = []\<rparr>"

definition namespace_row :: "int \<Rightarrow> string \<Rightarrow> int option \<Rightarrow> namespace" where
  "namespace_row i s a = \<lparr>ns_id = i, ns_slug = s,
     ns_kind = (if a = None then ''organization'' else ''account''), ns_account_id = a, ns_created_at = 1\<rparr>"

definition key_row :: "int \<Rightarrow> int \<Rightarrow> string \<Rightarrow> ssh_public_key" where
  "key_row i a f = \<lparr>key_id = i, key_account_id = a, key_canonical_key = ''ssh-ed25519 '' @ f,
     key_fingerprint = f, key_created_at = 1, key_label = ''laptop'', key_last_used_at = None,
     key_revoked_at = None\<rparr>"

definition repository_row :: "char \<Rightarrow> int \<Rightarrow> string \<Rightarrow> string \<Rightarrow> bool \<Rightarrow> repository" where
  "repository_row c n s v active = \<lparr>repo_id = id32 c, repo_owner_namespace_id = n, repo_slug = s,
     repo_visibility = v, repo_state = (if active then ''active'' else ''archived''),
     repo_object_format = ''sha1'', repo_created_at = 2,
     repo_archived_at = (if active then None else Some 3)\<rparr>"

definition event_row :: "int \<Rightarrow> char \<Rightarrow> char \<Rightarrow> int \<Rightarrow> repository_event" where
  "event_row i c r s = \<lparr>ev_id = i, ev_event_id = id32 c, ev_repository_id = id32 r, ev_sequence = s,
     ev_source_intent_id = None, ev_source_ordinal = None, ev_issue_id = None, ev_pull_request_id = None,
     ev_kind = RepositoryCreated, ev_actor = ''alice'', ev_ref_name = None, ev_old_target = None,
     ev_new_target = None, ev_payload_version = 1, ev_payload = JObject [(''version'', JInt 1)],
     ev_created_at = 2 + i\<rparr>"

definition sample_db :: database where
  "sample_db = empty_database\<lparr>
     db_account := [account_row 1 ''alice'' True ''active'', account_row 2 ''bob'' False ''active'',
       account_row 3 ''carol'' False ''suspended'', account_row 4 ''dave'' False ''active''],
     db_namespace := [namespace_row 1 ''alice'' (Some 1), namespace_row 2 ''bob'' (Some 2),
       namespace_row 3 ''carol'' (Some 3), namespace_row 4 ''dave'' (Some 4), namespace_row 5 ''acme'' None],
     db_ssh_public_key := [key_row 1 1 ''fa'', key_row 2 2 ''fb'', key_row 3 3 ''fc'', key_row 4 4 ''fd'',
       key_row 5 4 ''fe''],
     db_recovery_credential :=
       [\<lparr>rec_account_id = 4, rec_credential_hash = hash_of 7, rec_created_at = 1\<rparr>],
     db_signup_invitation := [\<lparr>inv_id = 1, inv_code_hash = hash_of 1, inv_created_at = 5,
       inv_expires_at = 100, inv_consumed_at = None\<rparr>],
     db_login_nonce := [\<lparr>nonce_id = 1, nonce_nonce_hash = hash_of 2, nonce_csrf_hash = hash_of 3,
       nonce_account_id = 4, nonce_ssh_public_key_id = None, nonce_created_at = 5, nonce_expires_at = 100,
       nonce_consumed_at = None\<rparr>],
     db_ssh_login_approval := [\<lparr>appr_id = 1, appr_secret_hash = hash_of 4, appr_csrf_hash = hash_of 5,
       appr_account_id = Some 4, appr_ssh_public_key_id = Some 4, appr_created_at = 5,
       appr_expires_at = 100, appr_approved_at = Some 6, appr_consumed_at = None,
       appr_purpose = ''login'', appr_expected_account_id = None\<rparr>],
     db_web_session := [\<lparr>sess_id = 1, sess_session_hash = hash_of 6, sess_csrf_hash = hash_of 5,
       sess_account_id = 4, sess_created_at = 5, sess_expires_at = 100, sess_ended_at = None,
       sess_ssh_public_key_id = Some 4\<rparr>],
     db_organization := [\<lparr>org_namespace_id = 5, org_display_name = ''Acme'', org_description = [],
       org_state = ''active'', org_created_at = 2\<rparr>],
     db_organization_member :=
       [\<lparr>mem_organization_id = 5, mem_account_id = 1, mem_role = ''owner'', mem_created_at = 2\<rparr>,
        \<lparr>mem_organization_id = 5, mem_account_id = 2, mem_role = ''writer'', mem_created_at = 2\<rparr>],
     db_repository := [repository_row (CHR ''a'') 1 ''tool'' ''private'' True,
       repository_row (CHR ''b'') 5 ''site'' ''public'' True,
       repository_row (CHR ''c'') 1 ''old'' ''public'' False],
     db_repository_collaborator := [\<lparr>collab_repository_id = id32 (CHR ''a''), collab_account_id = 4,
       collab_role = ''reader'', collab_created_at = 3\<rparr>],
     db_repository_default_branch :=
       [\<lparr>branch_repository_id = id32 (CHR ''a''), branch_ref_name = ''refs/heads/main''\<rparr>,
        \<lparr>branch_repository_id = id32 (CHR ''b''), branch_ref_name = ''refs/heads/main''\<rparr>,
        \<lparr>branch_repository_id = id32 (CHR ''c''), branch_ref_name = ''refs/heads/main''\<rparr>],
     db_repository_counter := [\<lparr>ctr_repository_id = id32 (CHR ''b''), ctr_next_issue_number = 2,
       ctr_next_pull_request_number = 2\<rparr>],
     db_issue := [\<lparr>issue_id = id32 (CHR ''d''), issue_repository_id = id32 (CHR ''b''), issue_number = 1,
       issue_title = ''Broken link'', issue_body = [], issue_state = ''open'', issue_author_account_id = 4,
       issue_created_at = 5, issue_updated_at = 5, issue_closed_at = None\<rparr>],
     db_repository_event := [event_row 1 (CHR ''1'') (CHR ''a'') 1, event_row 2 (CHR ''2'') (CHR ''b'') 1,
       event_row 3 (CHR ''3'') (CHR ''b'') 2, event_row 4 (CHR ''4'') (CHR ''c'') 1],
     db_watch := [\<lparr>watch_id = id32 (CHR ''e''), watch_repository_id = id32 (CHR ''b''), watch_account_id = 4,
       watch_created_at = 5, watch_updated_at = 5\<rparr>],
     db_feed_token := [\<lparr>tok_id = id32 (CHR ''f''), tok_token_hash = hash_of 8, tok_account_id = 4,
       tok_scope = ''watched'', tok_repository_id = None, tok_created_at = 5, tok_revoked_at = None\<rparr>],
     db_pull_request := [\<lparr>pr_id = id32 (CHR ''5''), pr_repository_id = id32 (CHR ''b''), pr_number = 1,
       pr_title = ''Fix link'', pr_body = [], pr_state = ''open'', pr_author_account_id = 2,
       pr_base_ref = ''refs/heads/main'', pr_head_ref = ''refs/heads/fix'',
       pr_base_object_id = id40 (CHR ''1''), pr_head_object_id = id40 (CHR ''2''),
       pr_created_at = 5, pr_updated_at = 5\<rparr>],
     db_pull_request_revision := [\<lparr>rev_id = id32 (CHR ''6''), rev_pull_request_id = id32 (CHR ''5''),
       rev_number = 1, rev_author_account_id = 2, rev_base_object_id = id40 (CHR ''1''),
       rev_head_object_id = id40 (CHR ''2''), rev_created_at = 5\<rparr>]\<rparr>"


lemma sample_db_ok: "db_ok sample_db"
  by code_simp

end
