(* ===== verification/Store_Core.thy ===== *)
theory Store_Core
  imports Schema Sample
begin

text \<open>
  The parts of \<^verbatim>\<open>src/store/mod.rs\<close> and \<^verbatim>\<open>src/store/event.rs\<close> that the store's operations share:
  the versioned events and their insertion with the next sequence number of the repository, audit
  events, the lookups of active accounts, namespaces and organizations, the authorization helpers, the
  role query and the access predicates built on it, and the parser of recorded refs.

  A store operation takes the database and returns \<open>Err e\<close> or \<open>Ok\<close> with the new database: an
  error return drops the transaction, which rolls it back, so an error carries no database. The
  environment \<open>env\<close> stands for code outside the repository: the identifiers SQLite draws with
  \<^verbatim>\<open>lower(hex(randomblob(16)))\<close> (the \<open>k\<close>-th draw of an operation is \<open>random_id env k\<close>) and the text
  that \<^verbatim>\<open>serde_json\<close> renders a payload to, of which the schema bounds the length.
\<close>


record env =
  random_id :: "nat \<Rightarrow> string"
  json_text :: "json \<Rightarrow> string"

text \<open>\<^verbatim>\<open>Err(error) if is_unique_constraint(&error) => Err(e), Err(error) => Err(error.into())\<close>\<close>

definition on_unique :: "store_error \<Rightarrow> sqlite_error \<Rightarrow> store_error" where
  "on_unique e x = (if x = UniqueViolation then e else Sqlite x)"

section \<open>Versioned events\<close>

record versioned_event =
  ve_kind :: event_kind
  ve_payload :: json

definition PAYLOAD_VERSION :: int where "PAYLOAD_VERSION = 1"

definition as_str :: "event_kind \<Rightarrow> string" where
  "as_str kind = (case kind of
     RepositoryCreated \<Rightarrow> ''repository-created''
   | RepositoryImported \<Rightarrow> ''repository-imported''
   | Push \<Rightarrow> ''push''
   | RefCreated \<Rightarrow> ''ref-created''
   | RefUpdated \<Rightarrow> ''ref-updated''
   | RefDeleted \<Rightarrow> ''ref-deleted''
   | TagCreated \<Rightarrow> ''tag-created''
   | TagUpdated \<Rightarrow> ''tag-updated''
   | TagDeleted \<Rightarrow> ''tag-deleted''
   | IssueCreated \<Rightarrow> ''issue-created''
   | IssueEdited \<Rightarrow> ''issue-edited''
   | IssueCommented \<Rightarrow> ''issue-commented''
   | IssueClosed \<Rightarrow> ''issue-closed''
   | IssueReopened \<Rightarrow> ''issue-reopened''
   | PullRequestCreated \<Rightarrow> ''pull-request-created''
   | PullRequestRevised \<Rightarrow> ''pull-request-revised''
   | PullRequestEdited \<Rightarrow> ''pull-request-edited''
   | PullRequestClosed \<Rightarrow> ''pull-request-closed''
   | PullRequestReopened \<Rightarrow> ''pull-request-reopened''
   | PullRequestCommented \<Rightarrow> ''pull-request-commented''
   | PullRequestLineCommented \<Rightarrow> ''pull-request-line-commented''
   | PullRequestApproved \<Rightarrow> ''pull-request-approved''
   | PullRequestChangesRequested \<Rightarrow> ''pull-request-changes-requested''
   | PullRequestMerged \<Rightarrow> ''pull-request-merged'')"

definition json_opt_str :: "string option \<Rightarrow> json" where
  "json_opt_str x = (case x of None \<Rightarrow> JNull | Some s \<Rightarrow> JStr s)"

definition json_opt_int :: "int option \<Rightarrow> json" where
  "json_opt_int x = (case x of None \<Rightarrow> JNull | Some n \<Rightarrow> JInt n)"

abbreviation versioned :: "event_kind \<Rightarrow> (string \<times> json) list \<Rightarrow> versioned_event" where
  "versioned kind fs \<equiv> \<lparr>ve_kind = kind, ve_payload = JObject ((''version'', JInt PAYLOAD_VERSION) # fs)\<rparr>"

definition event_pull_request_change :: "event_kind \<Rightarrow> string \<Rightarrow> int \<Rightarrow> string \<Rightarrow> string \<Rightarrow> string
    \<Rightarrow> versioned_event" where
  "event_pull_request_change kind pull_request_id number title body state =
     versioned kind [(''pull_request_id'', JStr pull_request_id), (''number'', JInt number),
       (''title'', JStr title), (''body'', JStr body), (''state'', JStr state)]"

definition event_pull_request_merge :: "string \<Rightarrow> int \<Rightarrow> int \<Rightarrow> string \<Rightarrow> string \<Rightarrow> string \<Rightarrow> string
    \<Rightarrow> versioned_event" where
  "event_pull_request_merge pull_request_id number revision method base_ref old_target new_target =
     versioned PullRequestMerged [(''pull_request_id'', JStr pull_request_id), (''number'', JInt number),
       (''revision'', JInt revision), (''method'', JStr method), (''base_ref'', JStr base_ref),
       (''old_target'', JStr old_target), (''new_target'', JStr new_target)]"

record event_review =
  er_pull_request_id :: string
  er_number :: int
  er_review_id :: string
  er_revision :: int
  er_body :: string
  er_commit_object_id :: "string option"
  er_path :: "blob option"
  er_side :: "string option"
  er_line :: "int option"

definition event_pull_request_review :: "event_kind \<Rightarrow> event_review \<Rightarrow> versioned_event" where
  "event_pull_request_review kind review =
     versioned kind [(''pull_request_id'', JStr (er_pull_request_id review)),
       (''number'', JInt (er_number review)), (''review_id'', JStr (er_review_id review)),
       (''revision'', JInt (er_revision review)), (''body'', JStr (er_body review)),
       (''commit_object_id'', json_opt_str (er_commit_object_id review)),
       (''path_hex'', json_opt_str (map_option encode_lower_hex (er_path review))),
       (''side'', json_opt_str (er_side review)), (''line'', json_opt_int (er_line review))]"

record event_revision =
  ere_pull_request_id :: string
  ere_number :: int
  ere_revision :: int
  ere_title :: string
  ere_base_ref :: string
  ere_head_ref :: string
  ere_base_object_id :: string
  ere_head_object_id :: string

definition event_pull_request :: "event_kind \<Rightarrow> event_revision \<Rightarrow> versioned_event" where
  "event_pull_request kind revision =
     versioned kind [(''pull_request_id'', JStr (ere_pull_request_id revision)),
       (''number'', JInt (ere_number revision)), (''revision'', JInt (ere_revision revision)),
       (''title'', JStr (ere_title revision)), (''base_ref'', JStr (ere_base_ref revision)),
       (''head_ref'', JStr (ere_head_ref revision)),
       (''base_object_id'', JStr (ere_base_object_id revision)),
       (''head_object_id'', JStr (ere_head_object_id revision))]"

definition event_repository :: "event_kind \<Rightarrow> string \<Rightarrow> string \<Rightarrow> string \<Rightarrow> versioned_event" where
  "event_repository kind owner repository object_format =
     versioned kind [(''owner'', JStr owner), (''repository'', JStr repository),
       (''object_format'', JStr object_format)]"

definition event_push :: "string \<Rightarrow> versioned_event" where
  "event_push operation_id = versioned Push [(''operation_id'', JStr operation_id)]"

definition event_reference :: "event_kind \<Rightarrow> blob \<Rightarrow> string option \<Rightarrow> string option \<Rightarrow> versioned_event" where
  "event_reference kind name old_target new_target =
     versioned kind [(''name_hex'', JStr (encode_lower_hex name)),
       (''old_target'', json_opt_str old_target), (''new_target'', json_opt_str new_target)]"

definition event_issue :: "event_kind \<Rightarrow> string \<Rightarrow> int \<Rightarrow> string \<Rightarrow> string \<Rightarrow> versioned_event" where
  "event_issue kind issue_ident number title body =
     versioned kind [(''issue_id'', JStr issue_ident), (''number'', JInt number), (''title'', JStr title),
       (''body'', JStr body)]"

definition event_issue_comment :: "string \<Rightarrow> int \<Rightarrow> string \<Rightarrow> string \<Rightarrow> string \<Rightarrow> versioned_event" where
  "event_issue_comment issue_ident number comment_id author body =
     versioned IssueCommented [(''issue_id'', JStr issue_ident), (''number'', JInt number),
       (''comment_id'', JStr comment_id), (''author'', JStr author), (''body'', JStr body)]"

definition event_issue_state :: "event_kind \<Rightarrow> string \<Rightarrow> int \<Rightarrow> string \<Rightarrow> versioned_event" where
  "event_issue_state kind issue_ident number state =
     versioned kind [(''issue_id'', JStr issue_ident), (''number'', JInt number), (''state'', JStr state)]"

lemmas event_defs = event_pull_request_change_def event_pull_request_merge_def
  event_pull_request_review_def event_pull_request_def event_repository_def event_push_def
  event_reference_def event_issue_def event_issue_comment_def event_issue_state_def

section \<open>Inserting events\<close>

record new_domain_event =
  nde_repository_id :: string
  nde_source_intent_id :: "string option"
  nde_source_ordinal :: "int option"
  nde_issue_id :: "string option"
  nde_pull_request_id :: "string option"
  nde_event :: versioned_event
  nde_actor :: string
  nde_ref_name :: "blob option"
  nde_old_target :: "string option"
  nde_new_target :: "string option"
  nde_created_at :: int

definition event_references_exist :: "database \<Rightarrow> repository_event \<Rightarrow> bool" where
  "event_references_exist db e \<longleftrightarrow>
     ev_repository_id e \<in> repo_id ` set (db_repository db)
     \<and> (case ev_source_intent_id e of None \<Rightarrow> True
         | Some i \<Rightarrow> i \<in> goi_id ` set (db_git_operation_intent db))
     \<and> (case ev_issue_id e of None \<Rightarrow> True | Some i \<Rightarrow> i \<in> issue_id ` set (db_issue db))
     \<and> (case ev_pull_request_id e of None \<Rightarrow> True | Some i \<Rightarrow> i \<in> pr_id ` set (db_pull_request db))"

definition next_sequence :: "database \<Rightarrow> string \<Rightarrow> int" where
  "next_sequence db repository_id =
     next_rowid ev_sequence (filter (\<lambda>e. ev_repository_id e = repository_id) (db_repository_event db))"

definition payload_fits :: "env \<Rightarrow> json \<Rightarrow> bool" where
  "payload_fits env payload \<longleftrightarrow> text_between 1 1048576 (json_text env payload)"

definition new_event_row :: "env \<Rightarrow> nat \<Rightarrow> database \<Rightarrow> new_domain_event \<Rightarrow> repository_event" where
  "new_event_row env k db event =
     \<lparr>ev_id = next_rowid ev_id (db_repository_event db),
      ev_event_id = random_id env k,
      ev_repository_id = nde_repository_id event,
      ev_sequence = next_sequence db (nde_repository_id event),
      ev_source_intent_id = nde_source_intent_id event,
      ev_source_ordinal = nde_source_ordinal event,
      ev_issue_id = nde_issue_id event,
      ev_pull_request_id = nde_pull_request_id event,
      ev_kind = ve_kind (nde_event event),
      ev_actor = nde_actor event,
      ev_ref_name = nde_ref_name event,
      ev_old_target = nde_old_target event,
      ev_new_target = nde_new_target event,
      ev_payload_version = PAYLOAD_VERSION,
      ev_payload = ve_payload (nde_event event),
      ev_created_at = nde_created_at event\<rparr>"

definition insert_domain_event :: "env \<Rightarrow> nat \<Rightarrow> database \<Rightarrow> new_domain_event
    \<Rightarrow> (store_error, database) result" where
  "insert_domain_event env k db event =
     (if \<not> payload_fits env (ve_payload (nde_event event)) then Err (Sqlite CheckViolation)
      else sqlite (exec_insert repository_event_table (event_references_exist db)
        (new_event_row env k db event) db))"

definition insert_issue_event :: "env \<Rightarrow> nat \<Rightarrow> database \<Rightarrow> string \<Rightarrow> string \<Rightarrow> string \<Rightarrow> int
    \<Rightarrow> versioned_event \<Rightarrow> (store_error, database) result" where
  "insert_issue_event env k db repository_id issue actor created_at event =
     insert_domain_event env k db
       \<lparr>nde_repository_id = repository_id, nde_source_intent_id = None, nde_source_ordinal = None,
        nde_issue_id = Some issue, nde_pull_request_id = None, nde_event = event, nde_actor = actor,
        nde_ref_name = None, nde_old_target = None, nde_new_target = None,
        nde_created_at = created_at\<rparr>"

definition insert_pull_request_event :: "env \<Rightarrow> nat \<Rightarrow> database \<Rightarrow> string \<Rightarrow> string \<Rightarrow> string \<Rightarrow> int
    \<Rightarrow> versioned_event \<Rightarrow> (store_error, database) result" where
  "insert_pull_request_event env k db repository_id pull_request_id actor created_at event =
     insert_domain_event env k db
       \<lparr>nde_repository_id = repository_id, nde_source_intent_id = None, nde_source_ordinal = None,
        nde_issue_id = None, nde_pull_request_id = Some pull_request_id, nde_event = event,
        nde_actor = actor, nde_ref_name = None, nde_old_target = None, nde_new_target = None,
        nde_created_at = created_at\<rparr>"

record new_audit_event =
  nae_action :: string
  nae_actor :: string
  nae_target :: string
  nae_outcome :: string
  nae_correlation_id :: string
  nae_created_at :: int

definition insert_audit_event :: "database \<Rightarrow> new_audit_event \<Rightarrow> (store_error, database) result" where
  "insert_audit_event db event =
     sqlite (exec_insert audit_event_table (\<lambda>_. True)
       \<lparr>aud_id = next_rowid aud_id (db_audit_event db),
        aud_action = nae_action event,
        aud_actor = nae_actor event,
        aud_target = nae_target event,
        aud_outcome = nae_outcome event,
        aud_correlation_id = nae_correlation_id event,
        aud_created_at = nae_created_at event\<rparr> db)"

definition record_audit_event :: "database \<Rightarrow> new_audit_event \<Rightarrow> (store_error, database) result" where
  "record_audit_event db event = insert_audit_event db event"

text \<open>The audit rows that the operations write on success share this shape.\<close>

abbreviation audit_success :: "database \<Rightarrow> string \<Rightarrow> string \<Rightarrow> string \<Rightarrow> string \<Rightarrow> int
    \<Rightarrow> (store_error, database) result" where
  "audit_success db action actor target correlation_id created_at \<equiv>
     insert_audit_event db
       \<lparr>nae_action = action, nae_actor = actor, nae_target = target, nae_outcome = ''success'',
        nae_correlation_id = correlation_id, nae_created_at = created_at\<rparr>"

section \<open>Accounts, namespaces and organizations\<close>

definition active_account_id :: "database \<Rightarrow> string \<Rightarrow> (store_error, int) result" where
  "active_account_id db username =
     (case query_row account_table (\<lambda>a. acct_username a = username \<and> acct_state a = ''active'') db of
        Some a \<Rightarrow> Ok (acct_id a)
      | None \<Rightarrow> Err (AccountNotFound username))"

text \<open>The state of the account or organization a namespace belongs to, as the two left joins of
  \<^verbatim>\<open>active_namespace_id\<close> give it (NULL where nothing joins).\<close>

definition namespace_owner_state :: "database \<Rightarrow> namespace \<Rightarrow> string option" where
  "namespace_owner_state db n =
     (if ns_kind n = ''account''
      then map_option acct_state (find (\<lambda>a. Some (acct_id a) = ns_account_id n) (db_account db))
      else if ns_kind n = ''organization''
      then map_option org_state (find (\<lambda>g. org_namespace_id g = ns_id n) (db_organization db))
      else None)"

definition active_namespace_id :: "database \<Rightarrow> string \<Rightarrow> (store_error, int) result" where
  "active_namespace_id db slug =
     (case query_row namespace_table
            (\<lambda>n. ns_slug n = slug \<and> namespace_owner_state db n = Some ''active'') db of
        Some n \<Rightarrow> Ok (ns_id n)
      | None \<Rightarrow> Err (NamespaceNotFound slug))"

definition active_organization_id :: "database \<Rightarrow> string \<Rightarrow> (store_error, int) result" where
  "active_organization_id db slug =
     ok_or (NamespaceNotFound slug)
       (map_option (\<lambda>(n, g). ns_id n)
         (find (\<lambda>(n, g). org_namespace_id g = ns_id n \<and> ns_slug n = slug \<and> org_state g = ''active'')
           (List.product (db_namespace db) (db_organization db))))"

definition namespace_account_id :: "database \<Rightarrow> int \<Rightarrow> (store_error, int option) result" where
  "namespace_account_id db namespace_id =
     map_sum id ns_account_id
       (ok_or (Sqlite QueryReturnedNoRows)
         (query_row namespace_table (\<lambda>n. ns_id n = namespace_id) db))"

definition authorize_namespace_maintainer :: "database \<Rightarrow> int \<Rightarrow> string \<Rightarrow> (store_error, unit) result" where
  "authorize_namespace_maintainer db namespace_id actor =
     (if actor = ''admin-cli'' then Ok ()
      else try_then (active_account_id db actor) (\<lambda>actor_id.
        require
          (sql_exists (\<lambda>n. ns_id n = namespace_id
              \<and> (ns_account_id n = Some actor_id
                 \<or> sql_exists (\<lambda>m. mem_organization_id m = ns_id n \<and> mem_account_id m = actor_id
                       \<and> mem_role m \<in> {''owner'', ''maintainer''}) (db_organization_member db)))
            (db_namespace db))
          OrganizationDenied))"

definition is_organization_owner :: "database \<Rightarrow> int \<Rightarrow> int \<Rightarrow> bool" where
  "is_organization_owner db organization_id account_id =
     sql_exists (\<lambda>m. mem_organization_id m = organization_id \<and> mem_account_id m = account_id
        \<and> mem_role m = ''owner'') (db_organization_member db)"

definition authorize_organization_owner :: "database \<Rightarrow> int \<Rightarrow> string \<Rightarrow> (store_error, unit) result" where
  "authorize_organization_owner db organization_id actor =
     (if actor = ''admin-cli'' then Ok ()
      else try_then (active_account_id db actor) (\<lambda>actor_id.
        require (is_organization_owner db organization_id actor_id) OrganizationDenied))"

definition require_other_organization_owner :: "database \<Rightarrow> int \<Rightarrow> int \<Rightarrow> (store_error, unit) result" where
  "require_other_organization_owner db organization_id account_id =
     (let role = map_option mem_role (query_row organization_member_table
            (\<lambda>m. mem_organization_id m = organization_id \<and> mem_account_id m = account_id) db) in
      if role \<noteq> Some ''owner'' then Ok ()
      else require
        (sql_exists (\<lambda>m. mem_organization_id m = organization_id \<and> mem_account_id m \<noteq> account_id
            \<and> mem_role m = ''owner'') (db_organization_member db))
        LastOrganizationOwner)"

definition end_sessions :: "database \<Rightarrow> int \<Rightarrow> int \<Rightarrow> (store_error, database) result" where
  "end_sessions db account_id ended_at =
     map_sum Sqlite fst (exec_update web_session_table
       (\<lambda>s. sess_account_id s = account_id \<and> sess_ended_at s = None)
       (\<lambda>s. s\<lparr>sess_ended_at := Some ended_at\<rparr>) db)"

definition revoke_feed_tokens :: "database \<Rightarrow> int \<Rightarrow> int \<Rightarrow> (store_error, database) result" where
  "revoke_feed_tokens db account_id revoked_at =
     map_sum Sqlite fst (exec_update feed_token_table
       (\<lambda>t. tok_account_id t = account_id \<and> tok_revoked_at t = None)
       (\<lambda>t. t\<lparr>tok_revoked_at := Some revoked_at\<rparr>) db)"

section \<open>Repositories and roles\<close>

record repository_record =
  rr_id :: string
  rr_owner :: string
  rr_slug :: string
  rr_visibility :: string
  rr_state :: string
  rr_object_format :: string
  rr_created_at :: int
  rr_archived_at :: "int option"

definition repository_from_row :: "repository \<Rightarrow> namespace \<Rightarrow> repository_record" where
  "repository_from_row r n = \<lparr>
     rr_id = repo_id r, rr_owner = ns_slug n, rr_slug = repo_slug r,
     rr_visibility = repo_visibility r, rr_state = repo_state r,
     rr_object_format = repo_object_format r, rr_created_at = repo_created_at r,
     rr_archived_at = repo_archived_at r\<rparr>"

definition join_repository :: "database \<Rightarrow> string \<Rightarrow> string \<Rightarrow> (repository \<times> namespace) option" where
  "join_repository db owner slug =
     find (\<lambda>(r, n). ns_id n = repo_owner_namespace_id r \<and> ns_slug n = owner \<and> repo_slug r = slug)
       (List.product (db_repository db) (db_namespace db))"

definition store_repository :: "database \<Rightarrow> string \<Rightarrow> string \<Rightarrow> (store_error, repository_record) result" where
  "store_repository db owner slug =
     (case join_repository db owner slug of
        Some (r, n) \<Rightarrow> Ok (repository_from_row r n)
      | None \<Rightarrow> Err (RepositoryNotFound owner slug))"

definition repository_state_error :: "database \<Rightarrow> int \<Rightarrow> string \<Rightarrow> string \<Rightarrow> (store_error, store_error) result" where
  "repository_state_error db owner_id owner slug =
     (case query_row repository_table (\<lambda>r. repo_owner_namespace_id r = owner_id \<and> repo_slug r = slug) db of
        Some r \<Rightarrow>
          if repo_state r = ''archived'' then Ok (RepositoryArchived owner slug)
          else Err (Panic ''repository state has a database constraint'')
      | None \<Rightarrow> Ok (RepositoryNotFound owner slug))"

text \<open>\<^verbatim>\<open>return Err(repository_state_error(..)?)\<close>\<close>

definition fail_with_state_error :: "database \<Rightarrow> int \<Rightarrow> string \<Rightarrow> string \<Rightarrow> (store_error, 'a) result" where
  "fail_with_state_error db owner_id owner slug =
     try_then (repository_state_error db owner_id owner slug) (\<lambda>e. Err e)"

text \<open>The rows the role query joins to a repository for an actor, and its CASE expression.\<close>

definition join_actor :: "database \<Rightarrow> string option \<Rightarrow> account option" where
  "join_actor db actor = find (\<lambda>a. Some (acct_username a) = actor) (db_account db)"

definition join_member :: "database \<Rightarrow> namespace \<Rightarrow> account option \<Rightarrow> organization_member option" where
  "join_member db n actor =
     find (\<lambda>m. mem_organization_id m = ns_id n \<and> Some (mem_account_id m) = map_option acct_id actor)
       (db_organization_member db)"

definition join_collaborator :: "database \<Rightarrow> repository \<Rightarrow> account option \<Rightarrow> repository_collaborator option" where
  "join_collaborator db r actor =
     find (\<lambda>c. collab_repository_id c = repo_id r \<and> Some (collab_account_id c) = map_option acct_id actor)
       (db_repository_collaborator db)"

definition role_case :: "namespace \<Rightarrow> account option \<Rightarrow> string option \<Rightarrow> string option \<Rightarrow> string option" where
  "role_case n actor member collaborator =
     (if map_option acct_state actor \<notin> {None, Some ''active''} then None
      else if actor \<noteq> None \<and> ns_account_id n = map_option acct_id actor then Some ''owner''
      else if member = Some ''owner'' then Some ''owner''
      else if member = Some ''maintainer'' \<or> collaborator = Some ''maintainer'' then Some ''maintainer''
      else if member = Some ''writer'' \<or> collaborator = Some ''writer'' then Some ''writer''
      else if member = Some ''reader'' \<or> collaborator = Some ''reader'' then Some ''reader''
      else None)"

definition repository_role :: "database \<Rightarrow> repository \<Rightarrow> namespace \<Rightarrow> string option \<Rightarrow> string option" where
  "repository_role db r n username =
     (let actor = join_actor db username in
      role_case n actor (map_option mem_role (join_member db n actor))
        (map_option collab_role (join_collaborator db r actor)))"

record repository_issue_access_t =
  ria_repository :: repository_record
  ria_active_actor_id :: "int option"
  ria_role :: "string option"

definition can_read :: "repository_issue_access_t \<Rightarrow> bool" where
  "can_read a \<longleftrightarrow> rr_state (ria_repository a) = ''active''
     \<and> (rr_visibility (ria_repository a) = ''public'' \<or> ria_role a \<noteq> None)"

definition can_write_issue :: "repository_issue_access_t \<Rightarrow> int \<Rightarrow> bool" where
  "can_write_issue a author_account_id \<longleftrightarrow> can_read a
     \<and> (ria_active_actor_id a = Some author_account_id
        \<or> ria_role a \<in> {Some ''owner'', Some ''maintainer'', Some ''writer''})"

definition can_maintain :: "repository_issue_access_t \<Rightarrow> bool" where
  "can_maintain a \<longleftrightarrow> can_read a \<and> ria_role a \<in> {Some ''owner'', Some ''maintainer''}"

definition can_write_repository :: "repository_issue_access_t \<Rightarrow> bool" where
  "can_write_repository a \<longleftrightarrow>
     can_read a \<and> ria_role a \<in> {Some ''owner'', Some ''maintainer'', Some ''writer''}"

definition repository_issue_access :: "database \<Rightarrow> string \<Rightarrow> string \<Rightarrow> string option
    \<Rightarrow> (store_error, repository_issue_access_t) result" where
  "repository_issue_access db owner repository actor =
     (case join_repository db owner repository of
        Some (r, n) \<Rightarrow> Ok \<lparr>
          ria_repository = repository_from_row r n,
          ria_active_actor_id =
            (case join_actor db actor of
               Some a \<Rightarrow> if acct_state a = ''active'' then Some (acct_id a) else None
             | None \<Rightarrow> None),
          ria_role = repository_role db r n actor\<rparr>
      | None \<Rightarrow> Err (RepositoryNotFound owner repository))"

record repository_authorization_record =
  rar_repository :: repository_record
  rar_role :: "string option"

definition repository_authorization :: "database \<Rightarrow> string \<Rightarrow> string \<Rightarrow> string option
    \<Rightarrow> (store_error, repository_authorization_record) result" where
  "repository_authorization db owner slug username =
     (case join_repository db owner slug of
        Some (r, n) \<Rightarrow> Ok \<lparr>rar_repository = repository_from_row r n,
                          rar_role = repository_role db r n username\<rparr>
      | None \<Rightarrow> Err (RepositoryNotFound owner slug))"

definition repository_can_maintain :: "database \<Rightarrow> string \<Rightarrow> string \<Rightarrow> string \<Rightarrow> (store_error, bool) result" where
  "repository_can_maintain db owner slug actor =
     map_sum id can_maintain (repository_issue_access db owner slug (Some actor))"

text \<open>\<^verbatim>\<open>usize\<close> is 64 bits wide; the checked operations fail where the value leaves its type.\<close>

definition page_offset :: "nat \<Rightarrow> nat \<Rightarrow> (store_error, int) result" where
  "page_offset page page_size =
     (if page = 0 then Err EventLimit
      else if 2 ^ 64 \<le> int ((page - 1) * page_size) then Err EventLimit
      else if 2 ^ 63 \<le> int ((page - 1) * page_size) then Err EventLimit
      else Ok (int ((page - 1) * page_size)))"

section \<open>Lemmas shared by the store's components\<close>

lemma ensures_map_sum [wp]: "ensures m (\<lambda>x. Q (g x)) \<Longrightarrow> ensures (map_sum f g m) Q"
  by (cases m) auto

lemma active_account_id_wp [wp]:
  "(\<And>a. a \<in> set (db_account db) \<Longrightarrow> acct_username a = u \<Longrightarrow> acct_state a = ''active'' \<Longrightarrow> Q (acct_id a))
   \<Longrightarrow> ensures (active_account_id db u) Q"
  by (rule ensuresI) (auto simp: active_account_id_def dest!: query_row_Some split: option.splits)

lemma active_namespace_id_wp [wp]:
  "(\<And>i. active_namespace_id db u = Inr i \<Longrightarrow> Q i) \<Longrightarrow> ensures (active_namespace_id db u) Q"
  by (rule ensuresI)

lemma active_organization_id_wp [wp]:
  "(\<And>i. active_organization_id db u = Inr i \<Longrightarrow> Q i) \<Longrightarrow> ensures (active_organization_id db u) Q"
  by (rule ensuresI)

lemma namespace_account_id_wp [wp]:
  "(\<And>i. namespace_account_id db u = Inr i \<Longrightarrow> Q i) \<Longrightarrow> ensures (namespace_account_id db u) Q"
  by (rule ensuresI)

lemma authorize_namespace_maintainer_wp [wp]:
  "(authorize_namespace_maintainer db i u = Inr () \<Longrightarrow> Q ()) \<Longrightarrow> ensures (authorize_namespace_maintainer db i u) Q"
  by (rule ensuresI) simp

lemma authorize_organization_owner_wp [wp]:
  "(authorize_organization_owner db i u = Inr () \<Longrightarrow> Q ()) \<Longrightarrow> ensures (authorize_organization_owner db i u) Q"
  by (rule ensuresI) simp

lemma require_other_organization_owner_wp [wp]:
  "(require_other_organization_owner db i u = Inr () \<Longrightarrow> Q ())
   \<Longrightarrow> ensures (require_other_organization_owner db i u) Q"
  by (rule ensuresI) simp

lemma store_repository_wp [wp]:
  "(\<And>r. store_repository db u s = Inr r \<Longrightarrow> Q r) \<Longrightarrow> ensures (store_repository db u s) Q"
  by (rule ensuresI)

lemma repository_issue_access_wp [wp]:
  "(\<And>a. repository_issue_access db u s x = Inr a \<Longrightarrow> Q a) \<Longrightarrow> ensures (repository_issue_access db u s x) Q"
  by (rule ensuresI)

lemma fail_with_state_error_Err [simp]: "fail_with_state_error db i u s \<noteq> Inr x"
  by (simp add: fail_with_state_error_def)

lemma fail_with_state_error_wp [wp]: "ensures (fail_with_state_error db i u s) Q"
  by (rule ensuresI) simp

lemma insert_audit_event_keep [keep]:
  "db_ok db \<Longrightarrow> (\<And>db'. db_ok db' \<Longrightarrow> Q db') \<Longrightarrow> ensures (insert_audit_event db e) Q"
  unfolding insert_audit_event_def by (intro wp keep)

lemma insert_domain_event_keep [keep]:
  "db_ok db \<Longrightarrow> (\<And>db'. db_ok db' \<Longrightarrow> Q db') \<Longrightarrow> ensures (insert_domain_event env k db e) Q"
  unfolding insert_domain_event_def by (intro wp keep)

lemma insert_issue_event_keep [keep]:
  "db_ok db \<Longrightarrow> (\<And>db'. db_ok db' \<Longrightarrow> Q db') \<Longrightarrow> ensures (insert_issue_event env k db r i a t e) Q"
  unfolding insert_issue_event_def by (intro keep)

lemma insert_pull_request_event_keep [keep]:
  "db_ok db \<Longrightarrow> (\<And>db'. db_ok db' \<Longrightarrow> Q db') \<Longrightarrow> ensures (insert_pull_request_event env k db r i a t e) Q"
  unfolding insert_pull_request_event_def by (intro keep)

lemma end_sessions_keep [keep]:
  "db_ok db \<Longrightarrow> (\<And>db'. db_ok db' \<Longrightarrow> Q db') \<Longrightarrow> ensures (end_sessions db a t) Q"
  unfolding end_sessions_def by (intro wp keep) simp_all

lemma revoke_feed_tokens_keep [keep]:
  "db_ok db \<Longrightarrow> (\<And>db'. db_ok db' \<Longrightarrow> Q db') \<Longrightarrow> ensures (revoke_feed_tokens db a t) Q"
  unfolding revoke_feed_tokens_def by (intro wp keep) simp_all

text \<open>What the shared statements change, and that they change nothing else.\<close>

lemma insert_audit_event_wp [sql_wp]:
  "(\<And>t. Q (db\<lparr>db_audit_event := t\<rparr>)) \<Longrightarrow> ensures (insert_audit_event db e) Q"
  unfolding insert_audit_event_def by (intro wp sql_wp) simp

lemma insert_domain_event_wp [sql_wp]:
  "Q (db\<lparr>db_repository_event := db_repository_event db @ [new_event_row env k db e]\<rparr>)
   \<Longrightarrow> ensures (insert_domain_event env k db e) Q"
  unfolding insert_domain_event_def by (intro wp sql_wp) simp

lemma insert_issue_event_wp [sql_wp]:
  "(\<And>e. nde_repository_id e = r \<Longrightarrow>
      Q (db\<lparr>db_repository_event := db_repository_event db @ [new_event_row env k db e]\<rparr>))
   \<Longrightarrow> ensures (insert_issue_event env k db r i a t v) Q"
  unfolding insert_issue_event_def by (intro sql_wp) simp

lemma insert_pull_request_event_wp [sql_wp]:
  "(\<And>e. nde_repository_id e = r \<Longrightarrow>
      Q (db\<lparr>db_repository_event := db_repository_event db @ [new_event_row env k db e]\<rparr>))
   \<Longrightarrow> ensures (insert_pull_request_event env k db r i a t v) Q"
  unfolding insert_pull_request_event_def by (intro sql_wp) simp

lemma end_sessions_wp [sql_wp]:
  "Q (db\<lparr>db_web_session := map (\<lambda>s. if sess_account_id s = a \<and> sess_ended_at s = None
        then s\<lparr>sess_ended_at := Some t\<rparr> else s) (db_web_session db)\<rparr>)
   \<Longrightarrow> ensures (end_sessions db a t) Q"
  unfolding end_sessions_def by (intro wp sql_wp) simp

lemma revoke_feed_tokens_wp [sql_wp]:
  "Q (db\<lparr>db_feed_token := map (\<lambda>k. if tok_account_id k = a \<and> tok_revoked_at k = None
        then k\<lparr>tok_revoked_at := Some t\<rparr> else k) (db_feed_token db)\<rparr>)
   \<Longrightarrow> ensures (revoke_feed_tokens db a t) Q"
  unfolding revoke_feed_tokens_def by (intro wp sql_wp) simp

end
