(* ===== verification/Store_Accounts.thy ===== *)
theory Store_Accounts
  imports Store_Core
begin

text \<open>
  Accounts in \<^verbatim>\<open>src/store/mod.rs\<close>: the first administrator, invitations and sign-up, account recovery,
  SSH keys and suspension. Each definition is one transaction of the store, statement by statement.
  The lemmas say what a transaction that commits leaves behind: the schema invariant, single use of
  invitations and recovery credentials, a remaining key for every account, and what recovery and
  suspension cut off.
\<close>

section \<open>Operations\<close>

record initial_administrator =
  ia_username :: string
  ia_canonical_key :: string
  ia_fingerprint :: string
  ia_recovery_hash :: blob
  ia_created_at :: int

record new_ssh_key =
  nk_canonical_key :: string
  nk_fingerprint :: string
  nk_label :: string

record invited_account =
  iva_invitation_hash :: blob
  iva_username :: string
  iva_key :: new_ssh_key
  iva_recovery_hash :: blob
  iva_created_at :: int
  iva_correlation_id :: string

record account_recovery =
  ar_username :: string
  ar_old_recovery_hash :: blob
  ar_key :: new_ssh_key
  ar_new_recovery_hash :: blob
  ar_created_at :: int
  ar_correlation_id :: string

record account_key_authorization =
  aka_username :: string
  aka_session_hash :: blob
  aka_csrf_hash :: blob
  aka_secret_hash :: blob
  aka_changed_at :: int
  aka_correlation_id :: string

definition account_exists :: "database \<Rightarrow> int \<Rightarrow> bool" where
  "account_exists db i \<longleftrightarrow> i \<in> acct_id ` set (db_account db)"

text \<open>\<^verbatim>\<open>INSERT INTO account\<close>, with the trigger that gives the account its namespace. The new row id is
  what \<^verbatim>\<open>last_insert_rowid\<close> returns.\<close>

definition insert_account :: "database \<Rightarrow> string \<Rightarrow> bool \<Rightarrow> int \<Rightarrow> (sqlite_error, database \<times> int) result" where
  "insert_account db username is_administrator created_at =
     (let new_id = next_rowid acct_id (db_account db) in
      try_then (exec_insert account_table (\<lambda>_. True)
        \<lparr>acct_id = new_id, acct_username = username, acct_is_administrator = is_administrator,
         acct_state = ''active'', acct_created_at = created_at, acct_bio = '''',
         acct_contact_email = ''''\<rparr> db) (\<lambda>db.
      try_then (exec_insert namespace_table (\<lambda>_. True)
        \<lparr>ns_id = next_rowid ns_id (db_namespace db), ns_slug = username, ns_kind = ''account'',
         ns_account_id = Some new_id, ns_created_at = created_at\<rparr> db) (\<lambda>db.
      Ok (db, new_id))))"

definition new_key_row :: "database \<Rightarrow> int \<Rightarrow> new_ssh_key \<Rightarrow> int \<Rightarrow> ssh_public_key" where
  "new_key_row db account_id key created_at = \<lparr>
     key_id = next_rowid key_id (db_ssh_public_key db), key_account_id = account_id,
     key_canonical_key = nk_canonical_key key, key_fingerprint = nk_fingerprint key,
     key_created_at = created_at, key_label = nk_label key, key_last_used_at = None,
     key_revoked_at = None\<rparr>"

definition insert_recovery_credential :: "database \<Rightarrow> int \<Rightarrow> blob \<Rightarrow> int \<Rightarrow> (store_error, database) result" where
  "insert_recovery_credential db account_id hash created_at =
     sqlite (exec_insert recovery_credential_table (\<lambda>r. account_exists db (rec_account_id r))
       \<lparr>rec_account_id = account_id, rec_credential_hash = hash, rec_created_at = created_at\<rparr> db)"

definition create_initial_administrator :: "database \<Rightarrow> initial_administrator
    \<Rightarrow> (store_error, database) result" where
  "create_initial_administrator db a =
     (if db_account db \<noteq> [] then Err AlreadyInitialized
      else try_then (sqlite (insert_account db (ia_username a) True (ia_created_at a))) (\<lambda>(db, account_id).
        try_then (sqlite (exec_insert ssh_public_key_table (\<lambda>k. account_exists db (key_account_id k))
          (new_key_row db account_id \<lparr>nk_canonical_key = ia_canonical_key a,
             nk_fingerprint = ia_fingerprint a, nk_label = ''initial''\<rparr> (ia_created_at a)) db)) (\<lambda>db.
        insert_recovery_credential db account_id (ia_recovery_hash a) (ia_created_at a))))"

definition create_signup_invitation :: "database \<Rightarrow> blob \<Rightarrow> int \<Rightarrow> int \<Rightarrow> (store_error, database) result" where
  "create_signup_invitation db code_hash created_at expires_at =
     sqlite (exec_insert signup_invitation_table (\<lambda>_. True)
       \<lparr>inv_id = next_rowid inv_id (db_signup_invitation db), inv_code_hash = code_hash,
        inv_created_at = created_at, inv_expires_at = expires_at, inv_consumed_at = None\<rparr> db)"

definition insert_ssh_key :: "database \<Rightarrow> int \<Rightarrow> new_ssh_key \<Rightarrow> int \<Rightarrow> (store_error, database) result" where
  "insert_ssh_key db account_id key created_at =
     map_err (on_unique KeyExists)
       (exec_insert ssh_public_key_table (\<lambda>k. account_exists db (key_account_id k))
         (new_key_row db account_id key created_at) db)"

definition create_account_with_invitation :: "database \<Rightarrow> invited_account \<Rightarrow> (store_error, database) result" where
  "create_account_with_invitation db account =
     try_then (sqlite (exec_update signup_invitation_table
       (\<lambda>i. inv_code_hash i = iva_invitation_hash account \<and> inv_consumed_at i = None
          \<and> inv_expires_at i \<ge> iva_created_at account)
       (\<lambda>i. i\<lparr>inv_consumed_at := Some (iva_created_at account)\<rparr>) db)) (\<lambda>(db, consumed).
     if consumed \<noteq> 1 then Err InvalidInvitation
     else
       try_then (map_err (on_unique (UsernameUnavailable (iva_username account)))
         (insert_account db (iva_username account) False (iva_created_at account))) (\<lambda>(db, account_id).
       try_then (insert_ssh_key db account_id (iva_key account) (iva_created_at account)) (\<lambda>db.
       try_then (insert_recovery_credential db account_id (iva_recovery_hash account)
         (iva_created_at account)) (\<lambda>db.
       audit_success db ''account.signup'' (iva_username account) (iva_username account)
         (iva_correlation_id account) (iva_created_at account)))))"

definition install_recovery_key :: "database \<Rightarrow> int \<Rightarrow> account_recovery \<Rightarrow> (store_error, database) result" where
  "install_recovery_key db account_id recovery =
     (case query_row ssh_public_key_table
            (\<lambda>k. key_fingerprint k = nk_fingerprint (ar_key recovery)) db of
        Some k \<Rightarrow>
          if key_account_id k = account_id then
            map_sum Sqlite fst (exec_update ssh_public_key_table
              (\<lambda>k. key_account_id k = account_id \<and> key_fingerprint k = nk_fingerprint (ar_key recovery))
              (\<lambda>k. k\<lparr>key_canonical_key := nk_canonical_key (ar_key recovery),
                    key_label := nk_label (ar_key recovery), key_revoked_at := None\<rparr>) db)
          else Err KeyExists
      | None \<Rightarrow> insert_ssh_key db account_id (ar_key recovery) (ar_created_at recovery))"

definition recover_account :: "database \<Rightarrow> account_recovery \<Rightarrow> (store_error, database) result" where
  "recover_account db recovery =
     try_then (ok_or InvalidRecovery
       (map_option (\<lambda>(a, c). acct_id a)
         (find (\<lambda>(a, c). rec_account_id c = acct_id a \<and> acct_username a = ar_username recovery
             \<and> acct_state a = ''active'' \<and> rec_credential_hash c = ar_old_recovery_hash recovery)
           (List.product (db_account db) (db_recovery_credential db))))) (\<lambda>account_id.
     try_then (sqlite (exec_update ssh_public_key_table
       (\<lambda>k. key_account_id k = account_id \<and> key_revoked_at k = None)
       (\<lambda>k. k\<lparr>key_revoked_at := Some (ar_created_at recovery)\<rparr>) db)) (\<lambda>(db, _).
     try_then (install_recovery_key db account_id recovery) (\<lambda>db.
     try_then (sqlite (exec_update recovery_credential_table
       (\<lambda>c. rec_account_id c = account_id)
       (\<lambda>c. c\<lparr>rec_credential_hash := ar_new_recovery_hash recovery,
             rec_created_at := ar_created_at recovery\<rparr>) db)) (\<lambda>(db, _).
     try_then (end_sessions db account_id (ar_created_at recovery)) (\<lambda>db.
     try_then (revoke_feed_tokens db account_id (ar_created_at recovery)) (\<lambda>db.
     audit_success db ''account.recover'' (ar_username recovery) (ar_username recovery)
       (ar_correlation_id recovery) (ar_created_at recovery)))))))"

definition add_account_key :: "database \<Rightarrow> string \<Rightarrow> new_ssh_key \<Rightarrow> int \<Rightarrow> string \<Rightarrow> string
    \<Rightarrow> (store_error, database) result" where
  "add_account_key db username key created_at actor correlation_id =
     try_then (active_account_id db username) (\<lambda>account_id.
     try_then (insert_ssh_key db account_id key created_at) (\<lambda>db.
     try_then (end_sessions db account_id created_at) (\<lambda>db.
     audit_success db ''key.add'' actor (username @ '':'' @ nk_fingerprint key)
       correlation_id created_at)))"

definition active_keys :: "database \<Rightarrow> int \<Rightarrow> ssh_public_key list" where
  "active_keys db account_id =
     filter (\<lambda>k. key_account_id k = account_id \<and> key_revoked_at k = None) (db_ssh_public_key db)"

definition revoke_account_key :: "database \<Rightarrow> string \<Rightarrow> string \<Rightarrow> int \<Rightarrow> string \<Rightarrow> string
    \<Rightarrow> (store_error, database) result" where
  "revoke_account_key db username fingerprint revoked_at actor correlation_id =
     try_then (active_account_id db username) (\<lambda>account_id.
     if length (active_keys db account_id) \<le> 1 then Err LastKey
     else try_then (sqlite (exec_update ssh_public_key_table
         (\<lambda>k. key_account_id k = account_id \<and> key_fingerprint k = fingerprint \<and> key_revoked_at k = None)
         (\<lambda>k. k\<lparr>key_revoked_at := Some revoked_at\<rparr>) db)) (\<lambda>(db, changed).
       if changed \<noteq> 1 then Err KeyNotFound
       else try_then (end_sessions db account_id revoked_at) (\<lambda>db.
         audit_success db ''key.revoke'' actor (username @ '':'' @ fingerprint)
           correlation_id revoked_at)))"

definition consume_account_key_authorization :: "database \<Rightarrow> account_key_authorization
    \<Rightarrow> (store_error, database \<times> int \<times> int option) result" where
  "consume_account_key_authorization db authorization =
     try_then (ok_or InvalidSession
       (map_option (\<lambda>(s, a). (sess_account_id s, sess_ssh_public_key_id s))
         (find (\<lambda>(s, a). acct_id a = sess_account_id s
             \<and> sess_session_hash s = aka_session_hash authorization
             \<and> sess_csrf_hash s = aka_csrf_hash authorization
             \<and> sess_ended_at s = None \<and> sess_expires_at s \<ge> aka_changed_at authorization
             \<and> acct_username a = aka_username authorization \<and> acct_state a = ''active'')
           (List.product (db_web_session db) (db_account db))))) (\<lambda>(account_id, session_key).
     try_then (ok_or InvalidLoginApproval
       (map_option (\<lambda>(p, k). appr_account_id p)
         (find (\<lambda>(p, k). Some (key_id k) = appr_ssh_public_key_id p
             \<and> appr_secret_hash p = aka_secret_hash authorization
             \<and> appr_csrf_hash p = aka_csrf_hash authorization
             \<and> appr_purpose p = ''account-key'' \<and> appr_expected_account_id p = Some account_id
             \<and> appr_account_id p = Some account_id \<and> appr_approved_at p \<noteq> None
             \<and> appr_consumed_at p = None \<and> appr_expires_at p \<ge> aka_changed_at authorization
             \<and> key_revoked_at k = None)
           (List.product (db_ssh_login_approval db) (db_ssh_public_key db))))) (\<lambda>approval.
     if approval \<noteq> Some account_id then Err InvalidLoginApproval
     else try_then (sqlite (exec_update ssh_login_approval_table
         (\<lambda>p. appr_secret_hash p = aka_secret_hash authorization \<and> appr_consumed_at p = None)
         (\<lambda>p. p\<lparr>appr_consumed_at := Some (aka_changed_at authorization)\<rparr>) db)) (\<lambda>(db, changed).
       if changed \<noteq> 1 then Err InvalidLoginApproval
       else Ok (db, account_id, session_key))))"

definition complete_account_key_add :: "database \<Rightarrow> account_key_authorization \<Rightarrow> new_ssh_key
    \<Rightarrow> (store_error, database) result" where
  "complete_account_key_add db authorization key =
     try_then (consume_account_key_authorization db authorization) (\<lambda>(db, account_id, _).
     if sql_exists (\<lambda>k. key_account_id k = account_id \<and> key_label k = nk_label key
          \<and> key_revoked_at k = None) (db_ssh_public_key db)
     then Err KeyExists
     else try_then (insert_ssh_key db account_id key (aka_changed_at authorization)) (\<lambda>db.
       audit_success db ''key.add'' (aka_username authorization)
         (aka_username authorization @ '':'' @ nk_fingerprint key)
         (aka_correlation_id authorization) (aka_changed_at authorization)))"

definition complete_account_key_revoke :: "database \<Rightarrow> account_key_authorization \<Rightarrow> string
    \<Rightarrow> (store_error, database) result" where
  "complete_account_key_revoke db authorization fingerprint =
     try_then (consume_account_key_authorization db authorization) (\<lambda>(db, account_id, session_key).
     if length (active_keys db account_id) \<le> 1 then Err LastKey
     else try_then (ok_or KeyNotFound (map_option key_id (query_row ssh_public_key_table
         (\<lambda>k. key_account_id k = account_id \<and> key_fingerprint k = fingerprint \<and> key_revoked_at k = None)
         db))) (\<lambda>revoked_key.
       try_then (sqlite (exec_update ssh_public_key_table
         (\<lambda>k. key_id k = revoked_key \<and> key_account_id k = account_id \<and> key_revoked_at k = None)
         (\<lambda>k. k\<lparr>key_revoked_at := Some (aka_changed_at authorization)\<rparr>) db)) (\<lambda>(db, changed).
       if changed \<noteq> 1 then Err KeyNotFound
       else try_then (if session_key = None \<or> session_key = Some revoked_key
              then end_sessions db account_id (aka_changed_at authorization) else Ok db) (\<lambda>db.
         audit_success db ''key.revoke'' (aka_username authorization)
           (aka_username authorization @ '':'' @ fingerprint)
           (aka_correlation_id authorization) (aka_changed_at authorization)))))"

definition suspend_account :: "database \<Rightarrow> string \<Rightarrow> bool \<Rightarrow> int \<Rightarrow> string \<Rightarrow> string
    \<Rightarrow> (store_error, database) result" where
  "suspend_account db username suspended changed_at actor correlation_id =
     (let state = (if suspended then ''suspended'' else ''active'') in
      try_then (sqlite (exec_update account_table (\<lambda>a. acct_username a = username)
        (\<lambda>a. a\<lparr>acct_state := state\<rparr>) db)) (\<lambda>(db, changed).
      if changed \<noteq> 1 then Err (AccountNotFound username)
      else try_then (ok_or (Sqlite QueryReturnedNoRows)
          (map_option acct_id (query_row account_table (\<lambda>a. acct_username a = username) db))) (\<lambda>account_id.
        try_then (end_sessions db account_id changed_at) (\<lambda>db.
        try_then (if suspended then revoke_feed_tokens db account_id changed_at else Ok db) (\<lambda>db.
        audit_success db (if suspended then ''account.suspend'' else ''account.resume'') actor username
          correlation_id changed_at)))))"

lemmas account_operation_defs =
  create_initial_administrator_def create_signup_invitation_def create_account_with_invitation_def
  recover_account_def add_account_key_def revoke_account_key_def complete_account_key_add_def
  complete_account_key_revoke_def suspend_account_def

section \<open>The schema invariant\<close>

lemma insert_account_keep [keep]:
  "db_ok db \<Longrightarrow> (\<And>db' i. db_ok db' \<Longrightarrow> Q (db', i)) \<Longrightarrow> ensures (insert_account db u a t) Q"
  unfolding insert_account_def Let_def by (intro wp keep) simp_all

lemma insert_ssh_key_keep [keep]:
  "db_ok db \<Longrightarrow> (\<And>db'. db_ok db' \<Longrightarrow> Q db') \<Longrightarrow> ensures (insert_ssh_key db a k t) Q"
  unfolding insert_ssh_key_def by (intro wp keep)

lemma insert_recovery_credential_keep [keep]:
  "db_ok db \<Longrightarrow> (\<And>db'. db_ok db' \<Longrightarrow> Q db') \<Longrightarrow> ensures (insert_recovery_credential db a h t) Q"
  unfolding insert_recovery_credential_def by (intro wp keep)

lemma install_recovery_key_keep [keep]:
  "db_ok db \<Longrightarrow> (\<And>db'. db_ok db' \<Longrightarrow> Q db') \<Longrightarrow> ensures (install_recovery_key db a r) Q"
  unfolding install_recovery_key_def by (auto intro!: wp keep)

lemma consume_account_key_authorization_keep [keep]:
  "db_ok db \<Longrightarrow> (\<And>db' i s. db_ok db' \<Longrightarrow> Q (db', i, s)) \<Longrightarrow> ensures (consume_account_key_authorization db a) Q"
  unfolding consume_account_key_authorization_def by (auto intro!: wp keep)

lemma create_initial_administrator_keeps: "db_ok db \<Longrightarrow> ensures (create_initial_administrator db a) db_ok"
  unfolding create_initial_administrator_def by (auto intro!: wp keep)

lemma create_signup_invitation_keeps: "db_ok db \<Longrightarrow> ensures (create_signup_invitation db h t x) db_ok"
  unfolding create_signup_invitation_def by (auto intro!: wp keep)

lemma create_account_with_invitation_keeps: "db_ok db \<Longrightarrow> ensures (create_account_with_invitation db a) db_ok"
  unfolding create_account_with_invitation_def by (auto intro!: wp keep)

lemma recover_account_keeps: "db_ok db \<Longrightarrow> ensures (recover_account db r) db_ok"
  unfolding recover_account_def by (auto intro!: wp keep)

lemma add_account_key_keeps: "db_ok db \<Longrightarrow> ensures (add_account_key db u k t a c) db_ok"
  unfolding add_account_key_def by (auto intro!: wp keep)

lemma revoke_account_key_keeps: "db_ok db \<Longrightarrow> ensures (revoke_account_key db u f t a c) db_ok"
  unfolding revoke_account_key_def by (auto intro!: wp keep)

lemma complete_account_key_add_keeps: "db_ok db \<Longrightarrow> ensures (complete_account_key_add db a k) db_ok"
  unfolding complete_account_key_add_def by (auto intro!: wp keep)

lemma complete_account_key_revoke_keeps: "db_ok db \<Longrightarrow> ensures (complete_account_key_revoke db a f) db_ok"
  unfolding complete_account_key_revoke_def by (auto intro!: wp keep)

lemma suspend_account_keeps: "db_ok db \<Longrightarrow> ensures (suspend_account db u s t a c) db_ok"
  unfolding suspend_account_def by (auto intro!: wp keep)

section \<open>What the operations change\<close>

lemma insert_account_wp [sql_wp]:
  "(\<And>a n. acct_id a = next_rowid acct_id (db_account db) \<Longrightarrow> acct_username a = u \<Longrightarrow> acct_state a = ''active'' \<Longrightarrow>
      ns_account_id n = Some (acct_id a) \<Longrightarrow> ns_slug n = u \<Longrightarrow>
      Q (db\<lparr>db_account := db_account db @ [a], db_namespace := db_namespace db @ [n]\<rparr>, acct_id a))
   \<Longrightarrow> ensures (insert_account db u b t) Q"
  unfolding insert_account_def Let_def by (intro wp sql_wp) simp

lemma insert_ssh_key_wp [sql_wp]:
  "Q (db\<lparr>db_ssh_public_key := db_ssh_public_key db @ [new_key_row db a k t]\<rparr>) \<Longrightarrow> ensures (insert_ssh_key db a k t) Q"
  unfolding insert_ssh_key_def by (intro wp sql_wp) simp

lemma insert_recovery_credential_wp [sql_wp]:
  "(\<And>x. Q (db\<lparr>db_recovery_credential := x\<rparr>)) \<Longrightarrow> ensures (insert_recovery_credential db a h t) Q"
  unfolding insert_recovery_credential_def by (intro wp sql_wp) simp

abbreviation invitation_spent :: "database \<Rightarrow> blob \<Rightarrow> bool" where
  "invitation_spent db h \<equiv> all_spent inv_code_hash (\<lambda>i. inv_consumed_at i \<noteq> None) h (db_signup_invitation db)"

lemma invitation_consumed:
  assumes "db_ok db"
  shows "ensures (create_account_with_invitation db a) (\<lambda>db'. invitation_spent db' (iva_invitation_hash a))"
proof -
  have u: "unique_by inv_code_hash (db_signup_invitation db)"
    using inv.ok_uniq [OF assms] by (simp add: signup_invitation_uniq_def)
  show ?thesis
    unfolding create_account_with_invitation_def
    by (intro wp sql_wp) (auto simp: count_rows_def intro!: all_spent_update [OF u])
qed

lemma spent_invitation_Err:
  assumes "invitation_spent db (iva_invitation_hash b)" and "db_ok db"
  shows "create_account_with_invitation db b = Err InvalidInvitation"
  using assms(1) unfolding create_account_with_invitation_def
  by (subst inv.update_none [OF assms(2)]) (auto simp: all_spent_def)

text \<open>What an account can act with: its live sessions, its live feed tokens and its active keys.\<close>

definition live_sessions :: "database \<Rightarrow> int \<Rightarrow> web_session list" where
  "live_sessions db account_id =
     filter (\<lambda>s. sess_account_id s = account_id \<and> sess_ended_at s = None) (db_web_session db)"

definition live_tokens :: "database \<Rightarrow> int \<Rightarrow> feed_token list" where
  "live_tokens db account_id =
     filter (\<lambda>t. tok_account_id t = account_id \<and> tok_revoked_at t = None) (db_feed_token db)"

lemma live_sessions_ended [simp]:
  "live_sessions (db\<lparr>db_web_session := map (\<lambda>s. if sess_account_id s = i \<and> sess_ended_at s = None
      then s\<lparr>sess_ended_at := Some t\<rparr> else s) ts\<rparr>) i = []"
  by (simp add: live_sessions_def filter_cleared)

lemma live_tokens_revoked [simp]:
  "live_tokens (db\<lparr>db_feed_token := map (\<lambda>k. if tok_account_id k = i \<and> tok_revoked_at k = None
      then k\<lparr>tok_revoked_at := Some t\<rparr> else k) ts\<rparr>) i = []"
  by (simp add: live_tokens_def filter_cleared)

lemma live_frame [simp]:
  "live_sessions (db\<lparr>db_audit_event := x\<rparr>) i = live_sessions db i"
  "live_tokens (db\<lparr>db_audit_event := x\<rparr>) i = live_tokens db i"
  "active_keys (db\<lparr>db_audit_event := x\<rparr>) i = active_keys db i"
  "live_sessions (db\<lparr>db_feed_token := y\<rparr>) i = live_sessions db i"
  "active_keys (db\<lparr>db_feed_token := y\<rparr>) i = active_keys db i"
  "active_keys (db\<lparr>db_web_session := z\<rparr>) i = active_keys db i"
  "active_keys (db\<lparr>db_recovery_credential := c\<rparr>) i = active_keys db i"
  by (simp_all add: live_sessions_def live_tokens_def active_keys_def)

lemma active_keys_revoked:
  "active_keys (db\<lparr>db_ssh_public_key := map (\<lambda>k. if key_account_id k = i \<and> key_revoked_at k = None
      then k\<lparr>key_revoked_at := Some t\<rparr> else k) ks\<rparr>) i = []"
  by (simp add: active_keys_def filter_cleared)

lemma singleton_filter:
  assumes "unique_by key t" and "k \<in> set t" and "P k" and "\<And>x. P x \<Longrightarrow> key x = key k"
  shows "filter P t = [k]"
proof -
  have "length (filter P t) \<le> 1" using unique_by_count [OF assms(1,4)] .
  moreover have "k \<in> set (filter P t)" using assms(2,3) by simp
  ultimately show ?thesis
    by (metis One_nat_def empty_iff le_SucE le_zero_eq length_0_conv length_Suc_conv list.set(1) set_ConsD)
qed

lemma active_keys_reinstated:
  assumes "unique_by key_fingerprint (db_ssh_public_key db)" and "active_keys db i = []"
    and "k \<in> set (db_ssh_public_key db)" and "key_account_id k = i" and "key_fingerprint k = f"
  shows "active_keys (db\<lparr>db_ssh_public_key := map (\<lambda>k. if key_account_id k = i \<and> key_fingerprint k = f
      then k\<lparr>key_canonical_key := c, key_label := l, key_revoked_at := None\<rparr> else k) (db_ssh_public_key db)\<rparr>) i
    = [k\<lparr>key_canonical_key := c, key_label := l, key_revoked_at := None\<rparr>]"
proof -
  let ?u = "\<lambda>k. k\<lparr>key_canonical_key := c, key_label := l, key_revoked_at := None\<rparr>"
  let ?P = "\<lambda>k. key_account_id k = i \<and> key_fingerprint k = f"
  have fl: "filter (\<lambda>k. key_account_id k = i \<and> key_revoked_at k = None) (map (\<lambda>k. if ?P k then ?u k else k) t)
      = map ?u (filter ?P t)" if "filter (\<lambda>k. key_account_id k = i \<and> key_revoked_at k = None) t = []" for t
    using that by (induction t) (auto split: if_splits)
  have "filter ?P (db_ssh_public_key db) = [k]"
    using assms by (intro singleton_filter [OF assms(1,3)]) auto
  with fl [of "db_ssh_public_key db"] assms(2) show ?thesis by (simp add: active_keys_def)
qed

lemma active_keys_reinstated_other:
  "j \<noteq> i \<Longrightarrow> active_keys (db\<lparr>db_ssh_public_key := map (\<lambda>k. if key_account_id k = i \<and> key_fingerprint k = f
      then k\<lparr>key_canonical_key := c, key_label := l, key_revoked_at := None\<rparr> else k) (db_ssh_public_key db)\<rparr>) j
     = active_keys db j"
proof -
  assume "j \<noteq> i"
  then have "filter (\<lambda>k. key_account_id k = j \<and> key_revoked_at k = None)
      (map (\<lambda>k. if key_account_id k = i \<and> key_fingerprint k = f
        then k\<lparr>key_canonical_key := c, key_label := l, key_revoked_at := None\<rparr> else k) t)
      = filter (\<lambda>k. key_account_id k = j \<and> key_revoked_at k = None) t" for t
    by (induction t) auto
  then show ?thesis by (simp add: active_keys_def)
qed

lemma active_keys_insert:
  "active_keys (db\<lparr>db_ssh_public_key := db_ssh_public_key db @ [new_key_row d i k t]\<rparr>) i
     = active_keys db i @ [new_key_row d i k t]"
  by (simp add: active_keys_def new_key_row_def)

lemma install_recovery_key_wp [sql_wp]:
  assumes "unique_by key_fingerprint (db_ssh_public_key db)" and "active_keys db i = []"
    and "\<And>t k. active_keys (db\<lparr>db_ssh_public_key := t\<rparr>) i = [k] \<Longrightarrow> key_fingerprint k = nk_fingerprint (ar_key r)
      \<Longrightarrow> key_canonical_key k = nk_canonical_key (ar_key r)
      \<Longrightarrow> (\<And>j. j \<noteq> i \<Longrightarrow> active_keys (db\<lparr>db_ssh_public_key := t\<rparr>) j = active_keys db j)
      \<Longrightarrow> Q (db\<lparr>db_ssh_public_key := t\<rparr>)"
  shows "ensures (install_recovery_key db i r) Q"
  unfolding install_recovery_key_def
proof (intro wp sql_wp)
  fix k db' n
  assume k: "query_row ssh_public_key_table (\<lambda>k. key_fingerprint k = nk_fingerprint (ar_key r)) db = Some k"
    "key_account_id k = i"
  then have k': "k \<in> set (db_ssh_public_key db)" "key_fingerprint k = nk_fingerprint (ar_key r)"
    by (auto dest: query_row_Some)
  assume "db' = set_rows ssh_public_key_table (map (\<lambda>k. if key_account_id k = i
      \<and> key_fingerprint k = nk_fingerprint (ar_key r)
      then k\<lparr>key_canonical_key := nk_canonical_key (ar_key r), key_label := nk_label (ar_key r),
             key_revoked_at := None\<rparr> else k) (rows ssh_public_key_table db)) db"
  then show "Q (fst (db', n))"
    using assms(3) [OF active_keys_reinstated [OF assms(1,2) k'(1) k(2) k'(2)]] k'(2)
    by (simp add: active_keys_reinstated_other)
next
  show "Q (db\<lparr>db_ssh_public_key := db_ssh_public_key db @ [new_key_row db i (ar_key r) (ar_created_at r)]\<rparr>)"
    using assms(2) active_keys_insert [of db db i "ar_key r" "ar_created_at r"]
    by (intro assms(3)) (auto simp: new_key_row_def active_keys_def)
qed

lemma recover_account_effect:
  assumes "db_ok db"
  shows "ensures (recover_account db r) (\<lambda>db'. \<exists>a\<in>set (db_account db).
    acct_username a = ar_username r \<and> acct_state a = ''active''
    \<and> (\<exists>k. active_keys db' (acct_id a) = [k] \<and> key_fingerprint k = nk_fingerprint (ar_key r)
          \<and> key_canonical_key k = nk_canonical_key (ar_key r))
    \<and> live_sessions db' (acct_id a) = [] \<and> live_tokens db' (acct_id a) = [])"
proof -
  have u: "unique_by key_fingerprint (map (\<lambda>k. if key_account_id k = i \<and> key_revoked_at k = None
      then k\<lparr>key_revoked_at := Some t\<rparr> else k) (db_ssh_public_key db))" for i t
    using key.ok_uniq [OF assms] by (subst unique_by_map) (simp_all add: ssh_public_key_uniq_def)
  show ?thesis
    unfolding recover_account_def
    apply (intro wp sql_wp; clarsimp simp: u active_keys_revoked)
    apply (drule find_SomeD, clarsimp)
    by (rule bexI [rotated], assumption)
      (simp add: live_sessions_def live_tokens_def active_keys_def filter_cleared)
qed

section \<open>Every account keeps a key\<close>

definition keys_ok :: "database \<Rightarrow> bool" where
  "keys_ok db \<longleftrightarrow> (\<forall>i\<in>acct_id ` set (db_account db). active_keys db i \<noteq> [])"

lemma active_keys_other:
  "j \<noteq> i \<Longrightarrow> active_keys (db\<lparr>db_ssh_public_key := map (\<lambda>k. if key_account_id k = i \<and> B k
      then k\<lparr>key_revoked_at := x\<rparr> else k) t\<rparr>) j = active_keys (db\<lparr>db_ssh_public_key := t\<rparr>) j"
  by (induction t) (auto simp: active_keys_def)

lemma revoke_leaves_key:
  assumes "1 < length (active_keys db i)"
    and "count_rows ssh_public_key_table (\<lambda>k. key_account_id k = i \<and> B k \<and> key_revoked_at k = None) db = 1"
  shows "active_keys (db\<lparr>db_ssh_public_key := map (\<lambda>k. if key_account_id k = i \<and> B k \<and> key_revoked_at k = None
      then k\<lparr>key_revoked_at := Some x\<rparr> else k) (db_ssh_public_key db)\<rparr>) i \<noteq> []"
proof -
  let ?A = "\<lambda>k. key_account_id k = i \<and> key_revoked_at k = None"
  have "length (filter (\<lambda>k. ?A k \<and> B k) (db_ssh_public_key db)) = 1"
    using assms(2) by (simp add: count_rows_def conj_ac)
  then have "0 < length (filter (\<lambda>k. ?A k \<and> \<not> B k) (db_ssh_public_key db))"
    using assms(1) length_filter_split [of ?A "db_ssh_public_key db" B] by (simp add: active_keys_def)
  moreover have "filter (\<lambda>k. ?A k \<and> \<not> B k) t = filter ?A (map (\<lambda>k. if key_account_id k = i \<and> B k
      \<and> key_revoked_at k = None then k\<lparr>key_revoked_at := Some x\<rparr> else k) t)" for t
    by (induction t) auto
  ultimately show ?thesis by (simp add: active_keys_def)
qed

lemma keys_ok_revoke:
  assumes "keys_ok db" and "1 < length (active_keys db i)"
    and "count_rows ssh_public_key_table (\<lambda>k. key_account_id k = i \<and> B k \<and> key_revoked_at k = None) db = 1"
  shows "keys_ok (db\<lparr>db_ssh_public_key := map (\<lambda>k. if key_account_id k = i \<and> B k \<and> key_revoked_at k = None
      then k\<lparr>key_revoked_at := Some x\<rparr> else k) (db_ssh_public_key db)\<rparr>)"
  unfolding keys_ok_def
proof
  fix j assume "j \<in> acct_id ` set (db_account (db\<lparr>db_ssh_public_key := map (\<lambda>k. if key_account_id k = i \<and> B k
      \<and> key_revoked_at k = None then k\<lparr>key_revoked_at := Some x\<rparr> else k) (db_ssh_public_key db)\<rparr>))"
  then have j: "active_keys db j \<noteq> []" using assms(1) by (auto simp: keys_ok_def)
  show "active_keys (db\<lparr>db_ssh_public_key := map (\<lambda>k. if key_account_id k = i \<and> B k \<and> key_revoked_at k = None
      then k\<lparr>key_revoked_at := Some x\<rparr> else k) (db_ssh_public_key db)\<rparr>) j \<noteq> []"
  proof (cases "j = i")
    case True
    with revoke_leaves_key [OF assms(2,3)] show ?thesis by simp
  next
    case False
    from j active_keys_other [OF False, where B = "\<lambda>k. B k \<and> key_revoked_at k = None" and x = "Some x"
        and db = db and t = "db_ssh_public_key db"]
    show ?thesis by simp
  qed
qed

lemma keys_ok_insert:
  "keys_ok db \<Longrightarrow> keys_ok (db\<lparr>db_ssh_public_key := db_ssh_public_key db @ [k]\<rparr>)"
  by (auto simp: keys_ok_def active_keys_def)

lemma keys_ok_new_account:
  "keys_ok db \<Longrightarrow> keys_ok (db\<lparr>db_account := db_account db @ [a], db_namespace := ns,
     db_ssh_public_key := db_ssh_public_key db @ [new_key_row d (acct_id a) k t]\<rparr>)"
  by (auto simp: keys_ok_def active_keys_def new_key_row_def)

lemma keys_ok_frame [simp]:
  "keys_ok (db\<lparr>db_audit_event := x1\<rparr>) \<longleftrightarrow> keys_ok db"
  "keys_ok (db\<lparr>db_web_session := x2\<rparr>) \<longleftrightarrow> keys_ok db"
  "keys_ok (db\<lparr>db_feed_token := x3\<rparr>) \<longleftrightarrow> keys_ok db"
  "keys_ok (db\<lparr>db_recovery_credential := x4\<rparr>) \<longleftrightarrow> keys_ok db"
  "keys_ok (db\<lparr>db_signup_invitation := x5\<rparr>) \<longleftrightarrow> keys_ok db"
  "keys_ok (db\<lparr>db_ssh_login_approval := x6\<rparr>) \<longleftrightarrow> keys_ok db"
  by (simp_all add: keys_ok_def active_keys_def)

lemma keys_ok_same_ids:
  "keys_ok db \<Longrightarrow> (\<And>a. acct_id (f a) = acct_id a)
   \<Longrightarrow> keys_ok (db\<lparr>db_account := map (\<lambda>a. if P a then f a else a) (db_account db)\<rparr>)"
  by (auto simp: keys_ok_def active_keys_def split: if_splits)

lemma create_initial_administrator_keys: "ensures (create_initial_administrator db a) keys_ok"
  unfolding create_initial_administrator_def
  by (intro wp sql_wp) (auto simp: keys_ok_def active_keys_def new_key_row_def)

lemma create_account_with_invitation_keys: "keys_ok db \<Longrightarrow> ensures (create_account_with_invitation db a) keys_ok"
  unfolding create_account_with_invitation_def
  by (intro wp sql_wp) (use keys_ok_new_account in \<open>fastforce simp: keys_ok_def active_keys_def new_key_row_def\<close>)

lemma add_account_key_keys: "keys_ok db \<Longrightarrow> ensures (add_account_key db u k t a c) keys_ok"
  unfolding add_account_key_def by (intro wp sql_wp) (simp add: keys_ok_insert)

lemma revoke_account_key_keys: "keys_ok db \<Longrightarrow> ensures (revoke_account_key db u f t a c) keys_ok"
  unfolding revoke_account_key_def
  by (intro wp sql_wp) (simp add: keys_ok_revoke [where B = "\<lambda>k. key_fingerprint k = f", simplified])

lemma consume_account_key_authorization_wp [sql_wp]:
  "(\<And>t i s. Q (db\<lparr>db_ssh_login_approval := t\<rparr>, i, s)) \<Longrightarrow> ensures (consume_account_key_authorization db a) Q"
  unfolding consume_account_key_authorization_def by (intro wp sql_wp) auto

lemma complete_account_key_add_keys: "keys_ok db \<Longrightarrow> ensures (complete_account_key_add db a k) keys_ok"
  unfolding complete_account_key_add_def
  by (intro wp sql_wp) (auto simp: keys_ok_def active_keys_def)

lemma suspend_account_keys: "keys_ok db \<Longrightarrow> ensures (suspend_account db u s t a c) keys_ok"
  unfolding suspend_account_def Let_def by (intro wp sql_wp) (simp_all add: keys_ok_same_ids)

lemma complete_account_key_revoke_keys: "keys_ok db \<Longrightarrow> ensures (complete_account_key_revoke db a f) keys_ok"
  unfolding complete_account_key_revoke_def
  by (intro wp sql_wp)
    (auto simp: active_keys_def conj_left_commute intro!: keys_ok_revoke [where B = "\<lambda>k. key_id k = x" for x])

lemma recover_account_keys:
  assumes "db_ok db" and "keys_ok db"
  shows "ensures (recover_account db r) keys_ok"
proof -
  have u: "unique_by key_fingerprint (map (\<lambda>k. if key_account_id k = i \<and> key_revoked_at k = None
      then k\<lparr>key_revoked_at := Some t\<rparr> else k) (db_ssh_public_key db))" for i t
    using key.ok_uniq [OF assms(1)] by (subst unique_by_map) (simp_all add: ssh_public_key_uniq_def)
  have "keys_ok (db\<lparr>db_ssh_public_key := x\<rparr>)"
    if k: "active_keys (db\<lparr>db_ssh_public_key := x\<rparr>) i = [k]"
      and other: "\<And>j. j \<noteq> i \<Longrightarrow> active_keys (db\<lparr>db_ssh_public_key := x\<rparr>) j
          = active_keys (db\<lparr>db_ssh_public_key := map (\<lambda>k. if key_account_id k = i \<and> key_revoked_at k = None
              then k\<lparr>key_revoked_at := Some t\<rparr> else k) (db_ssh_public_key db)\<rparr>) j" for x i k t
    unfolding keys_ok_def
  proof
    fix j assume j: "j \<in> acct_id ` set (db_account (db\<lparr>db_ssh_public_key := x\<rparr>))"
    show "active_keys (db\<lparr>db_ssh_public_key := x\<rparr>) j \<noteq> []"
      using k other [of j] active_keys_other [of j i, where B = "\<lambda>k. key_revoked_at k = None" and x = "Some t"
          and db = db and t = "db_ssh_public_key db"]
        assms(2) j by (cases "j = i") (auto simp: keys_ok_def)
  qed
  then show ?thesis
    unfolding recover_account_def
    by (intro wp sql_wp; clarsimp simp: u active_keys_revoked)
qed

text \<open>\<open>account_in_state t u i st\<close>: in the account table \<open>t\<close>, the name \<open>u\<close> belongs to the account \<open>i\<close>
  only, which is in state \<open>st\<close>.\<close>

definition account_in_state :: "account list \<Rightarrow> string \<Rightarrow> int \<Rightarrow> string \<Rightarrow> bool" where
  "account_in_state t u i st \<longleftrightarrow>
     (\<forall>x\<in>set t. (acct_username x = u \<longleftrightarrow> acct_id x = i) \<and> (acct_id x = i \<longrightarrow> acct_state x = st))"

lemma account_in_state_update:
  fixes t :: "account list"
  assumes "account_uniq t"
    and "y \<in> set (map (\<lambda>x. if acct_username x = u then x\<lparr>acct_state := st\<rparr> else x) t)" and "acct_username y = u"
  shows "account_in_state (map (\<lambda>x. if acct_username x = u then x\<lparr>acct_state := st\<rparr> else x) t) u (acct_id y) st"
proof -
  define f where "f = (\<lambda>x :: account. if acct_username x = u then x\<lparr>acct_state := st\<rparr> else x)"
  have f: "acct_id (f x) = acct_id x" "acct_username (f x) = acct_username x"
    "acct_username x = u \<Longrightarrow> acct_state (f x) = st" for x by (simp_all add: f_def)
  obtain y0 where y0: "y0 \<in> set t" "y = f y0" using assms(2) unfolding set_map f_def [symmetric] by blast
  then have "acct_username y0 = u" "acct_id y = acct_id y0" using assms(3) f by auto
  then have "acct_username x = u \<longleftrightarrow> acct_id x = acct_id y" if "x \<in> set t" for x
    using assms(1) that y0(1) by (auto simp: account_uniq_def dest: unique_by_key)
  then show ?thesis
    unfolding f_def [symmetric] account_in_state_def set_map ball_simps f using f(3) by blast
qed

lemma suspend_account_effect:
  assumes "db_ok db"
  shows "ensures (suspend_account db u s t a c) (\<lambda>db'. \<exists>i.
    account_in_state (db_account db') u i (if s then ''suspended'' else ''active'')
    \<and> live_sessions db' i = [] \<and> (s \<longrightarrow> live_tokens db' i = []))"
proof -
  have u: "account_uniq (db_account db)" using acct.ok_uniq [OF assms] by simp
  show ?thesis
    unfolding suspend_account_def Let_def
    by (cases s; simp only: if_True if_False; intro wp sql_wp; clarsimp simp del: set_map dest!: query_row_Some;
        rule exI; rule conjI, rule account_in_state_update [OF u], assumption;
        simp add: live_sessions_def live_tokens_def filter_cleared)
qed

section \<open>Properties\<close>


definition sample_signup :: "string \<Rightarrow> invited_account" where
  "sample_signup u = \<lparr>iva_invitation_hash = hash_of 1, iva_username = u,
     iva_key = \<lparr>nk_canonical_key = ''ssh-ed25519 '' @ u, nk_fingerprint = ''new-'' @ u, nk_label = ''laptop''\<rparr>,
     iva_recovery_hash = hash_of 9, iva_created_at = 10, iva_correlation_id = ''signup''\<rparr>"


text \<open>C21. Account recovery replaces every means of access: afterwards the account has exactly one active key, the
  one given in the recovery, and no live session and no live feed token.\<close>

theorem recovery_replaces_access:
  assumes "db_ok db" and "recover_account db r = Ok db'"
  shows "\<exists>a\<in>set (db_account db). acct_username a = ar_username r \<and> acct_state a = ''active''
    \<and> (\<exists>k. active_keys db' (acct_id a) = [k] \<and> key_fingerprint k = nk_fingerprint (ar_key r)
          \<and> key_canonical_key k = nk_canonical_key (ar_key r))
    \<and> live_sessions db' (acct_id a) = [] \<and> live_tokens db' (acct_id a) = []"
  using recover_account_effect [OF assms(1)] assms(2) by (rule ensuresD)

definition sample_recovery :: account_recovery where
  "sample_recovery = \<lparr>ar_username = ''dave'', ar_old_recovery_hash = hash_of 7,
     ar_key = \<lparr>nk_canonical_key = ''ssh-ed25519 new'', nk_fingerprint = ''new'', nk_label = ''phone''\<rparr>,
     ar_new_recovery_hash = hash_of 9, ar_created_at = 10, ar_correlation_id = ''recovery''\<rparr>"

theorem recovery_replaces_access_witness:
  "\<exists>a\<in>set (db_account sample_db). acct_username a = ar_username sample_recovery \<and> acct_state a = ''active''
    \<and> (\<exists>k. active_keys (projr (recover_account sample_db sample_recovery)) (acct_id a) = [k]
          \<and> key_fingerprint k = nk_fingerprint (ar_key sample_recovery)
          \<and> key_canonical_key k = nk_canonical_key (ar_key sample_recovery))
    \<and> live_sessions (projr (recover_account sample_db sample_recovery)) (acct_id a) = []
    \<and> live_tokens (projr (recover_account sample_db sample_recovery)) (acct_id a) = []"
proof (rule recovery_replaces_access [OF sample_db_ok])
  have "\<not> isl (recover_account sample_db sample_recovery)" by code_simp
  then show "recover_account sample_db sample_recovery = Ok (projr (recover_account sample_db sample_recovery))"
    by (rule not_isl_Ok)
qed

end
