(* ===== verification/Store_Orgs.thy ===== *)
theory Store_Orgs
  imports Store_Accounts "HOL-Library.Char_ord" "HOL-Library.List_Lexorder"
begin

text \<open>
  Organizations in \<^verbatim>\<open>src/store/mod.rs\<close>: creation, membership, the profile, and the lookups of a member's
  role and of the namespaces an account maintains. \<open>owners_ok\<close> is the invariant that the membership
  operations protect: every organization has a member with the role \<^verbatim>\<open>owner\<close>.
\<close>

section \<open>Operations\<close>

definition create_organization :: "database \<Rightarrow> string \<Rightarrow> string \<Rightarrow> string \<Rightarrow> string \<Rightarrow> int \<Rightarrow> string
    \<Rightarrow> (store_error, database) result" where
  "create_organization db slug display_name description owner created_at correlation_id =
     try_then (active_account_id db owner) (\<lambda>owner_id.
     let organization_id = next_rowid ns_id (db_namespace db) in
     try_then (map_err (on_unique (NamespaceUnavailable slug)) (exec_insert namespace_table (\<lambda>_. True)
       \<lparr>ns_id = organization_id, ns_slug = slug, ns_kind = ''organization'', ns_account_id = None,
        ns_created_at = created_at\<rparr> db)) (\<lambda>db.
     try_then (sqlite (exec_insert organization_table
         (\<lambda>g. sql_exists (\<lambda>n. ns_id n = org_namespace_id g) (db_namespace db))
       \<lparr>org_namespace_id = organization_id, org_display_name = display_name,
        org_description = description, org_state = ''active'', org_created_at = created_at\<rparr> db)) (\<lambda>db.
     try_then (sqlite (exec_insert organization_member_table
         (\<lambda>m. sql_exists (\<lambda>g. org_namespace_id g = mem_organization_id m) (db_organization db)
            \<and> account_exists db (mem_account_id m))
       \<lparr>mem_organization_id = organization_id, mem_account_id = owner_id, mem_role = ''owner'',
        mem_created_at = created_at\<rparr> db)) (\<lambda>db.
     audit_success db ''organization.create'' owner slug correlation_id created_at))))"

definition member_account_id :: "database \<Rightarrow> string \<Rightarrow> (store_error, int) result" where
  "member_account_id db username =
     map_err (\<lambda>e. case e of AccountNotFound _ \<Rightarrow> OrganizationMemberNotFound username | _ \<Rightarrow> e)
       (active_account_id db username)"

definition set_organization_member :: "database \<Rightarrow> string \<Rightarrow> string \<Rightarrow> string \<Rightarrow> string \<Rightarrow> int \<Rightarrow> string
    \<Rightarrow> (store_error, database) result" where
  "set_organization_member db organization actor username role changed_at correlation_id =
     (if role \<notin> {''owner'', ''maintainer'', ''writer'', ''reader''} then Err InvalidOrganizationRole
      else
        try_then (active_organization_id db organization) (\<lambda>organization_id.
        try_then (authorize_organization_owner db organization_id actor) (\<lambda>_.
        try_then (member_account_id db username) (\<lambda>account_id.
        try_then (if role \<noteq> ''owner'' then require_other_organization_owner db organization_id account_id
                  else Ok ()) (\<lambda>_.
        try_then (sqlite (exec_upsert organization_member_table
            (\<lambda>m. sql_exists (\<lambda>g. org_namespace_id g = mem_organization_id m) (db_organization db)
               \<and> account_exists db (mem_account_id m))
            (\<lambda>m. mem_organization_id m = organization_id \<and> mem_account_id m = account_id)
            \<lparr>mem_organization_id = organization_id, mem_account_id = account_id, mem_role = role,
             mem_created_at = changed_at\<rparr>
            (\<lambda>m. m\<lparr>mem_role := role\<rparr>) db)) (\<lambda>db.
        audit_success db ''organization.member.set'' actor (organization @ '':'' @ username @ '':'' @ role)
          correlation_id changed_at))))))"

definition update_organization_profile :: "database \<Rightarrow> string \<Rightarrow> string \<Rightarrow> string \<Rightarrow> string \<Rightarrow> int \<Rightarrow> string
    \<Rightarrow> (store_error, database) result" where
  "update_organization_profile db organization actor display_name description changed_at correlation_id =
     try_then (active_organization_id db organization) (\<lambda>organization_id.
     try_then (authorize_namespace_maintainer db organization_id actor) (\<lambda>_.
     try_then (sqlite (exec_update organization_table
       (\<lambda>g. org_namespace_id g = organization_id \<and> org_state g = ''active'')
       (\<lambda>g. g\<lparr>org_display_name := display_name, org_description := description\<rparr>) db)) (\<lambda>(db, changed).
     if changed \<noteq> 1 then Err (NamespaceNotFound organization)
     else audit_success db ''organization.profile'' actor organization correlation_id changed_at)))"

definition remove_organization_member :: "database \<Rightarrow> string \<Rightarrow> string \<Rightarrow> string \<Rightarrow> int \<Rightarrow> string
    \<Rightarrow> (store_error, database) result" where
  "remove_organization_member db organization actor username changed_at correlation_id =
     try_then (active_organization_id db organization) (\<lambda>organization_id.
     try_then (authorize_organization_owner db organization_id actor) (\<lambda>_.
     try_then (ok_or (OrganizationMemberNotFound username)
       (map_option acct_id (query_row account_table (\<lambda>a. acct_username a = username) db))) (\<lambda>account_id.
     try_then (require_other_organization_owner db organization_id account_id) (\<lambda>_.
     let (db, changed) = exec_delete organization_member_table
       (\<lambda>m. mem_organization_id m = organization_id \<and> mem_account_id m = account_id) db in
     if changed \<noteq> 1 then Err (OrganizationMemberNotFound username)
     else audit_success db ''organization.member.remove'' actor (organization @ '':'' @ username)
       correlation_id changed_at))))"

definition maintained_namespaces :: "database \<Rightarrow> string \<Rightarrow> (store_error, string list) result" where
  "maintained_namespaces db username =
     try_then (active_account_id db username) (\<lambda>account_id.
     Ok (sort
       (map ns_slug (filter (\<lambda>n. ns_account_id n = Some account_id) (db_namespace db))
        @ map (\<lambda>(m, g, n). ns_slug n)
            (filter (\<lambda>(m, g, n). org_namespace_id g = mem_organization_id m \<and> ns_id n = org_namespace_id g
                \<and> mem_account_id m = account_id \<and> mem_role m \<in> {''owner'', ''maintainer''}
                \<and> org_state g = ''active'')
              (List.product (db_organization_member db)
                (List.product (db_organization db) (db_namespace db)))))))"

definition organization_member_role :: "database \<Rightarrow> string \<Rightarrow> string \<Rightarrow> (store_error, string option) result" where
  "organization_member_role db organization username =
     try_then (active_organization_id db organization) (\<lambda>organization_id.
     try_then (active_account_id db username) (\<lambda>account_id.
     Ok (map_option mem_role (query_row organization_member_table
       (\<lambda>m. mem_organization_id m = organization_id \<and> mem_account_id m = account_id) db))))"

section \<open>The schema invariant\<close>

lemma member_account_id_wp [wp]:
  "(\<And>i. member_account_id db u = Inr i \<Longrightarrow> Q i) \<Longrightarrow> ensures (member_account_id db u) Q"
  by (rule ensuresI)

lemma create_organization_keeps: "db_ok db \<Longrightarrow> ensures (create_organization db s n d w t c) db_ok"
  unfolding create_organization_def Let_def by (auto intro!: wp keep)

lemma set_organization_member_keeps: "db_ok db \<Longrightarrow> ensures (set_organization_member db g a u r t c) db_ok"
  unfolding set_organization_member_def by (auto intro!: wp keep)

lemma update_organization_profile_keeps:
  "db_ok db \<Longrightarrow> ensures (update_organization_profile db g a n d t c) db_ok"
  unfolding update_organization_profile_def by (auto intro!: wp keep)

lemma remove_organization_member_keeps: "db_ok db \<Longrightarrow> ensures (remove_organization_member db g a u t c) db_ok"
  unfolding remove_organization_member_def by (auto intro!: wp keep dest: mem.delete_keeps_ok)

section \<open>Every organization keeps an owner\<close>

definition has_owner :: "organization_member list \<Rightarrow> int \<Rightarrow> bool" where
  "has_owner t organization_id \<longleftrightarrow>
     (\<exists>m\<in>set t. mem_organization_id m = organization_id \<and> mem_role m = ''owner'')"

definition owners_ok :: "database \<Rightarrow> bool" where
  "owners_ok db \<longleftrightarrow> (\<forall>g\<in>set (db_organization db). has_owner (db_organization_member db) (org_namespace_id g))"

lemma require_other_organization_owner_Ok:
  assumes "require_other_organization_owner db g a = Ok ()" and "db_ok db"
    and "m \<in> set (db_organization_member db)" and "mem_organization_id m = g" and "mem_role m = ''owner''"
  shows "\<exists>m\<in>set (db_organization_member db). mem_organization_id m = g \<and> mem_account_id m \<noteq> a
           \<and> mem_role m = ''owner''"
proof (cases "mem_account_id m = a")
  case False
  with assms(3-5) show ?thesis by blast
next
  case True
  have "unique_by (\<lambda>r. (mem_organization_id r, mem_account_id r)) (db_organization_member db)"
    using mem.ok_uniq [OF assms(2)] by (simp add: organization_member_uniq_def)
  then have "find (\<lambda>m. mem_organization_id m = g \<and> mem_account_id m = a) (db_organization_member db) = Some m"
    using assms(3,4) True unfolding unique_by_def
    by (intro find_unique_key [where key = "\<lambda>r. (mem_organization_id r, mem_account_id r)"]) auto
  with assms(1,5) show ?thesis
    by (auto simp: require_other_organization_owner_def query_row_def sql_exists_def list_ex_iff)
qed

lemma require_other_keeps_owner:
  assumes "require_other_organization_owner db g a = Ok ()" and "db_ok db" and "owners_ok db"
    and "h \<in> set (db_organization db)"
  shows "\<exists>m\<in>set (db_organization_member db). mem_organization_id m = org_namespace_id h
           \<and> \<not> (mem_organization_id m = g \<and> mem_account_id m = a) \<and> mem_role m = ''owner''"
proof -
  obtain m where m: "m \<in> set (db_organization_member db)" "mem_organization_id m = org_namespace_id h"
      "mem_role m = ''owner''"
    using assms(3,4) by (auto simp: owners_ok_def has_owner_def)
  show ?thesis
  proof (cases "org_namespace_id h = g")
    case True
    then obtain m' where "m' \<in> set (db_organization_member db)" "mem_organization_id m' = g"
        "mem_account_id m' \<noteq> a" "mem_role m' = ''owner''"
      using require_other_organization_owner_Ok [OF assms(1,2) m(1) _ m(3)] m(2) by auto
    with True show ?thesis by blast
  next
    case False
    with m show ?thesis by (intro bexI [of _ m]) auto
  qed
qed

lemma owners_ok_delete:
  assumes "require_other_organization_owner db g a = Ok ()" and "db_ok db" and "owners_ok db"
  shows "owners_ok (db\<lparr>db_organization_member :=
    filter (\<lambda>m. mem_organization_id m = g \<longrightarrow> mem_account_id m \<noteq> a) (db_organization_member db)\<rparr>)"
  using require_other_keeps_owner [OF assms] by (fastforce simp: owners_ok_def has_owner_def)

lemma owners_ok_insert:
  "owners_ok db \<Longrightarrow> owners_ok (db\<lparr>db_organization_member := db_organization_member db @ [m]\<rparr>)"
  by (auto simp: owners_ok_def has_owner_def)

lemma owners_ok_set_role:
  assumes "role = ''owner'' \<or> require_other_organization_owner db g a = Ok ()"
    and "db_ok db" and "owners_ok db"
  shows "owners_ok (db\<lparr>db_organization_member :=
    map (\<lambda>m. if mem_organization_id m = g \<and> mem_account_id m = a then m\<lparr>mem_role := role\<rparr> else m)
      (db_organization_member db)\<rparr>)"
proof -
  let ?f = "\<lambda>m. if mem_organization_id m = g \<and> mem_account_id m = a then m\<lparr>mem_role := role\<rparr> else m"
  have "has_owner (map ?f (db_organization_member db)) (org_namespace_id h)"
    if h: "h \<in> set (db_organization db)" for h
  proof -
    obtain m where "m \<in> set (db_organization_member db)" and "mem_organization_id m = org_namespace_id h"
      and "mem_role m = ''owner''" and "role = ''owner'' \<or> \<not> (mem_organization_id m = g \<and> mem_account_id m = a)"
      using assms h require_other_keeps_owner [OF _ assms(2,3) h] unfolding owners_ok_def has_owner_def by blast
    then have "?f m \<in> set (map ?f (db_organization_member db))"
      and "mem_organization_id (?f m) = org_namespace_id h" and "mem_role (?f m) = ''owner''" by auto
    then show ?thesis unfolding has_owner_def by blast
  qed
  then show ?thesis by (simp add: owners_ok_def)
qed

lemma owners_ok_audit [simp]: "owners_ok (db\<lparr>db_audit_event := t\<rparr>) \<longleftrightarrow> owners_ok db"
  by (simp add: owners_ok_def)

lemma create_organization_owners:
  "owners_ok db \<Longrightarrow> ensures (create_organization db s n d w t c) owners_ok"
  unfolding create_organization_def Let_def
  by (auto intro!: wp sql_wp simp: owners_ok_def has_owner_def)

lemma remove_organization_member_owners:
  "db_ok db \<Longrightarrow> owners_ok db \<Longrightarrow> ensures (remove_organization_member db g a u t c) owners_ok"
  unfolding remove_organization_member_def
  by (auto intro!: wp sql_wp owners_ok_delete simp: exec_delete_eq)

lemma set_organization_member_owners:
  "db_ok db \<Longrightarrow> owners_ok db \<Longrightarrow> ensures (set_organization_member db g a u r t c) owners_ok"
  unfolding set_organization_member_def
  by (auto intro!: wp sql_wp owners_ok_set_role owners_ok_insert)

lemma update_organization_profile_owners:
  "owners_ok db \<Longrightarrow> ensures (update_organization_profile db g a n d t c) owners_ok"
  unfolding update_organization_profile_def
  by (auto intro!: wp sql_wp simp: owners_ok_def)

end
