(* ===== verification/Store_Repositories.thy ===== *)
theory Store_Repositories
  imports Store_Orgs
begin

text \<open>
  Repositories in \<^verbatim>\<open>src/store/mod.rs\<close>: creation with its first events, rename, archiving, visibility,
  collaborators, settings, and the default branch, which is changed in two steps around the edit of the
  repository on disk (an intent is recorded, then completed or abandoned). The operations of the command
  line act on a namespace, those of the web check the actor's role first.

  The lemmas show that every operation keeps the schema invariant, that none panics on a well-formed database, and
  the one branch on which the code panics after all.
\<close>

section \<open>Operations\<close>

datatype repository_origin = Created | Imported

definition origin_event_kind :: "repository_origin \<Rightarrow> event_kind" where
  "origin_event_kind origin = (case origin of Created \<Rightarrow> RepositoryCreated | Imported \<Rightarrow> RepositoryImported)"

definition origin_audit_action :: "repository_origin \<Rightarrow> string" where
  "origin_audit_action origin =
     (case origin of Created \<Rightarrow> ''repository.create'' | Imported \<Rightarrow> ''repository.import'')"

record new_repository_reference =
  nrr_name :: blob
  nrr_target :: string

record new_repository =
  nr_id :: string
  nr_owner :: string
  nr_slug :: string
  nr_object_format :: string
  nr_default_branch :: string
  nr_created_at :: int
  nr_origin :: repository_origin
  nr_initial_references :: "new_repository_reference list"
  nr_actor :: string
  nr_correlation_id :: string

record audit_context =
  ac_actor :: string
  ac_correlation_id :: string
  ac_created_at :: int

record repository_settings_update =
  rsu_owner :: string
  rsu_slug :: string
  rsu_actor :: string
  rsu_description :: string
  rsu_visibility :: string
  rsu_changed_at :: int
  rsu_correlation_id :: string

record repository_collaborator_update =
  rcu_owner :: string
  rcu_slug :: string
  rcu_actor :: string
  rcu_username :: string
  rcu_role :: "string option"
  rcu_changed_at :: int
  rcu_correlation_id :: string

record new_default_branch_intent =
  ndb_id :: string
  ndb_owner :: string
  ndb_slug :: string
  ndb_actor :: string
  ndb_previous_branch :: string
  ndb_default_branch :: string
  ndb_changed_at :: int

definition repository_exists :: "database \<Rightarrow> string \<Rightarrow> bool" where
  "repository_exists db i \<longleftrightarrow> i \<in> repo_id ` set (db_repository db)"

text \<open>The events of the references an imported repository starts with, in order.\<close>

fun insert_reference_events :: "env \<Rightarrow> nat \<Rightarrow> database \<Rightarrow> new_repository \<Rightarrow> new_repository_reference list
    \<Rightarrow> (store_error, database) result" where
  "insert_reference_events env k db repository [] = Ok db"
| "insert_reference_events env k db repository (reference # references) =
     try_then
       (if starts_with (nrr_name reference) (as_bytes ''refs/tags/'') then Ok TagCreated
        else if starts_with (nrr_name reference) (as_bytes ''refs/heads/'') then Ok RefCreated
        else Err EventPayload) (\<lambda>kind.
     try_then (insert_domain_event env k db
       \<lparr>nde_repository_id = nr_id repository, nde_source_intent_id = None, nde_source_ordinal = None,
        nde_issue_id = None, nde_pull_request_id = None,
        nde_event = event_reference kind (nrr_name reference) None (Some (nrr_target reference)),
        nde_actor = nr_actor repository, nde_ref_name = Some (nrr_name reference),
        nde_old_target = None, nde_new_target = Some (nrr_target reference),
        nde_created_at = nr_created_at repository\<rparr>) (\<lambda>db.
     insert_reference_events env (Suc k) db repository references))"

definition create_repository :: "env \<Rightarrow> database \<Rightarrow> new_repository \<Rightarrow> (store_error, database) result" where
  "create_repository env db repository =
     try_then (active_namespace_id db (nr_owner repository)) (\<lambda>owner_id.
     try_then (authorize_namespace_maintainer db owner_id (nr_actor repository)) (\<lambda>_.
     try_then (map_err (on_unique
         (if sql_exists (\<lambda>r. repo_id r = nr_id repository) (db_repository db)
          then RepositoryIdentifierCollision
          else RepositoryExists (nr_owner repository) (nr_slug repository)))
       (exec_insert repository_table
         (\<lambda>r. sql_exists (\<lambda>n. ns_id n = repo_owner_namespace_id r) (db_namespace db))
         \<lparr>repo_id = nr_id repository, repo_owner_namespace_id = owner_id, repo_slug = nr_slug repository,
          repo_visibility = ''public'', repo_state = ''active'',
          repo_object_format = nr_object_format repository,
          repo_created_at = nr_created_at repository, repo_archived_at = None\<rparr> db)) (\<lambda>db.
     try_then (sqlite (exec_insert repository_default_branch_table
       (\<lambda>b. repository_exists db (branch_repository_id b))
       \<lparr>branch_repository_id = nr_id repository, branch_ref_name = nr_default_branch repository\<rparr> db)) (\<lambda>db.
     try_then (insert_domain_event env 0 db
       \<lparr>nde_repository_id = nr_id repository, nde_source_intent_id = None, nde_source_ordinal = None,
        nde_issue_id = None, nde_pull_request_id = None,
        nde_event = event_repository (origin_event_kind (nr_origin repository)) (nr_owner repository)
          (nr_slug repository) (nr_object_format repository),
        nde_actor = nr_actor repository, nde_ref_name = None, nde_old_target = None,
        nde_new_target = None, nde_created_at = nr_created_at repository\<rparr>) (\<lambda>db.
     try_then (insert_reference_events env 1 db repository (nr_initial_references repository)) (\<lambda>db.
     audit_success db (origin_audit_action (nr_origin repository)) (nr_actor repository)
       (nr_owner repository @ ''/'' @ nr_slug repository) (nr_correlation_id repository)
       (nr_created_at repository)))))))"

definition is_active_repository :: "int \<Rightarrow> string \<Rightarrow> repository \<Rightarrow> bool" where
  "is_active_repository owner_id slug r \<longleftrightarrow>
     repo_owner_namespace_id r = owner_id \<and> repo_slug r = slug \<and> repo_state r = ''active''"

definition update_slug :: "database \<Rightarrow> int \<Rightarrow> string \<Rightarrow> string \<Rightarrow> string \<Rightarrow> (store_error, database) result" where
  "update_slug db owner_id owner old_slug new_slug =
     try_then (map_err (on_unique (RepositoryExists owner new_slug))
       (exec_update repository_table (is_active_repository owner_id old_slug)
         (\<lambda>r. r\<lparr>repo_slug := new_slug\<rparr>) db)) (\<lambda>(db', changed).
     if changed = 1 then Ok db'
     else if changed = 0 then fail_with_state_error db' owner_id owner old_slug
     else Err (Panic ''an owner and slug identify one repository''))"

definition rename_repository :: "database \<Rightarrow> string \<Rightarrow> string \<Rightarrow> string \<Rightarrow> int \<Rightarrow> string \<Rightarrow> string
    \<Rightarrow> (store_error, database) result" where
  "rename_repository db owner old_slug new_slug changed_at actor correlation_id =
     try_then (active_namespace_id db owner) (\<lambda>owner_id.
     try_then (update_slug db owner_id owner old_slug new_slug) (\<lambda>db.
     audit_success db ''repository.rename'' actor (owner @ ''/'' @ old_slug @ ''->'' @ new_slug)
       correlation_id changed_at))"

definition archive_repository :: "database \<Rightarrow> string \<Rightarrow> string \<Rightarrow> int \<Rightarrow> string \<Rightarrow> string
    \<Rightarrow> (store_error, database) result" where
  "archive_repository db owner slug archived_at actor correlation_id =
     try_then (active_namespace_id db owner) (\<lambda>owner_id.
     try_then (sqlite (exec_update repository_table (is_active_repository owner_id slug)
       (\<lambda>r. r\<lparr>repo_state := ''archived'', repo_archived_at := Some archived_at\<rparr>) db)) (\<lambda>(db, changed).
     if changed = 0 then fail_with_state_error db owner_id owner slug
     else audit_success db ''repository.archive'' actor (owner @ ''/'' @ slug) correlation_id archived_at))"

definition set_repository_visibility :: "database \<Rightarrow> string \<Rightarrow> string \<Rightarrow> string \<Rightarrow> int \<Rightarrow> string \<Rightarrow> string
    \<Rightarrow> (store_error, database) result" where
  "set_repository_visibility db owner slug visibility changed_at actor correlation_id =
     (if visibility \<notin> {''public'', ''private''} then Err InvalidRepositoryVisibility
      else
        try_then (active_namespace_id db owner) (\<lambda>owner_id.
        try_then (sqlite (exec_update repository_table (is_active_repository owner_id slug)
          (\<lambda>r. r\<lparr>repo_visibility := visibility\<rparr>) db)) (\<lambda>(db, changed).
        if changed = 0 then fail_with_state_error db owner_id owner slug
        else audit_success db ''repository.visibility'' actor (owner @ ''/'' @ slug @ '':'' @ visibility)
          correlation_id changed_at)))"

definition active_repository_id :: "database \<Rightarrow> int \<Rightarrow> string \<Rightarrow> string \<Rightarrow> (store_error, string) result" where
  "active_repository_id db owner_id owner slug =
     (case query_row repository_table (is_active_repository owner_id slug) db of
        Some r \<Rightarrow> Ok (repo_id r)
      | None \<Rightarrow> fail_with_state_error db owner_id owner slug)"

definition collaborator_account_id :: "database \<Rightarrow> string \<Rightarrow> (store_error, int) result" where
  "collaborator_account_id db username =
     map_err (\<lambda>e. case e of AccountNotFound _ \<Rightarrow> CollaboratorNotFound username | _ \<Rightarrow> e)
       (active_account_id db username)"

definition upsert_collaborator :: "database \<Rightarrow> string \<Rightarrow> int \<Rightarrow> string \<Rightarrow> int \<Rightarrow> (store_error, database) result" where
  "upsert_collaborator db repository_id account_id role created_at =
     sqlite (exec_upsert repository_collaborator_table
       (\<lambda>c. repository_exists db (collab_repository_id c) \<and> account_exists db (collab_account_id c))
       (\<lambda>c. collab_repository_id c = repository_id \<and> collab_account_id c = account_id)
       \<lparr>collab_repository_id = repository_id, collab_account_id = account_id, collab_role = role,
        collab_created_at = created_at\<rparr>
       (\<lambda>c. c\<lparr>collab_role := role\<rparr>) db)"

definition delete_collaborator :: "database \<Rightarrow> string \<Rightarrow> int \<Rightarrow> database \<times> nat" where
  "delete_collaborator db repository_id account_id =
     exec_delete repository_collaborator_table
       (\<lambda>c. collab_repository_id c = repository_id \<and> collab_account_id c = account_id) db"

definition set_repository_collaborator :: "database \<Rightarrow> string \<Rightarrow> string \<Rightarrow> string \<Rightarrow> string \<Rightarrow> audit_context
    \<Rightarrow> (store_error, database) result" where
  "set_repository_collaborator db owner slug username role audit =
     (if role \<notin> {''maintainer'', ''writer'', ''reader''} then Err InvalidCollaboratorRole
      else
        try_then (active_namespace_id db owner) (\<lambda>owner_id.
        try_then (active_repository_id db owner_id owner slug) (\<lambda>repository_id.
        try_then (collaborator_account_id db username) (\<lambda>collaborator_id.
        try_then (namespace_account_id db owner_id) (\<lambda>owner_account.
        if owner_account = Some collaborator_id then Err OwnerCollaborator
        else try_then (upsert_collaborator db repository_id collaborator_id role (ac_created_at audit)) (\<lambda>db.
          audit_success db ''collaborator.set'' (ac_actor audit)
            (owner @ ''/'' @ slug @ '':'' @ username @ '':'' @ role)
            (ac_correlation_id audit) (ac_created_at audit)))))))"

definition remove_repository_collaborator :: "database \<Rightarrow> string \<Rightarrow> string \<Rightarrow> string \<Rightarrow> int \<Rightarrow> string \<Rightarrow> string
    \<Rightarrow> (store_error, database) result" where
  "remove_repository_collaborator db owner slug username changed_at actor correlation_id =
     try_then (active_namespace_id db owner) (\<lambda>owner_id.
     try_then (active_repository_id db owner_id owner slug) (\<lambda>repository_id.
     try_then (ok_or (CollaboratorNotFound username)
       (map_option acct_id (query_row account_table (\<lambda>a. acct_username a = username) db))) (\<lambda>collaborator_id.
     try_then (namespace_account_id db owner_id) (\<lambda>owner_account.
     if owner_account = Some collaborator_id then Err OwnerCollaborator
     else
       let (db, changed) = delete_collaborator db repository_id collaborator_id in
       if changed = 0 then Err (CollaboratorNotFound username)
       else audit_success db ''collaborator.remove'' actor (owner @ ''/'' @ slug @ '':'' @ username)
         correlation_id changed_at))))"

definition repository_default_branch :: "database \<Rightarrow> string \<Rightarrow> string \<Rightarrow> (store_error, string) result" where
  "repository_default_branch db owner slug =
     ok_or (RepositoryNotFound owner slug)
       (map_option (\<lambda>(b, r, n). branch_ref_name b)
         (find (\<lambda>(b, r, n). repo_id r = branch_repository_id b \<and> ns_id n = repo_owner_namespace_id r
             \<and> ns_slug n = owner \<and> repo_slug r = slug)
           (List.product (db_repository_default_branch db)
             (List.product (db_repository db) (db_namespace db)))))"

definition begin_repository_default_branch :: "database \<Rightarrow> new_default_branch_intent
    \<Rightarrow> (store_error, database) result" where
  "begin_repository_default_branch db intent =
     try_then (repository_issue_access db (ndb_owner intent) (ndb_slug intent) (Some (ndb_actor intent)))
       (\<lambda>access.
     if \<not> can_maintain access then Err PullRequestDenied
     else
       try_then (ok_or (Sqlite QueryReturnedNoRows)
         (map_option branch_ref_name (query_row repository_default_branch_table
           (\<lambda>b. branch_repository_id b = rr_id (ria_repository access)) db))) (\<lambda>stored.
       if stored \<noteq> ndb_previous_branch intent then Err InvalidDefaultBranch
       else sqlite (exec_insert repository_default_branch_intent_table
         (\<lambda>i. repository_exists db (bint_repository_id i))
         \<lparr>bint_id = ndb_id intent, bint_repository_id = rr_id (ria_repository access),
          bint_actor = ndb_actor intent, bint_previous_ref_name = ndb_previous_branch intent,
          bint_proposed_ref_name = ndb_default_branch intent,
          bint_created_at = ndb_changed_at intent\<rparr> db)))"

definition complete_repository_default_branch :: "database \<Rightarrow> string \<Rightarrow> (store_error, database) result" where
  "complete_repository_default_branch db ident =
     try_then (ok_or (DefaultBranchIntentState ident)
       (find (\<lambda>(i, r, n). repo_id r = bint_repository_id i \<and> ns_id n = repo_owner_namespace_id r
           \<and> bint_id i = ident)
         (List.product (db_repository_default_branch_intent db)
           (List.product (db_repository db) (db_namespace db))))) (\<lambda>(i, r, n).
     try_then (sqlite (exec_update repository_default_branch_table
       (\<lambda>b. branch_repository_id b = repo_id r)
       (\<lambda>b. b\<lparr>branch_ref_name := bint_proposed_ref_name i\<rparr>) db)) (\<lambda>(db, changed).
     if changed \<noteq> 1 then Err InvalidDefaultBranch
     else try_then (audit_success db ''repository.default-branch'' (bint_actor i)
         (ns_slug n @ ''/'' @ repo_slug r @ '':'' @ bint_proposed_ref_name i) ident (bint_created_at i)) (\<lambda>db.
       let (db, deleted) = exec_delete repository_default_branch_intent_table (\<lambda>i. bint_id i = ident) db in
       if deleted \<noteq> 1 then Err (DefaultBranchIntentState ident) else Ok db)))"

definition abandon_repository_default_branch :: "database \<Rightarrow> string \<Rightarrow> (store_error, database) result" where
  "abandon_repository_default_branch db ident =
     (let (db, changed) = exec_delete repository_default_branch_intent_table (\<lambda>i. bint_id i = ident) db in
      if changed \<noteq> 1 then Err (DefaultBranchIntentState ident) else Ok db)"

definition incomplete_repository_default_branches :: "database \<Rightarrow> repository_default_branch_intent list" where
  "incomplete_repository_default_branches db =
     sort_key (\<lambda>i. bint_created_at i)
       (sort_key (\<lambda>i. bint_id i) (db_repository_default_branch_intent db))"

definition repository_description :: "database \<Rightarrow> string \<Rightarrow> (store_error, string) result" where
  "repository_description db repository_id =
     ok_or (Integrity (''repository '' @ repository_id @ '' disappeared''))
       (map_option (\<lambda>r. case find (\<lambda>p. prof_repository_id p = repo_id r) (db_repository_profile db) of
            Some p \<Rightarrow> prof_description p | None \<Rightarrow> [])
         (query_row repository_table (\<lambda>r. repo_id r = repository_id) db))"

definition update_repository_settings :: "database \<Rightarrow> repository_settings_update
    \<Rightarrow> (store_error, database) result" where
  "update_repository_settings db update =
     (if rsu_visibility update \<notin> {''public'', ''private''} then Err InvalidRepositoryVisibility
      else
        try_then (repository_issue_access db (rsu_owner update) (rsu_slug update) (Some (rsu_actor update)))
          (\<lambda>access.
        if \<not> can_maintain access then Err PullRequestDenied
        else
          try_then (sqlite (exec_upsert repository_profile_table
            (\<lambda>p. repository_exists db (prof_repository_id p))
            (\<lambda>p. prof_repository_id p = rr_id (ria_repository access))
            \<lparr>prof_repository_id = rr_id (ria_repository access),
             prof_description = rsu_description update\<rparr>
            (\<lambda>p. p\<lparr>prof_description := rsu_description update\<rparr>) db)) (\<lambda>db.
          try_then (sqlite (exec_update repository_table
            (\<lambda>r. repo_id r = rr_id (ria_repository access))
            (\<lambda>r. r\<lparr>repo_visibility := rsu_visibility update\<rparr>) db)) (\<lambda>(db, _).
          audit_success db ''repository.settings'' (rsu_actor update)
            (rsu_owner update @ ''/'' @ rsu_slug update)
            (rsu_correlation_id update) (rsu_changed_at update)))))"

definition update_repository_collaborator :: "database \<Rightarrow> repository_collaborator_update
    \<Rightarrow> (store_error, database) result" where
  "update_repository_collaborator db update =
     (if \<not> (case rcu_role update of None \<Rightarrow> True
              | Some role \<Rightarrow> role \<in> {''maintainer'', ''writer'', ''reader''})
      then Err InvalidCollaboratorRole
      else
        try_then (repository_issue_access db (rcu_owner update) (rcu_slug update) (Some (rcu_actor update)))
          (\<lambda>access.
        if \<not> can_maintain access then Err PullRequestDenied
        else
          try_then (collaborator_account_id db (rcu_username update)) (\<lambda>collaborator_id.
          if rcu_username update = rcu_owner update then Err OwnerCollaborator
          else
            try_then (case rcu_role update of
                Some role \<Rightarrow> map_sum id (\<lambda>db. (db, 1))
                  (upsert_collaborator db (rr_id (ria_repository access)) collaborator_id role
                    (rcu_changed_at update))
              | None \<Rightarrow> Ok (delete_collaborator db (rr_id (ria_repository access)) collaborator_id))
              (\<lambda>(db, changed).
            if changed = 0 then Err (CollaboratorNotFound (rcu_username update))
            else audit_success db
              (if rcu_role update \<noteq> None then ''collaborator.set'' else ''collaborator.remove'')
              (rcu_actor update) (rcu_owner update @ ''/'' @ rcu_slug update @ '':'' @ rcu_username update)
              (rcu_correlation_id update) (rcu_changed_at update)))))"

definition archive_repository_for_actor :: "database \<Rightarrow> string \<Rightarrow> string \<Rightarrow> string \<Rightarrow> int \<Rightarrow> string
    \<Rightarrow> (store_error, database) result" where
  "archive_repository_for_actor db owner slug actor changed_at correlation_id =
     try_then (repository_issue_access db owner slug (Some actor)) (\<lambda>access.
     if \<not> can_maintain access then Err PullRequestDenied
     else
       try_then (sqlite (exec_update repository_table (\<lambda>r. repo_id r = rr_id (ria_repository access))
         (\<lambda>r. r\<lparr>repo_state := ''archived'', repo_archived_at := Some changed_at\<rparr>) db)) (\<lambda>(db, _).
       audit_success db ''repository.archive'' actor (owner @ ''/'' @ slug) correlation_id changed_at))"

definition authorize_for_owner :: "database \<Rightarrow> int \<Rightarrow> string \<Rightarrow> (store_error, unit) result" where
  "authorize_for_owner db owner_id actor =
     map_err (\<lambda>e. if e = OrganizationDenied then PullRequestDenied else e)
       (authorize_namespace_maintainer db owner_id actor)"

definition rename_repository_for_owner :: "database \<Rightarrow> string \<Rightarrow> string \<Rightarrow> string \<Rightarrow> string \<Rightarrow> int \<Rightarrow> string
    \<Rightarrow> (store_error, database) result" where
  "rename_repository_for_owner db owner old_slug new_slug actor changed_at correlation_id =
     try_then (active_namespace_id db owner) (\<lambda>owner_id.
     try_then (authorize_for_owner db owner_id actor) (\<lambda>_.
     try_then (update_slug db owner_id owner old_slug new_slug) (\<lambda>db.
     audit_success db ''repository.rename'' actor (owner @ ''/'' @ old_slug @ ''->'' @ new_slug)
       correlation_id changed_at)))"

definition unarchive_repository_for_owner :: "database \<Rightarrow> string \<Rightarrow> string \<Rightarrow> string \<Rightarrow> int \<Rightarrow> string
    \<Rightarrow> (store_error, database) result" where
  "unarchive_repository_for_owner db owner slug actor changed_at correlation_id =
     try_then (active_namespace_id db owner) (\<lambda>owner_id.
     try_then (authorize_for_owner db owner_id actor) (\<lambda>_.
     try_then (sqlite (exec_update repository_table
       (\<lambda>r. repo_owner_namespace_id r = owner_id \<and> repo_slug r = slug \<and> repo_state r = ''archived'')
       (\<lambda>r. r\<lparr>repo_state := ''active'', repo_archived_at := None\<rparr>) db)) (\<lambda>(db, changed).
     if changed \<noteq> 1 then fail_with_state_error db owner_id owner slug
     else audit_success db ''repository.unarchive'' actor (owner @ ''/'' @ slug)
       correlation_id changed_at)))"

section \<open>The schema invariant\<close>

lemma insert_reference_events_keep [keep]:
  "db_ok db \<Longrightarrow> (\<And>db'. db_ok db' \<Longrightarrow> Q db') \<Longrightarrow> ensures (insert_reference_events env k db r refs) Q"
  by (induction refs arbitrary: k db) (auto intro!: wp keep)

lemma update_slug_keep [keep]:
  "db_ok db \<Longrightarrow> (\<And>db'. db_ok db' \<Longrightarrow> Q db') \<Longrightarrow> ensures (update_slug db i w s s') Q"
  unfolding update_slug_def by (auto intro!: wp keep)

lemma upsert_collaborator_keep [keep]:
  "db_ok db \<Longrightarrow> (\<And>db'. db_ok db' \<Longrightarrow> Q db') \<Longrightarrow> ensures (upsert_collaborator db r a l t) Q"
  unfolding upsert_collaborator_def by (auto intro!: wp keep)

lemma delete_collaborator_ok: "delete_collaborator db r a = (db', n) \<Longrightarrow> db_ok db \<Longrightarrow> db_ok db'"
  unfolding delete_collaborator_def by (rule collab.delete_keeps_ok)

lemma active_repository_id_wp [wp]:
  "(\<And>j. active_repository_id db i w s = Inr j \<Longrightarrow> Q j) \<Longrightarrow> ensures (active_repository_id db i w s) Q"
  by (rule ensuresI)

lemma collaborator_account_id_wp [wp]:
  "(\<And>i. collaborator_account_id db u = Inr i \<Longrightarrow> Q i) \<Longrightarrow> ensures (collaborator_account_id db u) Q"
  by (rule ensuresI)

lemma authorize_for_owner_wp [wp]:
  "(authorize_for_owner db i u = Inr () \<Longrightarrow> Q ()) \<Longrightarrow> ensures (authorize_for_owner db i u) Q"
  by (rule ensuresI) simp

lemma create_repository_keeps: "db_ok db \<Longrightarrow> ensures (create_repository env db r) db_ok"
  unfolding create_repository_def by (auto intro!: wp keep)

lemma rename_repository_keeps: "db_ok db \<Longrightarrow> ensures (rename_repository db w s s' t a c) db_ok"
  unfolding rename_repository_def by (auto intro!: wp keep)

lemma archive_repository_keeps: "db_ok db \<Longrightarrow> ensures (archive_repository db w s t a c) db_ok"
  unfolding archive_repository_def by (auto intro!: wp keep)

lemma set_repository_visibility_keeps: "db_ok db \<Longrightarrow> ensures (set_repository_visibility db w s v t a c) db_ok"
  unfolding set_repository_visibility_def by (auto intro!: wp keep)

lemma set_repository_collaborator_keeps: "db_ok db \<Longrightarrow> ensures (set_repository_collaborator db w s u r a) db_ok"
  unfolding set_repository_collaborator_def by (auto intro!: wp keep)

lemma remove_repository_collaborator_keeps:
  "db_ok db \<Longrightarrow> ensures (remove_repository_collaborator db w s u t a c) db_ok"
  unfolding remove_repository_collaborator_def by (auto intro!: wp keep dest: delete_collaborator_ok delete_collaborator_ok [OF sym])

lemma begin_repository_default_branch_keeps: "db_ok db \<Longrightarrow> ensures (begin_repository_default_branch db i) db_ok"
  unfolding begin_repository_default_branch_def by (auto intro!: wp keep)

lemma complete_repository_default_branch_keeps:
  "db_ok db \<Longrightarrow> ensures (complete_repository_default_branch db i) db_ok"
  unfolding complete_repository_default_branch_def by (auto intro!: wp keep dest: bint.delete_keeps_ok [OF sym])

lemma abandon_repository_default_branch_keeps:
  "db_ok db \<Longrightarrow> ensures (abandon_repository_default_branch db i) db_ok"
  unfolding abandon_repository_default_branch_def by (auto intro!: wp keep dest: bint.delete_keeps_ok )

lemma update_repository_settings_keeps: "db_ok db \<Longrightarrow> ensures (update_repository_settings db u) db_ok"
  unfolding update_repository_settings_def by (auto intro!: wp keep)

lemma update_repository_collaborator_keeps: "db_ok db \<Longrightarrow> ensures (update_repository_collaborator db u) db_ok"
  unfolding update_repository_collaborator_def
  by (auto intro!: wp keep split: option.splits dest: delete_collaborator_ok delete_collaborator_ok [OF sym])

lemma archive_repository_for_actor_keeps:
  "db_ok db \<Longrightarrow> ensures (archive_repository_for_actor db w s a t c) db_ok"
  unfolding archive_repository_for_actor_def by (auto intro!: wp keep)

lemma rename_repository_for_owner_keeps:
  "db_ok db \<Longrightarrow> ensures (rename_repository_for_owner db w s s' a t c) db_ok"
  unfolding rename_repository_for_owner_def by (auto intro!: wp keep)

lemma unarchive_repository_for_owner_keeps:
  "db_ok db \<Longrightarrow> ensures (unarchive_repository_for_owner db w s a t c) db_ok"
  unfolding unarchive_repository_for_owner_def by (auto intro!: wp keep)

section \<open>Panics\<close>

definition no_panic :: "(store_error, 'a) result \<Rightarrow> bool" where
  "no_panic m \<longleftrightarrow> (\<forall>s. m \<noteq> Err (Panic s))"

named_theorems np

lemma no_panic_Ok [np]: "no_panic (Inr x)"
  by (simp add: no_panic_def)

lemma no_panic_Err [np]: "(\<And>s. e \<noteq> Panic s) \<Longrightarrow> no_panic (Inl e)"
  by (simp add: no_panic_def)

lemma no_panic_try_then [np]:
  "no_panic m \<Longrightarrow> (\<And>x. m = Inr x \<Longrightarrow> no_panic (f x)) \<Longrightarrow> no_panic (try_then m f)"
  by (cases m) (auto simp: no_panic_def)

lemma no_panic_if [np]: "(c \<Longrightarrow> no_panic m) \<Longrightarrow> (\<not> c \<Longrightarrow> no_panic n) \<Longrightarrow> no_panic (if c then m else n)"
  by simp

lemma no_panic_case_prod [np]: "(\<And>a b. p = (a, b) \<Longrightarrow> no_panic (f a b)) \<Longrightarrow> no_panic (case p of (a, b) \<Rightarrow> f a b)"
  by (cases p) auto

lemma no_panic_Let [np]: "(\<And>y. y = x \<Longrightarrow> no_panic (f y)) \<Longrightarrow> no_panic (Let x f)"
  by (simp add: Let_def)

lemma no_panic_sqlite [np]: "no_panic (sqlite m)"
  by (cases m) (auto simp: no_panic_def)

lemma no_panic_on_unique [np]: "(\<And>s. e \<noteq> Panic s) \<Longrightarrow> no_panic (map_err (on_unique e) m)"
  by (cases m) (auto simp: no_panic_def on_unique_def)

lemma no_panic_ok_or [np]: "(\<And>s. e \<noteq> Panic s) \<Longrightarrow> no_panic (ok_or e x)"
  by (cases x) (auto simp: no_panic_def)

lemma no_panic_lookups [np]:
  "no_panic (active_account_id db u)" "no_panic (active_namespace_id db u)" "no_panic (namespace_account_id db i)"
  "no_panic (insert_audit_event db e)" "no_panic (collaborator_account_id db u)"
  "no_panic (upsert_collaborator db r a l t)"
  by (auto simp: no_panic_def active_account_id_def active_namespace_id_def namespace_account_id_def
      insert_audit_event_def collaborator_account_id_def upsert_collaborator_def map_err_def map_sum_def ok_or_def
      split: option.splits sum.splits store_error.splits)

lemma no_panic_authorize [np]:
  "no_panic (authorize_namespace_maintainer db i u)" "no_panic (authorize_for_owner db i u)"
proof -
  show "no_panic (authorize_namespace_maintainer db i u)"
    unfolding authorize_namespace_maintainer_def by (auto intro!: np simp: require_def)
  then show "no_panic (authorize_for_owner db i u)"
    by (auto simp: no_panic_def authorize_for_owner_def map_err_def split: sum.splits if_splits)
qed

text \<open>Looking for the state of a repository that is not active finds it archived or not at all.\<close>

lemma fail_with_state_error_no_panic:
  assumes "db_ok db" and "\<And>r. r \<in> set (db_repository db) \<Longrightarrow> \<not> is_active_repository i s r"
  shows "no_panic (fail_with_state_error db i w s)"
proof (cases "query_row repository_table (\<lambda>r. repo_owner_namespace_id r = i \<and> repo_slug r = s) db")
  case None
  then show ?thesis by (simp add: no_panic_def fail_with_state_error_def repository_state_error_def)
next
  case (Some r)
  then have r: "r \<in> set (db_repository db)" "repo_state r \<noteq> ''active''"
    using assms(2) by (auto simp: is_active_repository_def dest!: query_row_Some)
  then have "repo_state r = ''archived''"
    using repo.ok_chk [OF assms(1)] by (auto simp: list_all_iff repository_chk_def)
  with Some show ?thesis by (simp add: no_panic_def fail_with_state_error_def repository_state_error_def)
qed

lemma no_active_repository:
  assumes "db_ok db" and "exec_update repository_table (is_active_repository i s) f db = Ok (db', 0)"
  shows "db' = db" and "r \<in> set (db_repository db) \<Longrightarrow> \<not> is_active_repository i s r"
proof -
  have "count_rows repository_table (is_active_repository i s) db = 0"
    using assms(2) by (simp add: exec_update_Ok)
  then have none: "\<not> is_active_repository i s r" if "r \<in> set (db_repository db)" for r
    using that by (auto simp: count_rows_def filter_empty_conv)
  then show "r \<in> set (db_repository db) \<Longrightarrow> \<not> is_active_repository i s r" .
  show "db' = db" using repo.update_none [OF assms(1), of "is_active_repository i s" f] none assms(2) by auto
qed

lemma state_error_after_update [np]:
  "db_ok db \<Longrightarrow> exec_update repository_table (is_active_repository i s) f db = Ok (db', 0)
   \<Longrightarrow> no_panic (fail_with_state_error db' i w s)"
  using no_active_repository [of db i s f db'] fail_with_state_error_no_panic [of db i s w] by auto

lemma one_active_repository:
  assumes "db_ok db" and "exec_update repository_table (is_active_repository i s) f db = Ok (db', n)"
  shows "n \<le> 1"
proof -
  have "unique_by (\<lambda>r. (repo_owner_namespace_id r, repo_slug r)) (db_repository db)"
    using repo.ok_uniq [OF assms(1)] by (simp add: repository_uniq_def)
  from unique_by_count [OF this, of "is_active_repository i s" "(i, s)"] show ?thesis
    using assms(2) by (simp add: exec_update_Ok count_rows_def is_active_repository_def)
qed

lemma update_slug_no_panic [np]: "db_ok db \<Longrightarrow> no_panic (update_slug db i w s s')"
  unfolding update_slug_def
  by (auto intro!: np dest: one_active_repository)

lemma active_repository_id_no_panic [np]: "db_ok db \<Longrightarrow> no_panic (active_repository_id db i w s)"
  using fail_with_state_error_no_panic [of db i s w]
  by (auto simp: active_repository_id_def query_row_None split: option.splits intro: np)

section \<open>Properties\<close>

text \<open>C27. Renaming, archiving, changing the visibility and editing the collaborators of a repository never reach
  the branch of \<^verbatim>\<open>repository_state_error\<close> that panics, nor the ones marked unreachable.\<close>

theorem repository_changes_never_panic:
  assumes "db_ok db"
  shows "no_panic (rename_repository db w s s' t a c) \<and> no_panic (rename_repository_for_owner db w s s' a t c)
    \<and> no_panic (archive_repository db w s t a c) \<and> no_panic (set_repository_visibility db w s v t a c)
    \<and> no_panic (set_repository_collaborator db w s u r x) \<and> no_panic (remove_repository_collaborator db w s u t a c)"
proof (intro conjI)
  show "no_panic (rename_repository db w s s' t a c)"
    unfolding rename_repository_def using assms by (intro np) simp_all
  show "no_panic (rename_repository_for_owner db w s s' a t c)"
    unfolding rename_repository_for_owner_def using assms by (intro np) simp_all
  show "no_panic (archive_repository db w s t a c)"
    unfolding archive_repository_def using assms by (auto intro!: np)
  show "no_panic (set_repository_visibility db w s v t a c)"
    unfolding set_repository_visibility_def using assms by (auto intro!: np)
  show "no_panic (set_repository_collaborator db w s u r x)"
    unfolding set_repository_collaborator_def using assms by (auto intro!: np)
  show "no_panic (remove_repository_collaborator db w s u t a c)"
    unfolding remove_repository_collaborator_def using assms by (auto intro!: np)
qed

theorem repository_changes_never_panic_witness:
  "no_panic (rename_repository sample_db ''alice'' ''old'' ''new'' 20 ''alice'' ''req'')
    \<and> no_panic (rename_repository_for_owner sample_db ''alice'' ''old'' ''new'' ''alice'' 20 ''req'')
    \<and> no_panic (archive_repository sample_db ''alice'' ''old'' 20 ''alice'' ''req'')
    \<and> no_panic (set_repository_visibility sample_db ''alice'' ''old'' ''private'' 20 ''alice'' ''req'')
    \<and> no_panic (set_repository_collaborator sample_db ''alice'' ''old'' ''bob'' ''reader''
          \<lparr>ac_actor = ''alice'', ac_correlation_id = ''req'', ac_created_at = 20\<rparr>)
    \<and> no_panic (remove_repository_collaborator sample_db ''alice'' ''old'' ''bob'' 20 ''alice'' ''req'')"
  by (rule repository_changes_never_panic [OF sample_db_ok])

text \<open>C28. Unarchiving a repository that is not archived panics: the update matches no row, and the search for
  the reason finds a repository in a state the code holds to be unreachable. Any maintainer of the namespace can
  trigger it.\<close>

theorem unarchive_active_panics:
  assumes "db_ok db" and "active_namespace_id db owner = Ok i" and "authorize_for_owner db i actor = Ok ()"
    and "r \<in> set (db_repository db)" and "is_active_repository i slug r"
  shows "unarchive_repository_for_owner db owner slug actor t c
    = Err (Panic ''repository state has a database constraint'')"
proof -
  have "unique_by (\<lambda>r. (repo_owner_namespace_id r, repo_slug r)) (db_repository db)"
    using repo.ok_uniq [OF assms(1)] by (simp add: repository_uniq_def)
  then have same: "q = r" if "q \<in> set (db_repository db)" "repo_owner_namespace_id q = i \<and> repo_slug q = slug" for q
    using unique_by_key that assms(4,5) by (fastforce simp: is_active_repository_def)
  have "\<not> (repo_owner_namespace_id q = i \<and> repo_slug q = slug \<and> repo_state q = ''archived'')"
    if "q \<in> set (db_repository db)" for q
    using same [OF that] assms(5) unfolding is_active_repository_def by force
  then have "exec_update repository_table (\<lambda>r. repo_owner_namespace_id r = i \<and> repo_slug r = slug
      \<and> repo_state r = ''archived'') (\<lambda>r. r\<lparr>repo_state := ''active'', repo_archived_at := None\<rparr>) db = Ok (db, 0)"
    by (intro repo.update_none [OF assms(1)]) simp
  moreover have "query_row repository_table (\<lambda>r. repo_owner_namespace_id r = i \<and> repo_slug r = slug) db = Some r"
  proof (cases "query_row repository_table (\<lambda>r. repo_owner_namespace_id r = i \<and> repo_slug r = slug) db")
    case None
    then show ?thesis using assms(4,5) by (auto simp: query_row_None is_active_repository_def)
  next
    case (Some q)
    then show ?thesis using same [of q] by (auto dest: query_row_Some)
  qed
  ultimately show ?thesis
    using assms(2,3,5)
    by (simp add: unarchive_repository_for_owner_def fail_with_state_error_def repository_state_error_def
        is_active_repository_def)
qed

theorem unarchive_active_panics_witness:
  "unarchive_repository_for_owner sample_db ''alice'' ''tool'' ''alice'' 20 ''req''
    = Err (Panic ''repository state has a database constraint'')"
proof (rule unarchive_active_panics [OF sample_db_ok])
  show "active_namespace_id sample_db ''alice'' = Ok 1" by code_simp
  show "authorize_for_owner sample_db 1 ''alice'' = Ok ()" by code_simp
  show "db_repository sample_db ! 0 \<in> set (db_repository sample_db)" by code_simp
  show "is_active_repository 1 ''tool'' (db_repository sample_db ! 0)" by code_simp
qed

end
