(* ===== verification/Store_Issues.thy ===== *)
theory Store_Issues
  imports Store_Repositories
begin

text \<open>
  Issues in \<^verbatim>\<open>src/store/mod.rs\<close>: creation with the repository's issue counter, edits, comments, opening
  and closing, and the paged reads. Also the pull-request counter, which shares the table.

  The lemmas show who may do what and that the pages of a listing cut it into consecutive pieces.
\<close>

section \<open>Records\<close>

record issue_record =
  ir_id :: string
  ir_number :: int
  ir_title :: string
  ir_body :: string
  ir_state :: string
  ir_author :: string
  ir_created_at :: int
  ir_updated_at :: int
  ir_closed_at :: "int option"

record stored_issue =
  si_issue :: issue_record
  si_author_account_id :: int

record new_issue =
  ni_owner :: string
  ni_repository :: string
  ni_actor :: string
  ni_title :: string
  ni_body :: string
  ni_created_at :: int

record issue_change =
  ic_owner :: string
  ic_repository :: string
  ic_number :: int
  ic_actor :: string
  ic_changed_at :: int

record issue_comment_record =
  icr_id :: string
  icr_author :: string
  icr_body :: string
  icr_created_at :: int

record timeline_record =
  tl_sequence :: int
  tl_kind :: string
  tl_actor :: string
  tl_payload :: json
  tl_created_at :: int

record issue_detail =
  idt_repository :: repository_record
  idt_issue :: issue_record
  idt_comments :: "issue_comment_record list"
  idt_timeline :: "timeline_record list"
  idt_comments_page :: nat
  idt_comments_has_next :: bool
  idt_timeline_page :: nat
  idt_timeline_has_next :: bool
  idt_can_comment :: bool
  idt_can_edit :: bool

record 'a record_page =
  rp_items :: "'a list"
  rp_page :: nat
  rp_has_next :: bool

record timeline_pagination =
  tp_primary_page :: nat
  tp_timeline_page :: nat
  tp_page_size :: nat

section \<open>Counters\<close>

text \<open>\<^verbatim>\<open>INSERT INTO repository_counter .. ON CONFLICT DO NOTHING\<close>: a repository's counters start at 1.\<close>

definition ensure_counter :: "database \<Rightarrow> string \<Rightarrow> (store_error, database) result" where
  "ensure_counter db repository_id =
     (if sql_exists (\<lambda>c. ctr_repository_id c = repository_id) (db_repository_counter db) then Ok db
      else sqlite (exec_insert repository_counter_table (\<lambda>c. repository_exists db (ctr_repository_id c))
        \<lparr>ctr_repository_id = repository_id, ctr_next_issue_number = 1,
         ctr_next_pull_request_number = 1\<rparr> db))"

definition next_issue_number :: "database \<Rightarrow> string \<Rightarrow> (store_error, database \<times> int) result" where
  "next_issue_number db repository_id =
     try_then (ok_or (Sqlite QueryReturnedNoRows) (query_row repository_counter_table
       (\<lambda>c. ctr_repository_id c = repository_id) db)) (\<lambda>c.
     try_then (sqlite (exec_update repository_counter_table (\<lambda>c. ctr_repository_id c = repository_id)
       (\<lambda>c. c\<lparr>ctr_next_issue_number := ctr_next_issue_number c + 1\<rparr>) db)) (\<lambda>(db, _).
     Ok (db, ctr_next_issue_number c)))"

definition next_pull_request_number :: "database \<Rightarrow> string \<Rightarrow> (store_error, database \<times> int) result" where
  "next_pull_request_number db repository_id =
     try_then (ok_or (Sqlite QueryReturnedNoRows) (query_row repository_counter_table
       (\<lambda>c. ctr_repository_id c = repository_id) db)) (\<lambda>c.
     try_then (sqlite (exec_update repository_counter_table (\<lambda>c. ctr_repository_id c = repository_id)
       (\<lambda>c. c\<lparr>ctr_next_pull_request_number := ctr_next_pull_request_number c + 1\<rparr>) db)) (\<lambda>(db, _).
     Ok (db, ctr_next_pull_request_number c)))"

section \<open>Issue operations\<close>

definition create_issue :: "env \<Rightarrow> database \<Rightarrow> new_issue \<Rightarrow> (store_error, database \<times> issue_record) result" where
  "create_issue env db issue =
     try_then (repository_issue_access db (ni_owner issue) (ni_repository issue) (Some (ni_actor issue)))
       (\<lambda>access.
     if \<not> can_read access then Err IssueHidden
     else
       try_then (ok_or IssueDenied (ria_active_actor_id access)) (\<lambda>actor_id.
       try_then (ensure_counter db (rr_id (ria_repository access))) (\<lambda>db.
       try_then (next_issue_number db (rr_id (ria_repository access))) (\<lambda>(db, number).
       let ident = random_id env 0 in
       try_then (sqlite (exec_insert issue_table
         (\<lambda>i. repository_exists db (issue_repository_id i) \<and> account_exists db (issue_author_account_id i))
         \<lparr>issue_id = ident, issue_repository_id = rr_id (ria_repository access), issue_number = number,
          issue_title = ni_title issue, issue_body = ni_body issue, issue_state = ''open'',
          issue_author_account_id = actor_id, issue_created_at = ni_created_at issue,
          issue_updated_at = ni_created_at issue, issue_closed_at = None\<rparr> db)) (\<lambda>db.
       try_then (insert_issue_event env 1 db (rr_id (ria_repository access)) ident (ni_actor issue)
         (ni_created_at issue)
         (event_issue IssueCreated ident number (ni_title issue) (ni_body issue))) (\<lambda>db.
       Ok (db, \<lparr>ir_id = ident, ir_number = number, ir_title = ni_title issue, ir_body = ni_body issue,
         ir_state = ''open'', ir_author = ni_actor issue, ir_created_at = ni_created_at issue,
         ir_updated_at = ni_created_at issue, ir_closed_at = None\<rparr>)))))))"

definition issue_from_row :: "issue \<Rightarrow> account \<Rightarrow> issue_record" where
  "issue_from_row i a = \<lparr>ir_id = issue_id i, ir_number = issue_number i, ir_title = issue_title i,
     ir_body = issue_body i, ir_state = issue_state i, ir_author = acct_username a,
     ir_created_at = issue_created_at i, ir_updated_at = issue_updated_at i,
     ir_closed_at = issue_closed_at i\<rparr>"

text \<open>The rows of a repository's issues joined with their authors.\<close>

definition issue_rows :: "database \<Rightarrow> string \<Rightarrow> (issue \<times> account) list" where
  "issue_rows db repository_id =
     filter (\<lambda>(i, a). acct_id a = issue_author_account_id i \<and> issue_repository_id i = repository_id)
       (List.product (db_issue db) (db_account db))"

definition find_issue :: "database \<Rightarrow> repository_record \<Rightarrow> string \<Rightarrow> string \<Rightarrow> int
    \<Rightarrow> (store_error, stored_issue) result" where
  "find_issue db repository owner slug number =
     (case find (\<lambda>(i, a). issue_number i = number) (issue_rows db (rr_id repository)) of
        Some (i, a) \<Rightarrow> Ok \<lparr>si_issue = issue_from_row i a, si_author_account_id = issue_author_account_id i\<rparr>
      | None \<Rightarrow> Err (IssueNotFound owner slug number))"

definition issue_mutation_context :: "database \<Rightarrow> string \<Rightarrow> string \<Rightarrow> int \<Rightarrow> string
    \<Rightarrow> (store_error, repository_issue_access_t \<times> stored_issue) result" where
  "issue_mutation_context db owner repository number actor =
     try_then (repository_issue_access db owner repository (Some actor)) (\<lambda>access.
     if \<not> can_read access then Err IssueHidden
     else if ria_active_actor_id access = None then Err IssueDenied
     else try_then (find_issue db (ria_repository access) owner repository number) (\<lambda>issue.
       Ok (access, issue)))"

definition edit_issue :: "env \<Rightarrow> database \<Rightarrow> issue_change \<Rightarrow> string \<Rightarrow> string \<Rightarrow> (store_error, database) result" where
  "edit_issue env db change title body =
     try_then (issue_mutation_context db (ic_owner change) (ic_repository change) (ic_number change)
       (ic_actor change)) (\<lambda>(access, current).
     if \<not> can_write_issue access (si_author_account_id current) then Err IssueDenied
     else
       try_then (sqlite (exec_update issue_table (\<lambda>i. issue_id i = ir_id (si_issue current))
         (\<lambda>i. i\<lparr>issue_title := title, issue_body := body, issue_updated_at := ic_changed_at change\<rparr>) db))
         (\<lambda>(db, _).
       insert_issue_event env 0 db (rr_id (ria_repository access)) (ir_id (si_issue current))
         (ic_actor change) (ic_changed_at change)
         (event_issue IssueEdited (ir_id (si_issue current)) (ic_number change) title body)))"

definition comment_issue :: "env \<Rightarrow> database \<Rightarrow> string \<Rightarrow> string \<Rightarrow> int \<Rightarrow> string \<Rightarrow> string \<Rightarrow> int
    \<Rightarrow> (store_error, database \<times> string) result" where
  "comment_issue env db owner repository number actor body created_at =
     try_then (issue_mutation_context db owner repository number actor) (\<lambda>(access, current).
     try_then (ok_or IssueDenied (ria_active_actor_id access)) (\<lambda>actor_id.
     if \<not> can_read access then Err IssueDenied
     else
       let comment_id = random_id env 0 in
       try_then (sqlite (exec_insert issue_comment_table
         (\<lambda>c. sql_exists (\<lambda>i. issue_id i = cmt_issue_id c) (db_issue db)
            \<and> account_exists db (cmt_author_account_id c))
         \<lparr>cmt_id = comment_id, cmt_issue_id = ir_id (si_issue current), cmt_author_account_id = actor_id,
          cmt_body = body, cmt_created_at = created_at\<rparr> db)) (\<lambda>db.
       try_then (sqlite (exec_update issue_table (\<lambda>i. issue_id i = ir_id (si_issue current))
         (\<lambda>i. i\<lparr>issue_updated_at := created_at\<rparr>) db)) (\<lambda>(db, _).
       try_then (insert_issue_event env 1 db (rr_id (ria_repository access)) (ir_id (si_issue current))
         actor created_at
         (event_issue_comment (ir_id (si_issue current)) number comment_id actor body)) (\<lambda>db.
       Ok (db, comment_id))))))"

definition set_issue_state :: "env \<Rightarrow> database \<Rightarrow> string \<Rightarrow> string \<Rightarrow> int \<Rightarrow> string \<Rightarrow> string \<Rightarrow> int
    \<Rightarrow> (store_error, database) result" where
  "set_issue_state env db owner repository number actor state changed_at =
     try_then (issue_mutation_context db owner repository number actor) (\<lambda>(access, current).
     if \<not> can_write_issue access (si_author_account_id current) then Err IssueDenied
     else if ir_state (si_issue current) = state then Err (IssueState state)
     else
       try_then
         (if state = ''closed'' then Ok (Some changed_at, IssueClosed)
          else if state = ''open'' then Ok (None, IssueReopened)
          else Err (IssueState state)) (\<lambda>(closed_at, kind).
       try_then (sqlite (exec_update issue_table (\<lambda>i. issue_id i = ir_id (si_issue current))
         (\<lambda>i. i\<lparr>issue_state := state, issue_updated_at := changed_at, issue_closed_at := closed_at\<rparr>) db))
         (\<lambda>(db, _).
       insert_issue_event env 0 db (rr_id (ria_repository access)) (ir_id (si_issue current)) actor changed_at
         (event_issue_state kind (ir_id (si_issue current)) number state))))"

section \<open>Paged reads\<close>

text \<open>The limit and offset of a page: one row more than the page is read, to see whether there is a next
  page. \<^verbatim>\<open>usize\<close> is 64 bits wide and the statement takes \<^verbatim>\<open>i64\<close> parameters.\<close>

definition page_bounds :: "nat \<Rightarrow> nat \<Rightarrow> (store_error, nat \<times> nat) result" where
  "page_bounds page page_size =
     (if page = 0 \<or> 2 ^ 64 \<le> int ((page - 1) * page_size) then Err EventLimit
      else if 2 ^ 64 \<le> int (page_size + 1) \<or> 2 ^ 63 \<le> int (page_size + 1) then Err EventLimit
      else if 2 ^ 63 \<le> int ((page - 1) * page_size) then Err EventLimit
      else Ok (page_size + 1, (page - 1) * page_size))"

definition paged :: "'a list \<Rightarrow> nat \<Rightarrow> nat \<Rightarrow> (store_error, 'a list \<times> bool) result" where
  "paged records page page_size =
     try_then (page_bounds page page_size) (\<lambda>(limit, offset).
     let items = take limit (drop offset records) in
     Ok (take page_size items, page_size < length items))"

definition issue_list :: "database \<Rightarrow> string \<Rightarrow> string \<Rightarrow> issue_record list" where
  "issue_list db repository_id state =
     map (\<lambda>(i, a). issue_from_row i a)
       (rev (sort_key (\<lambda>(i, a). issue_number i)
         (filter (\<lambda>(i, a). state = ''all'' \<or> issue_state i = state) (issue_rows db repository_id))))"

definition issues :: "database \<Rightarrow> string \<Rightarrow> string \<Rightarrow> string option
    \<Rightarrow> (store_error, repository_record \<times> issue_record list) result" where
  "issues db owner repository actor =
     try_then (repository_issue_access db owner repository actor) (\<lambda>access.
     if \<not> can_read access then Err IssueHidden
     else Ok (ria_repository access,
       take 1000 (issue_list db (rr_id (ria_repository access)) ''all'')))"

definition issue_page :: "database \<Rightarrow> string \<Rightarrow> string \<Rightarrow> string option \<Rightarrow> string \<Rightarrow> nat \<Rightarrow> nat
    \<Rightarrow> (store_error, repository_record \<times> issue_record record_page) result" where
  "issue_page db owner repository actor state page page_size =
     try_then (repository_issue_access db owner repository actor) (\<lambda>access.
     if \<not> can_read access then Err IssueHidden
     else
       try_then (paged (issue_list db (rr_id (ria_repository access)) state) page page_size)
         (\<lambda>(items, has_next).
       Ok (ria_repository access, \<lparr>rp_items = items, rp_page = page, rp_has_next = has_next\<rparr>)))"

definition issue_comments :: "database \<Rightarrow> string \<Rightarrow> issue_comment_record list" where
  "issue_comments db ident =
     map (\<lambda>(c, a). \<lparr>icr_id = cmt_id c, icr_author = acct_username a, icr_body = cmt_body c,
            icr_created_at = cmt_created_at c\<rparr>)
       (rev (sort_key (\<lambda>(c, a). cmt_created_at c) (sort_key (\<lambda>(c, a). cmt_id c)
         (filter (\<lambda>(c, a). acct_id a = cmt_author_account_id c \<and> cmt_issue_id c = ident)
           (List.product (db_issue_comment db) (db_account db))))))"

definition timeline :: "database \<Rightarrow> (repository_event \<Rightarrow> bool) \<Rightarrow> timeline_record list" where
  "timeline db P =
     map (\<lambda>e. \<lparr>tl_sequence = ev_sequence e, tl_kind = as_str (ev_kind e), tl_actor = ev_actor e,
            tl_payload = ev_payload e, tl_created_at = ev_created_at e\<rparr>)
       (rev (sort_key ev_sequence (filter P (db_repository_event db))))"

definition get_issue_detail :: "database \<Rightarrow> string \<Rightarrow> string \<Rightarrow> int \<Rightarrow> string option \<Rightarrow> timeline_pagination
    \<Rightarrow> (store_error, issue_detail) result" where
  "get_issue_detail db owner repository number actor pagination =
     try_then (repository_issue_access db owner repository actor) (\<lambda>access.
     if \<not> can_read access then Err IssueHidden
     else
       try_then (find_issue db (ria_repository access) owner repository number) (\<lambda>issue.
       if 2 ^ 63 \<le> int (tp_page_size pagination + 1) then Err EventLimit
       else
         try_then (page_offset (tp_primary_page pagination) (tp_page_size pagination)) (\<lambda>comments_offset.
         try_then (page_offset (tp_timeline_page pagination) (tp_page_size pagination)) (\<lambda>timeline_offset.
         let page_size = tp_page_size pagination;
             comments = take (page_size + 1) (drop (nat comments_offset)
               (issue_comments db (ir_id (si_issue issue))));
             events = take (page_size + 1) (drop (nat timeline_offset)
               (timeline db (\<lambda>e. ev_issue_id e = Some (ir_id (si_issue issue)))))
         in Ok \<lparr>idt_repository = ria_repository access, idt_issue = si_issue issue,
              idt_comments = rev (take page_size comments), idt_timeline = rev (take page_size events),
              idt_comments_page = tp_primary_page pagination,
              idt_comments_has_next = (page_size < length comments),
              idt_timeline_page = tp_timeline_page pagination,
              idt_timeline_has_next = (page_size < length events),
              idt_can_comment = (ria_active_actor_id access \<noteq> None \<and> can_read access),
              idt_can_edit = can_write_issue access (si_author_account_id issue)\<rparr>))))"

section \<open>The schema invariant\<close>

lemma ensure_counter_keep [keep]:
  "db_ok db \<Longrightarrow> (\<And>db'. db_ok db' \<Longrightarrow> Q db') \<Longrightarrow> ensures (ensure_counter db r) Q"
  unfolding ensure_counter_def by (intro wp keep)

lemma next_issue_number_keep [keep]:
  "db_ok db \<Longrightarrow> (\<And>db' n. db_ok db' \<Longrightarrow> Q (db', n)) \<Longrightarrow> ensures (next_issue_number db r) Q"
  unfolding next_issue_number_def by (auto intro!: wp keep)

lemma next_pull_request_number_keep [keep]:
  "db_ok db \<Longrightarrow> (\<And>db' n. db_ok db' \<Longrightarrow> Q (db', n)) \<Longrightarrow> ensures (next_pull_request_number db r) Q"
  unfolding next_pull_request_number_def by (auto intro!: wp keep)

lemma issue_mutation_context_wp [wp]:
  "(\<And>a i. issue_mutation_context db w r n u = Inr (a, i) \<Longrightarrow> Q (a, i))
   \<Longrightarrow> ensures (issue_mutation_context db w r n u) Q"
  by (rule ensuresI) auto

lemma create_issue_keeps: "db_ok db \<Longrightarrow> ensures (create_issue env db i) (\<lambda>(db', _). db_ok db')"
  unfolding create_issue_def by (auto intro!: wp keep)

lemma edit_issue_keeps: "db_ok db \<Longrightarrow> ensures (edit_issue env db c t b) db_ok"
  unfolding edit_issue_def by (auto intro!: wp keep)

lemma comment_issue_keeps:
  "db_ok db \<Longrightarrow> ensures (comment_issue env db w r n a b t) (\<lambda>(db', _). db_ok db')"
  unfolding comment_issue_def by (auto intro!: wp keep)

lemma set_issue_state_keeps: "db_ok db \<Longrightarrow> ensures (set_issue_state env db w r n a s t) db_ok"
  unfolding set_issue_state_def by (auto intro!: wp keep)

section \<open>Properties\<close>

lemma page_bounds_Ok:
  "page_bounds page psize = Ok (limit, offset) \<longleftrightarrow>
     0 < page \<and> int (psize + 1) < 2 ^ 63 \<and> int ((page - 1) * psize) < 2 ^ 63
     \<and> limit = psize + 1 \<and> offset = (page - 1) * psize"
  by (auto simp: page_bounds_def)

lemma paged_eq:
  assumes "0 < page" and "int (psize + 1) < 2 ^ 63" and "int ((page - 1) * psize) < 2 ^ 63"
  shows "paged xs page psize = Ok (take psize (drop ((page - 1) * psize) xs), page * psize < length xs)"
proof -
  have "page_bounds page psize = Ok (psize + 1, (page - 1) * psize)" using assms page_bounds_Ok by blast
  moreover have "page * psize = (page - 1) * psize + psize" using assms(1) by (cases page) auto
  ultimately show ?thesis by (auto simp: paged_def Let_def min_def)
qed

text \<open>The pages of a listing are its consecutive pieces: the first \<open>k\<close> pages together are the first
  \<open>k * psize\<close> entries, and a page says that there is a next one exactly when entries remain.\<close>

lemma pages_partition:
  assumes "int (psize + 1) < 2 ^ 63" and "int (k * psize) < 2 ^ 63"
  shows "concat (map (\<lambda>page. fst (projr (paged xs page psize))) [1..<Suc k]) = take (k * psize) xs
    \<and> (\<forall>page\<in>{1..k}. \<exists>items. paged xs page psize = Ok (items, page * psize < length xs))"
proof -
  have page: "paged xs p psize = Ok (take psize (drop ((p - 1) * psize) xs), p * psize < length xs)" if "p \<in> {1..k}" for p
  proof (rule paged_eq [OF _ assms(1)])
    have "(p - 1) * psize \<le> k * psize" using that by (intro mult_le_mono1) auto
    then show "int ((p - 1) * psize) < 2 ^ 63" using assms(2) by linarith
  qed (use that in simp)
  have "concat (map (\<lambda>page. fst (projr (paged xs page psize))) [1..<Suc j]) = take (j * psize) xs" if "j \<le> k" for j
    using that
  proof (induction j)
    case (Suc j)
    then have "fst (projr (paged xs (Suc j) psize)) = take psize (drop (j * psize) xs)" using page [of "Suc j"] by simp
    moreover have "take (Suc j * psize) xs = take (j * psize) xs @ take psize (drop (j * psize) xs)"
      by (simp add: take_add [symmetric] add.commute)
    ultimately show ?case using Suc by simp
  qed simp
  then show ?thesis using page by blast
qed

lemma issue_mutation_context_Ok:
  assumes "issue_mutation_context db w r n u = Ok (access, current)"
  shows "repository_issue_access db w r (Some u) = Ok access \<and> can_read access \<and> ria_active_actor_id access \<noteq> None
    \<and> find_issue db (ria_repository access) w r n = Ok current"
  using assms by (auto simp: issue_mutation_context_def split: if_splits)

text \<open>C26. An issue is edited, closed or reopened only by an actor who can read its active repository and is either
  the author of the issue or holds the role writer, maintainer or owner.\<close>

theorem issue_changes_need_permission:
  assumes "edit_issue env db (\<lparr>ic_owner = w, ic_repository = r, ic_number = n, ic_actor = u, ic_changed_at = t\<rparr>) title body
      = Ok db' \<or> set_issue_state env db w r n u state t = Ok db'"
  shows "\<exists>access current. repository_issue_access db w r (Some u) = Ok access \<and> can_read access
    \<and> find_issue db (ria_repository access) w r n = Ok current
    \<and> rr_state (ria_repository access) = ''active''
    \<and> (ria_active_actor_id access = Some (si_author_account_id current)
       \<or> ria_role access \<in> {Some ''owner'', Some ''maintainer'', Some ''writer''})"
  using assms
proof
  assume "edit_issue env db \<lparr>ic_owner = w, ic_repository = r, ic_number = n, ic_actor = u, ic_changed_at = t\<rparr> title body
      = Ok db'"
  then show ?thesis
    by (auto simp: edit_issue_def can_write_issue_def can_read_def split: if_splits dest!: issue_mutation_context_Ok)
next
  assume "set_issue_state env db w r n u state t = Ok db'"
  then show ?thesis
    by (auto simp: set_issue_state_def can_write_issue_def can_read_def split: if_splits
        dest!: issue_mutation_context_Ok)
qed

definition sample_env :: env where
  "sample_env = \<lparr>random_id = (\<lambda>k. id32 (char_of (97 + k mod 6))), json_text = (\<lambda>_. ''x'')\<rparr>"

theorem issue_changes_need_permission_witness:
  "\<exists>access current. repository_issue_access sample_db ''acme'' ''site'' (Some ''dave'') = Ok access \<and> can_read access
    \<and> find_issue sample_db (ria_repository access) ''acme'' ''site'' 1 = Ok current
    \<and> rr_state (ria_repository access) = ''active''
    \<and> (ria_active_actor_id access = Some (si_author_account_id current)
       \<or> ria_role access \<in> {Some ''owner'', Some ''maintainer'', Some ''writer''})"
proof (rule issue_changes_need_permission)
  have "\<not> isl (set_issue_state sample_env sample_db ''acme'' ''site'' 1 ''dave'' ''closed'' 20)" by code_simp
  then have "set_issue_state sample_env sample_db ''acme'' ''site'' 1 ''dave'' ''closed'' 20
      = Ok (projr (set_issue_state sample_env sample_db ''acme'' ''site'' 1 ''dave'' ''closed'' 20))"
    by (rule not_isl_Ok)
  then show "edit_issue sample_env sample_db
      \<lparr>ic_owner = ''acme'', ic_repository = ''site'', ic_number = 1, ic_actor = ''dave'', ic_changed_at = 20\<rparr> [] []
        = Ok (projr (set_issue_state sample_env sample_db ''acme'' ''site'' 1 ''dave'' ''closed'' 20))
      \<or> set_issue_state sample_env sample_db ''acme'' ''site'' 1 ''dave'' ''closed'' 20
        = Ok (projr (set_issue_state sample_env sample_db ''acme'' ''site'' 1 ''dave'' ''closed'' 20))" ..
qed

end
