(* ===== verification/Store_Git.thy ===== *)
theory Store_Git
  imports Store_Issues
begin

text \<open>
  Git operations in \<^verbatim>\<open>src/store/mod.rs\<close>. A push or a merge is recorded as an intent before the repository on
  disk changes (\<^verbatim>\<open>pending\<close>), after its objects have been moved in (\<^verbatim>\<open>promoted\<close>) and when its refs have been
  updated (\<^verbatim>\<open>completed\<close>, with one event per ref); a failure leaves it \<^verbatim>\<open>abandoned\<close>. A merge carries a second
  row with the revision it was checked against, which is checked again when the intent completes.

  The lemmas show that every operation keeps the schema invariant; \<open>Push_Recovery\<close> follows an intent through its states.
\<close>

section \<open>Recorded refs\<close>

definition is_null_id :: "string \<Rightarrow> bool" where
  "is_null_id ident \<longleftrightarrow> list_all (\<lambda>c. c = CHR ''0'') ident"

text \<open>The last normal component of a path (\<^verbatim>\<open>Path::file_name\<close> on Unix).\<close>

definition file_name :: "string \<Rightarrow> string option" where
  "file_name path =
     (let components = filter (\<lambda>c. c \<noteq> [] \<and> c \<noteq> ''.'') (split_on (CHR ''/'') path) in
      if components = [] \<or> last components = ''..'' then None else Some (last components))"

definition managed_repository_id :: "string \<Rightarrow> string option" where
  "managed_repository_id repository_path =
     (case file_name repository_path of
        None \<Rightarrow> None
      | Some name \<Rightarrow>
          (case strip_suffix ''.git'' name of
             None \<Rightarrow> None
           | Some ident \<Rightarrow> if length ident = 32 \<and> list_all is_ascii_hexdigit ident then Some ident else None))"

definition parse_event_ref :: "blob \<Rightarrow> (store_error, string \<times> blob) result" where
  "parse_event_ref line =
     (if byte_of_char (CHR '' '') \<notin> set line then Err EventPayload
      else
        let ident = string_of_bytes (takeWhile (\<lambda>b. b \<noteq> byte_of_char (CHR '' '')) line);
            name = drop (length ident + 1) line in
        if length ident \<notin> {40, 64} \<or> \<not> list_all is_ascii_hexdigit ident then Err EventPayload
        else if name = [] then Err EventPayload
        else Ok (ident, name))"

fun parse_event_lines :: "blob list \<Rightarrow> (store_error, (string \<times> blob) list) result" where
  "parse_event_lines [] = Ok []"
| "parse_event_lines (line # lines) =
     (if line = [] then parse_event_lines lines
      else try_then (parse_event_ref line) (\<lambda>r.
        try_then (parse_event_lines lines) (\<lambda>rs. Ok (r # rs))))"

definition parse_event_refs :: "blob \<Rightarrow> (store_error, (string \<times> blob) list) result" where
  "parse_event_refs bytes = parse_event_lines (split_on (byte_of_char newline) bytes)"

section \<open>Intents\<close>

record new_git_intent =
  ngi_id :: string
  ngi_repository_path :: string
  ngi_actor :: string
  ngi_initial_refs :: blob
  ngi_proposed_refs :: blob
  ngi_event_payload :: blob
  ngi_quarantine_path :: string
  ngi_created_at :: int

record new_pull_request_merge =
  npm_owner :: string
  npm_repository :: string
  npm_number :: int
  npm_revision :: int
  npm_actor :: string
  npm_method :: string
  npm_base_ref :: string
  npm_old_target :: string
  npm_head_target :: string
  npm_new_target :: string
  npm_created_at :: int

definition begin_git_intent :: "database \<Rightarrow> new_git_intent \<Rightarrow> (store_error, database) result" where
  "begin_git_intent db intent =
     sqlite (exec_insert git_operation_intent_table (\<lambda>_. True)
       \<lparr>goi_id = ngi_id intent, goi_repository_path = ngi_repository_path intent,
        goi_actor = ngi_actor intent, goi_initial_refs = ngi_initial_refs intent,
        goi_proposed_refs = ngi_proposed_refs intent, goi_event_payload = ngi_event_payload intent,
        goi_quarantine_path = ngi_quarantine_path intent, goi_state = ''pending'',
        goi_pack_name = None, goi_created_at = ngi_created_at intent\<rparr> db)"

definition latest_revision :: "database \<Rightarrow> string \<Rightarrow> int option" where
  "latest_revision db pull_request_id =
     (case map rev_number (filter (\<lambda>r. rev_pull_request_id r = pull_request_id) (db_pull_request_revision db)) of
        [] \<Rightarrow> None
      | n # ns \<Rightarrow> Some (foldr max ns n))"

definition begin_pull_request_merge :: "database \<Rightarrow> new_pull_request_merge \<Rightarrow> new_git_intent
    \<Rightarrow> (store_error, database) result" where
  "begin_pull_request_merge db merge intent =
     try_then (repository_issue_access db (npm_owner merge) (npm_repository merge) (Some (npm_actor merge)))
       (\<lambda>access.
     if \<not> can_read access then Err PullRequestHidden
     else if \<not> can_maintain access then Err PullRequestDenied
     else if managed_repository_id (ngi_repository_path intent) \<noteq> Some (rr_id (ria_repository access))
     then Err (Integrity ''pull-request merge repository path does not match its repository'')
     else
       try_then (ok_or (PullRequestNotFound (npm_owner merge) (npm_repository merge) (npm_number merge))
         (find (\<lambda>(p, v). rev_pull_request_id v = pr_id p
             \<and> pr_repository_id p = rr_id (ria_repository access) \<and> pr_number p = npm_number merge
             \<and> Some (rev_number v) = latest_revision db (pr_id p))
           (List.product (db_pull_request db) (db_pull_request_revision db)))) (\<lambda>(p, v).
       if pr_state p \<noteq> ''open'' then Err PullRequestState
       else if pr_base_ref p \<noteq> npm_base_ref merge \<or> pr_base_object_id p \<noteq> npm_old_target merge
         \<or> pr_head_object_id p \<noteq> npm_head_target merge \<or> rev_number v \<noteq> npm_revision merge
       then Err PullRequestRevisionNotFound
       else
         try_then (parse_event_refs (ngi_initial_refs intent)) (\<lambda>initial.
         try_then (parse_event_refs (ngi_proposed_refs intent)) (\<lambda>proposed.
         if initial \<noteq> [(npm_old_target merge, as_bytes (npm_base_ref merge))]
           \<or> proposed \<noteq> [(npm_new_target merge, as_bytes (npm_base_ref merge))]
         then Err EventPayload
         else
           try_then (begin_git_intent db intent) (\<lambda>db.
           sqlite (exec_insert pull_request_merge_intent_table
             (\<lambda>m. sql_exists (\<lambda>i. goi_id i = mint_intent_id m) (db_git_operation_intent db)
                \<and> repository_exists db (mint_repository_id m)
                \<and> sql_exists (\<lambda>p. pr_id p = mint_pull_request_id m) (db_pull_request db)
                \<and> sql_exists (\<lambda>v. rev_id v = mint_revision_id m) (db_pull_request_revision db))
             \<lparr>mint_intent_id = ngi_id intent, mint_repository_id = rr_id (ria_repository access),
              mint_pull_request_id = pr_id p, mint_revision_id = rev_id v,
              mint_revision_number = npm_revision merge, mint_method = npm_method merge,
              mint_base_ref = npm_base_ref merge, mint_old_target = npm_old_target merge,
              mint_new_target = npm_new_target merge, mint_created_at = npm_created_at merge\<rparr> db))))))"

definition require_one_intent :: "string \<Rightarrow> nat \<Rightarrow> (store_error, unit) result" where
  "require_one_intent ident changed = require (changed = 1) (IntentState ident)"

definition mark_git_objects_promoted :: "database \<Rightarrow> string \<Rightarrow> string option \<Rightarrow> (store_error, database) result" where
  "mark_git_objects_promoted db ident pack_name =
     try_then (sqlite (exec_update git_operation_intent_table
       (\<lambda>i. goi_id i = ident \<and> goi_state i = ''pending'')
       (\<lambda>i. i\<lparr>goi_state := ''promoted'', goi_pack_name := pack_name\<rparr>) db)) (\<lambda>(db, changed).
     try_then (require_one_intent ident changed) (\<lambda>_. Ok db))"

text \<open>What one changed ref is recorded as: its kind, and its old and new target where there is one.\<close>

definition ref_change_kind :: "string \<Rightarrow> string \<Rightarrow> blob \<Rightarrow> (store_error, event_kind) result" where
  "ref_change_kind old new name =
     try_then
       (if starts_with name (as_bytes ''refs/tags/'') then Ok True
        else if starts_with name (as_bytes ''refs/heads/'') then Ok False
        else Err EventPayload) (\<lambda>tag.
     Ok (if is_null_id old then (if tag then TagCreated else RefCreated)
         else if is_null_id new then (if tag then TagDeleted else RefDeleted)
         else if tag then TagUpdated else RefUpdated))"

definition live_target :: "string \<Rightarrow> string option" where
  "live_target ident = (if is_null_id ident then None else Some ident)"

fun insert_ref_events :: "env \<Rightarrow> nat \<Rightarrow> database \<Rightarrow> string \<Rightarrow> string \<Rightarrow> string \<Rightarrow> int \<Rightarrow> (string \<times> blob) list
    \<Rightarrow> (string \<times> blob) list \<Rightarrow> (store_error, database) result" where
  "insert_ref_events env ordinal db repository_id intent_id actor created_at
     ((old, old_name) # initial) ((new, new_name) # proposed) =
     (if old_name \<noteq> new_name \<or> (is_null_id old \<and> is_null_id new) then Err EventPayload
      else
        try_then (ref_change_kind old new old_name) (\<lambda>kind.
        try_then (insert_domain_event env ordinal db
          \<lparr>nde_repository_id = repository_id, nde_source_intent_id = Some intent_id,
           nde_source_ordinal = Some (int ordinal), nde_issue_id = None, nde_pull_request_id = None,
           nde_event = event_reference kind old_name (live_target old) (live_target new),
           nde_actor = actor, nde_ref_name = Some old_name, nde_old_target = live_target old,
           nde_new_target = live_target new, nde_created_at = created_at\<rparr>) (\<lambda>db.
        insert_ref_events env (Suc ordinal) db repository_id intent_id actor created_at initial proposed)))"
| "insert_ref_events env ordinal db repository_id intent_id actor created_at _ _ = Ok db"

definition insert_push_events :: "env \<Rightarrow> database \<Rightarrow> string \<Rightarrow> string \<Rightarrow> string \<Rightarrow> blob \<Rightarrow> blob \<Rightarrow> int
    \<Rightarrow> (store_error, database) result" where
  "insert_push_events env db intent_id repository_path actor initial_bytes proposed_bytes created_at =
     (case managed_repository_id repository_path of
        None \<Rightarrow> Ok db
      | Some repository_id \<Rightarrow>
          if query_row repository_table (\<lambda>r. repo_id r = repository_id) db = None then Ok db
          else
            try_then (parse_event_refs initial_bytes) (\<lambda>initial.
            try_then (parse_event_refs proposed_bytes) (\<lambda>proposed.
            if length initial \<noteq> length proposed then Err EventPayload
            else
              try_then (insert_domain_event env 0 db
                \<lparr>nde_repository_id = repository_id, nde_source_intent_id = Some intent_id,
                 nde_source_ordinal = Some 0, nde_issue_id = None, nde_pull_request_id = None,
                 nde_event = event_push intent_id, nde_actor = actor, nde_ref_name = None,
                 nde_old_target = None, nde_new_target = None, nde_created_at = created_at\<rparr>) (\<lambda>db.
              try_then (insert_ref_events env 1 db repository_id intent_id actor created_at initial proposed)
                (\<lambda>db.
              audit_success db ''ref.update'' actor repository_id intent_id created_at)))))"

definition complete_pull_request_merge :: "env \<Rightarrow> nat \<Rightarrow> database \<Rightarrow> string \<Rightarrow> string \<Rightarrow> int
    \<Rightarrow> (store_error, database) result" where
  "complete_pull_request_merge env k db intent_id actor completed_at =
     (case find (\<lambda>(m, p, v). pr_id p = mint_pull_request_id m \<and> rev_id v = mint_revision_id m
             \<and> mint_intent_id m = intent_id)
           (List.product (db_pull_request_merge_intent db)
             (List.product (db_pull_request db) (db_pull_request_revision db))) of
        None \<Rightarrow> Ok db
      | Some (m, p, v) \<Rightarrow>
          if pr_state p \<noteq> ''open'' \<or> pr_base_ref p \<noteq> mint_base_ref m
            \<or> pr_base_object_id p \<noteq> mint_old_target m \<or> pr_head_object_id p \<noteq> rev_head_object_id v
            \<or> rev_base_object_id v \<noteq> mint_old_target m
            \<or> latest_revision db (pr_id p) \<noteq> Some (mint_revision_number m)
          then Err PullRequestState
          else
            try_then (sqlite (exec_update pull_request_table
              (\<lambda>q. pr_id q = mint_pull_request_id m \<and> pr_state q = ''open'')
              (\<lambda>q. q\<lparr>pr_state := ''merged'', pr_updated_at := completed_at\<rparr>) db)) (\<lambda>(db, changed).
            if changed \<noteq> 1 then Err PullRequestState
            else insert_domain_event env k db
              \<lparr>nde_repository_id = mint_repository_id m, nde_source_intent_id = Some intent_id,
               nde_source_ordinal = Some 2, nde_issue_id = None,
               nde_pull_request_id = Some (mint_pull_request_id m),
               nde_event = event_pull_request_merge (mint_pull_request_id m) (pr_number p)
                 (mint_revision_number m) (mint_method m) (mint_base_ref m) (mint_old_target m)
                 (mint_new_target m),
               nde_actor = actor, nde_ref_name = None, nde_old_target = None, nde_new_target = None,
               nde_created_at = completed_at\<rparr>))"

text \<open>The random identifiers of one transaction are drawn in order: the push events take the first ones,
  the merge event the one after them.\<close>

definition push_event_count :: "blob \<Rightarrow> nat" where
  "push_event_count refs = (case parse_event_refs refs of Inl _ \<Rightarrow> 1 | Inr rs \<Rightarrow> length rs + 1)"

definition complete_git_intent :: "env \<Rightarrow> database \<Rightarrow> string \<Rightarrow> (store_error, database) result" where
  "complete_git_intent env db ident =
     try_then (ok_or (Sqlite QueryReturnedNoRows) (query_row git_operation_intent_table
       (\<lambda>i. goi_id i = ident \<and> goi_state i = ''promoted'') db)) (\<lambda>i.
     try_then (sqlite (exec_update git_operation_intent_table
       (\<lambda>i. goi_id i = ident \<and> goi_state i = ''promoted'')
       (\<lambda>i. i\<lparr>goi_state := ''completed''\<rparr>) db)) (\<lambda>(db, changed).
     try_then (require_one_intent ident changed) (\<lambda>_.
     try_then (sqlite (exec_insert git_operation_event_table
       (\<lambda>e. sql_exists (\<lambda>i. goi_id i = goe_intent_id e) (db_git_operation_intent db))
       \<lparr>goe_id = next_rowid goe_id (db_git_operation_event db), goe_intent_id = ident,
        goe_payload = goi_event_payload i\<rparr> db)) (\<lambda>db.
     try_then (insert_push_events env db ident (goi_repository_path i) (goi_actor i) (goi_initial_refs i)
       (goi_proposed_refs i) (goi_created_at i)) (\<lambda>db.
     complete_pull_request_merge env (push_event_count (goi_initial_refs i)) db ident (goi_actor i)
       (goi_created_at i))))))"

definition abandon_git_intent :: "database \<Rightarrow> string \<Rightarrow> (store_error, database) result" where
  "abandon_git_intent db ident =
     (let (db, _) = exec_delete pull_request_merge_intent_table (\<lambda>m. mint_intent_id m = ident) db in
      try_then (sqlite (exec_update git_operation_intent_table
        (\<lambda>i. goi_id i = ident \<and> goi_state i \<in> {''pending'', ''promoted''})
        (\<lambda>i. i\<lparr>goi_state := ''abandoned''\<rparr>) db)) (\<lambda>(db, changed).
      try_then (require_one_intent ident changed) (\<lambda>_. Ok db)))"

definition git_intent_completed :: "database \<Rightarrow> string \<Rightarrow> bool" where
  "git_intent_completed db ident =
     (case query_row git_operation_intent_table (\<lambda>i. goi_id i = ident) db of
        None \<Rightarrow> False | Some i \<Rightarrow> goi_state i = ''completed'')"

definition incomplete_git_intents :: "database \<Rightarrow> git_operation_intent list" where
  "incomplete_git_intents db =
     sort_key goi_created_at (sort_key goi_id
       (filter (\<lambda>i. goi_state i \<in> {''pending'', ''promoted''}) (db_git_operation_intent db)))"

section \<open>The schema invariant\<close>

lemma parse_event_refs_wp [wp]:
  "(\<And>r. parse_event_refs b = Inr r \<Longrightarrow> Q r) \<Longrightarrow> ensures (parse_event_refs b) Q"
  by (rule ensuresI)

lemma ref_change_kind_wp [wp]:
  "(\<And>k. ref_change_kind old new n = Inr k \<Longrightarrow> Q k) \<Longrightarrow> ensures (ref_change_kind old new n) Q"
  by (rule ensuresI)

lemma require_one_intent_wp [wp]: "(n = 1 \<Longrightarrow> Q ()) \<Longrightarrow> ensures (require_one_intent i n) Q"
  unfolding require_one_intent_def by (rule ensures_require)

lemma begin_git_intent_keep [keep]:
  "db_ok db \<Longrightarrow> (\<And>db'. db_ok db' \<Longrightarrow> Q db') \<Longrightarrow> ensures (begin_git_intent db i) Q"
  unfolding begin_git_intent_def by (intro wp keep)

lemma insert_ref_events_keep [keep]:
  "db_ok db \<Longrightarrow> (\<And>db'. db_ok db' \<Longrightarrow> Q db') \<Longrightarrow> ensures (insert_ref_events env k db r i a t os ns) Q"
  by (induction env k db r i a t os ns rule: insert_ref_events.induct) (auto intro!: wp keep)

lemma insert_push_events_keep [keep]:
  "db_ok db \<Longrightarrow> (\<And>db'. db_ok db' \<Longrightarrow> Q db') \<Longrightarrow> ensures (insert_push_events env db i p a os ns t) Q"
  unfolding insert_push_events_def by (auto intro!: wp keep)

lemma complete_pull_request_merge_keep [keep]:
  "db_ok db \<Longrightarrow> (\<And>db'. db_ok db' \<Longrightarrow> Q db') \<Longrightarrow> ensures (complete_pull_request_merge env k db i a t) Q"
  unfolding complete_pull_request_merge_def by (auto intro!: wp keep)

lemma begin_git_intent_keeps: "db_ok db \<Longrightarrow> ensures (begin_git_intent db i) db_ok"
  by (intro keep)

lemma begin_pull_request_merge_keeps: "db_ok db \<Longrightarrow> ensures (begin_pull_request_merge db m i) db_ok"
  unfolding begin_pull_request_merge_def by (auto intro!: wp keep)

lemma mark_git_objects_promoted_keeps: "db_ok db \<Longrightarrow> ensures (mark_git_objects_promoted db i p) db_ok"
  unfolding mark_git_objects_promoted_def by (auto intro!: wp keep)

lemma complete_git_intent_keeps: "db_ok db \<Longrightarrow> ensures (complete_git_intent env db i) db_ok"
  unfolding complete_git_intent_def by (auto intro!: wp keep)

lemma abandon_git_intent_keeps: "db_ok db \<Longrightarrow> ensures (abandon_git_intent db i) db_ok"
  unfolding abandon_git_intent_def by (auto intro!: wp keep dest: mint.delete_keeps_ok)

end
