(* ===== verification/Store_Pulls.thy ===== *)
theory Store_Pulls
  imports Store_Git
begin

text \<open>
  Pull requests in \<^verbatim>\<open>src/store/mod.rs\<close>. Opening and revising a pull request updates refs of the repository on
  disk, so each is recorded as an intent first and completed or abandoned afterwards; a completed intent adds
  the next revision. Reviews, edits and state changes are single transactions.

  The lemmas show that every operation keeps the schema invariant; \<open>Pull_Request_Recovery\<close> and \<open>History\<close> build on them.
\<close>

section \<open>Records\<close>

record pull_request_record =
  prr_id :: string
  prr_number :: int
  prr_title :: string
  prr_body :: string
  prr_state :: string
  prr_author :: string
  prr_base_ref :: string
  prr_head_ref :: string
  prr_base_object_id :: string
  prr_head_object_id :: string
  prr_created_at :: int
  prr_updated_at :: int

record pull_request_revision_record =
  prv_id :: string
  prv_number :: int
  prv_author :: string
  prv_base_object_id :: string
  prv_head_object_id :: string
  prv_created_at :: int

record pull_request_review_record =
  prw_id :: string
  prw_revision :: int
  prw_author :: string
  prw_kind :: string
  prw_body :: string
  prw_commit_object_id :: "string option"
  prw_path :: "blob option"
  prw_side :: "string option"
  prw_line :: "int option"
  prw_created_at :: int

record pull_request_detail =
  pd_repository :: repository_record
  pd_pull_request :: pull_request_record
  pd_revisions :: "pull_request_revision_record list"
  pd_reviews :: "pull_request_review_record list"
  pd_timeline :: "timeline_record list"
  pd_reviews_page :: nat
  pd_reviews_has_next :: bool
  pd_timeline_page :: nat
  pd_timeline_has_next :: bool
  pd_can_review :: bool
  pd_can_edit :: bool
  pd_can_change_state :: bool
  pd_can_revise :: bool
  pd_can_merge :: bool

record pull_request_edit =
  pe_owner :: string
  pe_repository :: string
  pe_number :: int
  pe_actor :: string
  pe_title :: string
  pe_body :: string
  pe_changed_at :: int

record new_pull_request_review =
  npr_owner :: string
  npr_repository :: string
  npr_number :: int
  npr_revision :: int
  npr_actor :: string
  npr_kind :: string
  npr_body :: string
  npr_commit_object_id :: "string option"
  npr_path :: "blob option"
  npr_side :: "string option"
  npr_line :: "int option"
  npr_created_at :: int

record new_pull_request_ref_intent =
  npi_id :: string
  npi_pull_request_id :: string
  npi_owner :: string
  npi_repository :: string
  npi_actor :: string
  npi_title :: string
  npi_body :: string
  npi_base_ref :: string
  npi_head_ref :: string
  npi_base_object_id :: string
  npi_head_object_id :: string
  npi_created_at :: int

record pull_request_intent_insertion =
  pii_repository_id :: string
  pii_author_account_id :: int
  pii_pull_request_number :: int
  pii_revision_number :: int
  pii_old_head_object_id :: "string option"
  pii_operation :: string

section \<open>Opening and revising\<close>

text \<open>The row that \<^verbatim>\<open>insert_pull_request_intent\<close> writes is also the record that
  \<^verbatim>\<open>PullRequestRefIntentRecord::from_new\<close> returns.\<close>

definition intent_row :: "new_pull_request_ref_intent \<Rightarrow> pull_request_intent_insertion
    \<Rightarrow> pull_request_ref_intent" where
  "intent_row intent insertion = \<lparr>
     rint_id = npi_id intent, rint_repository_id = pii_repository_id insertion,
     rint_pull_request_id = npi_pull_request_id intent,
     rint_pull_request_number = pii_pull_request_number insertion,
     rint_revision_number = pii_revision_number insertion, rint_operation = pii_operation insertion,
     rint_title = npi_title intent, rint_body = npi_body intent,
     rint_author_account_id = pii_author_account_id insertion, rint_actor = npi_actor intent,
     rint_base_ref = npi_base_ref intent, rint_head_ref = npi_head_ref intent,
     rint_base_object_id = npi_base_object_id intent,
     rint_old_head_object_id = pii_old_head_object_id insertion,
     rint_head_object_id = npi_head_object_id intent, rint_state = ''pending'',
     rint_created_at = npi_created_at intent\<rparr>"

definition insert_pull_request_intent :: "database \<Rightarrow> new_pull_request_ref_intent
    \<Rightarrow> pull_request_intent_insertion \<Rightarrow> (store_error, database) result" where
  "insert_pull_request_intent db intent insertion =
     sqlite (exec_insert pull_request_ref_intent_table
       (\<lambda>i. repository_exists db (rint_repository_id i) \<and> account_exists db (rint_author_account_id i))
       (intent_row intent insertion) db)"

text \<open>The checks that opening and revising share.\<close>

definition writable_access :: "database \<Rightarrow> new_pull_request_ref_intent
    \<Rightarrow> (store_error, repository_issue_access_t \<times> int) result" where
  "writable_access db intent =
     try_then (repository_issue_access db (npi_owner intent) (npi_repository intent) (Some (npi_actor intent)))
       (\<lambda>access.
     if \<not> can_read access then Err PullRequestHidden
     else if \<not> can_write_repository access then Err PullRequestDenied
     else try_then (ok_or PullRequestDenied (ria_active_actor_id access)) (\<lambda>actor_id.
       Ok (access, actor_id)))"

definition begin_pull_request_open :: "database \<Rightarrow> new_pull_request_ref_intent
    \<Rightarrow> (store_error, database \<times> pull_request_ref_intent) result" where
  "begin_pull_request_open db intent =
     try_then (writable_access db intent) (\<lambda>(access, actor_id).
     try_then (ensure_counter db (rr_id (ria_repository access))) (\<lambda>db.
     try_then (next_pull_request_number db (rr_id (ria_repository access))) (\<lambda>(db, number).
     let insertion = \<lparr>pii_repository_id = rr_id (ria_repository access), pii_author_account_id = actor_id,
           pii_pull_request_number = number, pii_revision_number = 1, pii_old_head_object_id = None,
           pii_operation = ''open''\<rparr> in
     try_then (insert_pull_request_intent db intent insertion) (\<lambda>db.
     Ok (db, intent_row intent insertion)))))"

definition next_revision :: "database \<Rightarrow> string \<Rightarrow> int" where
  "next_revision db pull_request_id =
     (case latest_revision db pull_request_id of None \<Rightarrow> 0 | Some n \<Rightarrow> n) + 1"

definition query_pull_request :: "database \<Rightarrow> string \<Rightarrow> string \<Rightarrow> string \<Rightarrow> int
    \<Rightarrow> (store_error, pull_request) result" where
  "query_pull_request db owner repository repository_id number =
     ok_or (PullRequestNotFound owner repository number)
       (query_row pull_request_table
         (\<lambda>p. pr_repository_id p = repository_id \<and> pr_number p = number) db)"

definition begin_pull_request_revision :: "database \<Rightarrow> int \<Rightarrow> new_pull_request_ref_intent
    \<Rightarrow> (store_error, database \<times> pull_request_ref_intent) result" where
  "begin_pull_request_revision db number intent =
     try_then (writable_access db intent) (\<lambda>(access, actor_id).
     try_then (query_pull_request db (npi_owner intent) (npi_repository intent)
       (rr_id (ria_repository access)) number) (\<lambda>p.
     if pr_state p \<noteq> ''open'' then Err PullRequestState
     else if pr_id p \<noteq> npi_pull_request_id intent \<or> pr_title p \<noteq> npi_title intent
       \<or> pr_body p \<noteq> npi_body intent \<or> pr_base_ref p \<noteq> npi_base_ref intent
       \<or> pr_head_ref p \<noteq> npi_head_ref intent
     then Err (PullRequestIntentState (npi_id intent))
     else
       let insertion = \<lparr>pii_repository_id = rr_id (ria_repository access), pii_author_account_id = actor_id,
             pii_pull_request_number = number, pii_revision_number = next_revision db (pr_id p),
             pii_old_head_object_id = Some (pr_head_object_id p), pii_operation = ''revise''\<rparr> in
       try_then (insert_pull_request_intent db intent insertion) (\<lambda>db.
       Ok (db, intent_row intent insertion))))"

definition pull_request_intent :: "database \<Rightarrow> string \<Rightarrow> (store_error, pull_request_ref_intent) result" where
  "pull_request_intent db ident =
     ok_or (PullRequestIntentState ident)
       (query_row pull_request_ref_intent_table (\<lambda>i. rint_id i = ident) db)"

definition apply_pull_request_intent :: "database \<Rightarrow> pull_request_ref_intent \<Rightarrow> (store_error, database) result" where
  "apply_pull_request_intent db intent =
     (if rint_operation intent = ''open'' then
        sqlite (exec_insert pull_request_table
          (\<lambda>p. repository_exists db (pr_repository_id p) \<and> account_exists db (pr_author_account_id p))
          \<lparr>pr_id = rint_pull_request_id intent, pr_repository_id = rint_repository_id intent,
           pr_number = rint_pull_request_number intent, pr_title = rint_title intent,
           pr_body = rint_body intent, pr_state = ''open'',
           pr_author_account_id = rint_author_account_id intent, pr_base_ref = rint_base_ref intent,
           pr_head_ref = rint_head_ref intent, pr_base_object_id = rint_base_object_id intent,
           pr_head_object_id = rint_head_object_id intent, pr_created_at = rint_created_at intent,
           pr_updated_at = rint_created_at intent\<rparr> db)
      else
        try_then (sqlite (exec_update pull_request_table
          (\<lambda>p. pr_id p = rint_pull_request_id intent \<and> pr_state p = ''open''
             \<and> Some (pr_head_object_id p) = rint_old_head_object_id intent)
          (\<lambda>p. p\<lparr>pr_base_object_id := rint_base_object_id intent,
                pr_head_object_id := rint_head_object_id intent,
                pr_updated_at := rint_created_at intent\<rparr>) db)) (\<lambda>(db, changed).
        if changed \<noteq> 1 then Err (PullRequestIntentState (rint_id intent)) else Ok db))"

definition complete_pull_request_ref_intent :: "env \<Rightarrow> database \<Rightarrow> string \<Rightarrow> (store_error, database) result" where
  "complete_pull_request_ref_intent env db ident =
     try_then (pull_request_intent db ident) (\<lambda>intent.
     if rint_state intent \<noteq> ''pending'' then Err (PullRequestIntentState ident)
     else
       try_then (apply_pull_request_intent db intent) (\<lambda>db.
       try_then (sqlite (exec_insert pull_request_revision_table
         (\<lambda>v. sql_exists (\<lambda>p. pr_id p = rev_pull_request_id v) (db_pull_request db)
            \<and> account_exists db (rev_author_account_id v))
         \<lparr>rev_id = random_id env 0, rev_pull_request_id = rint_pull_request_id intent,
          rev_number = rint_revision_number intent, rev_author_account_id = rint_author_account_id intent,
          rev_base_object_id = rint_base_object_id intent, rev_head_object_id = rint_head_object_id intent,
          rev_created_at = rint_created_at intent\<rparr> db)) (\<lambda>db.
       try_then (insert_pull_request_event env 1 db (rint_repository_id intent) (rint_pull_request_id intent)
         (rint_actor intent) (rint_created_at intent)
         (event_pull_request
           (if rint_operation intent = ''open'' then PullRequestCreated else PullRequestRevised)
           \<lparr>ere_pull_request_id = rint_pull_request_id intent, ere_number = rint_pull_request_number intent,
            ere_revision = rint_revision_number intent, ere_title = rint_title intent,
            ere_base_ref = rint_base_ref intent, ere_head_ref = rint_head_ref intent,
            ere_base_object_id = rint_base_object_id intent,
            ere_head_object_id = rint_head_object_id intent\<rparr>)) (\<lambda>db.
       map_sum Sqlite fst (exec_update pull_request_ref_intent_table
         (\<lambda>i. rint_id i = ident \<and> rint_state i = ''pending'')
         (\<lambda>i. i\<lparr>rint_state := ''completed''\<rparr>) db)))))"

definition abandon_pull_request_ref_intent :: "database \<Rightarrow> string \<Rightarrow> (store_error, database) result" where
  "abandon_pull_request_ref_intent db ident =
     try_then (sqlite (exec_update pull_request_ref_intent_table
       (\<lambda>i. rint_id i = ident \<and> rint_state i = ''pending'')
       (\<lambda>i. i\<lparr>rint_state := ''abandoned''\<rparr>) db)) (\<lambda>(db, changed).
     if changed = 1 then Ok db else Err (PullRequestIntentState ident))"

definition incomplete_pull_request_ref_intents :: "database \<Rightarrow> pull_request_ref_intent list" where
  "incomplete_pull_request_ref_intents db =
     sort_key rint_created_at (sort_key rint_id
       (filter (\<lambda>i. rint_state i = ''pending'') (db_pull_request_ref_intent db)))"

section \<open>Reviews, edits and state\<close>

definition review_event_kind :: "string \<Rightarrow> (store_error, event_kind) result" where
  "review_event_kind kind =
     (if kind = ''comment'' then Ok PullRequestCommented
      else if kind = ''line-comment'' then Ok PullRequestLineCommented
      else if kind = ''approved'' then Ok PullRequestApproved
      else if kind = ''changes-requested'' then Ok PullRequestChangesRequested
      else Err PullRequestReviewAnchor)"

definition check_review_anchor :: "new_pull_request_review \<Rightarrow> pull_request_revision \<Rightarrow> (store_error, unit) result" where
  "check_review_anchor review revision =
     (if npr_kind review = ''line-comment'' then
        try_then
          (if npr_side review = Some ''base'' then Ok (rev_base_object_id revision)
           else if npr_side review = Some ''head'' then Ok (rev_head_object_id revision)
           else Err PullRequestReviewAnchor) (\<lambda>expected.
        require (npr_commit_object_id review = Some expected) PullRequestReviewAnchor)
      else Ok ())"

definition create_pull_request_review :: "env \<Rightarrow> database \<Rightarrow> new_pull_request_review
    \<Rightarrow> (store_error, database \<times> string) result" where
  "create_pull_request_review env db review =
     try_then (repository_issue_access db (npr_owner review) (npr_repository review) (Some (npr_actor review)))
       (\<lambda>access.
     if \<not> can_read access then Err PullRequestHidden
     else
       try_then (ok_or PullRequestDenied (ria_active_actor_id access)) (\<lambda>actor_id.
       try_then (query_pull_request db (npr_owner review) (npr_repository review)
         (rr_id (ria_repository access)) (npr_number review)) (\<lambda>p.
       if pr_state p \<noteq> ''open'' then Err PullRequestState
       else
         try_then (ok_or PullRequestRevisionNotFound (query_row pull_request_revision_table
           (\<lambda>v. rev_pull_request_id v = pr_id p \<and> rev_number v = npr_revision review) db)) (\<lambda>revision.
         try_then (check_review_anchor review revision) (\<lambda>_.
         let ident = random_id env 0 in
         try_then (sqlite (exec_insert pull_request_review_table
           (\<lambda>w. sql_exists (\<lambda>p. pr_id p = rvw_pull_request_id w) (db_pull_request db)
              \<and> sql_exists (\<lambda>v. rev_id v = rvw_revision_id w) (db_pull_request_revision db)
              \<and> account_exists db (rvw_author_account_id w))
           \<lparr>rvw_id = ident, rvw_pull_request_id = pr_id p, rvw_revision_id = rev_id revision,
            rvw_author_account_id = actor_id, rvw_kind = npr_kind review, rvw_body = npr_body review,
            rvw_commit_object_id = npr_commit_object_id review, rvw_path = npr_path review,
            rvw_side = npr_side review, rvw_line = npr_line review,
            rvw_created_at = npr_created_at review\<rparr> db)) (\<lambda>db.
         try_then (sqlite (exec_update pull_request_table (\<lambda>q. pr_id q = pr_id p)
           (\<lambda>q. q\<lparr>pr_updated_at := npr_created_at review\<rparr>) db)) (\<lambda>(db, _).
         try_then (review_event_kind (npr_kind review)) (\<lambda>kind.
         try_then (insert_pull_request_event env 1 db (rr_id (ria_repository access)) (pr_id p)
           (npr_actor review) (npr_created_at review)
           (event_pull_request_review kind
             \<lparr>er_pull_request_id = pr_id p, er_number = npr_number review, er_review_id = ident,
              er_revision = npr_revision review, er_body = npr_body review,
              er_commit_object_id = npr_commit_object_id review, er_path = npr_path review,
              er_side = npr_side review, er_line = npr_line review\<rparr>)) (\<lambda>db.
         Ok (db, ident))))))))))"

definition edit_pull_request :: "env \<Rightarrow> database \<Rightarrow> pull_request_edit \<Rightarrow> (store_error, database) result" where
  "edit_pull_request env db edit =
     try_then (repository_issue_access db (pe_owner edit) (pe_repository edit) (Some (pe_actor edit)))
       (\<lambda>access.
     try_then (query_pull_request db (pe_owner edit) (pe_repository edit)
       (rr_id (ria_repository access)) (pe_number edit)) (\<lambda>p.
     if \<not> can_write_issue access (pr_author_account_id p) then Err PullRequestDenied
     else if pr_state p = ''merged'' then Err PullRequestState
     else
       try_then (sqlite (exec_update pull_request_table (\<lambda>q. pr_id q = pr_id p)
         (\<lambda>q. q\<lparr>pr_title := pe_title edit, pr_body := pe_body edit,
               pr_updated_at := pe_changed_at edit\<rparr>) db)) (\<lambda>(db, _).
       insert_pull_request_event env 0 db (rr_id (ria_repository access)) (pr_id p) (pe_actor edit)
         (pe_changed_at edit)
         (event_pull_request_change PullRequestEdited (pr_id p) (pe_number edit) (pe_title edit)
           (pe_body edit) (pr_state p)))))"

definition set_pull_request_state :: "env \<Rightarrow> database \<Rightarrow> string \<Rightarrow> string \<Rightarrow> int \<Rightarrow> string \<Rightarrow> string \<Rightarrow> int
    \<Rightarrow> (store_error, database) result" where
  "set_pull_request_state env db owner repository number actor state changed_at =
     try_then (repository_issue_access db owner repository (Some actor)) (\<lambda>access.
     try_then (query_pull_request db owner repository (rr_id (ria_repository access)) number) (\<lambda>p.
     if \<not> can_write_issue access (pr_author_account_id p) then Err PullRequestDenied
     else if pr_state p = ''merged'' \<or> pr_state p = state then Err PullRequestState
     else
       try_then (sqlite (exec_update pull_request_table (\<lambda>q. pr_id q = pr_id p)
         (\<lambda>q. q\<lparr>pr_state := state, pr_updated_at := changed_at\<rparr>) db)) (\<lambda>(db, _).
       insert_pull_request_event env 0 db (rr_id (ria_repository access)) (pr_id p) actor changed_at
         (event_pull_request_change
           (if state = ''closed'' then PullRequestClosed else PullRequestReopened)
           (pr_id p) number (pr_title p) (pr_body p) state))))"

section \<open>Reads\<close>

definition pull_request_from_row :: "pull_request \<Rightarrow> account \<Rightarrow> pull_request_record" where
  "pull_request_from_row p a = \<lparr>prr_id = pr_id p, prr_number = pr_number p, prr_title = pr_title p,
     prr_body = pr_body p, prr_state = pr_state p, prr_author = acct_username a,
     prr_base_ref = pr_base_ref p, prr_head_ref = pr_head_ref p,
     prr_base_object_id = pr_base_object_id p, prr_head_object_id = pr_head_object_id p,
     prr_created_at = pr_created_at p, prr_updated_at = pr_updated_at p\<rparr>"

definition pull_request_rows :: "database \<Rightarrow> string \<Rightarrow> (pull_request \<times> account) list" where
  "pull_request_rows db repository_id =
     filter (\<lambda>(p, a). acct_id a = pr_author_account_id p \<and> pr_repository_id p = repository_id)
       (List.product (db_pull_request db) (db_account db))"

definition pull_request_revisions :: "database \<Rightarrow> string \<Rightarrow> pull_request_revision_record list" where
  "pull_request_revisions db pull_request_id =
     map (\<lambda>(v, a). \<lparr>prv_id = rev_id v, prv_number = rev_number v, prv_author = acct_username a,
            prv_base_object_id = rev_base_object_id v, prv_head_object_id = rev_head_object_id v,
            prv_created_at = rev_created_at v\<rparr>)
       (sort_key (\<lambda>(v, a). rev_number v)
         (filter (\<lambda>(v, a). acct_id a = rev_author_account_id v \<and> rev_pull_request_id v = pull_request_id)
           (List.product (db_pull_request_revision db) (db_account db))))"

definition pull_request_reviews :: "database \<Rightarrow> string \<Rightarrow> pull_request_review_record list" where
  "pull_request_reviews db pull_request_id =
     map (\<lambda>(w, v, a). \<lparr>prw_id = rvw_id w, prw_revision = rev_number v, prw_author = acct_username a,
            prw_kind = rvw_kind w, prw_body = rvw_body w, prw_commit_object_id = rvw_commit_object_id w,
            prw_path = rvw_path w, prw_side = rvw_side w, prw_line = rvw_line w,
            prw_created_at = rvw_created_at w\<rparr>)
       (rev (sort_key (\<lambda>(w, v, a). rvw_created_at w) (sort_key (\<lambda>(w, v, a). rvw_id w)
         (filter (\<lambda>(w, v, a). rev_id v = rvw_revision_id w \<and> acct_id a = rvw_author_account_id w
             \<and> rvw_pull_request_id w = pull_request_id)
           (List.product (db_pull_request_review db)
             (List.product (db_pull_request_revision db) (db_account db)))))))"

text \<open>One of the two activity lists of a pull request. Without a page the limit is \<^verbatim>\<open>i64::MAX\<close> and nothing
  is cut off; with one, a row more than the page is read. Rows are read newest first and returned oldest
  first.\<close>

definition activity_slice :: "'a list \<Rightarrow> (nat \<times> nat) option \<Rightarrow> (store_error, 'a list \<times> nat \<times> bool) result" where
  "activity_slice records activity =
     (case activity of
        None \<Rightarrow> Ok (rev (take (2 ^ 63 - 1) records), 1, False)
      | Some (page, page_size) \<Rightarrow>
          try_then (page_offset page page_size) (\<lambda>offset.
          let rows = take (min (page_size + 1) (2 ^ 63 - 1)) (drop (nat offset) records) in
          Ok (rev (take page_size rows), page, page_size < length rows)))"

definition pull_request_with_activity :: "database \<Rightarrow> string \<Rightarrow> string \<Rightarrow> int \<Rightarrow> string option
    \<Rightarrow> (nat \<times> nat \<times> nat) option \<Rightarrow> (store_error, pull_request_detail) result" where
  "pull_request_with_activity db owner repository number actor activity =
     try_then (repository_issue_access db owner repository actor) (\<lambda>access.
     if \<not> can_read access then Err PullRequestHidden
     else
       try_then (ok_or (PullRequestNotFound owner repository number)
         (find (\<lambda>(p, a). pr_number p = number) (pull_request_rows db (rr_id (ria_repository access)))))
         (\<lambda>(p, a).
       try_then (activity_slice (pull_request_reviews db (pr_id p))
         (map_option (\<lambda>(primary, _, size). (primary, size)) activity)) (\<lambda>(reviews, reviews_page, reviews_next).
       try_then (activity_slice (timeline db (\<lambda>e. ev_pull_request_id e = Some (pr_id p)))
         (map_option (\<lambda>(_, secondary, size). (secondary, size)) activity))
         (\<lambda>(events, timeline_page, timeline_next).
       let can_edit = pr_state p \<noteq> ''merged'' \<and> can_write_issue access (pr_author_account_id p) in
       Ok \<lparr>pd_repository = ria_repository access, pd_pull_request = pull_request_from_row p a,
          pd_revisions = pull_request_revisions db (pr_id p), pd_reviews = reviews,
          pd_timeline = events, pd_reviews_page = reviews_page, pd_reviews_has_next = reviews_next,
          pd_timeline_page = timeline_page, pd_timeline_has_next = timeline_next,
          pd_can_review =
            (pr_state p = ''open'' \<and> ria_active_actor_id access \<noteq> None \<and> can_read access),
          pd_can_edit = can_edit, pd_can_change_state = can_edit,
          pd_can_revise = (pr_state p = ''open'' \<and> can_write_repository access),
          pd_can_merge = (can_maintain access \<and> pr_state p = ''open'')\<rparr>))))"

definition get_pull_request :: "database \<Rightarrow> string \<Rightarrow> string \<Rightarrow> int \<Rightarrow> string option
    \<Rightarrow> (store_error, pull_request_detail) result" where
  "get_pull_request db owner repository number actor =
     pull_request_with_activity db owner repository number actor None"

definition pull_request_detail_page :: "database \<Rightarrow> string \<Rightarrow> string \<Rightarrow> int \<Rightarrow> string option
    \<Rightarrow> timeline_pagination \<Rightarrow> (store_error, pull_request_detail) result" where
  "pull_request_detail_page db owner repository number actor pagination =
     pull_request_with_activity db owner repository number actor
       (Some (tp_primary_page pagination, tp_timeline_page pagination, tp_page_size pagination))"

definition pull_request_list :: "database \<Rightarrow> string \<Rightarrow> string \<Rightarrow> pull_request_record list" where
  "pull_request_list db repository_id state =
     map (\<lambda>(p, a). pull_request_from_row p a)
       (rev (sort_key (\<lambda>(p, a). pr_number p)
         (filter (\<lambda>(p, a). state = ''all'' \<or> pr_state p = state) (pull_request_rows db repository_id))))"

definition pull_request_page :: "database \<Rightarrow> string \<Rightarrow> string \<Rightarrow> string option \<Rightarrow> string \<Rightarrow> nat \<Rightarrow> nat
    \<Rightarrow> (store_error, repository_record \<times> pull_request_record record_page \<times> bool) result" where
  "pull_request_page db owner repository actor state page page_size =
     try_then (repository_issue_access db owner repository actor) (\<lambda>access.
     if \<not> can_read access then Err PullRequestHidden
     else
       try_then (paged (pull_request_list db (rr_id (ria_repository access)) state) page page_size)
         (\<lambda>(items, has_next).
       Ok (ria_repository access, \<lparr>rp_items = items, rp_page = page, rp_has_next = has_next\<rparr>,
           can_write_repository access)))"

section \<open>The schema invariant\<close>

lemma writable_access_wp [wp]:
  "(\<And>a i. writable_access db n = Inr (a, i) \<Longrightarrow> Q (a, i)) \<Longrightarrow> ensures (writable_access db n) Q"
  by (rule ensuresI) auto

lemma query_pull_request_wp [wp]:
  "(\<And>p. p \<in> set (db_pull_request db) \<Longrightarrow> pr_repository_id p = i \<Longrightarrow> pr_number p = n \<Longrightarrow> Q p)
   \<Longrightarrow> ensures (query_pull_request db w r i n) Q"
  by (rule ensuresI) (auto simp: query_pull_request_def dest!: query_row_Some)

lemma pull_request_intent_wp [wp]:
  "(\<And>p. p \<in> set (db_pull_request_ref_intent db) \<Longrightarrow> rint_id p = i \<Longrightarrow> Q p)
   \<Longrightarrow> ensures (pull_request_intent db i) Q"
  by (rule ensuresI) (auto simp: pull_request_intent_def dest!: query_row_Some)

lemma review_event_kind_wp [wp]: "(\<And>k. Q k) \<Longrightarrow> ensures (review_event_kind s) Q"
  by (rule ensuresI) simp

lemma check_review_anchor_wp [wp]:
  "(check_review_anchor w v = Inr () \<Longrightarrow> Q ()) \<Longrightarrow> ensures (check_review_anchor w v) Q"
  by (rule ensuresI) simp

lemma insert_pull_request_intent_keep [keep]:
  "db_ok db \<Longrightarrow> (\<And>db'. db_ok db' \<Longrightarrow> Q db') \<Longrightarrow> ensures (insert_pull_request_intent db i n) Q"
  unfolding insert_pull_request_intent_def by (intro wp keep)

lemma apply_pull_request_intent_keep [keep]:
  "db_ok db \<Longrightarrow> (\<And>db'. db_ok db' \<Longrightarrow> Q db') \<Longrightarrow> ensures (apply_pull_request_intent db i) Q"
  unfolding apply_pull_request_intent_def by (auto intro!: wp keep)

lemma begin_pull_request_open_keeps:
  "db_ok db \<Longrightarrow> ensures (begin_pull_request_open db i) (\<lambda>(db', _). db_ok db')"
  unfolding begin_pull_request_open_def by (auto intro!: wp keep)

lemma begin_pull_request_revision_keeps:
  "db_ok db \<Longrightarrow> ensures (begin_pull_request_revision db n i) (\<lambda>(db', _). db_ok db')"
  unfolding begin_pull_request_revision_def by (auto intro!: wp keep)

lemma complete_pull_request_ref_intent_keeps:
  "db_ok db \<Longrightarrow> ensures (complete_pull_request_ref_intent env db i) db_ok"
  unfolding complete_pull_request_ref_intent_def by (auto intro!: wp keep)

lemma abandon_pull_request_ref_intent_keeps:
  "db_ok db \<Longrightarrow> ensures (abandon_pull_request_ref_intent db i) db_ok"
  unfolding abandon_pull_request_ref_intent_def by (auto intro!: wp keep)

lemma create_pull_request_review_keeps:
  "db_ok db \<Longrightarrow> ensures (create_pull_request_review env db r) (\<lambda>(db', _). db_ok db')"
  unfolding create_pull_request_review_def by (auto intro!: wp keep)

lemma edit_pull_request_keeps: "db_ok db \<Longrightarrow> ensures (edit_pull_request env db e) db_ok"
  unfolding edit_pull_request_def by (auto intro!: wp keep)

lemma set_pull_request_state_keeps: "db_ok db \<Longrightarrow> ensures (set_pull_request_state env db w r n a s t) db_ok"
  unfolding set_pull_request_state_def by (auto intro!: wp keep)

end
