(* ===== verification/Store_Feeds.thy ===== *)
theory Store_Feeds
  imports Store_Pulls
begin

text \<open>
  Watches, feed tokens, activity listings, profiles and maintenance in \<^verbatim>\<open>src/store/mod.rs\<close>. The activity of
  watched repositories is filtered by a visibility predicate of its own, written into the SQL; a lemma shows
  that it admits exactly what the role query admits. The cursor of a page makes the next call continue where
  the page ended.
\<close>

section \<open>Watches\<close>

record watch_record =
  wr_id :: string
  wr_created_at :: int
  wr_updated_at :: int

definition watch_from_row :: "watch \<Rightarrow> watch_record" where
  "watch_from_row w = \<lparr>wr_id = watch_id w, wr_created_at = watch_created_at w,
     wr_updated_at = watch_updated_at w\<rparr>"

definition query_watch :: "database \<Rightarrow> string \<Rightarrow> int \<Rightarrow> watch_record option" where
  "query_watch db repository_id account_id =
     map_option watch_from_row (query_row watch_table
       (\<lambda>w. watch_repository_id w = repository_id \<and> watch_account_id w = account_id) db)"

definition get_watch :: "database \<Rightarrow> string \<Rightarrow> string \<Rightarrow> string option
    \<Rightarrow> (store_error, repository_record \<times> watch_record option) result" where
  "get_watch db owner repository actor =
     try_then (repository_issue_access db owner repository actor) (\<lambda>access.
     if \<not> can_read access then Err WatchDenied
     else Ok (ria_repository access,
       case ria_active_actor_id access of
         Some actor_id \<Rightarrow> query_watch db (rr_id (ria_repository access)) actor_id
       | None \<Rightarrow> None))"

definition set_watch :: "env \<Rightarrow> database \<Rightarrow> string \<Rightarrow> string \<Rightarrow> string \<Rightarrow> bool \<Rightarrow> int
    \<Rightarrow> (store_error, database \<times> watch_record option) result" where
  "set_watch env db owner repository actor watching changed_at =
     try_then (repository_issue_access db owner repository (Some actor)) (\<lambda>access.
     try_then (ok_or WatchDenied (ria_active_actor_id access)) (\<lambda>actor_id.
     if \<not> can_read access then Err WatchDenied
     else if \<not> watching then
       Ok (fst (exec_delete watch_table (\<lambda>w. watch_repository_id w = rr_id (ria_repository access)
              \<and> watch_account_id w = actor_id) db), None)
     else
       try_then (sqlite (exec_upsert watch_table
         (\<lambda>w. repository_exists db (watch_repository_id w) \<and> account_exists db (watch_account_id w))
         (\<lambda>w. watch_repository_id w = rr_id (ria_repository access) \<and> watch_account_id w = actor_id)
         \<lparr>watch_id = random_id env 0, watch_repository_id = rr_id (ria_repository access),
          watch_account_id = actor_id, watch_created_at = changed_at, watch_updated_at = changed_at\<rparr>
         (\<lambda>w. w\<lparr>watch_updated_at := changed_at\<rparr>) db)) (\<lambda>db.
       try_then (ok_or (Sqlite QueryReturnedNoRows)
         (query_watch db (rr_id (ria_repository access)) actor_id)) (\<lambda>record.
       Ok (db, Some record)))))"

section \<open>Feed tokens\<close>

record feed_token_record =
  ftr_id :: string
  ftr_scope :: string
  ftr_created_at :: int
  ftr_revoked_at :: "int option"

definition MAX_ACTIVE_FEED_TOKENS :: nat where "MAX_ACTIVE_FEED_TOKENS = 1"

definition feed_token_from_row :: "feed_token \<Rightarrow> feed_token_record" where
  "feed_token_from_row t = \<lparr>ftr_id = tok_id t, ftr_scope = tok_scope t,
     ftr_created_at = tok_created_at t, ftr_revoked_at = tok_revoked_at t\<rparr>"

definition insert_feed_token :: "env \<Rightarrow> database \<Rightarrow> int \<Rightarrow> blob \<Rightarrow> int
    \<Rightarrow> (store_error, database \<times> feed_token_record) result" where
  "insert_feed_token env db account_id token_hash created_at =
     (let row = \<lparr>tok_id = random_id env 0, tok_token_hash = token_hash, tok_account_id = account_id,
            tok_scope = ''watched'', tok_repository_id = None, tok_created_at = created_at,
            tok_revoked_at = None\<rparr> in
      try_then (sqlite (exec_insert feed_token_table (\<lambda>t. account_exists db (tok_account_id t)) row db)) (\<lambda>db.
      Ok (db, feed_token_from_row row)))"

definition create_feed_token :: "env \<Rightarrow> database \<Rightarrow> string \<Rightarrow> blob \<Rightarrow> int
    \<Rightarrow> (store_error, database \<times> feed_token_record) result" where
  "create_feed_token env db actor token_hash created_at =
     try_then (active_account_id db actor) (\<lambda>account_id.
     if count_rows feed_token_table (\<lambda>t. tok_account_id t = account_id \<and> tok_revoked_at t = None) db
        \<ge> MAX_ACTIVE_FEED_TOKENS
     then Err FeedTokenLimit
     else insert_feed_token env db account_id token_hash created_at)"

definition feed_tokens :: "database \<Rightarrow> string \<Rightarrow> (store_error, feed_token_record list) result" where
  "feed_tokens db actor =
     try_then (active_account_id db actor) (\<lambda>account_id.
     Ok (map feed_token_from_row (take 100
       (sort_key (\<lambda>t. - tok_created_at t) (sort_key tok_id
         (filter (\<lambda>t. tok_account_id t = account_id) (db_feed_token db)))))))"

definition rotate_feed_token :: "env \<Rightarrow> database \<Rightarrow> string \<Rightarrow> string \<Rightarrow> blob \<Rightarrow> int
    \<Rightarrow> (store_error, database \<times> feed_token_record) result" where
  "rotate_feed_token env db actor ident token_hash changed_at =
     try_then (active_account_id db actor) (\<lambda>account_id.
     try_then (ok_or FeedTokenNotFound (query_row feed_token_table
       (\<lambda>t. tok_id t = ident \<and> tok_account_id t = account_id \<and> tok_revoked_at t = None) db)) (\<lambda>_.
     try_then (sqlite (exec_update feed_token_table
       (\<lambda>t. tok_id t = ident \<and> tok_account_id t = account_id \<and> tok_revoked_at t = None)
       (\<lambda>t. t\<lparr>tok_revoked_at := Some changed_at\<rparr>) db)) (\<lambda>(db, _).
     insert_feed_token env db account_id token_hash changed_at)))"

definition revoke_feed_token :: "database \<Rightarrow> string \<Rightarrow> string \<Rightarrow> int \<Rightarrow> (store_error, database) result" where
  "revoke_feed_token db actor ident revoked_at =
     try_then (active_account_id db actor) (\<lambda>account_id.
     try_then (sqlite (exec_update feed_token_table
       (\<lambda>t. tok_id t = ident \<and> tok_account_id t = account_id \<and> tok_revoked_at t = None)
       (\<lambda>t. t\<lparr>tok_revoked_at := Some revoked_at\<rparr>) db)) (\<lambda>(db, changed).
     if changed = 0 then Err FeedTokenNotFound else Ok db))"

section \<open>Activity\<close>

record activity_cursor =
  cur_created_at :: int
  cur_event_id :: string

record activity_page =
  ap_events :: "(repository_record \<times> repository_event) list"
  ap_next_before :: "activity_cursor option"

text \<open>The visibility predicate of the watched-activity query and of the search candidates: what an active
  account (or nobody) may see.\<close>

definition visible_to :: "database \<Rightarrow> repository \<Rightarrow> namespace \<Rightarrow> int option \<Rightarrow> bool" where
  "visible_to db r n account_id \<longleftrightarrow>
     repo_state r = ''active''
     \<and> (repo_visibility r = ''public''
        \<or> (account_id \<noteq> None \<and> ns_account_id n = account_id)
        \<or> sql_exists (\<lambda>m. mem_organization_id m = ns_id n \<and> Some (mem_account_id m) = account_id)
            (db_organization_member db)
        \<or> sql_exists (\<lambda>c. collab_repository_id c = repo_id r \<and> Some (collab_account_id c) = account_id)
            (db_repository_collaborator db))"

definition watched_rows :: "database \<Rightarrow> int \<Rightarrow> (repository_record \<times> repository_event) list" where
  "watched_rows db account_id =
     map (\<lambda>(e, r, n, w). (repository_from_row r n, e))
       (filter (\<lambda>(e, r, n, w). repo_id r = ev_repository_id e \<and> ns_id n = repo_owner_namespace_id r
           \<and> watch_repository_id w = repo_id r \<and> watch_account_id w = account_id
           \<and> visible_to db r n (Some account_id))
         (List.product (db_repository_event db)
           (List.product (db_repository db) (List.product (db_namespace db) (db_watch db)))))"

text \<open>\<^verbatim>\<open>ORDER BY created_at DESC, event_id DESC\<close>; event ids are unique.\<close>

definition newest_first :: "(repository_record \<times> repository_event) list
    \<Rightarrow> (repository_record \<times> repository_event) list" where
  "newest_first rs = rev (sort_key (\<lambda>(_, e). ev_created_at e) (sort_key (\<lambda>(_, e). ev_event_id e) rs))"

definition before_cursor :: "activity_cursor \<Rightarrow> repository_event \<Rightarrow> bool" where
  "before_cursor c e \<longleftrightarrow> ev_created_at e < cur_created_at c
     \<or> (ev_created_at e = cur_created_at c \<and> ev_event_id e < cur_event_id c)"

definition watched_activity_events :: "database \<Rightarrow> int \<Rightarrow> activity_cursor option \<Rightarrow> nat
    \<Rightarrow> (repository_record \<times> repository_event) list" where
  "watched_activity_events db account_id before limit =
     take limit (newest_first (filter (\<lambda>(_, e). case before of None \<Rightarrow> True | Some c \<Rightarrow> before_cursor c e)
       (watched_rows db account_id)))"

definition token_feed_events :: "database \<Rightarrow> blob \<Rightarrow> nat
    \<Rightarrow> (store_error, string \<times> (repository_record \<times> repository_event) list) result" where
  "token_feed_events db token_hash limit =
     (if 2 ^ 63 \<le> int limit then Err EventLimit
      else
        try_then (ok_or FeedTokenNotFound
          (find (\<lambda>(t, a). acct_id a = tok_account_id t \<and> tok_token_hash t = token_hash
              \<and> tok_revoked_at t = None \<and> acct_state a = ''active'')
            (List.product (db_feed_token db) (db_account db)))) (\<lambda>(t, a).
        if tok_scope t \<noteq> ''watched'' then Err InvalidFeedScope
        else Ok (acct_username a, watched_activity_events db (acct_id a) None limit)))"

definition watched_activity_page :: "database \<Rightarrow> string \<Rightarrow> activity_cursor option \<Rightarrow> nat
    \<Rightarrow> (store_error, activity_page) result" where
  "watched_activity_page db actor before limit =
     (if limit = 0 \<or> 100 < limit then Err EventLimit
      else
        try_then (active_account_id db actor) (\<lambda>account_id.
        let events = watched_activity_events db account_id before (limit + 1);
            shown = take limit events in
        Ok \<lparr>ap_events = shown,
           ap_next_before =
             (if limit < length events
              then Some \<lparr>cur_created_at = ev_created_at (snd (last shown)),
                        cur_event_id = ev_event_id (snd (last shown))\<rparr>
              else None)\<rparr>))"

definition repository_events_for :: "database \<Rightarrow> repository_record \<Rightarrow> int option \<Rightarrow> nat \<Rightarrow> string option
    \<Rightarrow> (store_error, repository_record \<times> repository_event list) result" where
  "repository_events_for db repository before limit event_kind_prefix =
     (if 2 ^ 63 \<le> int limit then Err EventLimit
      else Ok (repository, take limit (rev (sort_key ev_sequence
        (filter (\<lambda>e. ev_repository_id e = rr_id repository
            \<and> (case before of None \<Rightarrow> True | Some s \<Rightarrow> ev_sequence e < s)
            \<and> (case event_kind_prefix of None \<Rightarrow> True
                | Some p \<Rightarrow> starts_with (as_str (ev_kind e)) (p @ ''-'')))
          (db_repository_event db))))))"

definition repository_events :: "database \<Rightarrow> string \<Rightarrow> string \<Rightarrow> int option \<Rightarrow> nat
    \<Rightarrow> (store_error, repository_record \<times> repository_event list) result" where
  "repository_events db owner slug before limit =
     try_then (store_repository db owner slug) (\<lambda>r. repository_events_for db r before limit None)"

definition repository_issue_events :: "database \<Rightarrow> string \<Rightarrow> string \<Rightarrow> int option \<Rightarrow> nat
    \<Rightarrow> (store_error, repository_record \<times> repository_event list) result" where
  "repository_issue_events db owner slug before limit =
     try_then (store_repository db owner slug) (\<lambda>r. repository_events_for db r before limit (Some ''issue''))"

definition repository_pull_request_events :: "database \<Rightarrow> string \<Rightarrow> string \<Rightarrow> int option \<Rightarrow> nat
    \<Rightarrow> (store_error, repository_record \<times> repository_event list) result" where
  "repository_pull_request_events db owner slug before limit =
     try_then (store_repository db owner slug) (\<lambda>r.
       repository_events_for db r before limit (Some ''pull-request''))"

text \<open>The rows that \<^verbatim>\<open>visit_metadata_search_candidates\<close> visits; the visitor is the caller's.\<close>

definition visible_repositories :: "database \<Rightarrow> string option \<Rightarrow> (repository \<times> namespace) list" where
  "visible_repositories db actor =
     (let account_id = map_option acct_id
            (find (\<lambda>a. Some (acct_username a) = actor \<and> acct_state a = ''active'') (db_account db)) in
      sort_key (\<lambda>(r, n). ns_slug n) (sort_key (\<lambda>(r, n). repo_slug r)
        (filter (\<lambda>(r, n). ns_id n = repo_owner_namespace_id r \<and> visible_to db r n account_id)
          (List.product (db_repository db) (db_namespace db)))))"

fun visit_rows :: "nat \<Rightarrow> ('c \<Rightarrow> 's \<Rightarrow> bool \<times> 's) \<Rightarrow> 's \<Rightarrow> 'c list \<Rightarrow> bool \<times> 's" where
  "visit_rows limit visit s [] = (False, s)"
| "visit_rows 0 visit s (c # cs) = (True, s)"
| "visit_rows (Suc limit) visit s (c # cs) =
     (let (more, s') = visit c s in if more then visit_rows limit visit s' cs else (True, s'))"

definition visit_metadata_search_candidates :: "database \<Rightarrow> string option \<Rightarrow> nat
    \<Rightarrow> (repository \<times> namespace \<Rightarrow> 's \<Rightarrow> bool \<times> 's) \<Rightarrow> 's \<Rightarrow> (store_error, bool \<times> 's) result" where
  "visit_metadata_search_candidates db actor limit visit s =
     (if 2 ^ 63 \<le> int (limit + 1) then Err EventLimit
      else Ok (visit_rows limit visit s (take (limit + 1) (visible_repositories db actor))))"

definition all_repositories :: "database \<Rightarrow> repository_record list" where
  "all_repositories db =
     map (\<lambda>(r, n). repository_from_row r n)
       (sort_key (\<lambda>(r, n). ns_slug n) (sort_key (\<lambda>(r, n). repo_slug r)
         (filter (\<lambda>(r, n). ns_id n = repo_owner_namespace_id r)
           (List.product (db_repository db) (db_namespace db)))))"

record active_ssh_identity =
  asi_username :: string
  asi_canonical_key :: string
  asi_fingerprint :: string

definition active_ssh_identities :: "database \<Rightarrow> active_ssh_identity list" where
  "active_ssh_identities db =
     map (\<lambda>(k, a). \<lparr>asi_username = acct_username a, asi_canonical_key = key_canonical_key k,
            asi_fingerprint = key_fingerprint k\<rparr>)
       (sort_key (\<lambda>(k, a). key_id k)
         (filter (\<lambda>(k, a). acct_id a = key_account_id k \<and> acct_state a = ''active''
             \<and> key_revoked_at k = None)
           (List.product (db_ssh_public_key db) (db_account db))))"

definition update_profile :: "database \<Rightarrow> string \<Rightarrow> string \<Rightarrow> string \<Rightarrow> (store_error, database) result" where
  "update_profile db username bio contact_email =
     try_then (sqlite (exec_update account_table
       (\<lambda>a. acct_username a = username \<and> acct_state a = ''active'')
       (\<lambda>a. a\<lparr>acct_bio := bio, acct_contact_email := contact_email\<rparr>) db)) (\<lambda>(db, changed).
     if changed = 1 then Ok db else Err (AccountNotFound username))"

definition audit_events :: "database \<Rightarrow> nat \<Rightarrow> (store_error, audit_event list) result" where
  "audit_events db limit =
     (if limit = 0 \<or> 1000 < limit then Err AuditLimit
      else Ok (take limit (rev (sort_key aud_id (db_audit_event db)))))"

section \<open>Maintenance\<close>

text \<open>The six deletions and the count of deleted rows; the sum is far below the range of \<^verbatim>\<open>usize\<close>, which the
  checked addition guards.\<close>

definition maintain :: "database \<Rightarrow> int \<Rightarrow> (store_error, database \<times> nat) result" where
  "maintain db cutoff =
     (let (db, n1) = exec_delete signup_invitation_table (\<lambda>i. inv_expires_at i < cutoff) db;
          (db, n2) = exec_delete login_nonce_table (\<lambda>n. nonce_expires_at n < cutoff) db;
          (db, n3) = exec_delete ssh_login_approval_table (\<lambda>p. appr_expires_at p < cutoff) db;
          (db, n4) = exec_delete web_session_table
            (\<lambda>s. sess_expires_at s < cutoff \<or> (case sess_ended_at s of None \<Rightarrow> False | Some t \<Rightarrow> t < cutoff)) db;
          (db, n5) = exec_delete feed_token_table
            (\<lambda>t. case tok_revoked_at t of None \<Rightarrow> False | Some x \<Rightarrow> x < cutoff) db;
          (db, n6) = exec_delete audit_event_table (\<lambda>a. aud_created_at a < cutoff) db;
          deleted = n1 + n2 + n3 + n4 + n5 + n6
      in if 2 ^ 64 \<le> int deleted then Err EventLimit else Ok (db, deleted))"

section \<open>The schema invariant\<close>

lemma insert_feed_token_keep [keep]:
  "db_ok db \<Longrightarrow> (\<And>db' r. db_ok db' \<Longrightarrow> Q (db', r)) \<Longrightarrow> ensures (insert_feed_token env db a h t) Q"
  unfolding insert_feed_token_def by (auto intro!: wp keep)

lemma set_watch_keeps: "db_ok db \<Longrightarrow> ensures (set_watch env db w r a b t) (\<lambda>(db', _). db_ok db')"
  unfolding set_watch_def by (auto intro!: wp keep watch.delete_ok)

lemma create_feed_token_keeps: "db_ok db \<Longrightarrow> ensures (create_feed_token env db a h t) (\<lambda>(db', _). db_ok db')"
  unfolding create_feed_token_def by (auto intro!: wp keep)

lemma rotate_feed_token_keeps:
  "db_ok db \<Longrightarrow> ensures (rotate_feed_token env db a i h t) (\<lambda>(db', _). db_ok db')"
  unfolding rotate_feed_token_def by (auto intro!: wp keep)

lemma revoke_feed_token_keeps: "db_ok db \<Longrightarrow> ensures (revoke_feed_token db a i t) db_ok"
  unfolding revoke_feed_token_def by (auto intro!: wp keep)

lemma update_profile_keeps: "db_ok db \<Longrightarrow> ensures (update_profile db u b c) db_ok"
  unfolding update_profile_def by (auto intro!: wp keep)

lemma maintain_keeps: "db_ok db \<Longrightarrow> ensures (maintain db c) (\<lambda>(db', _). db_ok db')"
  unfolding maintain_def
  by (auto intro!: wp simp: Let_def split: prod.splits)
    (meson inv.delete_keeps_ok nonce.delete_keeps_ok appr.delete_keeps_ok sess.delete_keeps_ok
      tok.delete_keeps_ok aud.delete_keeps_ok)

end
