(* ===== verification/Policy.thy ===== *)
theory Policy
  imports Store_Feeds
begin

text \<open>
  The authorization policy (\<^verbatim>\<open>src/policy.rs\<close>) over the store's role query.

  The abstract specification is a set of grants: the owner of a namespace holds the role owner, a member of an
  organization the role of the membership, a collaborator the role of the collaboration. The effective role is
  the greatest one granted. The SQL CASE expression of the store computes it, and the policy, the access checks
  of issues and pull requests and the visibility filter of activity and search all decide by it.
\<close>

section \<open>The policy\<close>

datatype ref_change = CreateRef | FastForward | Force | DeleteRef | TagUpdate

datatype repository_operation = ReadOp | WriteOp | MaintainOp

datatype role = Owner | Maintainer | Writer | Reader

datatype policy_error = StoreFailure store_error | Denied | InvalidRole

definition parse_role :: "string \<Rightarrow> (policy_error, role) result" where
  "parse_role s =
     (if s = ''owner'' then Ok Owner
      else if s = ''maintainer'' then Ok Maintainer
      else if s = ''writer'' then Ok Writer
      else if s = ''reader'' then Ok Reader
      else Err InvalidRole)"

definition allows :: "repository_authorization_record \<Rightarrow> repository_operation \<Rightarrow> (policy_error, bool) result" where
  "allows record operation =
     (if rr_state (rar_repository record) \<noteq> ''active'' then Ok False
      else
        try_then (case rar_role record of None \<Rightarrow> Ok None | Some s \<Rightarrow> map_sum id Some (parse_role s)) (\<lambda>role.
        case operation of
          ReadOp \<Rightarrow> Ok (rr_visibility (rar_repository record) = ''public'' \<or> role \<noteq> None)
        | WriteOp \<Rightarrow> Ok (role \<in> {Some Owner, Some Maintainer, Some Writer})
        | MaintainOp \<Rightarrow> Ok (role \<in> {Some Owner, Some Maintainer})))"

definition authorize :: "database \<Rightarrow> string option \<Rightarrow> string \<Rightarrow> string \<Rightarrow> repository_operation
    \<Rightarrow> (policy_error, repository_record) result" where
  "authorize db actor owner repository operation =
     try_then (map_err StoreFailure (repository_authorization db owner repository actor)) (\<lambda>record.
     try_then (allows record operation) (\<lambda>allowed.
     if allowed then Ok (rar_repository record) else Err Denied))"

definition authorize_ref_change :: "database \<Rightarrow> string \<Rightarrow> string \<Rightarrow> string \<Rightarrow> blob \<Rightarrow> ref_change
    \<Rightarrow> (policy_error, repository_record) result" where
  "authorize_ref_change db actor owner repository ref_name change =
     try_then (map_err StoreFailure (repository_authorization db owner repository (Some actor))) (\<lambda>record.
     try_then (allows record WriteOp) (\<lambda>may_write.
     if \<not> may_write then Err Denied
     else
       try_then (map_err StoreFailure (repository_default_branch db owner repository)) (\<lambda>default_branch.
       let protected = (ref_name = as_bytes default_branch) in
       if change = Force \<or> (protected \<and> change = DeleteRef) then Err Denied
       else
         try_then (if protected then allows record MaintainOp else Ok True) (\<lambda>ok.
         if \<not> ok then Err Denied else Ok (rar_repository record)))))"

definition authorize_merge :: "database \<Rightarrow> string \<Rightarrow> string \<Rightarrow> string \<Rightarrow> (policy_error, repository_record) result" where
  "authorize_merge db actor owner repository = authorize db (Some actor) owner repository MaintainOp"

section \<open>Specification: grants and the effective role\<close>

definition role_rank :: "role \<Rightarrow> nat" where
  "role_rank r = (case r of Owner \<Rightarrow> 3 | Maintainer \<Rightarrow> 2 | Writer \<Rightarrow> 1 | Reader \<Rightarrow> 0)"

instantiation role :: linorder
begin

definition less_eq_role :: "role \<Rightarrow> role \<Rightarrow> bool" where
  "less_eq_role r s \<longleftrightarrow> role_rank r \<le> role_rank s"

definition less_role :: "role \<Rightarrow> role \<Rightarrow> bool" where
  "less_role r s \<longleftrightarrow> role_rank r < role_rank s"

instance
  by standard (auto simp: less_eq_role_def less_role_def role_rank_def split: role.splits)

end

definition role_name :: "role \<Rightarrow> string" where
  "role_name r = (case r of Owner \<Rightarrow> ''owner'' | Maintainer \<Rightarrow> ''maintainer''
     | Writer \<Rightarrow> ''writer'' | Reader \<Rightarrow> ''reader'')"

text \<open>\<open>granted db r n a x\<close>: account \<open>a\<close> is granted role \<open>x\<close> on repository \<open>r\<close> of namespace \<open>n\<close>.\<close>

definition granted :: "database \<Rightarrow> repository \<Rightarrow> namespace \<Rightarrow> account \<Rightarrow> role \<Rightarrow> bool" where
  "granted db r n a x \<longleftrightarrow>
     (x = Owner \<and> ns_account_id n = Some (acct_id a))
     \<or> (\<exists>m\<in>set (db_organization_member db). mem_organization_id m = ns_id n
           \<and> mem_account_id m = acct_id a \<and> mem_role m = role_name x)
     \<or> (\<exists>c\<in>set (db_repository_collaborator db). collab_repository_id c = repo_id r
           \<and> collab_account_id c = acct_id a \<and> collab_role c = role_name x)"

text \<open>\<open>holds_role db r n u x\<close>: the greatest role that the active account named \<open>u\<close> is granted is \<open>x\<close>.\<close>

definition holds_role :: "database \<Rightarrow> repository \<Rightarrow> namespace \<Rightarrow> string option \<Rightarrow> role \<Rightarrow> bool" where
  "holds_role db r n u x \<longleftrightarrow>
     (\<exists>a\<in>set (db_account db). Some (acct_username a) = u \<and> acct_state a = ''active''
        \<and> granted db r n a x \<and> (\<forall>y. granted db r n a y \<longrightarrow> y \<le> x))"

definition permits :: "role option \<Rightarrow> repository \<Rightarrow> repository_operation \<Rightarrow> bool" where
  "permits role r operation \<longleftrightarrow> repo_state r = ''active''
     \<and> (case operation of
          ReadOp \<Rightarrow> repo_visibility r = ''public'' \<or> role \<noteq> None
        | WriteOp \<Rightarrow> (case role of None \<Rightarrow> False | Some x \<Rightarrow> Writer \<le> x)
        | MaintainOp \<Rightarrow> (case role of None \<Rightarrow> False | Some x \<Rightarrow> Maintainer \<le> x))"

section \<open>The role query computes the effective role\<close>

lemma role_name_inject [simp]: "role_name x = role_name y \<longleftrightarrow> x = y"
  by (simp add: role_name_def split: role.splits)

lemma role_name_simps [simp]:
  "role_name Owner = ''owner''" "role_name Maintainer = ''maintainer''"
  "role_name Writer = ''writer''" "role_name Reader = ''reader''"
  by (simp_all add: role_name_def)

lemma parse_role_name [simp]: "parse_role (role_name x) = Ok x"
  by (cases x) (simp_all add: parse_role_def)

lemma role_le_simps [simp]:
  "(x :: role) \<le> Owner" "Reader \<le> (x :: role)"
  "Owner \<le> x \<longleftrightarrow> x = Owner" "Maintainer \<le> x \<longleftrightarrow> x \<in> {Owner, Maintainer}" "Writer \<le> x \<longleftrightarrow> x \<noteq> Reader"
  by (cases x; simp add: less_eq_role_def role_rank_def)+

lemma ex_role: "(\<exists>x. P x) \<longleftrightarrow> P Owner \<or> P Maintainer \<or> P Writer \<or> P Reader"
  by (metis role.exhaust)

lemma join_actor_Some:
  assumes "db_ok db"
  shows "join_actor db u = Some a \<longleftrightarrow> a \<in> set (db_account db) \<and> Some (acct_username a) = u"
proof
  assume "join_actor db u = Some a"
  then show "a \<in> set (db_account db) \<and> Some (acct_username a) = u"
    unfolding join_actor_def by (rule find_SomeD)
next
  assume a: "a \<in> set (db_account db) \<and> Some (acct_username a) = u"
  have "distinct (map acct_username (db_account db))"
    using acct.ok_uniq [OF assms] by (simp add: account_uniq_def unique_by_def)
  then show "join_actor db u = Some a"
    unfolding join_actor_def using a by (intro find_unique_key [where key = acct_username]) auto
qed

lemma join_member_Some:
  assumes "db_ok db"
  shows "join_member db n (Some a) = Some m \<longleftrightarrow>
    m \<in> set (db_organization_member db) \<and> mem_organization_id m = ns_id n \<and> mem_account_id m = acct_id a"
proof
  assume "join_member db n (Some a) = Some m"
  then show "m \<in> set (db_organization_member db) \<and> mem_organization_id m = ns_id n \<and> mem_account_id m = acct_id a"
    unfolding join_member_def by (auto dest: find_SomeD)
next
  assume m: "m \<in> set (db_organization_member db) \<and> mem_organization_id m = ns_id n \<and> mem_account_id m = acct_id a"
  have "distinct (map (\<lambda>m. (mem_organization_id m, mem_account_id m)) (db_organization_member db))"
    using mem.ok_uniq [OF assms] by (simp add: organization_member_uniq_def unique_by_def)
  then show "join_member db n (Some a) = Some m"
    unfolding join_member_def using m
    by (intro find_unique_key [where key = "\<lambda>m. (mem_organization_id m, mem_account_id m)"]) auto
qed

lemma join_collaborator_Some:
  assumes "db_ok db"
  shows "join_collaborator db r (Some a) = Some c \<longleftrightarrow>
    c \<in> set (db_repository_collaborator db) \<and> collab_repository_id c = repo_id r \<and> collab_account_id c = acct_id a"
proof
  assume "join_collaborator db r (Some a) = Some c"
  then show "c \<in> set (db_repository_collaborator db) \<and> collab_repository_id c = repo_id r
      \<and> collab_account_id c = acct_id a"
    unfolding join_collaborator_def by (auto dest: find_SomeD)
next
  assume c: "c \<in> set (db_repository_collaborator db) \<and> collab_repository_id c = repo_id r
      \<and> collab_account_id c = acct_id a"
  have "distinct (map (\<lambda>c. (collab_repository_id c, collab_account_id c)) (db_repository_collaborator db))"
    using collab.ok_uniq [OF assms] by (simp add: repository_collaborator_uniq_def unique_by_def)
  then show "join_collaborator db r (Some a) = Some c"
    unfolding join_collaborator_def using c
    by (intro find_unique_key [where key = "\<lambda>c. (collab_repository_id c, collab_account_id c)"]) auto
qed

lemma granted_iff:
  assumes "db_ok db"
  shows "granted db r n a x \<longleftrightarrow>
     (x = Owner \<and> ns_account_id n = Some (acct_id a))
     \<or> map_option mem_role (join_member db n (Some a)) = Some (role_name x)
     \<or> map_option collab_role (join_collaborator db r (Some a)) = Some (role_name x)"
  unfolding granted_def using join_member_Some [OF assms, of n a] join_collaborator_Some [OF assms, of r a]
  by auto

lemma joined_roles:
  assumes "db_ok db"
  shows "map_option mem_role (join_member db n (Some a)) \<in> {None} \<union> range (Some \<circ> role_name)"
    and "map_option collab_role (join_collaborator db r (Some a)) \<in> {None} \<union> range (Some \<circ> role_name)"
proof -
  show "map_option mem_role (join_member db n (Some a)) \<in> {None} \<union> range (Some \<circ> role_name)"
  proof (cases "join_member db n (Some a)")
    case (Some m)
    then have "mem_role m \<in> {''owner'', ''maintainer'', ''writer'', ''reader''}"
      using mem.ok_chk [OF assms] join_member_Some [OF assms]
      by (auto simp: list_all_iff organization_member_chk_def)
    then have "\<exists>x. mem_role m = role_name x" unfolding ex_role by simp
    then show ?thesis using Some by auto
  qed simp
  show "map_option collab_role (join_collaborator db r (Some a)) \<in> {None} \<union> range (Some \<circ> role_name)"
  proof (cases "join_collaborator db r (Some a)")
    case (Some c)
    then have "collab_role c \<in> {''maintainer'', ''writer'', ''reader''}"
      using collab.ok_chk [OF assms] join_collaborator_Some [OF assms]
      by (auto simp: list_all_iff repository_collaborator_chk_def)
    then have "\<exists>x. collab_role c = role_name x" unfolding ex_role by auto
    then show ?thesis using Some by auto
  qed simp
qed

lemma collaborator_not_owner:
  "db_ok db \<Longrightarrow> map_option collab_role (join_collaborator db r (Some a)) \<noteq> Some ''owner''"
  using collab.ok_chk [of db] join_collaborator_Some [of db r a]
  by (auto simp: list_all_iff repository_collaborator_chk_def)

text \<open>The CASE expression picks the greatest of what the joins found.\<close>

lemma all_role: "(\<forall>x. P x) \<longleftrightarrow> P Owner \<and> P Maintainer \<and> P Writer \<and> P Reader"
  by (metis role.exhaust)

lemma role_case_names:
  "acct_state a = ''active'' \<Longrightarrow> role_case n (Some a) (map_option role_name m) (map_option role_name c) =
     map_option role_name
       (if ns_account_id n = Some (acct_id a) then Some Owner
        else if m = Some Owner then Some Owner
        else if m = Some Maintainer \<or> c = Some Maintainer then Some Maintainer
        else if m = Some Writer \<or> c = Some Writer then Some Writer
        else if m = Some Reader \<or> c = Some Reader then Some Reader
        else None)"
  unfolding role_case_def role_name_simps [symmetric]
  by (cases m; cases c) (simp_all del: role_name_simps)

lemma role_case_best:
  assumes "acct_state a = ''active''" and "c \<noteq> Some Owner"
  shows "role_case n (Some a) (map_option role_name m) (map_option role_name c) = Some s \<longleftrightarrow>
    (\<exists>x. s = role_name x
       \<and> (x = Owner \<and> ns_account_id n = Some (acct_id a) \<or> m = Some x \<or> c = Some x)
       \<and> (\<forall>y. y = Owner \<and> ns_account_id n = Some (acct_id a) \<or> m = Some y \<or> c = Some y \<longrightarrow> y \<le> x))"
proof -
  have "m \<in> {None, Some Owner, Some Maintainer, Some Writer, Some Reader}"
    by (cases m) (auto intro: role.exhaust)
  moreover have "c \<in> {None, Some Maintainer, Some Writer, Some Reader}"
    using assms(2) by (cases c) (auto intro: role.exhaust)
  ultimately show ?thesis
    unfolding role_case_names [OF assms(1)] ex_role all_role
    by (elim insertE emptyE; cases "ns_account_id n = Some (acct_id a)")
      (simp_all del: role_name_simps add: eq_commute less_eq_role_def role_rank_def)
qed

lemma joined_role_names:
  assumes "db_ok db"
  obtains m c where "map_option mem_role (join_member db n (Some a)) = map_option role_name m"
    and "map_option collab_role (join_collaborator db r (Some a)) = map_option role_name c" and "c \<noteq> Some Owner"
proof -
  have ex: "\<exists>m. s = map_option role_name m" if "s \<in> {None} \<union> range (Some \<circ> role_name)" for s
  proof -
    from that consider "s = None" | x where "s = Some (role_name x)" by auto
    then show ?thesis
    proof cases
      case 1
      then show ?thesis by (intro exI [of _ None]) simp
    next
      case (2 x)
      then show ?thesis by (intro exI [of _ "Some x"]) simp
    qed
  qed
  obtain m where m: "map_option mem_role (join_member db n (Some a)) = map_option role_name m"
    using ex [OF joined_roles(1) [OF assms]] by blast
  obtain c where c: "map_option collab_role (join_collaborator db r (Some a)) = map_option role_name c"
    using ex [OF joined_roles(2) [OF assms]] by blast
  have "c \<noteq> Some Owner" using collaborator_not_owner [OF assms, of r a] c by auto
  with m c show ?thesis by (rule that)
qed

lemma map_role_name_Some [simp]: "map_option role_name m = Some (role_name x) \<longleftrightarrow> m = Some x"
  by (cases m) auto

lemma repository_role_active:
  assumes "db_ok db" and "a \<in> set (db_account db)" and "acct_state a = ''active''"
  shows "repository_role db r n (Some (acct_username a)) = Some s \<longleftrightarrow>
    (\<exists>x. s = role_name x \<and> granted db r n a x \<and> (\<forall>y. granted db r n a y \<longrightarrow> y \<le> x))"
proof -
  have j: "join_actor db (Some (acct_username a)) = Some a"
    using join_actor_Some [OF assms(1)] assms(2) by auto
  obtain m c where mc: "map_option mem_role (join_member db n (Some a)) = map_option role_name m"
    "map_option collab_role (join_collaborator db r (Some a)) = map_option role_name c" "c \<noteq> Some Owner"
    by (rule joined_role_names [OF assms(1)])
  have "repository_role db r n (Some (acct_username a)) =
      role_case n (Some a) (map_option role_name m) (map_option role_name c)"
    unfolding repository_role_def Let_def j mc ..
  moreover have "granted db r n a x \<longleftrightarrow>
      (x = Owner \<and> ns_account_id n = Some (acct_id a)) \<or> m = Some x \<or> c = Some x" for x
    unfolding granted_iff [OF assms(1)] mc map_role_name_Some ..
  ultimately show ?thesis using role_case_best [OF assms(3) mc(3), of n m s] by simp
qed

lemma join_None [simp]: "join_member db n None = None" "join_collaborator db r None = None"
  by (simp_all add: join_member_def join_collaborator_def find_None)

lemma repository_role_inactive:
  assumes "db_ok db" and "\<not> (\<exists>a\<in>set (db_account db). Some (acct_username a) = u \<and> acct_state a = ''active'')"
  shows "repository_role db r n u = None"
proof (cases "join_actor db u")
  case None
  then show ?thesis by (simp add: repository_role_def role_case_def)
next
  case (Some a)
  then have "acct_state a \<noteq> ''active''" using assms join_actor_Some [OF assms(1)] by blast
  with Some show ?thesis by (simp add: repository_role_def role_case_def)
qed

lemma repository_role_iff:
  assumes "db_ok db"
  shows "repository_role db r n u = Some s \<longleftrightarrow> (\<exists>x. s = role_name x \<and> holds_role db r n u x)"
proof (cases "\<exists>a\<in>set (db_account db). Some (acct_username a) = u \<and> acct_state a = ''active''")
  case True
  then obtain a where a: "a \<in> set (db_account db)" "u = Some (acct_username a)" "acct_state a = ''active''"
    by auto
  have "b = a" if "b \<in> set (db_account db)" "Some (acct_username b) = u" for b
    using join_actor_Some [OF assms, of u b] join_actor_Some [OF assms, of u a] a that by simp
  then have "holds_role db r n u x \<longleftrightarrow> granted db r n a x \<and> (\<forall>y. granted db r n a y \<longrightarrow> y \<le> x)" for x
    unfolding holds_role_def using a by blast
  then show ?thesis using repository_role_active [OF assms a(1,3)] a(2) by simp
next
  case False
  then show ?thesis
    using repository_role_inactive [OF assms False] by (auto simp: holds_role_def)
qed

lemma holds_role_unique: "db_ok db \<Longrightarrow> holds_role db r n u x \<Longrightarrow> holds_role db r n u y \<Longrightarrow> x = y"
  using repository_role_iff [of db r n u "role_name x"] repository_role_iff [of db r n u "role_name y"] by auto

text \<open>The effective role as an option, and the role query in terms of it.\<close>

definition effective_role :: "database \<Rightarrow> repository \<Rightarrow> namespace \<Rightarrow> string option \<Rightarrow> role option" where
  "effective_role db r n u =
     find (\<lambda>x. repository_role db r n u = Some (role_name x)) [Owner, Maintainer, Writer, Reader]"

lemma effective_role_Some:
  assumes "db_ok db"
  shows "effective_role db r n u = Some x \<longleftrightarrow> holds_role db r n u x"
proof -
  have "(repository_role db r n u = Some (role_name y)) = holds_role db r n u y" for y
    using repository_role_iff [OF assms] by auto
  then show ?thesis
    unfolding effective_role_def using holds_role_unique [OF assms, of r n u]
    by (cases x) (auto simp del: role_name_simps)
qed

lemma repository_role_effective:
  assumes "db_ok db"
  shows "repository_role db r n u = map_option role_name (effective_role db r n u)"
  using repository_role_iff [OF assms, of r n u] effective_role_Some [OF assms, of r n u]
  by (metis map_option_eq_Some not_Some_eq)

section \<open>What the policy decides\<close>

lemma allows_permits:
  "rar_role record = map_option role_name role \<Longrightarrow> rar_repository record = repository_from_row r n
   \<Longrightarrow> allows record operation = Ok (permits role r operation)"
  by (cases role; cases operation)
    (auto simp: allows_def permits_def repository_from_row_def simp del: role_name_simps intro: role.exhaust)

lemma repository_authorization_effective:
  assumes "db_ok db" and "join_repository db owner slug = Some (r, n)"
  shows "repository_authorization db owner slug u = Ok \<lparr>rar_repository = repository_from_row r n,
    rar_role = map_option role_name (effective_role db r n u)\<rparr>"
  using assms(2) by (simp add: repository_authorization_def repository_role_effective [OF assms(1)])

lemma authorize_found:
  assumes "db_ok db" and "join_repository db owner slug = Some (r, n)"
  shows "authorize db actor owner slug operation =
    (if permits (effective_role db r n actor) r operation then Ok (repository_from_row r n) else Err Denied)"
  unfolding authorize_def repository_authorization_effective [OF assms]
  by (simp add: allows_permits [of _ "effective_role db r n actor" r n])

lemma authorize_missing:
  "join_repository db owner slug = None \<Longrightarrow>
     authorize db actor owner slug operation = Err (StoreFailure (RepositoryNotFound owner slug))"
  by (simp add: authorize_def repository_authorization_def)

lemma join_repository_SomeD:
  "join_repository db owner slug = Some (r, n) \<Longrightarrow>
     r \<in> set (db_repository db) \<and> n \<in> set (db_namespace db) \<and> ns_id n = repo_owner_namespace_id r
     \<and> ns_slug n = owner \<and> repo_slug r = slug"
  unfolding join_repository_def by (auto dest!: find_SomeD)

lemma repository_issue_access_effective:
  assumes "db_ok db" and "join_repository db owner slug = Some (r, n)"
  shows "\<exists>a. repository_issue_access db owner slug u = Ok a \<and> ria_repository a = repository_from_row r n
    \<and> ria_role a = map_option role_name (effective_role db r n u)"
  using assms(2) by (simp add: repository_issue_access_def repository_role_effective [OF assms(1)])

lemma can_permits:
  assumes "ria_role a = map_option role_name role" and "ria_repository a = repository_from_row r n"
  shows "can_read a = permits role r ReadOp" and "can_write_repository a = permits role r WriteOp"
    and "can_maintain a = permits role r MaintainOp"
proof -
  have names: "map_option role_name role \<in> {Some ''owner'', Some ''maintainer'', Some ''writer''}
      \<longleftrightarrow> role \<in> {Some Owner, Some Maintainer, Some Writer}"
    "map_option role_name role \<in> {Some ''owner'', Some ''maintainer''} \<longleftrightarrow> role \<in> {Some Owner, Some Maintainer}"
    unfolding role_name_simps [symmetric] by (simp_all del: role_name_simps)
  show r: "can_read a = permits role r ReadOp"
    by (simp add: can_read_def permits_def assms repository_from_row_def)
  have w: "role \<in> {Some Owner, Some Maintainer, Some Writer} \<longleftrightarrow> (case role of None \<Rightarrow> False | Some x \<Rightarrow> Writer \<le> x)"
    "role \<in> {Some Owner, Some Maintainer} \<longleftrightarrow> (case role of None \<Rightarrow> False | Some x \<Rightarrow> Maintainer \<le> x)"
    by (auto split: option.splits intro: role.exhaust)
  show "can_write_repository a = permits role r WriteOp"
    unfolding can_write_repository_def r assms(1) names w by (auto simp: permits_def split: option.splits)
  show "can_maintain a = permits role r MaintainOp"
    unfolding can_maintain_def r assms(1) names w by (auto simp: permits_def split: option.splits)
qed

lemma effective_role_granted:
  assumes "db_ok db" and "a \<in> set (db_account db)" and "acct_state a = ''active''"
  shows "effective_role db r n (Some (acct_username a)) \<noteq> None \<longleftrightarrow> (\<exists>x. granted db r n a x)"
proof
  assume "effective_role db r n (Some (acct_username a)) \<noteq> None"
  then obtain x where "holds_role db r n (Some (acct_username a)) x"
    using effective_role_Some [OF assms(1)] by blast
  then obtain b where "b \<in> set (db_account db)" "acct_username b = acct_username a" "granted db r n b x"
    unfolding holds_role_def by auto
  moreover from this have "b = a"
    using join_actor_Some [OF assms(1), of "Some (acct_username a)"] assms(2) by (metis option.inject)
  ultimately show "\<exists>x. granted db r n a x" by blast
next
  assume "\<exists>x. granted db r n a x"
  then have "\<exists>x. granted db r n a x \<and> (\<forall>y. granted db r n a y \<longrightarrow> y \<le> x)"
    unfolding ex_role all_role by (auto simp: less_eq_role_def role_rank_def)
  then show "effective_role db r n (Some (acct_username a)) \<noteq> None"
    using effective_role_Some [OF assms(1)] assms(2,3) unfolding holds_role_def by (metis option.distinct(1))
qed

lemma visible_granted:
  assumes "db_ok db"
  shows "visible_to db r n (Some (acct_id a)) \<longleftrightarrow>
    repo_state r = ''active'' \<and> (repo_visibility r = ''public'' \<or> (\<exists>x. granted db r n a x))"
proof -
  have m: "\<exists>x. mem_role m = role_name x" if "m \<in> set (db_organization_member db)" for m
    using mem.ok_chk [OF assms] that unfolding ex_role by (auto simp: list_all_iff organization_member_chk_def)
  have c: "\<exists>x. collab_role c = role_name x" if "c \<in> set (db_repository_collaborator db)" for c
    using collab.ok_chk [OF assms] that unfolding ex_role
    by (auto simp: list_all_iff repository_collaborator_chk_def)
  show ?thesis
    unfolding visible_to_def granted_def sql_exists_def list_ex_iff using m c by blast
qed

section \<open>Properties\<close>

text \<open>C18. The role the store computes for an account on a repository is the greatest role granted to it by
  ownership of the namespace, by membership of the organization and by collaboration on the repository; a
  suspended account, an unknown name and an anonymous visitor have none.\<close>

theorem role_query_greatest_grant:
  assumes "db_ok db"
  shows "repository_role db r n u = Some s \<longleftrightarrow> (\<exists>x. s = role_name x \<and> holds_role db r n u x)"
  using assms by (rule repository_role_iff)

theorem role_query_greatest_grant_witness:
  "(repository_role sample_db (db_repository sample_db ! 1) (db_namespace sample_db ! 4) (Some ''bob'') = Some ''writer'')
   \<longleftrightarrow> (\<exists>x. ''writer'' = role_name x
         \<and> holds_role sample_db (db_repository sample_db ! 1) (db_namespace sample_db ! 4) (Some ''bob'') x)"
  by (rule role_query_greatest_grant [OF sample_db_ok])

text \<open>C2. The policy lets an actor perform an operation exactly when the repository exists, is active, and the
  actor's effective role permits it: anyone reads a public repository, any role reads a private one, writing
  needs writer and maintaining needs maintainer or more.\<close>

theorem authorize_exact:
  assumes "db_ok db"
  shows "authorize db actor owner slug operation = Ok record \<longleftrightarrow>
    (\<exists>r n role. join_repository db owner slug = Some (r, n) \<and> record = repository_from_row r n
       \<and> (\<forall>x. role = Some x \<longleftrightarrow> holds_role db r n actor x) \<and> permits role r operation)"
proof (cases "join_repository db owner slug")
  case None
  then show ?thesis by (simp add: authorize_missing)
next
  case (Some p)
  obtain r n where p: "p = (r, n)" by (cases p)
  have "role = effective_role db r n actor" if "\<forall>x. role = Some x \<longleftrightarrow> holds_role db r n actor x" for role
    using that effective_role_Some [OF assms, of r n actor] by (metis not_Some_eq)
  then show ?thesis
    using authorize_found [OF assms Some [unfolded p]] effective_role_Some [OF assms, of r n actor]
    unfolding Some p by auto
qed

theorem authorize_exact_witness:
  "authorize sample_db (Some ''dave'') ''alice'' ''tool'' ReadOp
     = Ok (repository_from_row (db_repository sample_db ! 0) (db_namespace sample_db ! 0))
   \<and> (\<exists>r n role. join_repository sample_db ''alice'' ''tool'' = Some (r, n)
       \<and> repository_from_row (db_repository sample_db ! 0) (db_namespace sample_db ! 0) = repository_from_row r n
       \<and> (\<forall>x. role = Some x \<longleftrightarrow> holds_role sample_db r n (Some ''dave'') x) \<and> permits role r ReadOp)"
proof -
  have "authorize sample_db (Some ''dave'') ''alice'' ''tool'' ReadOp
     = Ok (repository_from_row (db_repository sample_db ! 0) (db_namespace sample_db ! 0))"
    by code_simp
  then show ?thesis using authorize_exact [OF sample_db_ok] by blast
qed

text \<open>Whoever reads a private repository is an active account that has been granted a role on it.\<close>

lemma private_needs_grant:
  assumes "db_ok db" and "authorize db actor owner slug operation = Ok record"
    and "rr_visibility record = ''private''"
  shows "\<exists>r n a x. join_repository db owner slug = Some (r, n) \<and> a \<in> set (db_account db)
    \<and> actor = Some (acct_username a) \<and> acct_state a = ''active'' \<and> granted db r n a x"
proof -
  obtain r n where j: "join_repository db owner slug = Some (r, n)"
    using assms(2) by (cases "join_repository db owner slug") (auto simp: authorize_missing)
  then have rec: "record = repository_from_row r n" "permits (effective_role db r n actor) r operation"
    using authorize_found [OF assms(1) j, of actor operation] assms(2) by (auto split: if_splits)
  then have "effective_role db r n actor \<noteq> None"
    using assms(3) by (auto simp: permits_def repository_from_row_def
        split: repository_operation.splits option.splits)
  then obtain x where "holds_role db r n actor x"
    using effective_role_Some [OF assms(1)] by blast
  then obtain a where "a \<in> set (db_account db)" "Some (acct_username a) = actor" "acct_state a = ''active''"
    "granted db r n a x"
    unfolding holds_role_def by blast
  with j show ?thesis by metis
qed

text \<open>C19. The access checks inside issue and pull-request transactions agree with the policy: they allow
  reading, writing and maintaining exactly when the policy authorizes the operation.\<close>

theorem access_layers_agree:
  assumes "db_ok db" and "repository_issue_access db owner slug actor = Ok access"
  shows "(can_read access \<longleftrightarrow> (\<exists>record. authorize db actor owner slug ReadOp = Ok record))
    \<and> (can_write_repository access \<longleftrightarrow> (\<exists>record. authorize db actor owner slug WriteOp = Ok record))
    \<and> (can_maintain access \<longleftrightarrow> (\<exists>record. authorize db actor owner slug MaintainOp = Ok record))"
proof -
  obtain r n where j: "join_repository db owner slug = Some (r, n)"
    using assms(2) by (cases "join_repository db owner slug") (auto simp: repository_issue_access_def)
  have a: "ria_repository access = repository_from_row r n"
    "ria_role access = map_option role_name (effective_role db r n actor)"
    using repository_issue_access_effective [OF assms(1) j, of actor] assms(2) by auto
  have ex: "(\<exists>record. authorize db actor owner slug operation = Ok record)
      \<longleftrightarrow> permits (effective_role db r n actor) r operation" for operation
    unfolding authorize_found [OF assms(1) j] by simp
  show ?thesis unfolding ex can_permits [OF a(2,1)] by simp
qed

theorem access_layers_agree_witness:
  "\<exists>access. repository_issue_access sample_db ''acme'' ''site'' (Some ''bob'') = Ok access
     \<and> (can_write_repository access
        \<longleftrightarrow> (\<exists>record. authorize sample_db (Some ''bob'') ''acme'' ''site'' WriteOp = Ok record))"
proof -
  have "join_repository sample_db ''acme'' ''site'' =
      Some (db_repository sample_db ! 1, db_namespace sample_db ! 4)"
    by code_simp
  then obtain access where "repository_issue_access sample_db ''acme'' ''site'' (Some ''bob'') = Ok access"
    using repository_issue_access_effective [OF sample_db_ok] by blast
  then show ?thesis using access_layers_agree [OF sample_db_ok] by blast
qed

text \<open>The visibility filter of watched activity and search shows an active account a repository exactly
  when the policy lets it read the repository.\<close>

lemma activity_visibility_agrees:
  assumes "db_ok db" and "join_repository db owner slug = Some (r, n)"
    and "a \<in> set (db_account db)" and "acct_state a = ''active''"
  shows "visible_to db r n (Some (acct_id a)) \<longleftrightarrow>
    (\<exists>record. authorize db (Some (acct_username a)) owner slug ReadOp = Ok record)"
  using visible_granted [OF assms(1)] effective_role_granted [OF assms(1,3,4)]
  unfolding authorize_found [OF assms(1,2)] by (auto simp: permits_def)

text \<open>C16. A ref change is authorized exactly for an actor who may write, unless it is forced; the default
  branch may never be deleted and only be changed by a maintainer.\<close>

theorem ref_change_protection:
  assumes "db_ok db" and "repository_default_branch db owner slug = Ok branch"
  shows "authorize_ref_change db actor owner slug ref_name change = Ok record \<longleftrightarrow>
    authorize db (Some actor) owner slug WriteOp = Ok record \<and> change \<noteq> Force
    \<and> (ref_name = as_bytes branch \<longrightarrow>
         change \<noteq> DeleteRef \<and> authorize db (Some actor) owner slug MaintainOp = Ok record)"
proof (cases "join_repository db owner slug")
  case None
  then show ?thesis by (simp add: authorize_missing authorize_ref_change_def repository_authorization_def)
next
  case (Some p)
  obtain r n where p: "p = (r, n)" by (cases p)
  note j = Some [unfolded p]
  let ?role = "effective_role db r n (Some actor)"
  have m: "permits ?role r MaintainOp \<Longrightarrow> permits ?role r WriteOp"
    by (auto simp: permits_def split: option.splits)
  have "authorize_ref_change db actor owner slug ref_name change =
      (if \<not> permits ?role r WriteOp then Err Denied
       else if change = Force \<or> (ref_name = as_bytes branch \<and> change = DeleteRef) then Err Denied
       else if ref_name = as_bytes branch \<and> \<not> permits ?role r MaintainOp then Err Denied
       else Ok (repository_from_row r n))"
    unfolding authorize_ref_change_def repository_authorization_effective [OF assms(1) j] assms(2)
    by (auto simp: allows_permits [of _ ?role r n] Let_def)
  then show ?thesis
    unfolding authorize_found [OF assms(1) j] using m by auto
qed

theorem ref_change_protection_witness:
  "authorize_ref_change sample_db ''bob'' ''acme'' ''site'' (as_bytes ''refs/heads/fix'') FastForward
     = Ok (repository_from_row (db_repository sample_db ! 1) (db_namespace sample_db ! 4))
   \<longleftrightarrow> authorize sample_db (Some ''bob'') ''acme'' ''site'' WriteOp
         = Ok (repository_from_row (db_repository sample_db ! 1) (db_namespace sample_db ! 4)) \<and> FastForward \<noteq> Force
      \<and> (as_bytes ''refs/heads/fix'' = as_bytes ''refs/heads/main'' \<longrightarrow>
         FastForward \<noteq> DeleteRef \<and> authorize sample_db (Some ''bob'') ''acme'' ''site'' MaintainOp
           = Ok (repository_from_row (db_repository sample_db ! 1) (db_namespace sample_db ! 4)))"
proof (rule ref_change_protection [OF sample_db_ok])
  show "repository_default_branch sample_db ''acme'' ''site'' = Ok ''refs/heads/main''" by code_simp
qed

end
