(* ===== verification/Store_Login.thy ===== *)
theory Store_Login
  imports Store_Accounts
begin

text \<open>
  Logins in \<^verbatim>\<open>src/store/mod.rs\<close>: challenge nonces signed with an SSH key, approvals given over SSH, and
  web sessions. A nonce or an approval buys one session; the lemmas show that the second attempt fails
  and that a session stops working when it is ended, when it expires and when its account is suspended.
\<close>

section \<open>Operations\<close>

record new_login_nonce =
  nln_nonce_hash :: blob
  nln_csrf_hash :: blob
  nln_username :: string
  nln_created_at :: int
  nln_expires_at :: int

record new_login_approval =
  nla_secret_hash :: blob
  nla_csrf_hash :: blob
  nla_purpose :: string
  nla_expected_username :: "string option"
  nla_created_at :: int
  nla_expires_at :: int

record approve_login_t =
  al_secret_hash :: blob
  al_username :: string
  al_fingerprint :: string
  al_approved_at :: int

record new_approved_web_session =
  naws_secret_hash :: blob
  naws_login_csrf_hash :: blob
  naws_session_hash :: blob
  naws_csrf_hash :: blob
  naws_created_at :: int
  naws_expires_at :: int
  naws_correlation_id :: string

record new_web_session =
  nws_nonce_hash :: blob
  nws_login_csrf_hash :: blob
  nws_username :: string
  nws_fingerprint :: string
  nws_session_hash :: blob
  nws_csrf_hash :: blob
  nws_created_at :: int
  nws_expires_at :: int
  nws_correlation_id :: string

record web_session_record =
  wsr_username :: string
  wsr_is_administrator :: bool

definition create_login_nonce :: "database \<Rightarrow> new_login_nonce \<Rightarrow> (store_error, database) result" where
  "create_login_nonce db nonce =
     (let (db, _) = exec_delete login_nonce_table
        (\<lambda>n. nonce_expires_at n < nln_created_at nonce \<or> nonce_consumed_at n \<noteq> None) db in
      if length (db_login_nonce db) \<ge> 1024 then Err LoginNonceLimit
      else try_then (ok_or LoginIdentity (map_option acct_id (query_row account_table
          (\<lambda>a. acct_username a = nln_username nonce \<and> acct_state a = ''active'') db))) (\<lambda>account_id.
        sqlite (exec_insert login_nonce_table (\<lambda>n. account_exists db (nonce_account_id n))
          \<lparr>nonce_id = next_rowid nonce_id (db_login_nonce db), nonce_nonce_hash = nln_nonce_hash nonce,
           nonce_csrf_hash = nln_csrf_hash nonce, nonce_account_id = account_id,
           nonce_ssh_public_key_id = None, nonce_created_at = nln_created_at nonce,
           nonce_expires_at = nln_expires_at nonce, nonce_consumed_at = None\<rparr> db)))"

definition insert_web_session :: "database \<Rightarrow> blob \<Rightarrow> blob \<Rightarrow> int \<Rightarrow> int \<Rightarrow> int \<Rightarrow> int
    \<Rightarrow> (store_error, database) result" where
  "insert_web_session db session_hash csrf_hash account_id created_at expires_at session_key =
     sqlite (exec_insert web_session_table
       (\<lambda>s. account_exists db (sess_account_id s)
          \<and> sql_exists (\<lambda>k. Some (key_id k) = sess_ssh_public_key_id s) (db_ssh_public_key db))
       \<lparr>sess_id = next_rowid sess_id (db_web_session db), sess_session_hash = session_hash,
        sess_csrf_hash = csrf_hash, sess_account_id = account_id, sess_created_at = created_at,
        sess_expires_at = expires_at, sess_ended_at = None,
        sess_ssh_public_key_id = Some session_key\<rparr> db)"

definition login_nonce_match :: "new_web_session \<Rightarrow> login_nonce \<times> account \<times> ssh_public_key \<Rightarrow> bool" where
  "login_nonce_match login = (\<lambda>(n, a, k).
     acct_id a = nonce_account_id n \<and> key_account_id k = nonce_account_id n
     \<and> nonce_nonce_hash n = nws_nonce_hash login
     \<and> nonce_consumed_at n = None \<and> nonce_expires_at n \<ge> nws_created_at login
     \<and> acct_username a = nws_username login \<and> acct_state a = ''active''
     \<and> key_fingerprint k = nws_fingerprint login \<and> key_revoked_at k = None
     \<and> (nonce_ssh_public_key_id n = None \<or> nonce_ssh_public_key_id n = Some (key_id k))
     \<and> nonce_csrf_hash n = nws_login_csrf_hash login)"

definition consume_login_nonce :: "database \<Rightarrow> new_web_session \<Rightarrow> (store_error, database) result" where
  "consume_login_nonce db login =
     try_then (ok_or InvalidLoginChallenge
       (map_option (\<lambda>(n, a, k). (nonce_account_id n, key_id k))
         (find (login_nonce_match login)
           (List.product (db_login_nonce db) (List.product (db_account db) (db_ssh_public_key db))))))
       (\<lambda>(account_id, session_key).
     try_then (sqlite (exec_update login_nonce_table
       (\<lambda>n. nonce_nonce_hash n = nws_nonce_hash login \<and> nonce_consumed_at n = None)
       (\<lambda>n. n\<lparr>nonce_consumed_at := Some (nws_created_at login)\<rparr>) db)) (\<lambda>(db, changed).
     if changed \<noteq> 1 then Err InvalidLoginChallenge
     else try_then (insert_web_session db (nws_session_hash login) (nws_csrf_hash login) account_id
         (nws_created_at login) (nws_expires_at login) session_key) (\<lambda>db.
       audit_success db ''login'' (nws_username login) (nws_username login)
         (nws_correlation_id login) (nws_created_at login))))"

definition create_login_approval :: "database \<Rightarrow> new_login_approval \<Rightarrow> (store_error, database) result" where
  "create_login_approval db approval =
     (let (db, _) = exec_delete ssh_login_approval_table
        (\<lambda>p. appr_expires_at p < nla_created_at approval \<or> appr_consumed_at p \<noteq> None) db in
      if length (db_ssh_login_approval db) \<ge> 1024 then Err LoginNonceLimit
      else try_then (case nla_expected_username approval of
            None \<Rightarrow> Ok None
          | Some username \<Rightarrow> map_sum id Some (active_account_id db username)) (\<lambda>expected_account_id.
        sqlite (exec_insert ssh_login_approval_table
          (\<lambda>p. case appr_expected_account_id p of None \<Rightarrow> True | Some i \<Rightarrow> account_exists db i)
          \<lparr>appr_id = next_rowid appr_id (db_ssh_login_approval db),
           appr_secret_hash = nla_secret_hash approval, appr_csrf_hash = nla_csrf_hash approval,
           appr_account_id = None, appr_ssh_public_key_id = None,
           appr_created_at = nla_created_at approval, appr_expires_at = nla_expires_at approval,
           appr_approved_at = None, appr_consumed_at = None, appr_purpose = nla_purpose approval,
           appr_expected_account_id = expected_account_id\<rparr> db)))"

definition approve_login :: "database \<Rightarrow> approve_login_t \<Rightarrow> (store_error, database) result" where
  "approve_login db approval =
     try_then (ok_or LoginIdentity
       (map_option (\<lambda>(a, k). (acct_id a, key_id k))
         (find (\<lambda>(a, k). key_account_id k = acct_id a \<and> acct_username a = al_username approval
             \<and> acct_state a = ''active'' \<and> key_fingerprint k = al_fingerprint approval
             \<and> key_revoked_at k = None)
           (List.product (db_account db) (db_ssh_public_key db))))) (\<lambda>(account_id, approving_key).
     try_then (sqlite (exec_update ssh_login_approval_table
       (\<lambda>p. appr_secret_hash p = al_secret_hash approval \<and> appr_account_id p = None
          \<and> appr_approved_at p = None \<and> appr_consumed_at p = None
          \<and> appr_expires_at p \<ge> al_approved_at approval
          \<and> (appr_expected_account_id p = None \<or> appr_expected_account_id p = Some account_id))
       (\<lambda>p. p\<lparr>appr_account_id := Some account_id, appr_ssh_public_key_id := Some approving_key,
             appr_approved_at := Some (al_approved_at approval)\<rparr>) db)) (\<lambda>(db, changed).
     if changed \<noteq> 1 then Err InvalidLoginApproval else Ok db))"

text \<open>The account and key that the left joins of \<^verbatim>\<open>consume_login_approval\<close> find for an approval.\<close>

definition approval_account :: "database \<Rightarrow> ssh_login_approval \<Rightarrow> account option" where
  "approval_account db p = find (\<lambda>a. Some (acct_id a) = appr_account_id p) (db_account db)"

definition approval_key :: "database \<Rightarrow> ssh_login_approval \<Rightarrow> ssh_public_key option" where
  "approval_key db p = find (\<lambda>k. Some (key_id k) = appr_ssh_public_key_id p) (db_ssh_public_key db)"

definition login_approval_match :: "database \<Rightarrow> new_approved_web_session \<Rightarrow> ssh_login_approval \<Rightarrow> bool" where
  "login_approval_match db login p \<longleftrightarrow>
     appr_secret_hash p = naws_secret_hash login \<and> appr_csrf_hash p = naws_login_csrf_hash login
     \<and> appr_purpose p = ''login'' \<and> appr_expected_account_id p = None
     \<and> appr_consumed_at p = None \<and> appr_expires_at p \<ge> naws_created_at login
     \<and> (appr_account_id p = None
        \<or> map_option acct_state (approval_account db p) = Some ''active''
          \<and> (case approval_key db p of None \<Rightarrow> True | Some k \<Rightarrow> key_revoked_at k = None))"

definition consume_login_approval :: "database \<Rightarrow> new_approved_web_session
    \<Rightarrow> (store_error, database \<times> string) result" where
  "consume_login_approval db login =
     try_then (ok_or InvalidLoginApproval
       (query_row ssh_login_approval_table (login_approval_match db login) db)) (\<lambda>p.
     case (approval_account db p, appr_approved_at p, appr_ssh_public_key_id p) of
       (Some a, Some _, Some session_key) \<Rightarrow>
         try_then (sqlite (exec_update ssh_login_approval_table
           (\<lambda>p. appr_secret_hash p = naws_secret_hash login \<and> appr_consumed_at p = None)
           (\<lambda>p. p\<lparr>appr_consumed_at := Some (naws_created_at login)\<rparr>) db)) (\<lambda>(db, changed).
         if changed \<noteq> 1 then Err InvalidLoginApproval
         else try_then (insert_web_session db (naws_session_hash login) (naws_csrf_hash login) (acct_id a)
             (naws_created_at login) (naws_expires_at login) session_key) (\<lambda>db.
           try_then (audit_success db ''login'' (acct_username a) (acct_username a)
             (naws_correlation_id login) (naws_created_at login)) (\<lambda>db.
           Ok (db, acct_username a))))
     | _ \<Rightarrow> Err LoginApprovalPending)"

definition web_session_match :: "blob \<Rightarrow> blob option \<Rightarrow> int \<Rightarrow> web_session \<times> account \<Rightarrow> bool" where
  "web_session_match session_hash csrf_hash now = (\<lambda>(s, a).
     acct_id a = sess_account_id s \<and> sess_session_hash s = session_hash \<and> sess_ended_at s = None
     \<and> sess_expires_at s \<ge> now \<and> acct_state a = ''active''
     \<and> (csrf_hash = None \<or> csrf_hash = Some (sess_csrf_hash s)))"

definition find_web_session :: "database \<Rightarrow> blob \<Rightarrow> blob option \<Rightarrow> int
    \<Rightarrow> (store_error, web_session_record) result" where
  "find_web_session db session_hash csrf_hash now =
     ok_or InvalidSession
       (map_option (\<lambda>(s, a). \<lparr>wsr_username = acct_username a,
            wsr_is_administrator = acct_is_administrator a\<rparr>)
         (find (web_session_match session_hash csrf_hash now)
           (List.product (db_web_session db) (db_account db))))"

definition end_account_sessions :: "database \<Rightarrow> string \<Rightarrow> int \<Rightarrow> (store_error, database) result" where
  "end_account_sessions db username ended_at =
     try_then (ok_or (AccountNotFound username)
       (map_option acct_id (query_row account_table (\<lambda>a. acct_username a = username) db))) (\<lambda>account_id.
     end_sessions db account_id ended_at)"

section \<open>The schema invariant\<close>

lemma insert_web_session_keep [keep]:
  "db_ok db \<Longrightarrow> (\<And>db'. db_ok db' \<Longrightarrow> Q db') \<Longrightarrow> ensures (insert_web_session db h c a t x k) Q"
  unfolding insert_web_session_def by (intro wp keep)

lemma create_login_nonce_keeps: "db_ok db \<Longrightarrow> ensures (create_login_nonce db n) db_ok"
  unfolding create_login_nonce_def by (auto intro!: wp keep dest: nonce.delete_keeps_ok)

lemma consume_login_nonce_keeps: "db_ok db \<Longrightarrow> ensures (consume_login_nonce db l) db_ok"
  unfolding consume_login_nonce_def by (auto intro!: wp keep)

lemma create_login_approval_keeps: "db_ok db \<Longrightarrow> ensures (create_login_approval db a) db_ok"
  unfolding create_login_approval_def by (auto intro!: wp keep dest: appr.delete_keeps_ok)

lemma approve_login_keeps: "db_ok db \<Longrightarrow> ensures (approve_login db a) db_ok"
  unfolding approve_login_def by (auto intro!: wp keep)

lemma consume_login_approval_keeps:
  "db_ok db \<Longrightarrow> ensures (consume_login_approval db l) (\<lambda>(db', _). db_ok db')"
  unfolding consume_login_approval_def by (auto intro!: wp keep split: option.splits)

lemma end_account_sessions_keeps: "db_ok db \<Longrightarrow> ensures (end_account_sessions db u t) db_ok"
  unfolding end_account_sessions_def by (auto intro!: wp keep)

section \<open>Single use\<close>

lemma insert_web_session_wp [sql_wp]:
  "(\<And>r. sess_session_hash r = h \<Longrightarrow> sess_csrf_hash r = c \<Longrightarrow> sess_account_id r = a \<Longrightarrow> sess_expires_at r = x \<Longrightarrow>
      sess_ended_at r = None \<Longrightarrow> Q (db\<lparr>db_web_session := db_web_session db @ [r]\<rparr>))
   \<Longrightarrow> ensures (insert_web_session db h c a t x k) Q"
  unfolding insert_web_session_def by (intro wp sql_wp) simp

abbreviation nonce_spent :: "database \<Rightarrow> blob \<Rightarrow> bool" where
  "nonce_spent db h \<equiv> all_spent nonce_nonce_hash (\<lambda>n. nonce_consumed_at n \<noteq> None) h (db_login_nonce db)"

abbreviation approval_spent :: "database \<Rightarrow> blob \<Rightarrow> bool" where
  "approval_spent db h \<equiv> all_spent appr_secret_hash (\<lambda>p. appr_consumed_at p \<noteq> None) h (db_ssh_login_approval db)"

lemma nonce_consumed:
  assumes "db_ok db"
  shows "ensures (consume_login_nonce db l) (\<lambda>db'. nonce_spent db' (nws_nonce_hash l))"
proof -
  have u: "unique_by nonce_nonce_hash (db_login_nonce db)"
    using nonce.ok_uniq [OF assms] by (simp add: login_nonce_uniq_def)
  show ?thesis
    unfolding consume_login_nonce_def
    by (intro wp sql_wp) (auto simp: count_rows_def intro!: all_spent_update [OF u])
qed

lemma spent_nonce_Err:
  assumes "nonce_spent db (nws_nonce_hash l)"
  shows "consume_login_nonce db l = Err InvalidLoginChallenge"
proof -
  have "find (login_nonce_match l) (List.product (db_login_nonce db)
      (List.product (db_account db) (db_ssh_public_key db))) = None"
    using assms by (auto simp: find_None login_nonce_match_def all_spent_def)
  then show ?thesis by (simp add: consume_login_nonce_def)
qed

lemma approval_consumed:
  assumes "db_ok db"
  shows "ensures (consume_login_approval db l) (\<lambda>(db', _). approval_spent db' (naws_secret_hash l))"
proof -
  have u: "unique_by appr_secret_hash (db_ssh_login_approval db)"
    using appr.ok_uniq [OF assms] by (simp add: ssh_login_approval_uniq_def)
  show ?thesis
    unfolding consume_login_approval_def
    by (auto intro!: wp sql_wp split: option.splits) (auto simp: count_rows_def intro!: all_spent_update [OF u])
qed

lemma spent_approval_Err:
  assumes "approval_spent db (naws_secret_hash l)"
  shows "consume_login_approval db l = Err InvalidLoginApproval"
proof -
  have "query_row ssh_login_approval_table (login_approval_match db l) db = None"
    using assms by (auto simp: query_row_None login_approval_match_def all_spent_def)
  then show ?thesis by (simp add: consume_login_approval_def)
qed

section \<open>Sessions\<close>

lemma find_web_session_fresh:
  assumes "db_ok db" and "s \<in> set (db_web_session db)" and "a \<in> set (db_account db)"
    and "acct_id a = sess_account_id s" and "acct_state a = ''active''" and "sess_ended_at s = None"
    and "now \<le> sess_expires_at s" and "csrf = None \<or> csrf = Some (sess_csrf_hash s)"
  shows "find_web_session db (sess_session_hash s) csrf now
    = Ok \<lparr>wsr_username = acct_username a, wsr_is_administrator = acct_is_administrator a\<rparr>"
proof -
  have u: "distinct (map sess_session_hash (db_web_session db))" "distinct (map acct_id (db_account db))"
    using sess.ok_uniq [OF assms(1)] acct.ok_uniq [OF assms(1)]
    by (simp_all add: web_session_uniq_def account_uniq_def unique_by_def)
  have same: "s' = s" if "s' \<in> set (db_web_session db)" "sess_session_hash s' = sess_session_hash s" for s'
    using u(1) that assms(2) by (auto simp: distinct_map inj_on_def)
  have "find (web_session_match (sess_session_hash s) csrf now) (List.product (db_web_session db) (db_account db))
      = Some (s, a)"
    using assms by (intro find_product_unique [OF u]) (auto simp: web_session_match_def dest: same)
  then show ?thesis by (simp add: find_web_session_def)
qed

lemma find_web_session_live:
  assumes "find_web_session db h csrf now = Ok r"
  shows "\<exists>s a. s \<in> set (live_sessions db (acct_id a)) \<and> a \<in> set (db_account db) \<and> acct_state a = ''active''
    \<and> wsr_username r = acct_username a \<and> now \<le> sess_expires_at s \<and> sess_session_hash s = h"
proof -
  obtain s a where "find (web_session_match h csrf now) (List.product (db_web_session db) (db_account db)) = Some (s, a)"
    "r = \<lparr>wsr_username = acct_username a, wsr_is_administrator = acct_is_administrator a\<rparr>"
    using assms by (auto simp: find_web_session_def)
  then show ?thesis
    by (intro exI [of _ s] exI [of _ a]) (auto simp: web_session_match_def live_sessions_def dest!: find_SomeD)
qed

lemma consume_login_nonce_session:
  "ensures (consume_login_nonce db l) (\<lambda>db'. db_account db' = db_account db
     \<and> (\<exists>s a. s \<in> set (db_web_session db') \<and> a \<in> set (db_account db) \<and> acct_username a = nws_username l
        \<and> acct_state a = ''active'' \<and> sess_account_id s = acct_id a \<and> sess_session_hash s = nws_session_hash l
        \<and> sess_csrf_hash s = nws_csrf_hash l \<and> sess_expires_at s = nws_expires_at l \<and> sess_ended_at s = None))"
  unfolding consume_login_nonce_def
  by (intro wp sql_wp; clarsimp simp: login_nonce_match_def dest!: find_SomeD; metis)

section \<open>Properties\<close>


definition sample_login :: "nat \<Rightarrow> new_web_session" where
  "sample_login h = \<lparr>nws_nonce_hash = hash_of 2, nws_login_csrf_hash = hash_of 3, nws_username = ''dave'',
     nws_fingerprint = ''fd'', nws_session_hash = hash_of h, nws_csrf_hash = hash_of 11, nws_created_at = 10,
     nws_expires_at = 1000, nws_correlation_id = ''login''\<rparr>"



definition sample_approved :: "nat \<Rightarrow> new_approved_web_session" where
  "sample_approved h = \<lparr>naws_secret_hash = hash_of 4, naws_login_csrf_hash = hash_of 5,
     naws_session_hash = hash_of h, naws_csrf_hash = hash_of 11, naws_created_at = 10, naws_expires_at = 1000,
     naws_correlation_id = ''login''\<rparr>"


text \<open>Suspending an account cuts it off: no session identifies it any more, it is no longer an active
  account, and it has no live session and no live feed token.\<close>

lemma suspension_cuts_off:
  assumes "db_ok db" and "suspend_account db u True t a c = Ok db'"
  shows "find_web_session db' h csrf now \<noteq> Ok \<lparr>wsr_username = u, wsr_is_administrator = adm\<rparr>
    \<and> active_account_id db' u = Err (AccountNotFound u)
    \<and> (\<exists>i. account_in_state (db_account db') u i ''suspended'' \<and> live_sessions db' i = [] \<and> live_tokens db' i = [])"
proof -
  obtain i where i: "account_in_state (db_account db') u i ''suspended''" "live_sessions db' i = []" "live_tokens db' i = []"
    using ensuresD [OF suspend_account_effect [OF assms(1)] assms(2)] by auto
  have none: "\<not> (acct_username x = u \<and> acct_state x = ''active'')" if "x \<in> set (db_account db')" for x
    using i(1) that by (auto simp: account_in_state_def)
  then have "active_account_id db' u = Err (AccountNotFound u)"
    by (auto simp: active_account_id_def query_row_None split: option.splits dest!: query_row_Some)
  moreover have "find_web_session db' h csrf now \<noteq> Ok \<lparr>wsr_username = u, wsr_is_administrator = adm\<rparr>"
    using none by (auto dest!: find_web_session_live)
  ultimately show ?thesis using i by blast
qed

end
