(* ===== verification/History.thy ===== *)
theory History
  imports Policy Store_Login
begin

text \<open>
  What no operation of the store undoes. Events, revisions, reviews, comments and the log of completed Git
  operations are only ever appended to, and the events of a repository are numbered 1, 2, 3 and so on without
  a gap (\<open>history_kept\<close>). Operations outside the account and organization lifecycle also leave accounts, keys,
  organizations and memberships as they are (\<open>quiet\<close>).

  The locale \<open>append_only\<close> states what such a relation between the database before and during an operation
  has to allow, and proves once that the shared statements of the store stay within it; it is interpreted for
  both relations, and the lemmas \<open>*_history\<close> and \<open>*_quiet\<close> carry them through every operation.
\<close>

named_theorems hist_keep
named_theorems quiet_keep

section \<open>The relations\<close>

definition sequence_of :: "repository_event list \<Rightarrow> string \<Rightarrow> int list" where
  "sequence_of events repository_id =
     map ev_sequence (filter (\<lambda>e. ev_repository_id e = repository_id) events)"

definition log_ok :: "repository_event list \<Rightarrow> bool" where
  "log_ok events \<longleftrightarrow>
     (\<forall>i. sequence_of events i = map (\<lambda>k. int k + 1) [0..<length (sequence_of events i)])"

definition history_kept :: "database \<Rightarrow> database \<Rightarrow> bool" where
  "history_kept d db \<longleftrightarrow>
     prefix (db_repository_event d) (db_repository_event db)
     \<and> prefix (db_pull_request_revision d) (db_pull_request_revision db)
     \<and> prefix (db_pull_request_review d) (db_pull_request_review db)
     \<and> prefix (db_issue_comment d) (db_issue_comment db)
     \<and> prefix (db_git_operation_event d) (db_git_operation_event db)
     \<and> (log_ok (db_repository_event d) \<longrightarrow> log_ok (db_repository_event db))"

definition quiet :: "database \<Rightarrow> database \<Rightarrow> bool" where
  "quiet d db \<longleftrightarrow>
     history_kept d db
     \<and> map acct_id (db_account db) = map acct_id (db_account d)
     \<and> db_ssh_public_key db = db_ssh_public_key d
     \<and> db_organization db = db_organization d
     \<and> db_organization_member db = db_organization_member d"

lemma next_rowid_append:
  "next_rowid key (t @ [r]) = max (next_rowid key t) (key r + 1)"
proof -
  have "foldr (\<lambda>r m. max (key r) m) s b = max (foldr (\<lambda>r m. max (key r) m) s 0) b" if "0 \<le> b" for s b
    using that by (induction s) auto
  from this [of "max (key r) 0" t] show ?thesis
    using next_rowid_positive [of key t] by (simp add: next_rowid_def max_def split: if_splits)
qed

lemma next_rowid_numbered: "map key t = map (\<lambda>k. int k + 1) [0..<length t] \<Longrightarrow> next_rowid key t = int (length t) + 1"
proof (induction t rule: rev_induct)
  case (snoc r t)
  then show ?case by (simp add: next_rowid_append)
qed (simp add: next_rowid_def)

lemma sequence_of_append:
  "sequence_of (es @ [e]) i = sequence_of es i @ (if ev_repository_id e = i then [ev_sequence e] else [])"
  by (simp add: sequence_of_def)

lemma log_ok_append:
  assumes "log_ok (db_repository_event db)" and "ev_sequence e = next_sequence db (ev_repository_id e)"
  shows "log_ok (db_repository_event db @ [e])"
  unfolding log_ok_def
proof
  fix i
  let ?es = "db_repository_event db"
  have seq: "sequence_of ?es i = map (\<lambda>k. int k + 1) [0..<length (sequence_of ?es i)]"
    using assms(1) by (simp add: log_ok_def)
  then have "next_sequence db i = int (length (sequence_of ?es i)) + 1"
    unfolding next_sequence_def sequence_of_def by (subst next_rowid_numbered) simp_all
  with seq assms(2)
  show "sequence_of (?es @ [e]) i = map (\<lambda>k. int k + 1) [0..<length (sequence_of (?es @ [e]) i)]"
    by (simp add: sequence_of_append)
qed

lemma history_kept_refl [simp]: "history_kept db db"
  by (simp add: history_kept_def)

lemma history_kept_trans: "history_kept a b \<Longrightarrow> history_kept b c \<Longrightarrow> history_kept a c"
  unfolding history_kept_def by (blast intro: prefix_order.trans)

lemma quiet_refl [simp]: "quiet db db"
  by (simp add: quiet_def)

lemma quiet_history: "quiet d db \<Longrightarrow> history_kept d db"
  by (simp add: quiet_def)

lemma history_kept_event:
  "history_kept d db \<Longrightarrow> ev_sequence e = next_sequence db (ev_repository_id e)
   \<Longrightarrow> history_kept d (db\<lparr>db_repository_event := db_repository_event db @ [e]\<rparr>)"
  by (auto simp: history_kept_def log_ok_append)

lemma history_kept_append [simp]:
  "history_kept d db \<Longrightarrow> history_kept d (db\<lparr>db_git_operation_event := db_git_operation_event db @ [r_git_operation_event]\<rparr>)"
  "history_kept d db \<Longrightarrow> history_kept d (db\<lparr>db_issue_comment := db_issue_comment db @ [r_issue_comment]\<rparr>)"
  "history_kept d db \<Longrightarrow> history_kept d (db\<lparr>db_pull_request_revision := db_pull_request_revision db @ [r_pull_request_revision]\<rparr>)"
  "history_kept d db \<Longrightarrow> history_kept d (db\<lparr>db_pull_request_review := db_pull_request_review db @ [r_pull_request_review]\<rparr>)"
  by (auto simp: history_kept_def)

lemma history_kept_frame [simp]:
  "history_kept d (db\<lparr>db_git_operation_intent := t_git_operation_intent\<rparr>) \<longleftrightarrow> history_kept d db"
  "history_kept d (db\<lparr>db_account := t_account\<rparr>) \<longleftrightarrow> history_kept d db"
  "history_kept d (db\<lparr>db_ssh_public_key := t_ssh_public_key\<rparr>) \<longleftrightarrow> history_kept d db"
  "history_kept d (db\<lparr>db_recovery_credential := t_recovery_credential\<rparr>) \<longleftrightarrow> history_kept d db"
  "history_kept d (db\<lparr>db_signup_invitation := t_signup_invitation\<rparr>) \<longleftrightarrow> history_kept d db"
  "history_kept d (db\<lparr>db_login_nonce := t_login_nonce\<rparr>) \<longleftrightarrow> history_kept d db"
  "history_kept d (db\<lparr>db_ssh_login_approval := t_ssh_login_approval\<rparr>) \<longleftrightarrow> history_kept d db"
  "history_kept d (db\<lparr>db_web_session := t_web_session\<rparr>) \<longleftrightarrow> history_kept d db"
  "history_kept d (db\<lparr>db_namespace := t_namespace\<rparr>) \<longleftrightarrow> history_kept d db"
  "history_kept d (db\<lparr>db_organization := t_organization\<rparr>) \<longleftrightarrow> history_kept d db"
  "history_kept d (db\<lparr>db_organization_member := t_organization_member\<rparr>) \<longleftrightarrow> history_kept d db"
  "history_kept d (db\<lparr>db_repository := t_repository\<rparr>) \<longleftrightarrow> history_kept d db"
  "history_kept d (db\<lparr>db_repository_collaborator := t_repository_collaborator\<rparr>) \<longleftrightarrow> history_kept d db"
  "history_kept d (db\<lparr>db_repository_profile := t_repository_profile\<rparr>) \<longleftrightarrow> history_kept d db"
  "history_kept d (db\<lparr>db_repository_default_branch := t_repository_default_branch\<rparr>) \<longleftrightarrow> history_kept d db"
  "history_kept d (db\<lparr>db_repository_default_branch_intent := t_repository_default_branch_intent\<rparr>) \<longleftrightarrow> history_kept d db"
  "history_kept d (db\<lparr>db_repository_counter := t_repository_counter\<rparr>) \<longleftrightarrow> history_kept d db"
  "history_kept d (db\<lparr>db_issue := t_issue\<rparr>) \<longleftrightarrow> history_kept d db"
  "history_kept d (db\<lparr>db_watch := t_watch\<rparr>) \<longleftrightarrow> history_kept d db"
  "history_kept d (db\<lparr>db_feed_token := t_feed_token\<rparr>) \<longleftrightarrow> history_kept d db"
  "history_kept d (db\<lparr>db_pull_request := t_pull_request\<rparr>) \<longleftrightarrow> history_kept d db"
  "history_kept d (db\<lparr>db_pull_request_ref_intent := t_pull_request_ref_intent\<rparr>) \<longleftrightarrow> history_kept d db"
  "history_kept d (db\<lparr>db_pull_request_merge_intent := t_pull_request_merge_intent\<rparr>) \<longleftrightarrow> history_kept d db"
  "history_kept d (db\<lparr>db_audit_event := t_audit_event\<rparr>) \<longleftrightarrow> history_kept d db"
  by (simp_all add: history_kept_def)

lemma quiet_event:
  "quiet d db \<Longrightarrow> ev_sequence e = next_sequence db (ev_repository_id e)
   \<Longrightarrow> quiet d (db\<lparr>db_repository_event := db_repository_event db @ [e]\<rparr>)"
  by (simp add: quiet_def history_kept_event)

lemma quiet_append [simp]:
  "quiet d db \<Longrightarrow> quiet d (db\<lparr>db_git_operation_event := db_git_operation_event db @ [r_git_operation_event]\<rparr>)"
  "quiet d db \<Longrightarrow> quiet d (db\<lparr>db_issue_comment := db_issue_comment db @ [r_issue_comment]\<rparr>)"
  "quiet d db \<Longrightarrow> quiet d (db\<lparr>db_pull_request_revision := db_pull_request_revision db @ [r_pull_request_revision]\<rparr>)"
  "quiet d db \<Longrightarrow> quiet d (db\<lparr>db_pull_request_review := db_pull_request_review db @ [r_pull_request_review]\<rparr>)"
  by (simp_all add: quiet_def)

lemma quiet_frame [simp]:
  "quiet d (db\<lparr>db_git_operation_intent := t_git_operation_intent\<rparr>) \<longleftrightarrow> quiet d db"
  "quiet d (db\<lparr>db_recovery_credential := t_recovery_credential\<rparr>) \<longleftrightarrow> quiet d db"
  "quiet d (db\<lparr>db_signup_invitation := t_signup_invitation\<rparr>) \<longleftrightarrow> quiet d db"
  "quiet d (db\<lparr>db_login_nonce := t_login_nonce\<rparr>) \<longleftrightarrow> quiet d db"
  "quiet d (db\<lparr>db_ssh_login_approval := t_ssh_login_approval\<rparr>) \<longleftrightarrow> quiet d db"
  "quiet d (db\<lparr>db_web_session := t_web_session\<rparr>) \<longleftrightarrow> quiet d db"
  "quiet d (db\<lparr>db_namespace := t_namespace\<rparr>) \<longleftrightarrow> quiet d db"
  "quiet d (db\<lparr>db_repository := t_repository\<rparr>) \<longleftrightarrow> quiet d db"
  "quiet d (db\<lparr>db_repository_collaborator := t_repository_collaborator\<rparr>) \<longleftrightarrow> quiet d db"
  "quiet d (db\<lparr>db_repository_profile := t_repository_profile\<rparr>) \<longleftrightarrow> quiet d db"
  "quiet d (db\<lparr>db_repository_default_branch := t_repository_default_branch\<rparr>) \<longleftrightarrow> quiet d db"
  "quiet d (db\<lparr>db_repository_default_branch_intent := t_repository_default_branch_intent\<rparr>) \<longleftrightarrow> quiet d db"
  "quiet d (db\<lparr>db_repository_counter := t_repository_counter\<rparr>) \<longleftrightarrow> quiet d db"
  "quiet d (db\<lparr>db_issue := t_issue\<rparr>) \<longleftrightarrow> quiet d db"
  "quiet d (db\<lparr>db_watch := t_watch\<rparr>) \<longleftrightarrow> quiet d db"
  "quiet d (db\<lparr>db_feed_token := t_feed_token\<rparr>) \<longleftrightarrow> quiet d db"
  "quiet d (db\<lparr>db_pull_request := t_pull_request\<rparr>) \<longleftrightarrow> quiet d db"
  "quiet d (db\<lparr>db_pull_request_ref_intent := t_pull_request_ref_intent\<rparr>) \<longleftrightarrow> quiet d db"
  "quiet d (db\<lparr>db_pull_request_merge_intent := t_pull_request_merge_intent\<rparr>) \<longleftrightarrow> quiet d db"
  "quiet d (db\<lparr>db_audit_event := t_audit_event\<rparr>) \<longleftrightarrow> quiet d db"
  by (simp_all add: quiet_def)

lemma quiet_same_ids [simp]:
  assumes "\<And>a. acct_id (f a) = acct_id a"
  shows "quiet d (db\<lparr>db_account := map (\<lambda>a. if P a then f a else a) (db_account db)\<rparr>) \<longleftrightarrow> quiet d db"
proof -
  have "map acct_id (map (\<lambda>a. if P a then f a else a) (db_account db)) = map acct_id (db_account db)"
    using assms by (simp add: comp_def if_distrib [of acct_id])
  then show ?thesis by (simp add: quiet_def del: map_map)
qed

section \<open>The interface\<close>

locale append_only =
  fixes R :: "database \<Rightarrow> database \<Rightarrow> bool"
  assumes refl: "R db db"
    and event: "R d db \<Longrightarrow> ev_sequence e = next_sequence db (ev_repository_id e)
      \<Longrightarrow> R d (db\<lparr>db_repository_event := db_repository_event db @ [e]\<rparr>)"
    and audit: "R d (db\<lparr>db_audit_event := t\<rparr>) \<longleftrightarrow> R d db"
    and session: "R d (db\<lparr>db_web_session := s\<rparr>) \<longleftrightarrow> R d db"
    and token: "R d (db\<lparr>db_feed_token := k\<rparr>) \<longleftrightarrow> R d db"
begin

lemma insert_stmt:
  "R d db \<Longrightarrow> (R d db \<Longrightarrow> R d (set_rows T (rows T db @ [r]) db)) \<Longrightarrow> (\<And>db'. R d db' \<Longrightarrow> Q db')
   \<Longrightarrow> ensures (exec_insert T fk r db) Q"
  by (intro sql_wp) blast

lemma update_stmt:
  "R d db \<Longrightarrow> (R d db \<Longrightarrow> R d (set_rows T (map (\<lambda>r. if P r then f r else r) (rows T db)) db))
   \<Longrightarrow> (\<And>db' n. R d db' \<Longrightarrow> n = count_rows T P db \<Longrightarrow> Q (db', n)) \<Longrightarrow> ensures (exec_update T P f db) Q"
  by (intro sql_wp) blast

lemma upsert_stmt:
  "R d db \<Longrightarrow> (\<And>t. R d db \<Longrightarrow> R d (set_rows T t db)) \<Longrightarrow> (\<And>db'. R d db' \<Longrightarrow> Q db')
   \<Longrightarrow> ensures (exec_upsert T fk same r f db) Q"
  by (intro sql_wp) blast

lemma delete_stmt: "R d db \<Longrightarrow> (\<And>t. R d db \<Longrightarrow> R d (set_rows T t db)) \<Longrightarrow> R d (fst (exec_delete T P db))"
  by (simp add: exec_delete_eq)

lemma audit_event: "R d db \<Longrightarrow> (\<And>db'. R d db' \<Longrightarrow> Q db') \<Longrightarrow> ensures (insert_audit_event db e) Q"
  by (intro sql_wp) (simp add: audit)

lemma domain_event: "R d db \<Longrightarrow> (\<And>db'. R d db' \<Longrightarrow> Q db') \<Longrightarrow> ensures (insert_domain_event env k db e) Q"
  by (intro sql_wp) (simp add: event new_event_row_def)

lemma issue_event: "R d db \<Longrightarrow> (\<And>db'. R d db' \<Longrightarrow> Q db') \<Longrightarrow> ensures (insert_issue_event env k db r i a t e) Q"
  unfolding insert_issue_event_def by (rule domain_event)

lemma pull_request_event:
  "R d db \<Longrightarrow> (\<And>db'. R d db' \<Longrightarrow> Q db') \<Longrightarrow> ensures (insert_pull_request_event env k db r i a t e) Q"
  unfolding insert_pull_request_event_def by (rule domain_event)

lemma reference_events:
  "R d db \<Longrightarrow> (\<And>db'. R d db' \<Longrightarrow> Q db') \<Longrightarrow> ensures (insert_reference_events env k db r refs) Q"
  by (induction refs arbitrary: k db) (auto intro!: wp domain_event)

lemma ref_events:
  "R d db \<Longrightarrow> (\<And>db'. R d db' \<Longrightarrow> Q db') \<Longrightarrow> ensures (insert_ref_events env k db r i a t os ns) Q"
  by (induction env k db r i a t os ns rule: insert_ref_events.induct) (auto intro!: wp domain_event)

lemma push_events:
  "R d db \<Longrightarrow> (\<And>db'. R d db' \<Longrightarrow> Q db') \<Longrightarrow> ensures (insert_push_events env db i p a os ns t) Q"
  unfolding insert_push_events_def by (auto intro!: wp domain_event ref_events audit_event)

lemma sessions_ended: "R d db \<Longrightarrow> (\<And>db'. R d db' \<Longrightarrow> Q db') \<Longrightarrow> ensures (end_sessions db a t) Q"
  by (intro sql_wp) (simp add: session)

lemma tokens_revoked: "R d db \<Longrightarrow> (\<And>db'. R d db' \<Longrightarrow> Q db') \<Longrightarrow> ensures (revoke_feed_tokens db a t) Q"
  by (intro sql_wp) (simp add: token)

lemmas frame_rules = insert_stmt update_stmt upsert_stmt audit_event domain_event issue_event
  pull_request_event reference_events ref_events push_events sessions_ended tokens_revoked

end

interpretation hist: append_only history_kept
  by unfold_locales (simp_all add: history_kept_event)

interpretation quiet: append_only quiet
  by unfold_locales (simp_all add: quiet_event)

section \<open>Every operation\<close>

lemmas hist_keep_rules [hist_keep] = hist.frame_rules
lemmas quiet_keep_rules [quiet_keep] = quiet.frame_rules

lemma insert_account_history [hist_keep]:
  "history_kept d db \<Longrightarrow> (\<And>db' i. history_kept d db' \<Longrightarrow> Q (db', i)) \<Longrightarrow> ensures (insert_account db u a t) Q"
  unfolding insert_account_def by (auto intro!: wp hist_keep)

lemma insert_ssh_key_history [hist_keep]:
  "history_kept d db \<Longrightarrow> (\<And>db'. history_kept d db' \<Longrightarrow> Q db') \<Longrightarrow> ensures (insert_ssh_key db a k t) Q"
  unfolding insert_ssh_key_def by (auto intro!: wp hist_keep)

lemma insert_recovery_credential_history [hist_keep]:
  "history_kept d db \<Longrightarrow> (\<And>db'. history_kept d db' \<Longrightarrow> Q db') \<Longrightarrow> ensures (insert_recovery_credential db a h t) Q"
  unfolding insert_recovery_credential_def by (auto intro!: wp hist_keep)

lemma install_recovery_key_history [hist_keep]:
  "history_kept d db \<Longrightarrow> (\<And>db'. history_kept d db' \<Longrightarrow> Q db') \<Longrightarrow> ensures (install_recovery_key db a r) Q"
  unfolding install_recovery_key_def by (auto intro!: wp hist_keep)

lemma consume_account_key_authorization_history [hist_keep]:
  "history_kept d db \<Longrightarrow> (\<And>db' i s. history_kept d db' \<Longrightarrow> Q (db', i, s)) \<Longrightarrow> ensures (consume_account_key_authorization db a) Q"
  unfolding consume_account_key_authorization_def by (auto intro!: wp hist_keep)

lemma insert_web_session_quiet [quiet_keep]:
  "quiet d db \<Longrightarrow> (\<And>db'. quiet d db' \<Longrightarrow> Q db') \<Longrightarrow> ensures (insert_web_session db h c a t x k) Q"
  unfolding insert_web_session_def by (auto intro!: wp quiet_keep)

lemma insert_feed_token_quiet [quiet_keep]:
  "quiet d db \<Longrightarrow> (\<And>db' r. quiet d db' \<Longrightarrow> Q (db', r)) \<Longrightarrow> ensures (insert_feed_token env db a h t) Q"
  unfolding insert_feed_token_def by (auto intro!: wp quiet_keep)

lemma begin_git_intent_quiet [quiet_keep]:
  "quiet d db \<Longrightarrow> (\<And>db'. quiet d db' \<Longrightarrow> Q db') \<Longrightarrow> ensures (begin_git_intent db i) Q"
  unfolding begin_git_intent_def by (auto intro!: wp quiet_keep)

lemma complete_pull_request_merge_quiet [quiet_keep]:
  "quiet d db \<Longrightarrow> (\<And>db'. quiet d db' \<Longrightarrow> Q db') \<Longrightarrow> ensures (complete_pull_request_merge env k db i a t) Q"
  unfolding complete_pull_request_merge_def by (auto intro!: wp quiet_keep)

lemma ensure_counter_quiet [quiet_keep]:
  "quiet d db \<Longrightarrow> (\<And>db'. quiet d db' \<Longrightarrow> Q db') \<Longrightarrow> ensures (ensure_counter db r) Q"
  unfolding ensure_counter_def by (auto intro!: wp quiet_keep)

lemma next_issue_number_quiet [quiet_keep]:
  "quiet d db \<Longrightarrow> (\<And>db' n. quiet d db' \<Longrightarrow> Q (db', n)) \<Longrightarrow> ensures (next_issue_number db r) Q"
  unfolding next_issue_number_def by (auto intro!: wp quiet_keep)

lemma next_pull_request_number_quiet [quiet_keep]:
  "quiet d db \<Longrightarrow> (\<And>db' n. quiet d db' \<Longrightarrow> Q (db', n)) \<Longrightarrow> ensures (next_pull_request_number db r) Q"
  unfolding next_pull_request_number_def by (auto intro!: wp quiet_keep)

lemma insert_pull_request_intent_quiet [quiet_keep]:
  "quiet d db \<Longrightarrow> (\<And>db'. quiet d db' \<Longrightarrow> Q db') \<Longrightarrow> ensures (insert_pull_request_intent db i n) Q"
  unfolding insert_pull_request_intent_def by (auto intro!: wp quiet_keep)

lemma apply_pull_request_intent_quiet [quiet_keep]:
  "quiet d db \<Longrightarrow> (\<And>db'. quiet d db' \<Longrightarrow> Q db') \<Longrightarrow> ensures (apply_pull_request_intent db i) Q"
  unfolding apply_pull_request_intent_def by (auto intro!: wp quiet_keep)

lemma update_slug_quiet [quiet_keep]:
  "quiet d db \<Longrightarrow> (\<And>db'. quiet d db' \<Longrightarrow> Q db') \<Longrightarrow> ensures (update_slug db i w s s') Q"
  unfolding update_slug_def by (auto intro!: wp quiet_keep)

lemma upsert_collaborator_quiet [quiet_keep]:
  "quiet d db \<Longrightarrow> (\<And>db'. quiet d db' \<Longrightarrow> Q db') \<Longrightarrow> ensures (upsert_collaborator db r a l t) Q"
  unfolding upsert_collaborator_def by (auto intro!: wp quiet_keep)

lemma create_initial_administrator_history: "history_kept d db \<Longrightarrow> ensures (create_initial_administrator db a) (history_kept d)"
  unfolding create_initial_administrator_def by (auto intro!: wp hist_keep simp: exec_delete_eq)

lemma create_signup_invitation_history: "history_kept d db \<Longrightarrow> ensures (create_signup_invitation db h t x) (history_kept d)"
  unfolding create_signup_invitation_def by (auto intro!: wp hist_keep simp: exec_delete_eq)

lemma create_account_with_invitation_history: "history_kept d db \<Longrightarrow> ensures (create_account_with_invitation db a) (history_kept d)"
  unfolding create_account_with_invitation_def by (auto intro!: wp hist_keep simp: exec_delete_eq)

lemma recover_account_history: "history_kept d db \<Longrightarrow> ensures (recover_account db r) (history_kept d)"
  unfolding recover_account_def by (auto intro!: wp hist_keep simp: exec_delete_eq)

lemma add_account_key_history: "history_kept d db \<Longrightarrow> ensures (add_account_key db u k t a c) (history_kept d)"
  unfolding add_account_key_def by (auto intro!: wp hist_keep simp: exec_delete_eq)

lemma revoke_account_key_history: "history_kept d db \<Longrightarrow> ensures (revoke_account_key db u f t a c) (history_kept d)"
  unfolding revoke_account_key_def by (auto intro!: wp hist_keep simp: exec_delete_eq)

lemma complete_account_key_add_history: "history_kept d db \<Longrightarrow> ensures (complete_account_key_add db a k) (history_kept d)"
  unfolding complete_account_key_add_def by (auto intro!: wp hist_keep simp: exec_delete_eq)

lemma complete_account_key_revoke_history: "history_kept d db \<Longrightarrow> ensures (complete_account_key_revoke db a f) (history_kept d)"
  unfolding complete_account_key_revoke_def by (auto intro!: wp hist_keep simp: exec_delete_eq)

lemma suspend_account_history: "history_kept d db \<Longrightarrow> ensures (suspend_account db u s t a c) (history_kept d)"
  unfolding suspend_account_def by (auto intro!: wp hist_keep simp: exec_delete_eq)

lemma create_organization_history: "history_kept d db \<Longrightarrow> ensures (create_organization db s n e w t c) (history_kept d)"
  unfolding create_organization_def by (auto intro!: wp hist_keep simp: exec_delete_eq)

lemma set_organization_member_history: "history_kept d db \<Longrightarrow> ensures (set_organization_member db g a u r t c) (history_kept d)"
  unfolding set_organization_member_def by (auto intro!: wp hist_keep simp: exec_delete_eq)

lemma update_organization_profile_history: "history_kept d db \<Longrightarrow> ensures (update_organization_profile db g a n e t c) (history_kept d)"
  unfolding update_organization_profile_def by (auto intro!: wp hist_keep simp: exec_delete_eq)

lemma remove_organization_member_history: "history_kept d db \<Longrightarrow> ensures (remove_organization_member db g a u t c) (history_kept d)"
  unfolding remove_organization_member_def by (auto intro!: wp hist_keep simp: exec_delete_eq)

lemma create_login_nonce_quiet: "quiet d db \<Longrightarrow> ensures (create_login_nonce db n) (quiet d)"
  unfolding create_login_nonce_def by (auto intro!: wp quiet_keep simp: exec_delete_eq)

lemma consume_login_nonce_quiet: "quiet d db \<Longrightarrow> ensures (consume_login_nonce db l) (quiet d)"
  unfolding consume_login_nonce_def by (auto intro!: wp quiet_keep simp: exec_delete_eq)

lemma create_login_approval_quiet: "quiet d db \<Longrightarrow> ensures (create_login_approval db a) (quiet d)"
  unfolding create_login_approval_def by (auto intro!: wp quiet_keep simp: exec_delete_eq)

lemma approve_login_quiet: "quiet d db \<Longrightarrow> ensures (approve_login db a) (quiet d)"
  unfolding approve_login_def by (auto intro!: wp quiet_keep simp: exec_delete_eq)

lemma consume_login_approval_quiet: "quiet d db \<Longrightarrow> ensures (consume_login_approval db l) (\<lambda>(db', _). quiet d db')"
  unfolding consume_login_approval_def by (auto intro!: wp quiet_keep simp: exec_delete_eq)

lemma end_account_sessions_quiet: "quiet d db \<Longrightarrow> ensures (end_account_sessions db u t) (quiet d)"
  unfolding end_account_sessions_def by (auto intro!: wp quiet_keep simp: exec_delete_eq)

lemma create_repository_quiet: "quiet d db \<Longrightarrow> ensures (create_repository env db r) (quiet d)"
  unfolding create_repository_def by (auto intro!: wp quiet_keep simp: exec_delete_eq)

lemma rename_repository_quiet: "quiet d db \<Longrightarrow> ensures (rename_repository db w s s' t a c) (quiet d)"
  unfolding rename_repository_def by (auto intro!: wp quiet_keep simp: exec_delete_eq)

lemma archive_repository_quiet: "quiet d db \<Longrightarrow> ensures (archive_repository db w s t a c) (quiet d)"
  unfolding archive_repository_def by (auto intro!: wp quiet_keep simp: exec_delete_eq)

lemma set_repository_visibility_quiet: "quiet d db \<Longrightarrow> ensures (set_repository_visibility db w s v t a c) (quiet d)"
  unfolding set_repository_visibility_def by (auto intro!: wp quiet_keep simp: exec_delete_eq)

lemma set_repository_collaborator_quiet: "quiet d db \<Longrightarrow> ensures (set_repository_collaborator db w s u r a) (quiet d)"
  unfolding set_repository_collaborator_def by (auto intro!: wp quiet_keep simp: exec_delete_eq delete_collaborator_def)

lemma remove_repository_collaborator_quiet: "quiet d db \<Longrightarrow> ensures (remove_repository_collaborator db w s u t a c) (quiet d)"
  unfolding remove_repository_collaborator_def by (auto intro!: wp quiet_keep simp: exec_delete_eq delete_collaborator_def)

lemma begin_repository_default_branch_quiet: "quiet d db \<Longrightarrow> ensures (begin_repository_default_branch db i) (quiet d)"
  unfolding begin_repository_default_branch_def by (auto intro!: wp quiet_keep simp: exec_delete_eq)

lemma complete_repository_default_branch_quiet: "quiet d db \<Longrightarrow> ensures (complete_repository_default_branch db i) (quiet d)"
  unfolding complete_repository_default_branch_def by (auto intro!: wp quiet_keep simp: exec_delete_eq)

lemma abandon_repository_default_branch_quiet: "quiet d db \<Longrightarrow> ensures (abandon_repository_default_branch db i) (quiet d)"
  unfolding abandon_repository_default_branch_def by (auto intro!: wp quiet_keep simp: exec_delete_eq)

lemma update_repository_settings_quiet: "quiet d db \<Longrightarrow> ensures (update_repository_settings db u) (quiet d)"
  unfolding update_repository_settings_def by (auto intro!: wp quiet_keep simp: exec_delete_eq)

lemma update_repository_collaborator_quiet: "quiet d db \<Longrightarrow> ensures (update_repository_collaborator db u) (quiet d)"
  unfolding update_repository_collaborator_def by (auto intro!: wp quiet_keep simp: exec_delete_eq delete_collaborator_def)

lemma archive_repository_for_actor_quiet: "quiet d db \<Longrightarrow> ensures (archive_repository_for_actor db w s a t c) (quiet d)"
  unfolding archive_repository_for_actor_def by (auto intro!: wp quiet_keep simp: exec_delete_eq)

lemma rename_repository_for_owner_quiet: "quiet d db \<Longrightarrow> ensures (rename_repository_for_owner db w s s' a t c) (quiet d)"
  unfolding rename_repository_for_owner_def by (auto intro!: wp quiet_keep simp: exec_delete_eq)

lemma unarchive_repository_for_owner_quiet: "quiet d db \<Longrightarrow> ensures (unarchive_repository_for_owner db w s a t c) (quiet d)"
  unfolding unarchive_repository_for_owner_def by (auto intro!: wp quiet_keep simp: exec_delete_eq)

lemma create_issue_quiet: "quiet d db \<Longrightarrow> ensures (create_issue env db i) (\<lambda>(db', _). quiet d db')"
  unfolding create_issue_def by (auto intro!: wp quiet_keep simp: exec_delete_eq)

lemma edit_issue_quiet: "quiet d db \<Longrightarrow> ensures (edit_issue env db c t b) (quiet d)"
  unfolding edit_issue_def by (auto intro!: wp quiet_keep simp: exec_delete_eq)

lemma comment_issue_quiet: "quiet d db \<Longrightarrow> ensures (comment_issue env db w r n a b t) (\<lambda>(db', _). quiet d db')"
  unfolding comment_issue_def by (auto intro!: wp quiet_keep simp: exec_delete_eq)

lemma set_issue_state_quiet: "quiet d db \<Longrightarrow> ensures (set_issue_state env db w r n a s t) (quiet d)"
  unfolding set_issue_state_def by (auto intro!: wp quiet_keep simp: exec_delete_eq)

lemma begin_pull_request_merge_quiet: "quiet d db \<Longrightarrow> ensures (begin_pull_request_merge db m i) (quiet d)"
  unfolding begin_pull_request_merge_def by (auto intro!: wp quiet_keep simp: exec_delete_eq)

lemma mark_git_objects_promoted_quiet: "quiet d db \<Longrightarrow> ensures (mark_git_objects_promoted db i p) (quiet d)"
  unfolding mark_git_objects_promoted_def by (auto intro!: wp quiet_keep simp: exec_delete_eq)

lemma complete_git_intent_quiet: "quiet d db \<Longrightarrow> ensures (complete_git_intent env db i) (quiet d)"
  unfolding complete_git_intent_def by (auto intro!: wp quiet_keep simp: exec_delete_eq)

lemma abandon_git_intent_quiet: "quiet d db \<Longrightarrow> ensures (abandon_git_intent db i) (quiet d)"
  unfolding abandon_git_intent_def by (auto intro!: wp quiet_keep simp: exec_delete_eq)

lemma begin_pull_request_open_quiet: "quiet d db \<Longrightarrow> ensures (begin_pull_request_open db i) (\<lambda>(db', _). quiet d db')"
  unfolding begin_pull_request_open_def by (auto intro!: wp quiet_keep simp: exec_delete_eq)

lemma begin_pull_request_revision_quiet: "quiet d db \<Longrightarrow> ensures (begin_pull_request_revision db n i) (\<lambda>(db', _). quiet d db')"
  unfolding begin_pull_request_revision_def by (auto intro!: wp quiet_keep simp: exec_delete_eq)

lemma complete_pull_request_ref_intent_quiet: "quiet d db \<Longrightarrow> ensures (complete_pull_request_ref_intent env db i) (quiet d)"
  unfolding complete_pull_request_ref_intent_def by (auto intro!: wp quiet_keep simp: exec_delete_eq)

lemma abandon_pull_request_ref_intent_quiet: "quiet d db \<Longrightarrow> ensures (abandon_pull_request_ref_intent db i) (quiet d)"
  unfolding abandon_pull_request_ref_intent_def by (auto intro!: wp quiet_keep simp: exec_delete_eq)

lemma create_pull_request_review_quiet: "quiet d db \<Longrightarrow> ensures (create_pull_request_review env db r) (\<lambda>(db', _). quiet d db')"
  unfolding create_pull_request_review_def by (auto intro!: wp quiet_keep simp: exec_delete_eq)

lemma edit_pull_request_quiet: "quiet d db \<Longrightarrow> ensures (edit_pull_request env db e) (quiet d)"
  unfolding edit_pull_request_def by (auto intro!: wp quiet_keep simp: exec_delete_eq)

lemma set_pull_request_state_quiet: "quiet d db \<Longrightarrow> ensures (set_pull_request_state env db w r n a s t) (quiet d)"
  unfolding set_pull_request_state_def by (auto intro!: wp quiet_keep simp: exec_delete_eq)

lemma set_watch_quiet: "quiet d db \<Longrightarrow> ensures (set_watch env db w r a b t) (\<lambda>(db', _). quiet d db')"
  unfolding set_watch_def by (auto intro!: wp quiet_keep simp: exec_delete_eq)

lemma create_feed_token_quiet: "quiet d db \<Longrightarrow> ensures (create_feed_token env db a h t) (\<lambda>(db', _). quiet d db')"
  unfolding create_feed_token_def by (auto intro!: wp quiet_keep simp: exec_delete_eq)

lemma rotate_feed_token_quiet: "quiet d db \<Longrightarrow> ensures (rotate_feed_token env db a i h t) (\<lambda>(db', _). quiet d db')"
  unfolding rotate_feed_token_def by (auto intro!: wp quiet_keep simp: exec_delete_eq)

lemma revoke_feed_token_quiet: "quiet d db \<Longrightarrow> ensures (revoke_feed_token db a i t) (quiet d)"
  unfolding revoke_feed_token_def by (auto intro!: wp quiet_keep simp: exec_delete_eq)

lemma update_profile_quiet: "quiet d db \<Longrightarrow> ensures (update_profile db u b c) (quiet d)"
  unfolding update_profile_def by (auto intro!: wp quiet_keep simp: exec_delete_eq)

lemma maintain_quiet: "quiet d db \<Longrightarrow> ensures (maintain db c) (\<lambda>(db', _). quiet d db')"
  unfolding maintain_def by (auto intro!: wp quiet_keep simp: exec_delete_eq)

lemma begin_git_intent_quiet_db: "quiet d db \<Longrightarrow> ensures (begin_git_intent db i) (quiet d)"
  by (auto intro!: quiet_keep)

end
