(* ===== verification/Invariants.thy ===== *)
theory Invariants
  imports History
begin

text \<open>
  The store as a state machine: a step is one call of one of its operations that returns \<^verbatim>\<open>Ok\<close> (a call that
  returns an error rolls its transaction back and leaves the database as it was), and a database is
  reachable when steps lead to it from the empty database that the migrations create. The arguments of a
  call, the time and the random identifiers are arbitrary, so the steps interleave the callers of the store
  in every order.

  The theorems are the invariants of every reachable database, for all operations at once.
\<close>

section \<open>Steps\<close>

text \<open>The operations on accounts and their keys.\<close>

inductive account_step :: "database \<Rightarrow> database \<Rightarrow> bool" where
  create_initial_administrator: "create_initial_administrator db a = Ok db' \<Longrightarrow> account_step db db'"
| create_signup_invitation: "create_signup_invitation db h t x = Ok db' \<Longrightarrow> account_step db db'"
| create_account_with_invitation: "create_account_with_invitation db a = Ok db' \<Longrightarrow> account_step db db'"
| recover_account: "recover_account db r = Ok db' \<Longrightarrow> account_step db db'"
| add_account_key: "add_account_key db u k t a c = Ok db' \<Longrightarrow> account_step db db'"
| revoke_account_key: "revoke_account_key db u f t a c = Ok db' \<Longrightarrow> account_step db db'"
| complete_account_key_add: "complete_account_key_add db a k = Ok db' \<Longrightarrow> account_step db db'"
| complete_account_key_revoke: "complete_account_key_revoke db a f = Ok db' \<Longrightarrow> account_step db db'"
| suspend_account: "suspend_account db u s t a c = Ok db' \<Longrightarrow> account_step db db'"

text \<open>The operations on organizations and their members.\<close>

inductive organization_step :: "database \<Rightarrow> database \<Rightarrow> bool" where
  create_organization: "create_organization db s n e w t c = Ok db' \<Longrightarrow> organization_step db db'"
| set_organization_member: "set_organization_member db g a u r t c = Ok db' \<Longrightarrow> organization_step db db'"
| update_organization_profile: "update_organization_profile db g a n e t c = Ok db' \<Longrightarrow> organization_step db db'"
| remove_organization_member: "remove_organization_member db g a u t c = Ok db' \<Longrightarrow> organization_step db db'"

text \<open>All other operations: logins, repositories, issues, Git operations, pull requests, watches and feeds.\<close>

inductive content_step :: "database \<Rightarrow> database \<Rightarrow> bool" where
  create_login_nonce: "create_login_nonce db n = Ok db' \<Longrightarrow> content_step db db'"
| consume_login_nonce: "consume_login_nonce db l = Ok db' \<Longrightarrow> content_step db db'"
| create_login_approval: "create_login_approval db a = Ok db' \<Longrightarrow> content_step db db'"
| approve_login: "approve_login db a = Ok db' \<Longrightarrow> content_step db db'"
| consume_login_approval: "consume_login_approval db l = Ok (db', result) \<Longrightarrow> content_step db db'"
| end_account_sessions: "end_account_sessions db u t = Ok db' \<Longrightarrow> content_step db db'"
| create_repository: "create_repository env db r = Ok db' \<Longrightarrow> content_step db db'"
| rename_repository: "rename_repository db w s s' t a c = Ok db' \<Longrightarrow> content_step db db'"
| archive_repository: "archive_repository db w s t a c = Ok db' \<Longrightarrow> content_step db db'"
| set_repository_visibility: "set_repository_visibility db w s v t a c = Ok db' \<Longrightarrow> content_step db db'"
| set_repository_collaborator: "set_repository_collaborator db w s u r a = Ok db' \<Longrightarrow> content_step db db'"
| remove_repository_collaborator: "remove_repository_collaborator db w s u t a c = Ok db' \<Longrightarrow> content_step db db'"
| begin_repository_default_branch: "begin_repository_default_branch db i = Ok db' \<Longrightarrow> content_step db db'"
| complete_repository_default_branch: "complete_repository_default_branch db i = Ok db' \<Longrightarrow> content_step db db'"
| abandon_repository_default_branch: "abandon_repository_default_branch db i = Ok db' \<Longrightarrow> content_step db db'"
| update_repository_settings: "update_repository_settings db u = Ok db' \<Longrightarrow> content_step db db'"
| update_repository_collaborator: "update_repository_collaborator db u = Ok db' \<Longrightarrow> content_step db db'"
| archive_repository_for_actor: "archive_repository_for_actor db w s a t c = Ok db' \<Longrightarrow> content_step db db'"
| rename_repository_for_owner: "rename_repository_for_owner db w s s' a t c = Ok db' \<Longrightarrow> content_step db db'"
| unarchive_repository_for_owner: "unarchive_repository_for_owner db w s a t c = Ok db' \<Longrightarrow> content_step db db'"
| create_issue: "create_issue env db i = Ok (db', result) \<Longrightarrow> content_step db db'"
| edit_issue: "edit_issue env db c t b = Ok db' \<Longrightarrow> content_step db db'"
| comment_issue: "comment_issue env db w r n a b t = Ok (db', result) \<Longrightarrow> content_step db db'"
| set_issue_state: "set_issue_state env db w r n a s t = Ok db' \<Longrightarrow> content_step db db'"
| begin_git_intent: "begin_git_intent db i = Ok db' \<Longrightarrow> content_step db db'"
| begin_pull_request_merge: "begin_pull_request_merge db m i = Ok db' \<Longrightarrow> content_step db db'"
| mark_git_objects_promoted: "mark_git_objects_promoted db i p = Ok db' \<Longrightarrow> content_step db db'"
| complete_git_intent: "complete_git_intent env db i = Ok db' \<Longrightarrow> content_step db db'"
| abandon_git_intent: "abandon_git_intent db i = Ok db' \<Longrightarrow> content_step db db'"
| begin_pull_request_open: "begin_pull_request_open db i = Ok (db', result) \<Longrightarrow> content_step db db'"
| begin_pull_request_revision: "begin_pull_request_revision db n i = Ok (db', result) \<Longrightarrow> content_step db db'"
| complete_pull_request_ref_intent: "complete_pull_request_ref_intent env db i = Ok db' \<Longrightarrow> content_step db db'"
| abandon_pull_request_ref_intent: "abandon_pull_request_ref_intent db i = Ok db' \<Longrightarrow> content_step db db'"
| create_pull_request_review: "create_pull_request_review env db r = Ok (db', result) \<Longrightarrow> content_step db db'"
| edit_pull_request: "edit_pull_request env db e = Ok db' \<Longrightarrow> content_step db db'"
| set_pull_request_state: "set_pull_request_state env db w r n a s t = Ok db' \<Longrightarrow> content_step db db'"
| set_watch: "set_watch env db w r a b t = Ok (db', result) \<Longrightarrow> content_step db db'"
| create_feed_token: "create_feed_token env db a h t = Ok (db', result) \<Longrightarrow> content_step db db'"
| rotate_feed_token: "rotate_feed_token env db a i h t = Ok (db', result) \<Longrightarrow> content_step db db'"
| revoke_feed_token: "revoke_feed_token db a i t = Ok db' \<Longrightarrow> content_step db db'"
| update_profile: "update_profile db u b c = Ok db' \<Longrightarrow> content_step db db'"
| maintain: "maintain db c = Ok (db', result) \<Longrightarrow> content_step db db'"
| record_audit_event: "record_audit_event db e = Ok db' \<Longrightarrow> content_step db db'"

inductive store_step :: "database \<Rightarrow> database \<Rightarrow> bool" where
  account: "account_step db db' \<Longrightarrow> store_step db db'"
| organization: "organization_step db db' \<Longrightarrow> store_step db db'"
| content: "content_step db db' \<Longrightarrow> store_step db db'"

inductive reachable :: "database \<Rightarrow> bool" where
  initial: "reachable empty_database"
| step: "reachable db \<Longrightarrow> store_step db db' \<Longrightarrow> reachable db'"

inductive_cases store_stepE: "store_step db db'"

lemmas step_intros = account_step.intros organization_step.intros content_step.intros

section \<open>What a step keeps\<close>

lemma record_audit_event_keeps: "db_ok db \<Longrightarrow> ensures (record_audit_event db e) db_ok"
  unfolding record_audit_event_def by (intro keep)

lemma record_audit_event_quiet: "quiet d db \<Longrightarrow> ensures (record_audit_event db e) (quiet d)"
  unfolding record_audit_event_def by (auto intro!: quiet_keep)

lemmas account_keeps =
  create_initial_administrator_keeps
  create_signup_invitation_keeps
  create_account_with_invitation_keeps
  recover_account_keeps
  add_account_key_keeps
  revoke_account_key_keeps
  complete_account_key_add_keeps
  complete_account_key_revoke_keeps
  suspend_account_keeps

lemmas organization_keeps =
  create_organization_keeps
  set_organization_member_keeps
  update_organization_profile_keeps
  remove_organization_member_keeps

lemmas content_keeps =
  create_login_nonce_keeps
  consume_login_nonce_keeps
  create_login_approval_keeps
  approve_login_keeps
  consume_login_approval_keeps
  end_account_sessions_keeps
  create_repository_keeps
  rename_repository_keeps
  archive_repository_keeps
  set_repository_visibility_keeps
  set_repository_collaborator_keeps
  remove_repository_collaborator_keeps
  begin_repository_default_branch_keeps
  complete_repository_default_branch_keeps
  abandon_repository_default_branch_keeps
  update_repository_settings_keeps
  update_repository_collaborator_keeps
  archive_repository_for_actor_keeps
  rename_repository_for_owner_keeps
  unarchive_repository_for_owner_keeps
  create_issue_keeps
  edit_issue_keeps
  comment_issue_keeps
  set_issue_state_keeps
  begin_git_intent_keeps
  begin_pull_request_merge_keeps
  mark_git_objects_promoted_keeps
  complete_git_intent_keeps
  abandon_git_intent_keeps
  begin_pull_request_open_keeps
  begin_pull_request_revision_keeps
  complete_pull_request_ref_intent_keeps
  abandon_pull_request_ref_intent_keeps
  create_pull_request_review_keeps
  edit_pull_request_keeps
  set_pull_request_state_keeps
  set_watch_keeps
  create_feed_token_keeps
  rotate_feed_token_keeps
  revoke_feed_token_keeps
  update_profile_keeps
  maintain_keeps
  record_audit_event_keeps

lemmas account_history =
  create_initial_administrator_history
  create_signup_invitation_history
  create_account_with_invitation_history
  recover_account_history
  add_account_key_history
  revoke_account_key_history
  complete_account_key_add_history
  complete_account_key_revoke_history
  suspend_account_history

lemmas organization_history =
  create_organization_history
  set_organization_member_history
  update_organization_profile_history
  remove_organization_member_history

lemmas content_quiet =
  create_login_nonce_quiet
  consume_login_nonce_quiet
  create_login_approval_quiet
  approve_login_quiet
  consume_login_approval_quiet
  end_account_sessions_quiet
  create_repository_quiet
  rename_repository_quiet
  archive_repository_quiet
  set_repository_visibility_quiet
  set_repository_collaborator_quiet
  remove_repository_collaborator_quiet
  begin_repository_default_branch_quiet
  complete_repository_default_branch_quiet
  abandon_repository_default_branch_quiet
  update_repository_settings_quiet
  update_repository_collaborator_quiet
  archive_repository_for_actor_quiet
  rename_repository_for_owner_quiet
  unarchive_repository_for_owner_quiet
  create_issue_quiet
  edit_issue_quiet
  comment_issue_quiet
  set_issue_state_quiet
  begin_git_intent_quiet_db
  begin_pull_request_merge_quiet
  mark_git_objects_promoted_quiet
  complete_git_intent_quiet
  abandon_git_intent_quiet
  begin_pull_request_open_quiet
  begin_pull_request_revision_quiet
  complete_pull_request_ref_intent_quiet
  abandon_pull_request_ref_intent_quiet
  create_pull_request_review_quiet
  edit_pull_request_quiet
  set_pull_request_state_quiet
  set_watch_quiet
  create_feed_token_quiet
  rotate_feed_token_quiet
  revoke_feed_token_quiet
  update_profile_quiet
  maintain_quiet
  record_audit_event_quiet

lemma account_step_ok: "account_step db db' \<Longrightarrow> db_ok db \<Longrightarrow> db_ok db'"
  by (induction rule: account_step.induct) (blast dest: account_keeps [THEN ensuresD])+

lemma organization_step_ok: "organization_step db db' \<Longrightarrow> db_ok db \<Longrightarrow> db_ok db'"
  by (induction rule: organization_step.induct) (blast dest: organization_keeps [THEN ensuresD])+

lemma content_step_ok: "content_step db db' \<Longrightarrow> db_ok db \<Longrightarrow> db_ok db'"
  by (induction rule: content_step.induct) (fastforce dest: content_keeps [THEN ensuresD])+

lemma account_step_history: "account_step db db' \<Longrightarrow> history_kept db db'"
  by (induction rule: account_step.induct) (blast dest: account_history [OF history_kept_refl, THEN ensuresD])+

lemma organization_step_history: "organization_step db db' \<Longrightarrow> history_kept db db'"
  by (induction rule: organization_step.induct)
    (blast dest: organization_history [OF history_kept_refl, THEN ensuresD])+

lemma content_step_quiet: "content_step db db' \<Longrightarrow> quiet db db'"
  by (induction rule: content_step.induct) (fastforce dest: content_quiet [OF quiet_refl, THEN ensuresD])+

text \<open>An account operation leaves organizations alone, an organization operation leaves accounts and keys alone.\<close>

lemma owners_ok_frame [simp]:
  "owners_ok (db\<lparr>db_account := t_account\<rparr>) \<longleftrightarrow> owners_ok db"
  "owners_ok (db\<lparr>db_ssh_public_key := t_ssh_public_key\<rparr>) \<longleftrightarrow> owners_ok db"
  "owners_ok (db\<lparr>db_recovery_credential := t_recovery_credential\<rparr>) \<longleftrightarrow> owners_ok db"
  "owners_ok (db\<lparr>db_signup_invitation := t_signup_invitation\<rparr>) \<longleftrightarrow> owners_ok db"
  "owners_ok (db\<lparr>db_ssh_login_approval := t_ssh_login_approval\<rparr>) \<longleftrightarrow> owners_ok db"
  "owners_ok (db\<lparr>db_web_session := t_web_session\<rparr>) \<longleftrightarrow> owners_ok db"
  "owners_ok (db\<lparr>db_namespace := t_namespace\<rparr>) \<longleftrightarrow> owners_ok db"
  "owners_ok (db\<lparr>db_feed_token := t_feed_token\<rparr>) \<longleftrightarrow> owners_ok db"
  by (simp_all add: owners_ok_def)

lemma create_initial_administrator_owners: "owners_ok db \<Longrightarrow> ensures (create_initial_administrator db a) owners_ok"
  unfolding create_initial_administrator_def by (auto intro!: wp sql_wp)

lemma create_signup_invitation_owners: "owners_ok db \<Longrightarrow> ensures (create_signup_invitation db h t x) owners_ok"
  unfolding create_signup_invitation_def by (auto intro!: wp sql_wp)

lemma create_account_with_invitation_owners: "owners_ok db \<Longrightarrow> ensures (create_account_with_invitation db a) owners_ok"
  unfolding create_account_with_invitation_def by (auto intro!: wp sql_wp)

lemma install_recovery_key_owners:
  "owners_ok db \<Longrightarrow> (\<And>db'. owners_ok db' \<Longrightarrow> Q db') \<Longrightarrow> ensures (install_recovery_key db a r) Q"
  unfolding install_recovery_key_def by (auto intro!: wp sql_wp)

lemma recover_account_owners: "owners_ok db \<Longrightarrow> ensures (recover_account db r) owners_ok"
  supply install_recovery_key_wp [sql_wp del]
  unfolding recover_account_def by (auto intro!: wp sql_wp install_recovery_key_owners)

lemma add_account_key_owners: "owners_ok db \<Longrightarrow> ensures (add_account_key db u k t a c) owners_ok"
  unfolding add_account_key_def by (auto intro!: wp sql_wp)

lemma revoke_account_key_owners: "owners_ok db \<Longrightarrow> ensures (revoke_account_key db u f t a c) owners_ok"
  unfolding revoke_account_key_def by (auto intro!: wp sql_wp)

lemma complete_account_key_add_owners: "owners_ok db \<Longrightarrow> ensures (complete_account_key_add db a k) owners_ok"
  unfolding complete_account_key_add_def by (auto intro!: wp sql_wp)

lemma complete_account_key_revoke_owners: "owners_ok db \<Longrightarrow> ensures (complete_account_key_revoke db a f) owners_ok"
  unfolding complete_account_key_revoke_def by (auto intro!: wp sql_wp)

lemma suspend_account_owners: "owners_ok db \<Longrightarrow> ensures (suspend_account db u s t a c) owners_ok"
  unfolding suspend_account_def by (auto intro!: wp sql_wp)

lemma keys_ok_organization_frame [simp]:
  "keys_ok (db\<lparr>db_namespace := n\<rparr>) \<longleftrightarrow> keys_ok db"
  "keys_ok (db\<lparr>db_organization := g\<rparr>) \<longleftrightarrow> keys_ok db"
  "keys_ok (db\<lparr>db_organization_member := m\<rparr>) \<longleftrightarrow> keys_ok db"
  by (simp_all add: keys_ok_def active_keys_def)

lemma create_organization_keys: "keys_ok db \<Longrightarrow> ensures (create_organization db s n e w t c) keys_ok"
  unfolding create_organization_def by (auto intro!: wp sql_wp simp: exec_delete_eq)

lemma set_organization_member_keys: "keys_ok db \<Longrightarrow> ensures (set_organization_member db g a u r t c) keys_ok"
  unfolding set_organization_member_def by (auto intro!: wp sql_wp simp: exec_delete_eq)

lemma update_organization_profile_keys: "keys_ok db \<Longrightarrow> ensures (update_organization_profile db g a n e t c) keys_ok"
  unfolding update_organization_profile_def by (auto intro!: wp sql_wp simp: exec_delete_eq)

lemma remove_organization_member_keys: "keys_ok db \<Longrightarrow> ensures (remove_organization_member db g a u t c) keys_ok"
  unfolding remove_organization_member_def by (auto intro!: wp sql_wp simp: exec_delete_eq)


lemma create_signup_invitation_keys: "keys_ok db \<Longrightarrow> ensures (create_signup_invitation db h t x) keys_ok"
  unfolding create_signup_invitation_def by (auto intro!: wp sql_wp simp: keys_ok_def active_keys_def)

lemma account_step_keys: "account_step db db' \<Longrightarrow> db_ok db \<Longrightarrow> keys_ok db \<Longrightarrow> keys_ok db'"
  by (induction rule: account_step.induct)
    (blast dest: ensuresD [OF create_initial_administrator_keys] ensuresD [OF create_signup_invitation_keys]
       ensuresD [OF create_account_with_invitation_keys] ensuresD [OF recover_account_keys]
       ensuresD [OF add_account_key_keys] ensuresD [OF revoke_account_key_keys]
       ensuresD [OF complete_account_key_add_keys] ensuresD [OF complete_account_key_revoke_keys]
       ensuresD [OF suspend_account_keys])+

lemma account_step_owners: "account_step db db' \<Longrightarrow> owners_ok db \<Longrightarrow> owners_ok db'"
  by (induction rule: account_step.induct)
    (blast dest: ensuresD [OF create_initial_administrator_owners] ensuresD [OF create_signup_invitation_owners]
       ensuresD [OF create_account_with_invitation_owners] ensuresD [OF recover_account_owners]
       ensuresD [OF add_account_key_owners] ensuresD [OF revoke_account_key_owners]
       ensuresD [OF complete_account_key_add_owners] ensuresD [OF complete_account_key_revoke_owners]
       ensuresD [OF suspend_account_owners])+

lemma organization_step_keys: "organization_step db db' \<Longrightarrow> keys_ok db \<Longrightarrow> keys_ok db'"
  by (induction rule: organization_step.induct)
    (blast dest: ensuresD [OF create_organization_keys] ensuresD [OF set_organization_member_keys]
       ensuresD [OF update_organization_profile_keys] ensuresD [OF remove_organization_member_keys])+

lemma organization_step_owners: "organization_step db db' \<Longrightarrow> db_ok db \<Longrightarrow> owners_ok db \<Longrightarrow> owners_ok db'"
  by (induction rule: organization_step.induct)
    (blast dest: ensuresD [OF create_organization_owners] ensuresD [OF set_organization_member_owners]
       ensuresD [OF update_organization_profile_owners] ensuresD [OF remove_organization_member_owners])+

lemma quiet_keys: "quiet d db \<Longrightarrow> keys_ok d \<Longrightarrow> keys_ok db"
proof -
  assume q: "quiet d db" and k: "keys_ok d"
  have ids: "acct_id ` set (db_account db) = acct_id ` set (db_account d)"
    using q unfolding quiet_def by (metis set_map)
  moreover have "active_keys db = active_keys d"
    using q by (simp add: quiet_def active_keys_def fun_eq_iff)
  ultimately show ?thesis using k by (simp only: keys_ok_def)
qed

lemma quiet_owners: "quiet d db \<Longrightarrow> owners_ok d \<Longrightarrow> owners_ok db"
  by (simp add: quiet_def owners_ok_def)

text \<open>The invariant of the store, over the operations together.\<close>

definition store_ok :: "database \<Rightarrow> bool" where
  "store_ok db \<longleftrightarrow> db_ok db \<and> keys_ok db \<and> owners_ok db \<and> log_ok (db_repository_event db)"

lemma store_step_history: "store_step db db' \<Longrightarrow> history_kept db db'"
  by (elim store_stepE) (blast intro: account_step_history organization_step_history quiet_history content_step_quiet)+

lemma store_step_ok: "store_step db db' \<Longrightarrow> store_ok db \<Longrightarrow> store_ok db'"
proof -
  assume s: "store_step db db'" and i: "store_ok db"
  have "log_ok (db_repository_event db')"
    using store_step_history [OF s] i by (simp add: history_kept_def store_ok_def)
  moreover from s i have "db_ok db' \<and> keys_ok db' \<and> owners_ok db'"
    unfolding store_ok_def
    by (elim store_stepE)
      (blast intro: account_step_ok organization_step_ok content_step_ok account_step_keys account_step_owners
         organization_step_keys organization_step_owners content_step_quiet [THEN quiet_keys]
         content_step_quiet [THEN quiet_owners])+
  ultimately show ?thesis by (simp add: store_ok_def)
qed

lemma initial_store_ok: "store_ok empty_database"
proof -
  have "db_ok empty_database" by code_simp
  then show ?thesis
    by (simp add: store_ok_def keys_ok_def owners_ok_def log_ok_def sequence_of_def empty_database_def)
qed

section \<open>Properties\<close>


text \<open>C17. History is never rewritten: across any sequence of operations the events, the revisions and reviews of
  pull requests, the comments on issues and the log of completed Git operations that were there before are still
  there, unchanged and in the same order, before anything added later.\<close>

theorem history_append_only:
  assumes "store_step\<^sup>*\<^sup>* db db'"
  shows "prefix (db_repository_event db) (db_repository_event db')
    \<and> prefix (db_pull_request_revision db) (db_pull_request_revision db')
    \<and> prefix (db_pull_request_review db) (db_pull_request_review db')
    \<and> prefix (db_issue_comment db) (db_issue_comment db')
    \<and> prefix (db_git_operation_event db) (db_git_operation_event db')"
proof -
  from assms have "history_kept db db'"
    by (induction rule: rtranclp_induct) (auto intro: store_step_history history_kept_trans)
  then show ?thesis by (simp add: history_kept_def)
qed

text \<open>A first run of the store: an administrator is created, who creates a repository.\<close>

definition first_administrator :: initial_administrator where
  "first_administrator = \<lparr>ia_username = ''alice'', ia_canonical_key = ''ssh-ed25519 fa'', ia_fingerprint = ''fa'',
     ia_recovery_hash = hash_of 7, ia_created_at = 1\<rparr>"

definition first_repository :: new_repository where
  "first_repository = \<lparr>nr_id = id32 (CHR ''a''), nr_owner = ''alice'', nr_slug = ''tool'',
     nr_object_format = ''sha1'', nr_default_branch = ''refs/heads/main'', nr_created_at = 2,
     nr_origin = Created, nr_initial_references = [], nr_actor = ''alice'', nr_correlation_id = ''cli''\<rparr>"

definition first_database :: database where
  "first_database = projr (create_initial_administrator empty_database first_administrator)"

definition second_database :: database where
  "second_database = projr (create_repository sample_env first_database first_repository)"

lemma first_database_eq: "create_initial_administrator empty_database first_administrator = Ok first_database"
  unfolding first_database_def by (rule not_isl_Ok) code_simp

lemma second_database_eq: "create_repository sample_env first_database first_repository = Ok second_database"
  unfolding second_database_def by (rule not_isl_Ok) code_simp

lemma first_run: "store_step\<^sup>*\<^sup>* first_database second_database \<and> reachable second_database"
proof
  have "store_step empty_database first_database"
    by (rule store_step.account, rule account_step.create_initial_administrator, rule first_database_eq)
  moreover have s: "store_step first_database second_database"
    by (rule store_step.content, rule content_step.create_repository, rule second_database_eq)
  ultimately show "reachable second_database" by (blast intro: reachable.intros)
  from s show "store_step\<^sup>*\<^sup>* first_database second_database" by blast
qed


theorem history_append_only_witness:
  "prefix (db_repository_event first_database) (db_repository_event second_database)"
  using history_append_only [OF first_run [THEN conjunct1]] by blast

end
