(* ===== verification/Packet_Line.thy ===== *)
theory Packet_Line
  imports Codec
begin

text \<open>
  Git's packet-line framing (\<^verbatim>\<open>src/git/packetline.rs\<close>): a packet is a four-digit hexadecimal length
  that counts itself, then the payload; lengths 0, 1 and 2 are the control packets. The encoder, the
  decoder with its byte offset and every rejection, and the scanner that finds the end of a request are
  modelled over the whole input with its offsets. The theorems show that decoding undoes encoding, that
  a side-band stream carries exactly its data, that the scanner stops right behind the first flush, and
  that neither loop ever reads past the input.
\<close>

section \<open>Packets, errors and limits\<close>

datatype packet = Data blob | Flush | Delimiter | ResponseEnd

datatype packet_line_error =
  RequestTooLarge | TruncatedHeader | InvalidLength | PacketTooLarge | TruncatedPacket

definition MAX_PACKET_BYTES :: nat where "MAX_PACKET_BYTES = 65520"
definition MAX_REQUEST_BYTES :: nat where "MAX_REQUEST_BYTES = 1024 * 1024"

section \<open>Encoding\<close>

text \<open>\<^verbatim>\<open>format!("{length:04x}")\<close>: lower-case hexadecimal, padded with zeros to four digits.\<close>

fun lower_hex_digits :: "nat \<Rightarrow> string" where
  "lower_hex_digits n =
     (if n < 16 then [HEX ! n] else lower_hex_digits (n div 16) @ [HEX ! (n mod 16)])"

declare lower_hex_digits.simps [simp del]

definition format_04x :: "nat \<Rightarrow> string" where
  "format_04x n = (let d = lower_hex_digits n in replicate (4 - length d) (CHR ''0'') @ d)"

definition encode_data :: "blob \<Rightarrow> blob \<Rightarrow> (packet_line_error, blob) result" where
  "encode_data data output =
     (let len = length data + 4 in
      if len > MAX_PACKET_BYTES then Err PacketTooLarge
      else Ok (output @ as_bytes (format_04x len) @ data))"

definition encode_flush :: "blob \<Rightarrow> blob" where
  "encode_flush output = output @ as_bytes ''0000''"

definition encode_delimiter :: "blob \<Rightarrow> blob" where
  "encode_delimiter output = output @ as_bytes ''0001''"

text \<open>\<^verbatim>\<open>slice::chunks(n)\<close>, for \<open>n > 0\<close>.\<close>

function chunks :: "nat \<Rightarrow> 'a list \<Rightarrow> 'a list list" where
  "chunks n xs = (if xs = [] \<or> n = 0 then [] else take n xs # chunks n (drop n xs))"
  by pat_completeness auto
termination
  by (relation "measure (\<lambda>(n, xs). length xs)") auto

declare chunks.simps [simp del]

fun encode_chunks :: "blob list \<Rightarrow> blob \<Rightarrow> (packet_line_error, blob) result" where
  "encode_chunks [] output = Ok output"
| "encode_chunks (chunk # rest) output =
     try_then (encode_data (1 # chunk) output) (encode_chunks rest)"

definition encode_sideband :: "blob \<Rightarrow> blob \<Rightarrow> (packet_line_error, blob) result" where
  "encode_sideband data output = encode_chunks (chunks (MAX_PACKET_BYTES - 5) data) output"

section \<open>Decoding\<close>

definition is_hexdigit_byte :: "byte \<Rightarrow> bool" where
  "is_hexdigit_byte b \<longleftrightarrow> decode_nibble b True \<noteq> None"

text \<open>\<^verbatim>\<open>usize::from_str_radix(header, 16)\<close> on hexadecimal digits.\<close>

definition from_str_radix_16 :: "blob \<Rightarrow> nat" where
  "from_str_radix_16 header =
     foldl (\<lambda>n b. 16 * n + (case decode_nibble b True of Some d \<Rightarrow> unat d | None \<Rightarrow> 0)) 0 header"

text \<open>\<^verbatim>\<open>input.get(a..b)\<close>.\<close>

definition get_range :: "'a list \<Rightarrow> nat \<Rightarrow> nat \<Rightarrow> 'a list option" where
  "get_range input a b = (if a \<le> b \<and> b \<le> length input then Some (take (b - a) (drop a input)) else None)"

function decode_from :: "blob \<Rightarrow> nat \<Rightarrow> packet list \<Rightarrow> (packet_line_error, packet list) result" where
  "decode_from input offset packets =
     (if offset < length input then
        (case get_range input offset (offset + 4) of
           None \<Rightarrow> Err TruncatedHeader
         | Some header \<Rightarrow>
             (if \<not> list_all is_hexdigit_byte header then Err InvalidLength
              else
                let len = from_str_radix_16 header; start = offset + 4 in
                if len = 0 then decode_from input start (packets @ [Flush])
                else if len = 1 then decode_from input start (packets @ [Delimiter])
                else if len = 2 then decode_from input start (packets @ [ResponseEnd])
                else if len = 3 \<or> len = 4 then Err InvalidLength
                else if len > MAX_PACKET_BYTES then Err PacketTooLarge
                else (case get_range input start (start + (len - 4)) of
                        None \<Rightarrow> Err TruncatedPacket
                      | Some payload \<Rightarrow>
                          decode_from input (start + (len - 4)) (packets @ [Data payload]))))
      else Ok packets)"
  by pat_completeness auto
termination
  by (relation "measure (\<lambda>(input, offset, packets). length input - offset)") auto

declare decode_from.simps [simp del]

definition decode :: "blob \<Rightarrow> (packet_line_error, packet list) result" where
  "decode input =
     (if length input > MAX_REQUEST_BYTES then Err RequestTooLarge else decode_from input 0 [])"

function flush_end_from :: "blob \<Rightarrow> nat \<Rightarrow> (packet_line_error, nat option) result" where
  "flush_end_from input offset =
     (if offset < length input then
        (if offset \<ge> MAX_REQUEST_BYTES then Err RequestTooLarge
         else case get_range input offset (offset + 4) of
           None \<Rightarrow> Ok None
         | Some header \<Rightarrow>
             (if \<not> list_all is_hexdigit_byte header then Err InvalidLength
              else
                let len = from_str_radix_16 header in
                if len = 0 \<and> offset + 4 \<le> MAX_REQUEST_BYTES then Ok (Some (offset + 4))
                else if len = 0 then Err RequestTooLarge
                else if len = 1 \<or> len = 2 then flush_end_from input (offset + 4)
                else if len = 3 \<or> len = 4 then Err InvalidLength
                else if len > MAX_PACKET_BYTES then Err PacketTooLarge
                else
                  let stop = offset + len in
                  if stop > length input then Ok None
                  else if stop > MAX_REQUEST_BYTES then Err RequestTooLarge
                  else flush_end_from input stop))
      else Ok None)"
  by pat_completeness auto
termination
  by (relation "measure (\<lambda>(input, offset). length input - offset)") auto

declare flush_end_from.simps [simp del]

definition first_flush_end :: "blob \<Rightarrow> (packet_line_error, nat option) result" where
  "first_flush_end input = flush_end_from input 0"

section \<open>The length header\<close>

lemma from_str_radix_16_snoc:
  "from_str_radix_16 (h @ [b]) =
     16 * from_str_radix_16 h + (case decode_nibble b True of Some d \<Rightarrow> unat d | None \<Rightarrow> 0)"
  by (simp add: from_str_radix_16_def)

lemma unat_nibble [simp]: "n < 16 \<Longrightarrow> unat (word_of_nat n :: byte) = n"
  by (simp add: unat_of_nat)

lemma from_str_radix_16_lower_hex: "from_str_radix_16 (as_bytes (lower_hex_digits n)) = n"
proof (induction n rule: lower_hex_digits.induct)
  case (1 n)
  show ?case
  proof (cases "n < 16")
    case True
    then show ?thesis
      by (subst lower_hex_digits.simps) (simp add: from_str_radix_16_def as_bytes_def)
  next
    case False
    with 1 show ?thesis
      by (subst lower_hex_digits.simps)
        (simp add: as_bytes_def from_str_radix_16_snoc)
  qed
qed

lemma from_str_radix_16_zeros:
  "from_str_radix_16 (replicate k (byte_of_char (CHR ''0'')) @ bs) = from_str_radix_16 bs"
proof -
  have "decode_nibble (byte_of_char (CHR ''0'')) True = Some 0" by code_simp
  then show ?thesis by (induction k) (simp_all add: from_str_radix_16_def)
qed

lemma lower_hex_digits_length: "n < 16 ^ Suc k \<Longrightarrow> length (lower_hex_digits n) \<le> Suc k"
proof (induction k arbitrary: n)
  case 0
  then show ?case by (subst lower_hex_digits.simps) simp
next
  case (Suc k)
  then have "n div 16 < 16 ^ Suc k" by (simp add: less_mult_imp_div_less mult.commute)
  with Suc.IH show ?case by (subst lower_hex_digits.simps) auto
qed

lemma lower_hex_digits_hex: "list_all is_hexdigit_byte (as_bytes (lower_hex_digits n))"
proof (induction n rule: lower_hex_digits.induct)
  case (1 n)
  then show ?case
    by (subst lower_hex_digits.simps) (auto simp: as_bytes_def is_hexdigit_byte_def list_all_iff)
qed

lemma header_length: "n < 65536 \<Longrightarrow> length (as_bytes (format_04x n)) = 4"
  using lower_hex_digits_length [of n 3] by (simp add: format_04x_def Let_def)

lemma header_value: "from_str_radix_16 (as_bytes (format_04x n)) = n"
  by (simp add: format_04x_def Let_def as_bytes_def from_str_radix_16_zeros
      from_str_radix_16_lower_hex [unfolded as_bytes_def])

lemma header_hex: "list_all is_hexdigit_byte (as_bytes (format_04x n))"
proof -
  have "is_hexdigit_byte (byte_of_char (CHR ''0''))" by code_simp
  then show ?thesis
    using lower_hex_digits_hex [of n]
    by (auto simp: format_04x_def Let_def as_bytes_def list_all_iff)
qed

lemma get_range_middle [simp]:
  "length b = n \<Longrightarrow> get_range (a @ b @ c) (length a) (length a + n) = Some b"
  by (simp add: get_range_def)

lemma get_range_middle_end [simp]:
  "length b = n \<Longrightarrow> get_range (a @ b) (length a) (length a + n) = Some b"
  by (simp add: get_range_def)

section \<open>Decoding undoes encoding\<close>

text \<open>The stream of a list of packets, in the order the encoders write it.\<close>

fun encode_all :: "packet list \<Rightarrow> blob \<Rightarrow> (packet_line_error, blob) result" where
  "encode_all [] output = Ok output"
| "encode_all (Data d # ps) output = try_then (encode_data d output) (encode_all ps)"
| "encode_all (Flush # ps) output = encode_all ps (encode_flush output)"
| "encode_all (Delimiter # ps) output = encode_all ps (encode_delimiter output)"
| "encode_all (ResponseEnd # ps) output = encode_all ps (output @ as_bytes ''0002'')"

definition well_formed_packet :: "packet \<Rightarrow> bool" where
  "well_formed_packet p \<longleftrightarrow> p \<noteq> Data []"

lemma decode_from_data:
  assumes "d \<noteq> []" and "length d + 4 \<le> MAX_PACKET_BYTES"
  shows "decode_from (pre @ as_bytes (format_04x (length d + 4)) @ d @ post) (length pre) acc =
     decode_from (pre @ as_bytes (format_04x (length d + 4)) @ d @ post)
       (length pre + 4 + length d) (acc @ [Data d])"
proof -
  let ?h = "as_bytes (format_04x (length d + 4))"
  from assms(2) have len: "length ?h = 4"
    by (intro header_length) (simp add: MAX_PACKET_BYTES_def)
  have "get_range (pre @ ?h @ d @ post) (length pre) (length pre + 4) = Some ?h"
    using len by simp
  moreover have "get_range (pre @ ?h @ d @ post) (length pre + 4) (length pre + 4 + length d) = Some d"
    using get_range_middle [of d "length d" "pre @ ?h" post] len by simp
  ultimately show ?thesis
    using assms len header_value [of "length d + 4"] header_hex [of "length d + 4"]
    by (subst decode_from.simps) (auto simp: Let_def)
qed

lemma control_headers:
  "list_all is_hexdigit_byte (as_bytes ''0000'')" "from_str_radix_16 (as_bytes ''0000'') = 0"
  "list_all is_hexdigit_byte (as_bytes ''0001'')" "from_str_radix_16 (as_bytes ''0001'') = 1"
  "list_all is_hexdigit_byte (as_bytes ''0002'')" "from_str_radix_16 (as_bytes ''0002'') = 2"
  by code_simp+

lemma decode_from_control:
  assumes "(h, p) \<in> {(''0000'', Flush), (''0001'', Delimiter), (''0002'', ResponseEnd)}"
  shows "decode_from (pre @ as_bytes h @ post) (length pre) acc =
     decode_from (pre @ as_bytes h @ post) (length pre + 4) (acc @ [p])"
proof -
  from assms have "length (as_bytes h) = 4" by auto
  then have "get_range (pre @ as_bytes h @ post) (length pre) (length pre + 4) = Some (as_bytes h)"
    by simp
  moreover have "length pre < length (pre @ as_bytes h @ post)" using assms by auto
  ultimately show ?thesis
    using assms control_headers by (subst decode_from.simps) (auto simp: Let_def)
qed

lemma encode_all_extends: "encode_all ps out = Ok out' \<Longrightarrow> \<exists>post. out' = out @ post"
  by (induction ps out arbitrary: out' rule: encode_all.induct)
    (fastforce simp: encode_data_def encode_flush_def encode_delimiter_def Let_def split: if_splits)+

lemma decode_from_control_step:
  assumes "(h, p) \<in> {(''0000'', Flush), (''0001'', Delimiter), (''0002'', ResponseEnd)}"
    and "encode_all ps (out @ as_bytes h) = Ok out'"
    and "decode_from out' (length (out @ as_bytes h)) (acc @ [p]) = Ok (acc @ p # ps)"
  shows "decode_from out' (length out) acc = Ok (acc @ p # ps)"
proof -
  from encode_all_extends [OF assms(2)] obtain post where "out' = out @ as_bytes h @ post" by auto
  moreover from assms(1) have "length (as_bytes h) = 4" by auto
  ultimately show ?thesis using decode_from_control [OF assms(1), of out post acc] assms(3) by simp
qed

lemma decode_from_encode_all:
  "encode_all ps out = Ok out' \<Longrightarrow> list_all well_formed_packet ps \<Longrightarrow>
   decode_from out' (length out) acc = Ok (acc @ ps)"
proof (induction ps out arbitrary: acc out' rule: encode_all.induct)
  case (1 outp)
  then show ?case by (subst decode_from.simps) simp
next
  case (2 d ps outp)
  from 2(2) obtain mid where mid: "encode_data d outp = Ok mid" and rest: "encode_all ps mid = Ok out'"
    by auto
  then have fits: "length d + 4 \<le> MAX_PACKET_BYTES" and
    mid_eq: "mid = outp @ as_bytes (format_04x (length d + 4)) @ d"
    by (auto simp: encode_data_def Let_def split: if_splits)
  from encode_all_extends [OF rest] obtain post where post: "out' = mid @ post" by auto
  have "length (as_bytes (format_04x (length d + 4))) = 4"
    using fits by (intro header_length) (simp add: MAX_PACKET_BYTES_def)
  then have "length mid = length outp + 4 + length d" by (simp add: mid_eq)
  moreover from 2 have "d \<noteq> []" by (simp add: well_formed_packet_def)
  moreover have "decode_from out' (length mid) (acc @ [Data d]) = Ok ((acc @ [Data d]) @ ps)"
    using 2(1) [OF rest] 2(3) by simp
  ultimately show ?case
    using decode_from_data [OF _ fits, of outp post acc] by (simp add: post mid_eq add.assoc)
next
  case (3 ps outp)
  then show ?case
    by (intro decode_from_control_step [where h = "''0000''"]) (auto simp: encode_flush_def)
next
  case (4 ps outp)
  then show ?case
    by (intro decode_from_control_step [where h = "''0001''"]) (auto simp: encode_delimiter_def)
next
  case (5 ps outp)
  then show ?case
    by (intro decode_from_control_step [where h = "''0002''"]) auto
qed

text \<open>C36. Packet-line framing round-trips: a stream that the encoders write from a list of packets (no
  empty data packet, which the protocol forbids) and that fits the request limit decodes to exactly
  these packets, in order.\<close>

theorem packet_roundtrip:
  assumes "encode_all ps [] = Ok out" and "list_all well_formed_packet ps"
    and "length out \<le> MAX_REQUEST_BYTES"
  shows "decode out = Ok ps"
  using assms decode_from_encode_all [of ps "[]" out "[]"] by (simp add: decode_def)

theorem packet_roundtrip_witness:
  "decode (as_bytes ''0006hi0000'') = Ok [Data (as_bytes ''hi''), Flush]"
proof -
  have "format_04x 6 = ''0006''" by code_simp
  then have "encode_all [Data (as_bytes ''hi''), Flush] [] = Ok (as_bytes ''0006hi0000'')"
    by (simp add: encode_data_def encode_flush_def Let_def MAX_PACKET_BYTES_def as_bytes_def)
  moreover have "list_all well_formed_packet [Data (as_bytes ''hi''), Flush]" by code_simp
  ultimately show ?thesis by (rule packet_roundtrip) (simp add: MAX_REQUEST_BYTES_def)
qed

section \<open>Side band\<close>

lemma chunks_concat: "0 < n \<Longrightarrow> concat (chunks n xs) = xs"
proof (induction n xs rule: chunks.induct)
  case (1 n xs)
  then show ?case by (subst chunks.simps) auto
qed

lemma chunks_bounded: "0 < n \<Longrightarrow> list_all (\<lambda>c. c \<noteq> [] \<and> length c \<le> n) (chunks n xs)"
proof (induction n xs rule: chunks.induct)
  case (1 n xs)
  then show ?case by (subst chunks.simps) auto
qed

lemma encode_chunks_encode_all:
  "encode_chunks cs out = encode_all (map (\<lambda>c. Data (1 # c)) cs) out"
proof (induction cs arbitrary: out)
  case (Cons c cs)
  then have "encode_chunks cs = encode_all (map (\<lambda>c. Data (1 # c)) cs)" by auto
  then show ?case by simp
qed simp

lemma encode_all_data_total:
  "list_all (\<lambda>c. length c + 5 \<le> MAX_PACKET_BYTES) cs \<Longrightarrow>
   \<exists>out'. encode_all (map (\<lambda>c. Data (1 # c)) cs) out = Ok out'"
  by (induction cs arbitrary: out) (auto simp: encode_data_def Let_def)

text \<open>Side-band encoding never fails and loses nothing: the stream it writes decodes to data packets
  on band 1, each within the packet limit, whose payloads concatenate to exactly the data.\<close>

lemma sideband_roundtrip:
  "\<exists>out parts. encode_sideband data [] = Ok out
     \<and> decode_from out 0 [] = Ok (map (\<lambda>part. Data (1 # part)) parts)
     \<and> concat parts = data
     \<and> list_all (\<lambda>part. part \<noteq> [] \<and> length (1 # part) + 4 \<le> MAX_PACKET_BYTES) parts"
proof -
  let ?n = "MAX_PACKET_BYTES - 5" and ?parts = "chunks (MAX_PACKET_BYTES - 5) data"
  have n: "0 < ?n" by (simp add: MAX_PACKET_BYTES_def)
  have bounded: "list_all (\<lambda>c. length c + 5 \<le> MAX_PACKET_BYTES) ?parts"
    using chunks_bounded [OF n, of data] by (auto simp: list_all_iff MAX_PACKET_BYTES_def)
  then obtain out where out: "encode_all (map (\<lambda>c. Data (1 # c)) ?parts) [] = Ok out"
    using encode_all_data_total by blast
  have "list_all well_formed_packet (map (\<lambda>c. Data (1 # c)) ?parts)"
    by (simp add: list_all_iff well_formed_packet_def)
  with out have "decode_from out 0 [] = Ok (map (\<lambda>c. Data (1 # c)) ?parts)"
    using decode_from_encode_all [of _ "[]" out "[]"] by simp
  moreover have "encode_sideband data [] = Ok out"
    using out by (simp add: encode_sideband_def encode_chunks_encode_all)
  moreover have "list_all (\<lambda>part. part \<noteq> [] \<and> length (1 # part) + 4 \<le> MAX_PACKET_BYTES) ?parts"
    using bounded chunks_bounded [OF n, of data] by (auto simp: list_all_iff)
  ultimately show ?thesis using chunks_concat [OF n, of data] by blast
qed

section \<open>The request scanner\<close>

lemma get_range_take: "b \<le> n \<Longrightarrow> n \<le> length xs \<Longrightarrow> get_range (take n xs) a b = get_range xs a b"
  by (auto simp: get_range_def drop_take min_def)

text \<open>What one turn of the scanner that finds a flush has done: read a well-formed header, and either
  stopped behind a flush or gone on behind a control packet or behind a data packet.\<close>

lemma flush_end_from_cases:
  assumes "flush_end_from input offset = Ok (Some n)"
  obtains header where "get_range input offset (offset + 4) = Some header"
    and "list_all is_hexdigit_byte header"
    and "from_str_radix_16 header = 0 \<and> n = offset + 4 \<and> offset + 4 \<le> MAX_REQUEST_BYTES
      \<or> from_str_radix_16 header \<in> {1, 2} \<and> flush_end_from input (offset + 4) = Ok (Some n)
      \<or> 5 \<le> from_str_radix_16 header \<and> from_str_radix_16 header \<le> MAX_PACKET_BYTES
        \<and> offset + from_str_radix_16 header \<le> length input
        \<and> flush_end_from input (offset + from_str_radix_16 header) = Ok (Some n)"
proof -
  note step = assms [unfolded flush_end_from.simps [of input offset]]
  from step obtain header where header: "get_range input offset (offset + 4) = Some header"
    by (auto split: if_splits option.splits)
  with step have hex: "list_all is_hexdigit_byte header" by (auto split: if_splits)
  let ?len = "from_str_radix_16 header"
  have "?len = 0 \<or> ?len = 1 \<or> ?len = 2 \<or> ?len = 3 \<or> ?len = 4 \<or> 5 \<le> ?len" by arith
  with step header hex show ?thesis
    by (intro that [OF header hex]) (auto simp: Let_def not_less split: if_splits)
qed

lemma get_range_SomeD: "get_range xs a b = Some ys \<Longrightarrow> a \<le> b \<and> b \<le> length xs"
  by (auto simp: get_range_def split: if_splits)

lemma flush_end_from_bounds:
  "flush_end_from input offset = Ok (Some n) \<Longrightarrow>
   offset + 4 \<le> n \<and> n \<le> length input \<and> n \<le> MAX_REQUEST_BYTES"
proof (induction "length input - offset" arbitrary: offset rule: less_induct)
  case less
  from less.prems obtain header where get: "get_range input offset (offset + 4) = Some header"
    and turn: "from_str_radix_16 header = 0 \<and> n = offset + 4 \<and> offset + 4 \<le> MAX_REQUEST_BYTES
      \<or> from_str_radix_16 header \<in> {1, 2} \<and> flush_end_from input (offset + 4) = Ok (Some n)
      \<or> 5 \<le> from_str_radix_16 header \<and> flush_end_from input (offset + from_str_radix_16 header) = Ok (Some n)"
    by (rule flush_end_from_cases) blast
  note inside = get_range_SomeD [OF get]
  have go_on: ?case if "flush_end_from input off = Ok (Some n)" and "offset < off" for off
    using less.hyps [OF _ that(1)] that(2) inside by fastforce
  from turn inside show ?case
    by (elim disjE conjE) (simp, (rule go_on, assumption, simp)+)
qed

lemma decode_from_turn:
  assumes "get_range input offset (offset + 4) = Some header" and "list_all is_hexdigit_byte header"
  shows "from_str_radix_16 header = 0 \<Longrightarrow>
      decode_from input offset acc = decode_from input (offset + 4) (acc @ [Flush])"
    and "from_str_radix_16 header = 1 \<Longrightarrow>
      decode_from input offset acc = decode_from input (offset + 4) (acc @ [Delimiter])"
    and "from_str_radix_16 header = 2 \<Longrightarrow>
      decode_from input offset acc = decode_from input (offset + 4) (acc @ [ResponseEnd])"
    and "5 \<le> from_str_radix_16 header \<Longrightarrow> from_str_radix_16 header \<le> MAX_PACKET_BYTES \<Longrightarrow>
      offset + from_str_radix_16 header \<le> length input \<Longrightarrow>
      \<exists>payload. decode_from input offset acc =
        decode_from input (offset + from_str_radix_16 header) (acc @ [Data payload])"
proof -
  have "offset < length input" using get_range_SomeD [OF assms(1)] by simp
  note unfold = decode_from.simps [of input offset acc] assms this
  show "from_str_radix_16 header = 0 \<Longrightarrow>
      decode_from input offset acc = decode_from input (offset + 4) (acc @ [Flush])"
    and "from_str_radix_16 header = 1 \<Longrightarrow>
      decode_from input offset acc = decode_from input (offset + 4) (acc @ [Delimiter])"
    and "from_str_radix_16 header = 2 \<Longrightarrow>
      decode_from input offset acc = decode_from input (offset + 4) (acc @ [ResponseEnd])"
    by (simp_all add: unfold)
  assume len: "5 \<le> from_str_radix_16 header" "from_str_radix_16 header \<le> MAX_PACKET_BYTES"
    "offset + from_str_radix_16 header \<le> length input"
  then obtain payload where "get_range input (offset + 4) (offset + from_str_radix_16 header) = Some payload"
    by (auto simp: get_range_def)
  then show "\<exists>payload. decode_from input offset acc =
      decode_from input (offset + from_str_radix_16 header) (acc @ [Data payload])"
    using len by (auto simp: unfold Let_def)
qed

lemma flush_end_from_decodes:
  "flush_end_from input offset = Ok (Some n) \<Longrightarrow>
   \<exists>ps. Flush \<notin> set ps \<and> decode_from (take n input) offset acc = Ok (acc @ ps @ [Flush])"
proof (induction "length input - offset" arbitrary: offset acc rule: less_induct)
  case less
  note bounds = flush_end_from_bounds [OF less.prems]
  from less.prems obtain header where get: "get_range input offset (offset + 4) = Some header"
    and hex: "list_all is_hexdigit_byte header"
    and turn: "from_str_radix_16 header = 0 \<and> n = offset + 4 \<and> offset + 4 \<le> MAX_REQUEST_BYTES
      \<or> from_str_radix_16 header \<in> {1, 2} \<and> flush_end_from input (offset + 4) = Ok (Some n)
      \<or> 5 \<le> from_str_radix_16 header \<and> from_str_radix_16 header \<le> MAX_PACKET_BYTES
        \<and> offset + from_str_radix_16 header \<le> length input
        \<and> flush_end_from input (offset + from_str_radix_16 header) = Ok (Some n)"
    by (rule flush_end_from_cases)
  have get': "get_range (take n input) offset (offset + 4) = Some header"
    using get bounds by (simp add: get_range_take)
  note turns = decode_from_turn [OF get' hex, of acc]
  have go_on: ?case if "flush_end_from input off = Ok (Some n)" and "offset < off"
    and "decode_from (take n input) offset acc = decode_from (take n input) off (acc @ [p])"
    and "p \<noteq> Flush" for off p
  proof -
    have "length input - off < length input - offset" using that(2) bounds by arith
    from less.hyps [OF this that(1), of "acc @ [p]"] obtain ps where "Flush \<notin> set ps"
      "decode_from (take n input) off (acc @ [p]) = Ok (acc @ (p # ps) @ [Flush])" by auto
    then show ?thesis using that(3,4) by (intro exI [of _ "p # ps"]) auto
  qed
  from turn show ?case
  proof (elim disjE conjE)
    assume "from_str_radix_16 header = 0" and n: "n = offset + 4"
    then show ?thesis
      using turns(1) bounds by (intro exI [of _ "[]"]) (simp add: decode_from.simps [of _ "offset + 4"])
  next
    assume "from_str_radix_16 header \<in> {1, 2}" and "flush_end_from input (offset + 4) = Ok (Some n)"
    then show ?thesis using turns(2,3) go_on [of "offset + 4"] by auto
  next
    let ?len = "from_str_radix_16 header"
    assume "5 \<le> ?len" "?len \<le> MAX_PACKET_BYTES" and rest: "flush_end_from input (offset + ?len) = Ok (Some n)"
    moreover have "offset + ?len \<le> length (take n input)"
      using flush_end_from_bounds [OF rest] by simp
    ultimately show ?thesis using turns(4) go_on [OF rest] by fastforce
  qed
qed

text \<open>The scanner for the end of a request is right: the offset it returns lies within the input and
  the request limit, and the bytes before it are a complete sequence of packets in which the flush at
  the end is the only one.\<close>

lemma first_flush_end_correct:
  assumes "first_flush_end input = Ok (Some n)"
  shows "n \<le> length input \<and> n \<le> MAX_REQUEST_BYTES
    \<and> (\<exists>packets. decode (take n input) = Ok (packets @ [Flush]) \<and> Flush \<notin> set packets)"
proof -
  from assms have found: "flush_end_from input 0 = Ok (Some n)" by (simp add: first_flush_end_def)
  note flush_end_from_bounds [OF found]
  moreover from flush_end_from_decodes [OF found, of "[]"]
  obtain ps where "Flush \<notin> set ps" "decode_from (take n input) 0 [] = Ok (ps @ [Flush])" by auto
  ultimately show ?thesis by (auto simp: decode_def)
qed

end
