(* ===== verification/Pack_Limits.thy ===== *)
theory Pack_Limits
  imports Policy Packet_Line
begin

text \<open>
  The limits that \<^verbatim>\<open>src/git/receive_pack.rs\<close> puts on a received pack before any object is unpacked: the sizes a
  delta announces (\<^verbatim>\<open>decode_delta_size\<close>) and the length of its delta chains (\<^verbatim>\<open>delta_depth\<close>, with its table of
  depths already found, and \<^verbatim>\<open>validate_delta_depth\<close>).

  An object id is its lower-case hexadecimal text, as \<^verbatim>\<open>ObjectId\<close> displays it. The lemmas show that the size
  decoder inverts Git's encoding up to the wrap-around of \<^verbatim>\<open>u64\<close>, and that the memoized search accepts a pack
  exactly when every chain ends and has at most 64 deltas.
\<close>

type_synonym oid = string

datatype object_kind = Commit | Tree | Blob | Tag

datatype receive_pack_error =
    ReceivePacketLine packet_line_error
  | ReceiveIo
  | ReceiveStore store_error
  | ReceiveRepository string
  | NotBare
  | Commands
  | CommandLimit
  | ObjectFormat
  | RefName
  | StaleRef
  | MissingPack
  | PackLimit
  | ObjectLimit
  | DeltaDepthLimit
  | WallClockLimit
  | PackError string
  | ObjectError string
  | MissingObject oid
  | MalformedObject object_kind
  | BranchNotCommit
  | NonFastForward
  | RefPolicy
  | ReceivePolicy policy_error
  | RefTransaction string
  | MixedRecovery string
  | RecoveryData
  | ReceiveRandom
  | ReceiveClock
  | ReceivePath

section \<open>Delta sizes\<close>

fun delta_size_from :: "nat \<Rightarrow> nat \<Rightarrow> 64 word \<Rightarrow> blob \<Rightarrow> (receive_pack_error, 64 word \<times> nat) result" where
  "delta_size_from shift index accumulated [] = Err (PackError ''delta object size is incomplete'')"
| "delta_size_from shift index accumulated (byte # bytes) =
     (if 64 \<le> shift then Err (PackError ''delta object size is invalid'')
      else
        let accumulated = accumulated OR push_bit shift (ucast (byte AND 0x7f)) in
        if byte AND 0x80 = 0 then Ok (accumulated, index + 1)
        else delta_size_from (shift + 7) (index + 1) accumulated bytes)"

definition decode_delta_size :: "blob \<Rightarrow> (receive_pack_error, 64 word \<times> nat) result" where
  "decode_delta_size input = delta_size_from 0 0 0 input"

text \<open>Git's encoding of a size: seven bits per byte, least significant first, the top bit set on all but the
  last.\<close>

fun size_bytes :: "nat \<Rightarrow> blob" where
  "size_bytes n = (if n < 128 then [word_of_nat n] else word_of_nat (128 + n mod 128) # size_bytes (n div 128))"

declare size_bytes.simps [simp del]

lemma or_push_bit:
  assumes "a < 2 ^ k"
  shows "(word_of_nat a :: 64 word) OR push_bit k (word_of_nat b) = word_of_nat (a + b * 2 ^ k)"
proof -
  have "take_bit k a = a" using assms by (simp add: take_bit_nat_eq_self)
  moreover have "take_bit k a AND push_bit k b = 0" by (rule bit_eqI) (simp add: bit_simps)
  ultimately have "a + push_bit k b = a OR push_bit k b" by (intro disjunctive_add_eq_or) simp
  then have "(word_of_nat (a OR push_bit k b) :: 64 word) = word_of_nat (a + b * 2 ^ k)"
    by (simp add: push_bit_eq_mult flip: of_nat_add)
  then show ?thesis by (simp only: of_nat_or_eq of_nat_push_bit)
qed

lemma low_bits: "ucast ((b :: byte) AND 0x7f) = (word_of_nat (unat b mod 128) :: 64 word)"
proof -
  have "(0x7f :: byte) = mask 7" by (simp add: mask_eq_exp_minus_1)
  then have "b AND 0x7f = take_bit 7 b" by (simp only: take_bit_eq_mask)
  then have "unat (b AND 0x7f) = take_bit 7 (unat b)" by (simp only: unsigned_take_bit_eq)
  then have "unat (b AND 0x7f) = unat b mod 128" by (simp add: take_bit_eq_mod)
  then show ?thesis by (metis of_nat_unat)
qed

lemma high_bit: "(b :: byte) AND 0x80 = 0 \<longleftrightarrow> unat b < 128"
proof -
  have "(0x80 :: byte) = 2 ^ 7" by simp
  then have "b AND 0x80 = 0 \<longleftrightarrow> \<not> bit b 7" by (simp only: and_exp_eq_0_iff_not_bit)
  also have "bit b 7 \<longleftrightarrow> odd (unat b div 128)"
    using bit_iff_odd [of "unat b" 7] by (simp add: bit_unsigned_iff)
  also have "unat b div 128 < 2" using unat_byte_less [of b] by (simp add: div_less_iff_less_mult)
  then have "odd (unat b div 128) \<longleftrightarrow> \<not> unat b < 128" by (auto simp: less_2_cases_iff)
  finally show ?thesis by simp
qed

lemma size_bytes_nonempty: "size_bytes n \<noteq> []"
  by (subst size_bytes.simps) simp

lemma delta_size_from_bytes:
  assumes "acc < 2 ^ shift" and "shift + 7 * length (size_bytes n) \<le> 70"
  shows "delta_size_from shift index (word_of_nat acc) (size_bytes n @ rest)
    = Ok (word_of_nat (acc + n * 2 ^ shift), index + length (size_bytes n))"
  using assms
proof (induction n arbitrary: acc shift index rule: size_bytes.induct)
  case (1 n)
  show ?case
  proof (cases "n < 128")
    case True
    with "1.prems" show ?thesis
      by (simp add: size_bytes.simps [of n] low_bits high_bit or_push_bit unat_of_nat)
  next
    case False
    let ?b = "128 + n mod 128" and ?m = "n div 128"
    have len: "length (size_bytes n) = Suc (length (size_bytes ?m))"
      using False by (simp add: size_bytes.simps [of n])
    then have shift: "shift < 64" using "1.prems"(2) size_bytes_nonempty [of ?m] by (cases "size_bytes ?m") auto
    have "acc + n mod 128 * 2 ^ shift < 2 ^ (shift + 7)"
    proof -
      have "n mod 128 * 2 ^ shift \<le> 127 * 2 ^ shift" by (intro mult_le_mono1) (simp add: less_Suc_eq_le [symmetric])
      then have "acc + n mod 128 * 2 ^ shift < 2 ^ shift + 127 * 2 ^ shift" using "1.prems"(1) by linarith
      also have "\<dots> = 2 ^ (shift + 7)" by (simp add: power_add)
      finally show ?thesis .
    qed
    moreover have "(shift + 7) + 7 * length (size_bytes ?m) \<le> 70" using "1.prems"(2) len by simp
    ultimately have "delta_size_from (shift + 7) (index + 1) (word_of_nat (acc + n mod 128 * 2 ^ shift))
        (size_bytes ?m @ rest)
      = Ok (word_of_nat (acc + n mod 128 * 2 ^ shift + ?m * 2 ^ (shift + 7)),
          index + 1 + length (size_bytes ?m))"
      using "1.IH" [OF False] by blast
    moreover have "acc + n mod 128 * 2 ^ shift + ?m * 2 ^ (shift + 7) = acc + n * 2 ^ shift"
    proof -
      have "acc + r * 2 ^ shift + q * 2 ^ (shift + 7) = acc + (r + q * 128) * 2 ^ shift" for r q :: nat
        by (simp add: power_add algebra_simps)
      then show ?thesis by (simp only: mod_div_mult_eq)
    qed
    moreover have "unat (word_of_nat ?b :: byte) = ?b" by (simp add: unat_of_nat del: of_nat_add)
    ultimately show ?thesis
      using False shift len "1.prems"(1)
      by (simp add: size_bytes.simps [of n] low_bits high_bit or_push_bit del: of_nat_add)
  qed
qed

text \<open>The size decoder inverts Git's variable-length encoding: from the encoding of \<open>n\<close> in at most ten bytes,
  followed by anything, it reads \<open>n\<close> modulo \<^verbatim>\<open>2^64\<close> and the number of bytes the encoding takes.\<close>

lemma decode_delta_size_inverts:
  assumes "length (size_bytes n) \<le> 10"
  shows "decode_delta_size (size_bytes n @ rest) = Ok (word_of_nat n, length (size_bytes n))"
  using delta_size_from_bytes [of 0 0 n 0 rest] assms by (simp add: decode_delta_size_def)

section \<open>Delta chains\<close>

datatype entry_header = OfsDelta nat | RefDelta oid | FullObject

definition MAX_DELTA_DEPTH :: nat where "MAX_DELTA_DEPTH = 64"

text \<open>The first loop of \<^verbatim>\<open>delta_depth\<close>: follow the bases from an entry to one whose depth is known or that is no
  delta of this pack. It returns the depth to start from and the path.\<close>

function delta_walk :: "(nat \<rightharpoonup> entry_header) \<Rightarrow> (oid \<rightharpoonup> nat) \<Rightarrow> (nat \<rightharpoonup> nat) \<Rightarrow> nat \<Rightarrow> nat list \<Rightarrow> nat list
    \<Rightarrow> (receive_pack_error, nat \<times> nat list) result" where
  "delta_walk headers offsets_by_id depths current path seen =
     (case depths current of
        Some depth \<Rightarrow> Ok (depth, path)
      | None \<Rightarrow>
          if current \<in> set seen \<or> MAX_DELTA_DEPTH < length path then Err DeltaDepthLimit
          else
            (case headers current of
               None \<Rightarrow> Err RecoveryData
             | Some (OfsDelta base_distance) \<Rightarrow>
                 if current < base_distance then Err DeltaDepthLimit
                 else delta_walk headers offsets_by_id depths (current - base_distance) (path @ [current])
                   (current # seen)
             | Some (RefDelta base_id) \<Rightarrow>
                 (case offsets_by_id base_id of
                    None \<Rightarrow> Ok (0, path @ [current])
                  | Some base \<Rightarrow> delta_walk headers offsets_by_id depths base (path @ [current]) (current # seen))
             | Some FullObject \<Rightarrow> Ok (0, path @ [current])))"
  by pat_completeness auto
termination
  by (relation "measure (\<lambda>(headers, offsets_by_id, depths, current, path, seen).
        Suc MAX_DELTA_DEPTH - length path)") auto

declare delta_walk.simps [simp del]

definition is_delta :: "entry_header \<Rightarrow> bool" where
  "is_delta header \<longleftrightarrow> (case header of FullObject \<Rightarrow> False | _ \<Rightarrow> True)"

text \<open>The second loop: walk the path back and record the depth of every entry on it.\<close>

fun record_depths :: "(nat \<rightharpoonup> entry_header) \<Rightarrow> nat \<Rightarrow> (nat \<rightharpoonup> nat) \<Rightarrow> nat list
    \<Rightarrow> (receive_pack_error, nat \<times> (nat \<rightharpoonup> nat)) result" where
  "record_depths headers depth depths [] = Ok (depth, depths)"
| "record_depths headers depth depths (item # items) =
     (case headers item of
        None \<Rightarrow> Err RecoveryData
      | Some header \<Rightarrow>
          let depth = (if is_delta header then depth + 1 else depth) in
          if MAX_DELTA_DEPTH < depth then Err DeltaDepthLimit
          else record_depths headers depth (depths(item \<mapsto> depth)) items)"

definition delta_depth :: "nat \<Rightarrow> (nat \<rightharpoonup> entry_header) \<Rightarrow> (oid \<rightharpoonup> nat) \<Rightarrow> (nat \<rightharpoonup> nat)
    \<Rightarrow> (receive_pack_error, nat \<times> (nat \<rightharpoonup> nat)) result" where
  "delta_depth offset headers offsets_by_id depths =
     (case depths offset of
        Some depth \<Rightarrow> Ok (depth, depths)
      | None \<Rightarrow>
          try_then (delta_walk headers offsets_by_id depths offset [] []) (\<lambda>(base_depth, path).
          try_then (record_depths headers base_depth depths (rev path)) (\<lambda>(_, depths).
          try_then (ok_or RecoveryData (depths offset)) (\<lambda>depth. Ok (depth, depths)))))"

text \<open>\<^verbatim>\<open>validate_delta_depth\<close>, over the headers in the order in which the map yields them.\<close>

fun validate_delta_depth :: "(nat \<rightharpoonup> entry_header) \<Rightarrow> (oid \<rightharpoonup> nat) \<Rightarrow> (nat \<rightharpoonup> nat) \<Rightarrow> nat list
    \<Rightarrow> (receive_pack_error, unit) result" where
  "validate_delta_depth headers offsets_by_id depths [] = Ok ()"
| "validate_delta_depth headers offsets_by_id depths (offset # offsets) =
     try_then (delta_depth offset headers offsets_by_id depths) (\<lambda>(depth, depths).
     if MAX_DELTA_DEPTH < depth then Err DeltaDepthLimit
     else validate_delta_depth headers offsets_by_id depths offsets)"

text \<open>The specification: the number of deltas between an entry and the object it is built from. A delta against
  an object outside the pack counts as one.\<close>

inductive chain_depth :: "(nat \<rightharpoonup> entry_header) \<Rightarrow> (oid \<rightharpoonup> nat) \<Rightarrow> nat \<Rightarrow> nat \<Rightarrow> bool"
  for headers :: "nat \<rightharpoonup> entry_header" and offsets_by_id :: "oid \<rightharpoonup> nat" where
  full: "headers at = Some FullObject \<Longrightarrow> chain_depth headers offsets_by_id at 0"
| outside: "headers at = Some (RefDelta b) \<Longrightarrow> offsets_by_id b = None \<Longrightarrow> chain_depth headers offsets_by_id at 1"
| offset: "headers at = Some (OfsDelta d) \<Longrightarrow> d \<le> at \<Longrightarrow> chain_depth headers offsets_by_id (at - d) n
    \<Longrightarrow> chain_depth headers offsets_by_id at (Suc n)"
| reference: "headers at = Some (RefDelta b) \<Longrightarrow> offsets_by_id b = Some base
    \<Longrightarrow> chain_depth headers offsets_by_id base n \<Longrightarrow> chain_depth headers offsets_by_id at (Suc n)"

text \<open>The base an entry is built from, where it is a delta against an entry of the pack.\<close>

definition base_of :: "(nat \<rightharpoonup> entry_header) \<Rightarrow> (oid \<rightharpoonup> nat) \<Rightarrow> nat \<Rightarrow> nat option" where
  "base_of headers offsets_by_id at =
     (case headers at of
        Some (OfsDelta d) \<Rightarrow> if d \<le> at then Some (at - d) else None
      | Some (RefDelta b) \<Rightarrow> offsets_by_id b
      | _ \<Rightarrow> None)"

lemma chain_depth_base:
  "base_of h ids at = Some b \<Longrightarrow> chain_depth h ids at n \<longleftrightarrow> (\<exists>m. n = Suc m \<and> chain_depth h ids b m)"
proof
  assume "base_of h ids at = Some b" and "chain_depth h ids at n"
  from this(2,1) show "\<exists>m. n = Suc m \<and> chain_depth h ids b m"
    by cases (auto simp: base_of_def)
next
  assume "base_of h ids at = Some b" and "\<exists>m. n = Suc m \<and> chain_depth h ids b m"
  then show "chain_depth h ids at n"
    by (auto simp: base_of_def intro: chain_depth.intros split: option.splits entry_header.splits if_splits)
qed

lemma chain_depth_unique: "chain_depth h ids at n \<Longrightarrow> chain_depth h ids at m \<Longrightarrow> m = n"
proof (induction arbitrary: m rule: chain_depth.induct)
  case (full at)
  from full(2,1) show ?case by cases auto
next
  case (outside at b)
  from outside(3,1,2) show ?case by cases auto
next
  case (offset at d n)
  then have "base_of h ids at = Some (at - d)" by (simp add: base_of_def)
  from chain_depth_base [OF this, of m] offset.prems offset.IH show ?case by blast
next
  case (reference at b base n)
  then have "base_of h ids at = Some base" by (simp add: base_of_def)
  from chain_depth_base [OF this, of m] reference.prems reference.IH show ?case by blast
qed

text \<open>What the first loop finds between an entry and the point where it stops.\<close>

inductive segment :: "(nat \<rightharpoonup> entry_header) \<Rightarrow> (oid \<rightharpoonup> nat) \<Rightarrow> (nat \<rightharpoonup> nat) \<Rightarrow> nat \<Rightarrow> nat list \<Rightarrow> nat \<Rightarrow> bool"
  for h :: "nat \<rightharpoonup> entry_header" and ids :: "oid \<rightharpoonup> nat" and depths :: "nat \<rightharpoonup> nat" where
  known: "depths at = Some n \<Longrightarrow> segment h ids depths at [] n"
| last_full: "h at = Some FullObject \<Longrightarrow> segment h ids depths at [at] 0"
| last_outside: "h at = Some (RefDelta b) \<Longrightarrow> ids b = None \<Longrightarrow> segment h ids depths at [at] 0"
| next_base: "base_of h ids at = Some b \<Longrightarrow> segment h ids depths b path n \<Longrightarrow> segment h ids depths at (at # path) n"

lemma delta_walk_segment:
  "delta_walk h ids depths at path seen = Ok (n, path') \<Longrightarrow> \<exists>ext. path' = path @ ext \<and> segment h ids depths at ext n"
proof (induction h ids depths at path seen arbitrary: path' rule: delta_walk.induct)
  case (1 h ids depths at path seen)
  show ?case
  proof (cases "depths at")
    case None
    then have seen: "\<not> (at \<in> set seen \<or> MAX_DELTA_DEPTH < length path)"
      using "1.prems" by (subst (asm) delta_walk.simps) (auto split: if_splits)
    with None "1.prems" have w: "(case h at of None \<Rightarrow> Err RecoveryData
        | Some (OfsDelta d) \<Rightarrow> if at < d then Err DeltaDepthLimit
            else delta_walk h ids depths (at - d) (path @ [at]) (at # seen)
        | Some (RefDelta b) \<Rightarrow> (case ids b of None \<Rightarrow> Ok (0, path @ [at])
            | Some base \<Rightarrow> delta_walk h ids depths base (path @ [at]) (at # seen))
        | Some FullObject \<Rightarrow> Ok (0, path @ [at])) = Ok (n, path')"
      by (subst (asm) delta_walk.simps) simp
    show ?thesis
    proof (cases "base_of h ids at")
      case base: None
      with w have "path' = path @ [at] \<and> segment h ids depths at [at] n"
        by (auto simp: base_of_def split: option.splits entry_header.splits if_splits intro: segment.intros)
      then show ?thesis by blast
    next
      case base: (Some b)
      with w have "delta_walk h ids depths b (path @ [at]) (at # seen) = Ok (n, path')"
        by (auto simp: base_of_def split: option.splits entry_header.splits if_splits)
      moreover have "\<exists>ext. path' = (path @ [at]) @ ext \<and> segment h ids depths b ext n"
        using base calculation "1.IH" [OF None seen]
        by (auto simp: base_of_def split: option.splits entry_header.splits if_splits)
      ultimately show ?thesis using base by (auto intro: segment.next_base)
    qed
  next
    case (Some d)
    with "1.prems" show ?thesis by (subst (asm) delta_walk.simps) (auto intro: segment.known)
  qed
qed


text \<open>The table of depths is right as far as it goes.\<close>

definition depths_ok :: "(nat \<rightharpoonup> entry_header) \<Rightarrow> (oid \<rightharpoonup> nat) \<Rightarrow> (nat \<rightharpoonup> nat) \<Rightarrow> bool" where
  "depths_ok h ids depths \<longleftrightarrow> (\<forall>at n. depths at = Some n \<longrightarrow> chain_depth h ids at n \<and> n \<le> MAX_DELTA_DEPTH)"

lemma depths_ok_update:
  "depths_ok h ids depths \<Longrightarrow> chain_depth h ids at n \<Longrightarrow> n \<le> MAX_DELTA_DEPTH \<Longrightarrow> depths_ok h ids (depths(at \<mapsto> n))"
  by (auto simp: depths_ok_def)

lemma record_depths_append:
  "record_depths h n depths (xs @ ys)
     = try_then (record_depths h n depths xs) (\<lambda>(n, depths). record_depths h n depths ys)"
  by (induction xs arbitrary: n depths) (auto simp: Let_def split: option.splits)

lemma base_of_is_delta: "base_of h ids at = Some b \<Longrightarrow> \<exists>header. h at = Some header \<and> is_delta header"
  by (auto simp: base_of_def is_delta_def split: option.splits entry_header.splits)

lemma segment_chain: "segment h ids depths at path k \<Longrightarrow> depths_ok h ids depths \<Longrightarrow> \<exists>n. chain_depth h ids at n"
proof (induction rule: segment.induct)
  case (next_base at b path k)
  then show ?case by (metis chain_depth_base)
qed (auto simp: depths_ok_def intro: chain_depth.intros)

lemma segment_records:
  assumes "segment h ids depths at path k" and "depths_ok h ids depths" and "chain_depth h ids at n"
    and "n \<le> MAX_DELTA_DEPTH"
  shows "\<exists>depths'. record_depths h k depths (rev path) = Ok (n, depths') \<and> depths_ok h ids depths' \<and> depths' at = Some n"
  using assms
proof (induction arbitrary: n rule: segment.induct)
  case (known at m)
  then show ?case by (auto simp: depths_ok_def dest: chain_depth_unique)
next
  case (last_full at)
  then have "n = 0" by (blast intro: chain_depth.full chain_depth_unique)
  with last_full show ?case by (auto simp: is_delta_def intro: depths_ok_update)
next
  case (last_outside at b)
  then have "n = 1" by (blast intro: chain_depth.outside chain_depth_unique)
  with last_outside show ?case by (auto simp: is_delta_def intro: depths_ok_update)
next
  case (next_base at b path k)
  then obtain m where m: "n = Suc m" "chain_depth h ids b m" by (auto simp: chain_depth_base)
  with next_base.IH [OF next_base.prems(1) m(2)] next_base.prems(3) obtain depths' where
    d: "record_depths h k depths (rev path) = Ok (m, depths')" "depths_ok h ids depths'" by auto
  moreover obtain header where "h at = Some header" "is_delta header"
    using base_of_is_delta [OF next_base.hyps(1)] by blast
  moreover have "depths_ok h ids (depths'(at \<mapsto> n))"
    using d(2) next_base.prems(2,3) by (rule depths_ok_update)
  ultimately show ?case using m(1) next_base.prems(3) by (simp add: record_depths_append)
qed

lemma segment_too_deep:
  assumes "segment h ids depths at path k" and "depths_ok h ids depths" and "chain_depth h ids at n"
    and "MAX_DELTA_DEPTH < n"
  shows "record_depths h k depths (rev path) = Err DeltaDepthLimit"
  using assms
proof (induction arbitrary: n rule: segment.induct)
  case (known at m)
  then show ?case by (fastforce simp: depths_ok_def dest: chain_depth_unique)
next
  case (last_full at)
  then have "n = 0" by (blast intro: chain_depth.full chain_depth_unique)
  with last_full show ?case by simp
next
  case (last_outside at b)
  then have "n = 1" by (blast intro: chain_depth.outside chain_depth_unique)
  with last_outside show ?case by (simp add: MAX_DELTA_DEPTH_def)
next
  case (next_base at b path k)
  then obtain m where m: "n = Suc m" "chain_depth h ids b m" by (auto simp: chain_depth_base)
  show ?case
  proof (cases "MAX_DELTA_DEPTH < m")
    case True
    with next_base m show ?thesis by (simp add: record_depths_append)
  next
    case False
    with m next_base obtain depths' where "record_depths h k depths (rev path) = Ok (m, depths')"
      using segment_records [of h ids depths b path k m] by auto
    with m(1) next_base.prems(3) show ?thesis
      using base_of_is_delta [OF next_base.hyps(1)] by (auto simp: record_depths_append)
  qed
qed

lemma delta_walk_total:
  assumes "chain_depth h ids at n" and "length path + n \<le> MAX_DELTA_DEPTH"
    and "\<And>s. s \<in> set seen \<Longrightarrow> \<exists>m. chain_depth h ids s m \<and> n < m"
  shows "\<exists>k path'. delta_walk h ids depths at path seen = Ok (k, path')"
  using assms
proof (induction arbitrary: path seen rule: chain_depth.induct)
  case (full at)
  then have "at \<notin> set seen" by (blast dest: chain_depth_unique intro: chain_depth.full)
  with full show ?case by (subst delta_walk.simps) (simp split: option.splits)
next
  case (outside at b)
  then have "at \<notin> set seen" by (metis chain_depth.outside chain_depth_unique less_irrefl)
  with outside show ?case by (subst delta_walk.simps) (simp split: option.splits)
next
  case (offset at d n)
  have c: "chain_depth h ids at (Suc n)" using offset by (blast intro: chain_depth.offset)
  have "at \<notin> set seen" using offset(6) c chain_depth_unique by blast
  moreover have "\<exists>k path'. delta_walk h ids depths (at - d) (path @ [at]) (at # seen) = Ok (k, path')"
    using offset c by (intro offset.IH) (auto, metis Suc_lessD)
  ultimately show ?case using offset by (subst delta_walk.simps) (simp split: option.splits)
next
  case (reference at b base n)
  have c: "chain_depth h ids at (Suc n)" using reference by (blast intro: chain_depth.reference)
  have "at \<notin> set seen" using reference(6) c chain_depth_unique by blast
  moreover have "\<exists>k path'. delta_walk h ids depths base (path @ [at]) (at # seen) = Ok (k, path')"
    using reference c by (intro reference.IH) (auto, metis Suc_lessD)
  ultimately show ?case using reference by (subst delta_walk.simps) (simp split: option.splits)
qed

lemma delta_depth_finds:
  assumes "depths_ok h ids depths" and "chain_depth h ids at n" and "n \<le> MAX_DELTA_DEPTH"
  shows "\<exists>depths'. delta_depth at h ids depths = Ok (n, depths') \<and> depths_ok h ids depths'"
proof (cases "depths at")
  case None
  obtain k path where w: "delta_walk h ids depths at [] [] = Ok (k, path)"
    using delta_walk_total [of h ids at n "[]" "[]" depths] assms(2,3) by auto
  then have "segment h ids depths at path k" by (auto dest: delta_walk_segment)
  from segment_records [OF this assms] w None show ?thesis by (auto simp: delta_depth_def)
next
  case (Some m)
  with assms have "m = n" by (auto simp: depths_ok_def dest: chain_depth_unique)
  with Some assms(1) show ?thesis by (simp add: delta_depth_def)
qed

lemma delta_depth_rejects:
  assumes "depths_ok h ids depths" and "delta_depth at h ids depths = Ok (n, depths')"
  shows "chain_depth h ids at n \<and> n \<le> MAX_DELTA_DEPTH"
proof (cases "depths at")
  case None
  with assms(2) obtain k path m where w: "delta_walk h ids depths at [] [] = Ok (k, path)"
      and r: "record_depths h k depths (rev path) = Ok (m, depths')" and d: "depths' at = Some n"
    by (auto simp: delta_depth_def)
  then have s: "segment h ids depths at path k" by (auto dest: delta_walk_segment)
  with assms(1) obtain j where j: "chain_depth h ids at j" by (blast dest: segment_chain)
  have "j \<le> MAX_DELTA_DEPTH" using segment_too_deep [OF s assms(1) j] r by (auto simp: not_less [symmetric])
  with segment_records [OF s assms(1) j] r d j show ?thesis by auto
next
  case (Some m)
  with assms show ?thesis by (auto simp: delta_depth_def depths_ok_def)
qed

lemma validate_delta_depth_iff:
  "depths_ok h ids depths \<Longrightarrow> validate_delta_depth h ids depths offsets = Ok ()
     \<longleftrightarrow> list_all (\<lambda>at. \<exists>n\<le>MAX_DELTA_DEPTH. chain_depth h ids at n) offsets"
proof (induction offsets arbitrary: depths)
  case (Cons at offsets)
  show ?case
  proof (cases "\<exists>n\<le>MAX_DELTA_DEPTH. chain_depth h ids at n")
    case True
    with Cons.prems obtain n depths' where
      "n \<le> MAX_DELTA_DEPTH" "delta_depth at h ids depths = Ok (n, depths')" "depths_ok h ids depths'"
      using delta_depth_finds by blast
    with True Cons.IH [of depths'] show ?thesis by (simp del: split_paired_Ex)
  next
    case False
    with delta_depth_rejects [OF Cons.prems] have "validate_delta_depth h ids depths (at # offsets) \<noteq> Ok ()" by auto
    moreover from False have "\<not> list_all (\<lambda>at. \<exists>n\<le>MAX_DELTA_DEPTH. chain_depth h ids at n) (at # offsets)" by simp
    ultimately show ?thesis by blast
  qed
qed simp

text \<open>C35. A pack passes the depth check exactly when the delta chain of every entry ends and has at most 64 deltas,
  in whatever order the entries are visited; in particular the search terminates on chains that run in a circle and
  rejects them.\<close>

theorem validate_delta_depth_exact:
  "validate_delta_depth headers offsets_by_id Map.empty offsets = Ok ()
     \<longleftrightarrow> list_all (\<lambda>at. \<exists>n\<le>64. chain_depth headers offsets_by_id at n) offsets"
  using validate_delta_depth_iff [of headers offsets_by_id Map.empty offsets]
  by (simp add: depths_ok_def MAX_DELTA_DEPTH_def)

end
