(* ===== verification/Object_Walk.thy ===== *)
theory Object_Walk
  imports Pack_Limits
begin

text \<open>
  The object checks of \<^verbatim>\<open>src/git/receive_pack.rs\<close> (\<^verbatim>\<open>CombinedObjects\<close>): looking an object up in the received pack
  and then in the repository, its links, and the two walks over them, \<^verbatim>\<open>validate_reachable\<close> and \<^verbatim>\<open>is_ancestor\<close>,
  each a loop over a stack of pending objects and a set of seen ones that stops after 500,000 objects.

  Reading and parsing objects is the work of the gix crate; \<open>object_source\<close> holds the two lookups, which return
  the parsed object with its size, or that it cannot be parsed. The lemmas show that both walks decide exactly the
  graph property they stand for, and that they always end.
\<close>

section \<open>Objects\<close>

text \<open>A parsed object. A tree entry says whether it is the commit of a submodule; \<open>Malformed\<close> stands for bytes that
  do not parse as an object of the kind.\<close>

datatype git_object =
    BlobObject
  | CommitObject oid "oid list"
  | TreeObject "(bool \<times> oid) list"
  | TagObject oid
  | Malformed object_kind

record object_source =
  bundle_find :: "(oid \<Rightarrow> (string, (git_object \<times> nat) option) result) option"
  repository_find :: "oid \<Rightarrow> (string, (git_object \<times> nat) option) result"

definition MAX_OBJECT_BYTES :: nat where "MAX_OBJECT_BYTES = 64 * 1024 * 1024"

definition MAX_WALK_OBJECTS :: nat where "MAX_WALK_OBJECTS = 500000"

definition within_limit :: "git_object \<times> nat \<Rightarrow> (receive_pack_error, git_object) result" where
  "within_limit found = (if MAX_OBJECT_BYTES < snd found then Err ObjectLimit else Ok (fst found))"

definition combined_object :: "object_source \<Rightarrow> oid \<Rightarrow> (receive_pack_error, git_object) result" where
  "combined_object source ident =
     try_then (case bundle_find source of
         None \<Rightarrow> Ok None
       | Some find_in \<Rightarrow> map_err ObjectError (find_in ident)) (\<lambda>bundled.
     case bundled of
       Some found \<Rightarrow> within_limit found
     | None \<Rightarrow>
         try_then (map_err ObjectError (repository_find source ident)) (\<lambda>stored.
         try_then (ok_or (MissingObject ident) stored) within_limit))"

definition kind_and_links :: "object_source \<Rightarrow> oid \<Rightarrow> (receive_pack_error, object_kind \<times> oid list) result" where
  "kind_and_links source ident =
     try_then (combined_object source ident) (\<lambda>found.
     case found of
       BlobObject \<Rightarrow> Ok (Blob, [])
     | CommitObject tree parents \<Rightarrow> Ok (Commit, tree # parents)
     | TreeObject entries \<Rightarrow> Ok (Tree, map snd (filter (\<lambda>(submodule, _). \<not> submodule) entries))
     | TagObject target \<Rightarrow> Ok (Tag, [target])
     | Malformed kind \<Rightarrow> Err (MalformedObject kind))"

section \<open>The walks\<close>

text \<open>The stack \<^verbatim>\<open>pending\<close> has its top at the head of the list; \<^verbatim>\<open>extend\<close> pushes the links in order.\<close>

function reachable_loop :: "object_source \<Rightarrow> oid list \<Rightarrow> oid list \<Rightarrow> (receive_pack_error, unit) result" where
  "reachable_loop source [] seen = Ok ()"
| "reachable_loop source (ident # pending) seen =
     (if ident \<in> set seen then reachable_loop source pending seen
      else if MAX_WALK_OBJECTS < length (ident # seen) then Err ObjectLimit
      else
        (case kind_and_links source ident of
           Inl e \<Rightarrow> Err e
         | Inr (kind, links) \<Rightarrow> reachable_loop source (rev links @ pending) (ident # seen)))"
  by pat_completeness auto
termination
  by (relation "(\<lambda>(source, pending, seen). MAX_WALK_OBJECTS - length seen)
       <*mlex*> measure (\<lambda>(source, pending, seen). length pending)")
    (auto intro: wf_mlex mlex_less mlex_leq)

definition validate_reachable :: "object_source \<Rightarrow> oid \<Rightarrow> (receive_pack_error, unit) result" where
  "validate_reachable source root = reachable_loop source [root] []"

function ancestor_loop :: "object_source \<Rightarrow> oid \<Rightarrow> oid list \<Rightarrow> oid list \<Rightarrow> (receive_pack_error, bool) result" where
  "ancestor_loop source ancestor [] seen = Ok False"
| "ancestor_loop source ancestor (ident # pending) seen =
     (if ident = ancestor then Ok True
      else if ident \<in> set seen then ancestor_loop source ancestor pending seen
      else if MAX_WALK_OBJECTS < length (ident # seen) then Err ObjectLimit
      else
        (case kind_and_links source ident of
           Inl e \<Rightarrow> Err e
         | Inr (kind, links) \<Rightarrow>
             if kind \<noteq> Commit then Err BranchNotCommit
             else ancestor_loop source ancestor (rev (drop 1 links) @ pending) (ident # seen)))"
  by pat_completeness auto
termination
  by (relation "(\<lambda>(source, ancestor, pending, seen). MAX_WALK_OBJECTS - length seen)
       <*mlex*> measure (\<lambda>(source, ancestor, pending, seen). length pending)")
    (auto intro: wf_mlex mlex_less mlex_leq)

definition is_ancestor :: "object_source \<Rightarrow> oid \<Rightarrow> oid \<Rightarrow> (receive_pack_error, bool) result" where
  "is_ancestor source ancestor descendant = ancestor_loop source ancestor [descendant] []"

section \<open>What the walks decide\<close>

text \<open>\<open>links_to\<close>: the second object is a link of the first; \<open>parent_of\<close>: it is a parent of the first, a commit.\<close>

definition links_to :: "object_source \<Rightarrow> oid \<Rightarrow> oid \<Rightarrow> bool" where
  "links_to source a b \<longleftrightarrow> (\<exists>kind links. kind_and_links source a = Ok (kind, links) \<and> b \<in> set links)"

definition parent_of :: "object_source \<Rightarrow> oid \<Rightarrow> oid \<Rightarrow> bool" where
  "parent_of source a b \<longleftrightarrow> (\<exists>links. kind_and_links source a = Ok (Commit, links) \<and> b \<in> set (drop 1 links))"

definition reachable_objects :: "object_source \<Rightarrow> oid \<Rightarrow> oid set" where
  "reachable_objects source root = {b. (links_to source)\<^sup>*\<^sup>* root b}"

text \<open>The invariant of the first walk: everything it has been through is there, and its links are still to come or
  have been seen. \<open>R\<close> is a bound on what it can meet.\<close>

definition walked :: "object_source \<Rightarrow> oid list \<Rightarrow> oid list \<Rightarrow> bool" where
  "walked source pending seen \<longleftrightarrow>
     (\<forall>a\<in>set seen. \<not> isl (kind_and_links source a) \<and> (\<forall>b. links_to source a b \<longrightarrow> b \<in> set seen \<union> set pending))"

lemma reachable_loop_sound:
  "reachable_loop source pending seen = Ok () \<Longrightarrow> walked source pending seen \<Longrightarrow> distinct seen
   \<Longrightarrow> length seen \<le> MAX_WALK_OBJECTS
   \<Longrightarrow> \<exists>final. walked source [] final \<and> set seen \<union> set pending \<subseteq> set final \<and> length final \<le> MAX_WALK_OBJECTS"
proof (induction source pending seen rule: reachable_loop.induct)
  case (1 source seen)
  then show ?case by auto
next
  case (2 source ident pending seen)
  show ?case
  proof (cases "ident \<in> set seen")
    case True
    then have "walked source pending seen" using "2.prems"(2) by (auto simp: walked_def)
    with True "2.IH"(1) "2.prems" show ?thesis by (simp add: insert_absorb)
  next
    case False
    with "2.prems"(1) obtain kind links where k: "kind_and_links source ident = Ok (kind, links)"
        and lim: "\<not> MAX_WALK_OBJECTS < length (ident # seen)"
        and rest: "reachable_loop source (rev links @ pending) (ident # seen) = Ok ()"
      by (auto split: if_splits sum.splits)
    have "walked source (rev links @ pending) (ident # seen)"
      using "2.prems"(2) k by (auto simp: walked_def links_to_def)
    moreover have "distinct (ident # seen)" and "length (ident # seen) \<le> MAX_WALK_OBJECTS"
      using "2.prems"(3) False lim by auto
    ultimately show ?thesis using "2.IH"(2) [OF False lim k refl rest] by auto
  qed
qed

lemma reachable_loop_complete:
  "finite R \<Longrightarrow> card R \<le> MAX_WALK_OBJECTS \<Longrightarrow> (\<And>a. a \<in> R \<Longrightarrow> \<not> isl (kind_and_links source a))
   \<Longrightarrow> (\<And>a b. a \<in> R \<Longrightarrow> links_to source a b \<Longrightarrow> b \<in> R)
   \<Longrightarrow> set pending \<union> set seen \<subseteq> R \<Longrightarrow> distinct seen \<Longrightarrow> reachable_loop source pending seen = Ok ()"
proof (induction source pending seen rule: reachable_loop.induct)
  case (1 source seen)
  then show ?case by simp
next
  case (2 source ident pending seen)
  show ?case
  proof (cases "ident \<in> set seen")
    case True
    with "2.IH"(1) "2.prems" show ?thesis by simp
  next
    case False
    obtain kind links where k: "kind_and_links source ident = Ok (kind, links)"
      using "2.prems"(3) [of ident] "2.prems"(5) by (cases "kind_and_links source ident") auto
    have "set (ident # seen) \<subseteq> R" using "2.prems"(5) by auto
    then have "card (set (ident # seen)) \<le> card R" using "2.prems"(1) by (rule card_mono [rotated])
    moreover have "card (set (ident # seen)) = length (ident # seen)"
      using "2.prems"(6) False by (intro distinct_card) simp
    ultimately have lim: "\<not> MAX_WALK_OBJECTS < length (ident # seen)" using "2.prems"(2) by simp
    have "set links \<subseteq> R" using "2.prems"(4) [of ident] "2.prems"(5) k by (auto simp: links_to_def)
    then have "reachable_loop source (rev links @ pending) (ident # seen) = Ok ()"
      using "2.prems" False by (intro "2.IH"(2) [OF False lim k refl]) auto
    with False lim k show ?thesis by simp
  qed
qed

text \<open>C33. The connectivity check accepts a root exactly when every object that can be reached from it exists, is
  within the size limit and parses, and there are at most 500,000 of them; cycles and shared objects are visited once
  and the walk always ends.\<close>

theorem validate_reachable_exact:
  "validate_reachable source root = Ok ()
     \<longleftrightarrow> finite (reachable_objects source root) \<and> card (reachable_objects source root) \<le> 500000
       \<and> reachable_objects source root \<subseteq> {a. \<exists>found. kind_and_links source a = Ok found}"
proof
  let ?R = "reachable_objects source root"
  assume "validate_reachable source root = Ok ()"
  then obtain final where w: "walked source [] final" and r: "root \<in> set final"
      and l: "length final \<le> MAX_WALK_OBJECTS"
    using reachable_loop_sound [of source "[root]" "[]"]
    by (auto simp: validate_reachable_def walked_def simp del: reachable_loop.simps)
  have sub: "?R \<subseteq> set final"
  proof
    fix b assume "b \<in> ?R"
    then have "(links_to source)\<^sup>*\<^sup>* root b" by (simp add: reachable_objects_def)
    then show "b \<in> set final" using r w by (induction rule: rtranclp_induct) (auto simp: walked_def)
  qed
  then have "finite ?R" by (rule finite_subset) simp
  moreover have "card ?R \<le> card (set final)" using sub by (intro card_mono) simp_all
  then have "card ?R \<le> 500000" using l card_length [of final] by (simp add: MAX_WALK_OBJECTS_def)
  moreover have "\<exists>found. kind_and_links source a = Ok found" if "a \<in> ?R" for a
  proof -
    have "\<not> isl (kind_and_links source a)" using w sub that unfolding walked_def by blast
    then show ?thesis by (cases "kind_and_links source a") auto
  qed
  ultimately show "finite ?R \<and> card ?R \<le> 500000 \<and> ?R \<subseteq> {a. \<exists>found. kind_and_links source a = Ok found}"
    by blast
next
  let ?R = "reachable_objects source root"
  assume a: "finite ?R \<and> card ?R \<le> 500000 \<and> ?R \<subseteq> {a. \<exists>found. kind_and_links source a = Ok found}"
  have "root \<in> ?R" and "\<And>x y. x \<in> ?R \<Longrightarrow> links_to source x y \<Longrightarrow> y \<in> ?R"
    by (auto simp: reachable_objects_def intro: rtranclp.rtrancl_into_rtrancl)
  then show "validate_reachable source root = Ok ()"
    unfolding validate_reachable_def using a
    by (intro reachable_loop_complete [of ?R]) (auto simp: MAX_WALK_OBJECTS_def)
qed

lemma ancestor_loop_True:
  "ancestor_loop source a pending seen = Ok True \<Longrightarrow> (\<And>x. x \<in> set pending \<Longrightarrow> (parent_of source)\<^sup>*\<^sup>* d x)
   \<Longrightarrow> (parent_of source)\<^sup>*\<^sup>* d a"
proof (induction source a pending seen rule: ancestor_loop.induct)
  case (2 source a ident pending seen)
  show ?case
  proof (cases "ident = a \<or> ident \<in> set seen")
    case True
    with 2 show ?thesis by (auto split: if_splits)
  next
    case False
    with "2.prems"(1) obtain links where k: "kind_and_links source ident = Ok (Commit, links)"
        and lim: "\<not> MAX_WALK_OBJECTS < length (ident # seen)"
        and rest: "ancestor_loop source a (rev (drop 1 links) @ pending) (ident # seen) = Ok True"
      by (auto split: if_splits sum.splits)
    have "(parent_of source)\<^sup>*\<^sup>* d x" if "x \<in> set (rev (drop 1 links) @ pending)" for x
    proof (cases "x \<in> set pending")
      case False
      then have "parent_of source ident x" using that k by (auto simp: parent_of_def)
      moreover have "(parent_of source)\<^sup>*\<^sup>* d ident" using "2.prems"(2) by simp
      ultimately show ?thesis by (rule rtranclp.rtrancl_into_rtrancl [rotated])
    qed (use "2.prems"(2) in simp)
    with False lim k rest "2.IH"(2) [OF _ _ lim k refl] show ?thesis by simp
  qed
qed simp

definition searched :: "object_source \<Rightarrow> oid \<Rightarrow> oid list \<Rightarrow> oid list \<Rightarrow> bool" where
  "searched source a pending seen \<longleftrightarrow>
     a \<notin> set seen \<and> (\<forall>x\<in>set seen. \<forall>y. parent_of source x y \<longrightarrow> y \<in> set seen \<union> set pending)"

lemma ancestor_loop_False:
  "ancestor_loop source a pending seen = Ok False \<Longrightarrow> searched source a pending seen
   \<Longrightarrow> \<exists>final. searched source a [] final \<and> set seen \<union> set pending \<subseteq> set final"
proof (induction source a pending seen rule: ancestor_loop.induct)
  case (1 source a seen)
  then show ?case by auto
next
  case (2 source a ident pending seen)
  from "2.prems"(1) have neq: "ident \<noteq> a" by auto
  show ?case
  proof (cases "ident \<in> set seen")
    case True
    then have "searched source a pending seen" using "2.prems"(2) by (auto simp: searched_def)
    with True neq 2 show ?thesis by (simp add: insert_absorb)
  next
    case False
    with neq "2.prems"(1) obtain links where k: "kind_and_links source ident = Ok (Commit, links)"
        and lim: "\<not> MAX_WALK_OBJECTS < length (ident # seen)"
        and rest: "ancestor_loop source a (rev (drop 1 links) @ pending) (ident # seen) = Ok False"
      by (auto split: if_splits sum.splits)
    have "searched source a (rev (drop 1 links) @ pending) (ident # seen)"
      using "2.prems"(2) k neq by (auto simp: searched_def parent_of_def)
    with "2.IH"(2) [OF neq False lim k refl] rest show ?thesis by auto
  qed
qed

text \<open>C34. The fast-forward test is right: when it answers, it answers whether the old commit can be reached from the
  new one through parents.\<close>

theorem is_ancestor_exact:
  assumes "is_ancestor source ancestor descendant = Ok answer"
  shows "answer \<longleftrightarrow> (parent_of source)\<^sup>*\<^sup>* descendant ancestor"
proof
  assume answer
  with assms show "(parent_of source)\<^sup>*\<^sup>* descendant ancestor"
    unfolding is_ancestor_def by (auto intro: ancestor_loop_True [of source ancestor "[descendant]" "[]"])
next
  assume r: "(parent_of source)\<^sup>*\<^sup>* descendant ancestor"
  show answer
  proof (rule ccontr)
    assume "\<not> answer"
    with assms obtain final where f: "searched source ancestor [] final" "descendant \<in> set final"
      using ancestor_loop_False [of source ancestor "[descendant]" "[]"]
      by (auto simp: is_ancestor_def searched_def simp del: ancestor_loop.simps)
    from r have "ancestor \<in> set final" using f by (induction rule: rtranclp_induct) (auto simp: searched_def)
    with f show False by (simp add: searched_def)
  qed
qed

text \<open>Three commits in a row over one empty tree.\<close>

definition sample_objects :: object_source where
  "sample_objects = \<lparr>bundle_find = None, repository_find = (\<lambda>i.
     Ok (if i = ''c3'' then Some (CommitObject ''t'' [''c2''], 10)
       else if i = ''c2'' then Some (CommitObject ''t'' [''c1''], 10)
       else if i = ''c1'' then Some (CommitObject ''t'' [], 10)
       else if i = ''t'' then Some (TreeObject [], 0) else None))\<rparr>"

theorem is_ancestor_exact_witness: "True \<longleftrightarrow> (parent_of sample_objects)\<^sup>*\<^sup>* ''c3'' ''c1''"
proof (rule is_ancestor_exact)
  show "is_ancestor sample_objects ''c1'' ''c3'' = Ok True"
    by (simp add: is_ancestor_def sample_objects_def kind_and_links_def combined_object_def within_limit_def
        MAX_WALK_OBJECTS_def MAX_OBJECT_BYTES_def)
qed

end
