(* ===== verification/Receive_Pack.thy ===== *)
theory Receive_Pack
  imports Object_Walk
begin

text \<open>
  Pushes, \<^verbatim>\<open>src/git/receive_pack.rs\<close>: the parser of ref commands, the checks against the repository, the policy and
  the received objects, the order in which \<^verbatim>\<open>finish\<close> records the intent, moves the pack, updates the refs and
  completes the intent, and \<^verbatim>\<open>recover_incomplete_pushes\<close>, which repairs what a crash left behind.

  The repository on disk is the record \<open>git_repository\<close>: its refs, the files in its pack directory and the branch that \<^verbatim>\<open>HEAD\<close> names. The record
  \<open>gix\<close> holds what the code takes from the gix crate: parsing of object ids and ref names, reading objects and the
  ref transaction; \<open>gix_laws\<close> states what is documented of them. What gix and the file system report about
  an incoming pack is the record \<open>incoming_pack\<close>. Failing file operations are not modelled.
\<close>

section \<open>Commands\<close>

record ref_command =
  cmd_old :: oid
  cmd_new :: oid
  cmd_name :: blob

type_synonym refs = "blob \<rightharpoonup> oid"

text \<open>One edit of a ref transaction: the name, the target it must have now (\<open>None\<close>: it must not exist) and the
  target it gets (\<open>None\<close>: it is deleted).\<close>

type_synonym ref_edit = "blob \<times> oid option \<times> oid option"

text \<open>\<open>try_find_object g files\<close> looks an object up in a repository whose pack directory holds \<open>files\<close>.\<close>

record gix =
  from_hex :: "blob \<Rightarrow> oid option"
  full_name :: "blob \<Rightarrow> bool"
  try_find_object :: "string set \<Rightarrow> oid \<Rightarrow> (string, (git_object \<times> nat) option) result"
  edit_references :: "refs \<Rightarrow> ref_edit list \<Rightarrow> (string, refs) result"

datatype hash_kind = Sha1 | Sha256

definition hex_length :: "hash_kind \<Rightarrow> nat" where
  "hex_length kind = (case kind of Sha1 \<Rightarrow> 40 | Sha256 \<Rightarrow> 64)"

definition MAX_COMMANDS :: nat where "MAX_COMMANDS = 256"

definition parse_id :: "gix \<Rightarrow> blob option \<Rightarrow> hash_kind \<Rightarrow> (receive_pack_error, oid) result" where
  "parse_id g input object_format =
     try_then (ok_or Commands input) (\<lambda>text.
     try_then (ok_or Commands (from_hex g text)) (\<lambda>ident.
     if length ident \<noteq> hex_length object_format then Err ObjectFormat else Ok ident))"

definition space :: byte where "space = byte_of_char (CHR '' '')"

definition command_of_line :: "nat \<Rightarrow> packet \<Rightarrow> (receive_pack_error, blob) result" where
  "command_of_line index packet =
     (case packet of
        Data line \<Rightarrow>
          let line = (case strip_suffix [byte_of_char newline] line of Some l \<Rightarrow> l | None \<Rightarrow> line) in
          if index = 0 then Ok (takeWhile (\<lambda>b. b \<noteq> 0) line)
          else if 0 \<in> set line then Err Commands
          else Ok line
      | _ \<Rightarrow> Err Commands)"

definition parse_command :: "gix \<Rightarrow> hash_kind \<Rightarrow> blob \<Rightarrow> (receive_pack_error, ref_command) result" where
  "parse_command g object_format command =
     (let parts = split_on space command in
      try_then (parse_id g (nth_field parts 0) object_format) (\<lambda>old.
      try_then (parse_id g (nth_field parts 1) object_format) (\<lambda>new.
      try_then (ok_or Commands (nth_field parts 2)) (\<lambda>name.
      if nth_field parts 3 \<noteq> None \<or> old = new then Err Commands
      else if \<not> full_name g name then Err RefName
      else Ok \<lparr>cmd_old = old, cmd_new = new, cmd_name = name\<rparr>))))"

fun parse_command_packets :: "gix \<Rightarrow> hash_kind \<Rightarrow> nat \<Rightarrow> packet list \<Rightarrow> ref_command list \<Rightarrow> blob list
    \<Rightarrow> (receive_pack_error, ref_command list) result" where
  "parse_command_packets g object_format index [] commands names = Ok commands"
| "parse_command_packets g object_format index (packet # packets) commands names =
     try_then (command_of_line index packet) (\<lambda>line.
     try_then (parse_command g object_format line) (\<lambda>command.
     if \<not> (starts_with (cmd_name command) (as_bytes ''refs/heads/'')
          \<or> starts_with (cmd_name command) (as_bytes ''refs/tags/''))
        \<or> cmd_name command \<in> set names
     then Err RefName
     else parse_command_packets g object_format (index + 1) packets (commands @ [command])
       (cmd_name command # names)))"

definition parse_commands :: "gix \<Rightarrow> blob \<Rightarrow> hash_kind \<Rightarrow> (receive_pack_error, ref_command list) result" where
  "parse_commands g input object_format =
     try_then (map_err ReceivePacketLine (decode input)) (\<lambda>packets.
     if packets = [] \<or> last packets \<noteq> Flush then Err Commands
     else
       try_then (parse_command_packets g object_format 0 (butlast packets) [] []) (\<lambda>commands.
       if commands = [] \<or> MAX_COMMANDS < length commands then Err CommandLimit else Ok commands))"

definition expects_pack :: "gix \<Rightarrow> blob \<Rightarrow> hash_kind \<Rightarrow> (receive_pack_error, bool) result" where
  "expects_pack g command_bytes object_format =
     try_then (parse_commands g command_bytes object_format) (\<lambda>commands.
     Ok (list_ex (\<lambda>c. \<not> is_null_id (cmd_new c)) commands))"

section \<open>Recorded refs\<close>

definition serialize_ref :: "oid \<Rightarrow> blob \<Rightarrow> blob" where
  "serialize_ref ident name = as_bytes ident @ space # name @ [byte_of_char newline]"

definition serialize_refs :: "ref_command list \<Rightarrow> bool \<Rightarrow> blob" where
  "serialize_refs commands proposed =
     concat (map (\<lambda>c. serialize_ref (if proposed then cmd_new c else cmd_old c) (cmd_name c)) commands)"

definition parse_snapshot_line :: "gix \<Rightarrow> hash_kind \<Rightarrow> blob \<Rightarrow> (receive_pack_error, blob \<times> oid) result" where
  "parse_snapshot_line g object_format line =
     try_then (parse_id g (Some (takeWhile (\<lambda>b. b \<noteq> space) line)) object_format) (\<lambda>ident.
     if space \<notin> set line then Err RecoveryData
     else
       let name = drop (length (takeWhile (\<lambda>b. b \<noteq> space) line) + 1) line in
       if \<not> full_name g name then Err RecoveryData else Ok (name, ident))"

fun parse_snapshot_lines :: "gix \<Rightarrow> hash_kind \<Rightarrow> blob list \<Rightarrow> (receive_pack_error, (blob \<times> oid) list) result" where
  "parse_snapshot_lines g object_format [] = Ok []"
| "parse_snapshot_lines g object_format (line # lines) =
     (if line = [] then parse_snapshot_lines g object_format lines
      else try_then (parse_snapshot_line g object_format line) (\<lambda>r.
        try_then (parse_snapshot_lines g object_format lines) (\<lambda>rs. Ok (r # rs))))"

definition parse_ref_snapshot :: "gix \<Rightarrow> blob \<Rightarrow> hash_kind \<Rightarrow> (receive_pack_error, (blob \<times> oid) list) result" where
  "parse_ref_snapshot g bytes object_format =
     parse_snapshot_lines g object_format (split_on (byte_of_char newline) bytes)"

definition refs_match :: "refs \<Rightarrow> (blob \<times> oid) list \<Rightarrow> bool" where
  "refs_match refs expected =
     list_all (\<lambda>(name, expected_id).
       \<not> ((is_null_id expected_id \<and> refs name \<noteq> None)
          \<or> (\<not> is_null_id expected_id \<and> refs name \<noteq> Some expected_id))) expected"

definition validate_initial_refs :: "refs \<Rightarrow> ref_command list \<Rightarrow> (receive_pack_error, unit) result" where
  "validate_initial_refs refs commands =
     require (list_all (\<lambda>c.
       if is_null_id (cmd_old c) then refs (cmd_name c) = None
       else refs (cmd_name c) = Some (cmd_old c)) commands) StaleRef"

definition ref_edits :: "ref_command list \<Rightarrow> ref_edit list" where
  "ref_edits commands = map (\<lambda>c. (cmd_name c, live_target (cmd_old c), live_target (cmd_new c))) commands"

definition apply_ref_transaction :: "gix \<Rightarrow> refs \<Rightarrow> ref_command list \<Rightarrow> (receive_pack_error, refs) result" where
  "apply_ref_transaction g refs commands = map_err RefTransaction (edit_references g refs (ref_edits commands))"

section \<open>Object and policy checks\<close>

fun validate_proposed_objects :: "object_source \<Rightarrow> ref_command list
    \<Rightarrow> (receive_pack_error, ref_change list) result" where
  "validate_proposed_objects source [] = Ok []"
| "validate_proposed_objects source (command # commands) =
     try_then
       (if is_null_id (cmd_new command) then Ok DeleteRef
        else
          try_then (kind_and_links source (cmd_new command)) (\<lambda>(kind, _).
          if starts_with (cmd_name command) (as_bytes ''refs/heads/'') \<and> kind \<noteq> Commit then Err BranchNotCommit
          else
            try_then (validate_reachable source (cmd_new command)) (\<lambda>_.
            if is_null_id (cmd_old command) then Ok CreateRef
            else if starts_with (cmd_name command) (as_bytes ''refs/tags/'') then Ok TagUpdate
            else
              try_then (is_ancestor source (cmd_old command) (cmd_new command)) (\<lambda>ancestor.
              Ok (if ancestor then FastForward else Force))))) (\<lambda>change.
     try_then (validate_proposed_objects source commands) (\<lambda>changes. Ok (change # changes)))"

text \<open>\<^verbatim>\<open>ReceivePack\<close> as \<^verbatim>\<open>open_inner\<close> leaves it: the paths, the actor and the repository the policy is asked about
  (\<open>None\<close> for a push that no policy governs).\<close>

record receive_pack =
  rp_repository_path :: string
  rp_actor :: string
  rp_object_format :: hash_kind
  rp_intent_id :: string
  rp_quarantine :: string
  rp_cleanup_on_drop :: bool
  rp_policy_context :: "(string \<times> string) option"

fun authorize_changes :: "database \<Rightarrow> string \<Rightarrow> string \<Rightarrow> string \<Rightarrow> (ref_command \<times> ref_change) list
    \<Rightarrow> (receive_pack_error, unit) result" where
  "authorize_changes db actor owner repository [] = Ok ()"
| "authorize_changes db actor owner repository ((command, change) # rest) =
     (case authorize_ref_change db actor owner repository (cmd_name command) change of
        Inr _ \<Rightarrow> authorize_changes db actor owner repository rest
      | Inl Denied \<Rightarrow> Err (if change = Force then NonFastForward else RefPolicy)
      | Inl e \<Rightarrow> Err (ReceivePolicy e))"

definition validate_policy :: "database \<Rightarrow> receive_pack \<Rightarrow> ref_command list \<Rightarrow> ref_change list
    \<Rightarrow> (receive_pack_error, unit) result" where
  "validate_policy db rp commands changes =
     (case rp_policy_context rp of
        None \<Rightarrow> require (Force \<notin> set changes) NonFastForward
      | Some (owner, repository) \<Rightarrow>
          authorize_changes db (rp_actor rp) owner repository (zip commands changes))"

section \<open>The incoming pack\<close>

text \<open>What gix and the file system report about an incoming pack: its size, the number of objects its header
  announces, its entries (decompressed size; for a delta the first 20 bytes of its data), the result of indexing it,
  the objects, headers and offsets of the indexed pack in iteration order, the file names it gets and its stored
  size. \<open>ip_late k\<close> says that the deadline has passed at the \<open>k\<close>-th check of it.\<close>

record incoming_pack =
  ip_bytes :: nat
  ip_announced :: "(string, nat) result"
  ip_entries :: "(string, nat \<times> (string, blob) result option) result list"
  ip_indexed :: "(string, nat) result"
  ip_interrupted :: bool
  ip_bundle :: "(string, oid \<Rightarrow> (string, (git_object \<times> nat) option) result) result"
  ip_headers :: "nat \<rightharpoonup> entry_header"
  ip_offsets_by_id :: "oid \<rightharpoonup> nat"
  ip_order :: "nat list"
  ip_pack_name :: string
  ip_index_name :: string
  ip_stored_bytes :: nat
  ip_late :: "nat \<Rightarrow> bool"

record git_repository =
  repo_refs :: refs
  repo_packs :: "string set"
  repo_bare :: bool
  repo_format :: hash_kind
  repo_head :: "string option"  \<comment> \<open>the branch that \<^verbatim>\<open>HEAD\<close> names; \<open>None\<close> when it is detached\<close>

definition MAX_OBJECTS :: nat where "MAX_OBJECTS = 100000"
definition MAX_PACK_BYTES :: nat where "MAX_PACK_BYTES = 256 * 1024 * 1024"

definition check_delta_header :: "blob \<Rightarrow> (receive_pack_error, unit) result" where
  "check_delta_header header =
     try_then (decode_delta_size header) (\<lambda>(_, base_end).
     try_then (decode_delta_size (drop base_end header)) (\<lambda>(result_size, _).
     require (unat result_size \<le> MAX_OBJECT_BYTES) ObjectLimit))"

fun check_entries :: "(string, nat \<times> (string, blob) result option) result list \<Rightarrow> (receive_pack_error, unit) result" where
  "check_entries [] = Ok ()"
| "check_entries (entry # entries) =
     try_then (map_err PackError entry) (\<lambda>(decompressed_size, delta).
     if MAX_OBJECT_BYTES < decompressed_size then Err ObjectLimit
     else
       (case delta of
          None \<Rightarrow> check_entries entries
        | Some inflated \<Rightarrow>
            try_then (map_err PackError inflated) (\<lambda>header.
            try_then (check_delta_header header) (\<lambda>_. check_entries entries))))"

definition validate_pack_allocation_limits :: "incoming_pack \<Rightarrow> (receive_pack_error, unit) result" where
  "validate_pack_allocation_limits pack =
     try_then (map_err PackError (ip_announced pack)) (\<lambda>num_objects.
     if MAX_OBJECTS < num_objects then Err ObjectLimit else check_entries (ip_entries pack))"

definition check_deadline :: "incoming_pack \<Rightarrow> nat \<Rightarrow> (receive_pack_error, unit) result" where
  "check_deadline pack k = require (\<not> ip_late pack k) WallClockLimit"

definition repository_source :: "gix \<Rightarrow> git_repository \<Rightarrow> object_source" where
  "repository_source g repository =
     \<lparr>bundle_find = None, repository_find = try_find_object g (repo_packs repository)\<rparr>"

text \<open>The two halves of \<^verbatim>\<open>index_and_validate_pack\<close>: every check of the pack in its quarantine, which answers whether
  there is anything to move, and the move of the index and the pack into the repository, unless the same pack is
  already there. The result names the pack only if this push brought it.\<close>

definition check_incoming :: "gix \<Rightarrow> database \<Rightarrow> receive_pack \<Rightarrow> git_repository \<Rightarrow> incoming_pack
    \<Rightarrow> ref_command list \<Rightarrow> (receive_pack_error, bool) result" where
  "check_incoming g db rp repository pack commands =
     (if ip_bytes pack = 0 \<or> MAX_PACK_BYTES < ip_bytes pack then Err PackLimit
      else
        try_then (validate_pack_allocation_limits pack) (\<lambda>_.
        try_then (map_err (\<lambda>e. if ip_interrupted pack then WallClockLimit else PackError e) (ip_indexed pack))
          (\<lambda>num_objects.
        if MAX_OBJECTS < num_objects then Err ObjectLimit
        else
          try_then (check_deadline pack 0) (\<lambda>_.
          if num_objects = 0 then
            try_then (validate_proposed_objects (repository_source g repository) commands) (\<lambda>changes.
            try_then (check_deadline pack 1) (\<lambda>_.
            try_then (validate_policy db rp commands changes) (\<lambda>_.
            try_then (check_deadline pack 2) (\<lambda>_. Ok False))))
          else
            try_then (map_err PackError (ip_bundle pack)) (\<lambda>bundle.
            try_then (validate_delta_depth (ip_headers pack) (ip_offsets_by_id pack) Map.empty (ip_order pack)) (\<lambda>_.
            try_then (check_deadline pack 1) (\<lambda>_.
            try_then (validate_proposed_objects
              \<lparr>bundle_find = Some bundle, repository_find = try_find_object g (repo_packs repository)\<rparr> commands)
              (\<lambda>changes.
            try_then (check_deadline pack 2) (\<lambda>_.
            try_then (validate_policy db rp commands changes) (\<lambda>_.
            try_then (check_deadline pack 3) (\<lambda>_.
            if MAX_PACK_BYTES < ip_stored_bytes pack then Err PackLimit
            else try_then (check_deadline pack 4) (\<lambda>_. Ok True))))))))))))"

definition promote_pack :: "git_repository \<Rightarrow> incoming_pack
    \<Rightarrow> git_repository \<times> (receive_pack_error, string option) result" where
  "promote_pack repository pack =
     (let pack_exists = ip_pack_name pack \<in> repo_packs repository;
          index_exists = ip_index_name pack \<in> repo_packs repository in
      if pack_exists \<noteq> index_exists
      then (repository, Err (ReceiveRepository ''a pack file and its index do not match''))
      else if pack_exists then (repository, try_then (check_deadline pack 5) (\<lambda>_. Ok None))
      else (repository\<lparr>repo_packs := repo_packs repository \<union> {ip_index_name pack, ip_pack_name pack}\<rparr>,
            try_then (check_deadline pack 5) (\<lambda>_. Ok (Some (ip_pack_name pack)))))"

definition index_and_validate_pack :: "gix \<Rightarrow> database \<Rightarrow> receive_pack \<Rightarrow> git_repository \<Rightarrow> incoming_pack
    \<Rightarrow> ref_command list \<Rightarrow> git_repository \<times> (receive_pack_error, string option) result" where
  "index_and_validate_pack g db rp repository pack commands =
     (case check_incoming g db rp repository pack commands of
        Inl e \<Rightarrow> (repository, Err e)
      | Inr False \<Rightarrow> (repository, Ok None)
      | Inr True \<Rightarrow> promote_pack repository pack)"

text \<open>The first half of the body of \<^verbatim>\<open>finish\<close> after the intent has been recorded: with a pack or without one.\<close>

definition receive_objects :: "gix \<Rightarrow> database \<Rightarrow> receive_pack \<Rightarrow> git_repository \<Rightarrow> incoming_pack option
    \<Rightarrow> ref_command list \<Rightarrow> git_repository \<times> (receive_pack_error, string option) result" where
  "receive_objects g db rp repository incoming commands =
     (case incoming of
        Some pack \<Rightarrow>
          if ip_bytes pack \<noteq> 0 then index_and_validate_pack g db rp repository pack commands
          else
            (repository,
             try_then (validate_proposed_objects (repository_source g repository) commands) (\<lambda>changes.
             try_then (validate_policy db rp commands changes) (\<lambda>_. Ok None)))
      | None \<Rightarrow>
          (repository,
           try_then (validate_proposed_objects (repository_source g repository) commands) (\<lambda>changes.
           try_then (validate_policy db rp commands changes) (\<lambda>_. Ok None))))"

end
