(* ===== verification/Push.thy ===== *)
theory Push
  imports Receive_Pack
begin

text \<open>
  The life of a push, \<^verbatim>\<open>ReceivePack::open_inner\<close>, \<^verbatim>\<open>finish\<close> and \<^verbatim>\<open>record_rejection\<close>, and the recovery of
  incomplete ones, all of \<^verbatim>\<open>src/git/receive_pack.rs\<close>.

  A push touches the database and the repository on disk, and nothing makes the two change together: the record
  \<open>push_world\<close> holds both, and every operation returns the world it leaves behind even when it fails. The source
  marks the points where the process may stop with \<^verbatim>\<open>crash_point\<close>; \<open>finish\<close> takes the name of such a point, and
  \<open>None\<close> as its result means that the process stopped there.
\<close>

section \<open>The world of a push\<close>

record push_world =
  pw_db :: database
  pw_disk :: "string \<Rightarrow> (string, git_repository) result"
  pw_quarantine :: "string set"

definition open_bare :: "(string \<Rightarrow> (string, git_repository) result) \<Rightarrow> string
    \<Rightarrow> (receive_pack_error, git_repository) result" where
  "open_bare disk path =
     try_then (map_err ReceiveRepository (disk path)) (\<lambda>repository.
     if \<not> repo_bare repository then Err NotBare else Ok repository)"

definition put_repository :: "push_world \<Rightarrow> string \<Rightarrow> git_repository \<Rightarrow> push_world" where
  "put_repository w path repository = w\<lparr>pw_disk := (pw_disk w)(path := Ok repository)\<rparr>"

text \<open>Paths: joining a relative component, and the components that \<^verbatim>\<open>Path\<close> compares.\<close>

definition path_join :: "string \<Rightarrow> string \<Rightarrow> string" where
  "path_join p q = (if p = [] \<or> last p = CHR ''/'' then p @ q else p @ ''/'' @ q)"

definition path_components :: "string \<Rightarrow> string list" where
  "path_components p =
     (let parts = split_on (CHR ''/'') p in
      (if starts_with p ''/'' then [''/''] else if hd parts = ''.'' then [''.''] else [])
      @ filter (\<lambda>c. c \<noteq> [] \<and> c \<noteq> ''.'') parts)"

definition path_parent :: "string list \<Rightarrow> string list option" where
  "path_parent components = (if components \<in> {[], [''/'']} then None else Some (butlast components))"

definition quarantine_path :: "string \<Rightarrow> string \<Rightarrow> string" where
  "quarantine_path repository_path intent_id =
     path_join (path_join (path_join repository_path ''objects'') ''tit-quarantine'') intent_id"

definition open_inner :: "push_world \<Rightarrow> string \<Rightarrow> string \<Rightarrow> (string \<times> string) option \<Rightarrow> string option
    \<Rightarrow> push_world \<times> (receive_pack_error, receive_pack) result" where
  "open_inner w repository_path actor policy_context drawn_id =
     (case try_then (open_bare (pw_disk w) repository_path) (\<lambda>repository.
           try_then (ok_or ReceiveRandom drawn_id) (\<lambda>intent_id.
           Ok \<lparr>rp_repository_path = repository_path, rp_actor = actor,
               rp_object_format = repo_format repository, rp_intent_id = intent_id,
               rp_quarantine = quarantine_path repository_path intent_id,
               rp_cleanup_on_drop = True, rp_policy_context = policy_context\<rparr>)) of
        Inl e \<Rightarrow> (w, Err e)
      | Inr rp \<Rightarrow> (w\<lparr>pw_quarantine := insert (rp_quarantine rp) (pw_quarantine w)\<rparr>, Ok rp))"

definition drop_receive_pack :: "push_world \<Rightarrow> receive_pack \<Rightarrow> push_world" where
  "drop_receive_pack w rp =
     (if rp_cleanup_on_drop rp then w\<lparr>pw_quarantine := pw_quarantine w - {rp_quarantine rp}\<rparr> else w)"

section \<open>Recovery\<close>

definition store_step :: "push_world \<Rightarrow> (store_error, database) result
    \<Rightarrow> push_world \<times> (receive_pack_error, unit) result" where
  "store_step w m = (case m of Inl e \<Rightarrow> (w, Err (ReceiveStore e)) | Inr db \<Rightarrow> (w\<lparr>pw_db := db\<rparr>, Ok ()))"

definition remove_promoted_pack :: "git_repository \<Rightarrow> string option
    \<Rightarrow> (receive_pack_error, git_repository) result" where
  "remove_promoted_pack repository pack_name =
     (case pack_name of
        None \<Rightarrow> Ok repository
      | Some name \<Rightarrow>
          (case strip_suffix ''.pack'' name of
             None \<Rightarrow> Err RecoveryData
           | Some stem \<Rightarrow>
               if file_name name \<noteq> Some name \<or> \<not> starts_with name ''pack-'' then Err RecoveryData
               else Ok (repository\<lparr>repo_packs := repo_packs repository - {name, stem @ ''.idx''}\<rparr>)))"

text \<open>The \<^verbatim>\<open>match\<close> of \<^verbatim>\<open>recover_intent\<close> on the state of the intent and on whether the refs are at their initial and
  at their proposed targets.\<close>

definition settle_intent :: "env \<Rightarrow> push_world \<Rightarrow> git_operation_intent \<Rightarrow> git_repository \<Rightarrow> nat \<Rightarrow> bool \<Rightarrow> bool
    \<Rightarrow> push_world \<times> (receive_pack_error, unit) result" where
  "settle_intent env w intent repository refs at_initial at_proposed =
     (if goi_state intent = ''pending'' \<and> (at_initial \<or> \<not> at_proposed \<and> refs = 1)
      then store_step w (abandon_git_intent (pw_db w) (goi_id intent))
      else if goi_state intent = ''promoted'' \<and> \<not> at_initial \<and> at_proposed
      then store_step w (complete_git_intent env (pw_db w) (goi_id intent))
      else if goi_state intent = ''promoted'' \<and> (at_initial \<or> \<not> at_proposed \<and> refs = 1)
      then
        (case remove_promoted_pack repository (goi_pack_name intent) of
           Inl e \<Rightarrow> (w, Err e)
         | Inr repository \<Rightarrow>
             store_step (put_repository w (goi_repository_path intent) repository)
               (abandon_git_intent (pw_db w) (goi_id intent)))
      else (w, Err (MixedRecovery (goi_id intent))))"

definition recover_intent :: "gix \<Rightarrow> env \<Rightarrow> push_world \<Rightarrow> git_operation_intent
    \<Rightarrow> push_world \<times> (receive_pack_error, unit) result" where
  "recover_intent g env w intent =
     (case try_then (open_bare (pw_disk w) (goi_repository_path intent)) (\<lambda>repository.
           try_then (parse_ref_snapshot g (goi_initial_refs intent) (repo_format repository)) (\<lambda>initial.
           try_then (parse_ref_snapshot g (goi_proposed_refs intent) (repo_format repository)) (\<lambda>proposed.
           Ok (repository, initial, proposed)))) of
        Inl e \<Rightarrow> (w, Err e)
      | Inr (repository, initial, proposed) \<Rightarrow>
          (case settle_intent env w intent repository (length initial)
                (refs_match (repo_refs repository) initial) (refs_match (repo_refs repository) proposed) of
             (w, Inl e) \<Rightarrow> (w, Err e)
           | (w, Inr _) \<Rightarrow>
               if path_parent (path_components (goi_quarantine_path intent))
                    \<noteq> Some (path_components (path_join (goi_repository_path intent) ''objects/tit-quarantine''))
                  \<or> file_name (goi_quarantine_path intent) \<noteq> Some (goi_id intent)
               then (w, Err RecoveryData)
               else (w\<lparr>pw_quarantine := pw_quarantine w - {goi_quarantine_path intent}\<rparr>, Ok ())))"

text \<open>\<open>envs n\<close> is the environment of the \<open>n\<close>-th intent that is recovered.\<close>

fun recover_intents :: "gix \<Rightarrow> (nat \<Rightarrow> env) \<Rightarrow> nat \<Rightarrow> push_world \<Rightarrow> git_operation_intent list
    \<Rightarrow> push_world \<times> (receive_pack_error, unit) result" where
  "recover_intents g envs n w [] = (w, Ok ())"
| "recover_intents g envs n w (intent # intents) =
     (case recover_intent g (envs n) w intent of
        (w, Inl e) \<Rightarrow> (w, Err e)
      | (w, Inr _) \<Rightarrow> recover_intents g envs (n + 1) w intents)"

definition recover_incomplete_pushes :: "gix \<Rightarrow> (nat \<Rightarrow> env) \<Rightarrow> push_world
    \<Rightarrow> push_world \<times> (receive_pack_error, unit) result" where
  "recover_incomplete_pushes g envs w = recover_intents g envs 0 w (incomplete_git_intents (pw_db w))"

section \<open>Responses\<close>

definition status_line :: "blob \<Rightarrow> blob \<Rightarrow> string option \<Rightarrow> blob" where
  "status_line verdict name error =
     verdict @ name @ (case error of None \<Rightarrow> [] | Some e \<Rightarrow> space # as_bytes e) @ [byte_of_char newline]"

fun encode_lines :: "blob list \<Rightarrow> blob \<Rightarrow> (packet_line_error, blob) result" where
  "encode_lines [] output = Ok output"
| "encode_lines (line # lines) output = try_then (encode_data line output) (encode_lines lines)"

definition status_response :: "ref_command list \<Rightarrow> string option \<Rightarrow> (packet_line_error, blob) result" where
  "status_response commands error =
     try_then (encode_data (as_bytes ''unpack ok'' @ [byte_of_char newline]) []) (\<lambda>output.
     try_then (encode_lines
       (map (\<lambda>c. case error of Some e \<Rightarrow> status_line (as_bytes ''ng '') (cmd_name c) (Some e)
                 | None \<Rightarrow> status_line (as_bytes ''ok '') (cmd_name c) None) commands) output) (\<lambda>output.
     Ok (encode_flush output)))"

definition is_unpack_error :: "receive_pack_error \<Rightarrow> bool" where
  "is_unpack_error e =
     (case e of
        MissingPack \<Rightarrow> True | PackLimit \<Rightarrow> True | ObjectLimit \<Rightarrow> True | PackError _ \<Rightarrow> True
      | ObjectError _ \<Rightarrow> True | MissingObject _ \<Rightarrow> True | MalformedObject _ \<Rightarrow> True | _ \<Rightarrow> False)"

definition client_reason :: "receive_pack_error \<Rightarrow> string" where
  "client_reason e =
     (case e of
        StaleRef \<Rightarrow> ''stale reference''
      | NonFastForward \<Rightarrow> ''non-fast-forward''
      | RefPolicy \<Rightarrow> ''reference policy rejected the update''
      | ReceivePolicy _ \<Rightarrow> ''reference policy is unavailable''
      | BranchNotCommit \<Rightarrow> ''branch target is not a commit''
      | RefName \<Rightarrow> ''reference name is not allowed''
      | ObjectFormat \<Rightarrow> ''object format does not match''
      | CommandLimit \<Rightarrow> ''too many reference commands''
      | PackLimit \<Rightarrow> ''pack exceeds the byte limit''
      | ObjectLimit \<Rightarrow> ''object limit exceeded''
      | DeltaDepthLimit \<Rightarrow> ''delta depth limit exceeded''
      | WallClockLimit \<Rightarrow> ''processing time limit exceeded''
      | MissingObject _ \<Rightarrow> ''object connectivity check failed''
      | MixedRecovery _ \<Rightarrow> ''repository recovery is required''
      | _ \<Rightarrow> if is_unpack_error e then ''pack validation failed'' else ''push validation failed'')"

definition rejection_response :: "gix \<Rightarrow> receive_pack \<Rightarrow> blob \<Rightarrow> receive_pack_error \<Rightarrow> blob" where
  "rejection_response g rp command_bytes error =
     (case parse_commands g command_bytes (rp_object_format rp) of
        Inl _ \<Rightarrow> []
      | Inr commands \<Rightarrow>
          (case try_then (encode_data (if is_unpack_error error
                   then as_bytes (''unpack '' @ client_reason error @ [newline])
                   else as_bytes (''unpack ok'' @ [newline])) [])
                 (encode_lines (map (\<lambda>c. status_line (as_bytes ''ng '') (cmd_name c)
                   (Some (client_reason error))) commands)) of
             Inl _ \<Rightarrow> []
           | Inr output \<Rightarrow> encode_flush output))"

section \<open>A push\<close>

definition push_intent :: "receive_pack \<Rightarrow> ref_command list \<Rightarrow> int \<Rightarrow> new_git_intent" where
  "push_intent rp commands created_at =
     \<lparr>ngi_id = rp_intent_id rp, ngi_repository_path = rp_repository_path rp, ngi_actor = rp_actor rp,
      ngi_initial_refs = serialize_refs commands False, ngi_proposed_refs = serialize_refs commands True,
      ngi_event_payload = serialize_refs commands True, ngi_quarantine_path = rp_quarantine rp,
      ngi_created_at = created_at\<rparr>"

text \<open>The closure that \<^verbatim>\<open>finish\<close> runs once the intent is recorded. \<open>crash\<close> names the crash point at which the
  process stops.\<close>

definition push_body :: "gix \<Rightarrow> env \<Rightarrow> string option \<Rightarrow> push_world \<Rightarrow> receive_pack \<Rightarrow> git_repository
    \<Rightarrow> incoming_pack option \<Rightarrow> ref_command list \<Rightarrow> push_world \<times> (receive_pack_error, blob) result option" where
  "push_body g env crash w rp repository incoming commands =
     (case receive_objects g (pw_db w) rp repository incoming commands of
        (repository, Inl e) \<Rightarrow> (put_repository w (rp_repository_path rp) repository, Some (Err e))
      | (repository, Inr pack_name) \<Rightarrow>
          let w = put_repository w (rp_repository_path rp) repository in
          (case mark_git_objects_promoted (pw_db w) (rp_intent_id rp) pack_name of
             Inl e \<Rightarrow> (w, Some (Err (ReceiveStore e)))
           | Inr db \<Rightarrow>
               let w = w\<lparr>pw_db := db\<rparr> in
               if crash = Some ''objects'' then (w, None)
               else
                 (case apply_ref_transaction g (repo_refs repository) commands of
                    Inl e \<Rightarrow> (w, Some (Err e))
                  | Inr refs \<Rightarrow>
                      let w = put_repository w (rp_repository_path rp) (repository\<lparr>repo_refs := refs\<rparr>) in
                      if crash = Some ''refs'' then (w, None)
                      else
                        (case complete_git_intent env (pw_db w) (rp_intent_id rp) of
                           Inl e \<Rightarrow> (w, Some (Err (ReceiveStore e)))
                         | Inr db \<Rightarrow>
                             let w = w\<lparr>pw_db := db, pw_quarantine := pw_quarantine w - {rp_quarantine rp}\<rparr> in
                             if crash = Some ''completed'' then (w, None)
                             else (w, Some (map_err ReceivePacketLine (status_response commands None)))))))"

definition finish :: "gix \<Rightarrow> env \<Rightarrow> (nat \<Rightarrow> env) \<Rightarrow> string option \<Rightarrow> push_world \<Rightarrow> receive_pack \<Rightarrow> blob
    \<Rightarrow> incoming_pack option \<Rightarrow> int option
    \<Rightarrow> push_world \<times> receive_pack \<times> (receive_pack_error, blob) result option" where
  "finish g env envs crash w rp command_bytes incoming unix_timestamp =
     (case try_then (parse_commands g command_bytes (rp_object_format rp)) (\<lambda>commands.
           try_then (open_bare (pw_disk w) (rp_repository_path rp)) (\<lambda>repository.
           try_then (validate_initial_refs (repo_refs repository) commands) (\<lambda>_.
           try_then (ok_or ReceiveClock unix_timestamp) (\<lambda>created_at.
           try_then (map_err ReceiveStore
             (begin_git_intent (pw_db w) (push_intent rp commands created_at))) (\<lambda>db.
           Ok (commands, repository, db)))))) of
        Inl e \<Rightarrow> (w, rp, Some (Err e))
      | Inr (commands, repository, db) \<Rightarrow>
          let w = w\<lparr>pw_db := db\<rparr>; rp = rp\<lparr>rp_cleanup_on_drop := False\<rparr> in
          if crash = Some ''intent'' then (w, rp, None)
          else
            (case push_body g env crash w rp repository incoming commands of
               (w, Some (Inl e)) \<Rightarrow>
                 (case recover_incomplete_pushes g envs w of
                    (w, Inl e) \<Rightarrow> (w, rp, Some (Err e))
                  | (w, Inr _) \<Rightarrow> (w, rp\<lparr>rp_cleanup_on_drop := True\<rparr>, Some (Err e)))
             | (w, result) \<Rightarrow> (w, rp, result)))"

definition record_rejection :: "push_world \<Rightarrow> receive_pack \<Rightarrow> int option
    \<Rightarrow> (receive_pack_error, push_world) result" where
  "record_rejection w rp unix_timestamp =
     (if git_intent_completed (pw_db w) (rp_intent_id rp) then Ok w
      else
        let target =
          (case file_name (rp_repository_path rp) of
             None \<Rightarrow> ''repository''
           | Some name \<Rightarrow>
               (case strip_suffix ''.git'' name of None \<Rightarrow> ''repository'' | Some target \<Rightarrow> target)) in
        try_then (ok_or ReceiveClock unix_timestamp) (\<lambda>created_at.
        try_then (map_err ReceiveStore (record_audit_event (pw_db w)
          \<lparr>nae_action = ''ref.update'', nae_actor = rp_actor rp, nae_target = target,
           nae_outcome = ''failure'', nae_correlation_id = rp_intent_id rp,
           nae_created_at = created_at\<rparr>)) (\<lambda>db.
        Ok (w\<lparr>pw_db := db\<rparr>))))"

end
