(* ===== verification/Ref_Commands.thy ===== *)
theory Ref_Commands
  imports Receive_Pack
begin

text \<open>
  What a push knows about its commands once \<^verbatim>\<open>parse_commands\<close> has accepted them, and the two readers of the refs it
  records: recovery (\<^verbatim>\<open>parse_ref_snapshot\<close>) and the store (\<^verbatim>\<open>parse_event_refs\<close>) both read back exactly what
  \<^verbatim>\<open>serialize_refs\<close> wrote, and a ref transaction that succeeds moves the refs from the recorded initial targets to
  the recorded proposed ones.
\<close>

section \<open>What is documented of gix\<close>

text \<open>An object id prints as 40 or 64 lower-case hexadecimal digits, and reading that text gives it back.\<close>

definition canonical_id :: "oid \<Rightarrow> bool" where
  "canonical_id ident \<longleftrightarrow> length ident \<in> {40, 64} \<and> list_all is_lower_hexdigit ident"

definition hex_law :: "gix \<Rightarrow> bool" where
  "hex_law g \<longleftrightarrow>
     (\<forall>text ident. from_hex g text = Some ident \<longrightarrow> canonical_id ident)
     \<and> (\<forall>ident. canonical_id ident \<longrightarrow> from_hex g (as_bytes ident) = Some ident)"

text \<open>A full ref name is not empty and has no space and no control character.\<close>

definition name_law :: "gix \<Rightarrow> bool" where
  "name_law g \<longleftrightarrow> (\<forall>name. full_name g name \<longrightarrow>
     name \<noteq> [] \<and> space \<notin> set name \<and> byte_of_char newline \<notin> set name)"

text \<open>A transaction over distinct refs succeeds only if every ref has its expected target, and then sets them all.\<close>

definition transaction_law :: "gix \<Rightarrow> bool" where
  "transaction_law g \<longleftrightarrow> (\<forall>refs edits refs'.
     edit_references g refs edits = Ok refs' \<longrightarrow> distinct (map fst edits) \<longrightarrow>
     (\<forall>(name, old, new) \<in> set edits. refs name = old)
     \<and> refs' = foldl (\<lambda>r (name, old, new). r(name := new)) refs edits)"

definition gix_laws :: "gix \<Rightarrow> bool" where
  "gix_laws g \<longleftrightarrow> hex_law g \<and> name_law g \<and> transaction_law g"

text \<open>A concrete instance, for concrete runs: ids that begin with \<^verbatim>\<open>a\<close> are commits of an empty tree.\<close>

definition lower_char :: "char \<Rightarrow> char" where
  "lower_char c = (if is_ascii_uppercase c then char_of (of_char c + 32 :: nat) else c)"

definition reference_gix :: gix where
  "reference_gix =
     \<lparr>from_hex = (\<lambda>text. if length text \<in> {40, 64} \<and> list_all is_ascii_hexdigit (string_of_bytes text)
        then Some (map lower_char (string_of_bytes text)) else None),
      full_name = (\<lambda>name. name \<noteq> [] \<and> list_all (\<lambda>b. 32 < b \<and> b \<noteq> 127) name),
      try_find_object = (\<lambda>files ident. Ok (if starts_with ident ''a''
        then Some (CommitObject (replicate 40 (CHR ''b'')) [], 10) else Some (TreeObject [], 0))),
      edit_references = (\<lambda>refs edits.
        if list_all (\<lambda>(name, old, new). refs name = old) edits
        then Ok (foldl (\<lambda>r (name, old, new). r(name := new)) refs edits) else Err ''stale'')\<rparr>"

lemma lower_char_hexdigit: "is_ascii_hexdigit c \<Longrightarrow> is_lower_hexdigit (lower_char c)"
  by (auto simp: lower_char_def ascii_defs)

lemma lower_char_lower: "is_lower_hexdigit c \<Longrightarrow> lower_char c = c"
  by (auto simp: lower_char_def ascii_defs)

lemma lower_hexdigit_hexdigit: "is_lower_hexdigit c \<Longrightarrow> is_ascii_hexdigit c"
  by (auto simp: ascii_defs)

lemma length_string_of_bytes [simp]: "length (string_of_bytes b) = length b"
  by (simp add: string_of_bytes_def)

lemma reference_gix_laws: "gix_laws reference_gix"
proof -
  have "hex_law reference_gix"
    by (auto simp: hex_law_def reference_gix_def canonical_id_def list_all_iff
        lower_char_hexdigit lower_hexdigit_hexdigit intro!: map_idI lower_char_lower)
  moreover have "name_law reference_gix"
    by (auto simp: name_law_def reference_gix_def list_all_iff space_def newline_def byte_of_char_def)
  moreover have "transaction_law reference_gix"
    by (auto simp: transaction_law_def reference_gix_def list_all_iff split: if_splits)
  ultimately show ?thesis by (simp add: gix_laws_def)
qed

section \<open>Commands that parse\<close>

definition valid_command :: "gix \<Rightarrow> hash_kind \<Rightarrow> ref_command \<Rightarrow> bool" where
  "valid_command g object_format c \<longleftrightarrow>
     canonical_id (cmd_old c) \<and> length (cmd_old c) = hex_length object_format
     \<and> canonical_id (cmd_new c) \<and> length (cmd_new c) = hex_length object_format
     \<and> cmd_old c \<noteq> cmd_new c \<and> full_name g (cmd_name c)
     \<and> (starts_with (cmd_name c) (as_bytes ''refs/heads/'') \<or> starts_with (cmd_name c) (as_bytes ''refs/tags/''))"

lemma parse_id_valid:
  "hex_law g \<Longrightarrow> parse_id g input fmt = Ok i \<Longrightarrow> canonical_id i \<and> length i = hex_length fmt"
  by (auto simp: parse_id_def hex_law_def split: if_splits)

lemma parse_command_valid:
  assumes "hex_law g" and "parse_command g fmt line = Ok c"
    and "starts_with (cmd_name c) (as_bytes ''refs/heads/'') \<or> starts_with (cmd_name c) (as_bytes ''refs/tags/'')"
  shows "valid_command g fmt c"
  using assms parse_id_valid [OF assms(1)]
  by (auto simp: parse_command_def valid_command_def Let_def split: if_splits)

lemma parse_command_packets_valid:
  assumes "hex_law g" and "parse_command_packets g fmt k ps cs ns = Ok cs'"
    and "list_all (valid_command g fmt) cs" and "distinct (map cmd_name cs)" and "set ns = cmd_name ` set cs"
  shows "list_all (valid_command g fmt) cs' \<and> distinct (map cmd_name cs')"
  using assms
proof (induction g fmt k ps cs ns rule: parse_command_packets.induct)
  case (2 g fmt k p ps cs ns)
  then obtain line c where c: "command_of_line k p = Ok line" "parse_command g fmt line = Ok c"
    and ref: "starts_with (cmd_name c) (as_bytes ''refs/heads/'')
      \<or> starts_with (cmd_name c) (as_bytes ''refs/tags/'')" "cmd_name c \<notin> set ns"
    and rest: "parse_command_packets g fmt (k + 1) ps (cs @ [c]) (cmd_name c # ns) = Ok cs'"
    by (auto split: if_splits)
  have "valid_command g fmt c" using parse_command_valid [OF 2(2) c(2) ref(1)] .
  with 2(1) [of c, OF _ 2(2) rest] 2(4-6) ref show ?case by auto
qed simp_all

text \<open>C32. The commands of a push that parses: between 1 and 256 of them, no ref named twice, every ref under
  \<^verbatim>\<open>refs/heads/\<close> or \<^verbatim>\<open>refs/tags/\<close>, every id of the repository's hash, and no command that changes nothing.\<close>

theorem parse_commands_valid:
  assumes "gix_laws g" and "parse_commands g input object_format = Ok commands"
  shows "1 \<le> length commands \<and> length commands \<le> 256 \<and> distinct (map cmd_name commands)
    \<and> list_all (valid_command g object_format) commands"
  using assms parse_command_packets_valid [of g object_format 0 _ "[]" "[]" commands]
  by (auto simp: parse_commands_def gix_laws_def MAX_COMMANDS_def Suc_le_eq split: if_splits)

text \<open>A push of one command: create \<^verbatim>\<open>refs/heads/main\<close>.\<close>

definition sample_line :: blob where
  "sample_line = as_bytes (replicate 40 (CHR ''0'') @ '' '' @ replicate 40 (CHR ''a'') @ '' refs/heads/main'')
     @ [0] @ as_bytes '' report-status''"

definition sample_push :: blob where
  "sample_push =
     (case encode_data sample_line [] of Inl _ \<Rightarrow> [] | Inr output \<Rightarrow> encode_flush output)"

definition sample_command :: ref_command where
  "sample_command = \<lparr>cmd_old = replicate 40 (CHR ''0''), cmd_new = replicate 40 (CHR ''a''),
     cmd_name = as_bytes ''refs/heads/main''\<rparr>"

lemma sample_push_decodes: "decode sample_push = Ok [Data sample_line, Flush]"
proof -
  have len: "length sample_line = 112" by code_simp
  have "encode_all [Data sample_line, Flush] [] = Ok sample_push"
    by (simp add: sample_push_def encode_data_def Let_def MAX_PACKET_BYTES_def len)
  moreover have "list_all well_formed_packet [Data sample_line, Flush]"
    using len by (auto simp: well_formed_packet_def)
  moreover have "length sample_push \<le> MAX_REQUEST_BYTES"
    by (simp add: sample_push_def encode_data_def encode_flush_def Let_def MAX_PACKET_BYTES_def
        MAX_REQUEST_BYTES_def header_length len del: length_as_bytes) simp
  ultimately show ?thesis
    using decode_from_encode_all [of "[Data sample_line, Flush]" "[]" sample_push "[]"] by (simp add: decode_def)
qed

lemma sample_line_parses:
  "parse_command_packets reference_gix Sha1 0 [Data sample_line] [] [] = Ok [sample_command]"
  by code_simp

lemma sample_push_parses: "parse_commands reference_gix sample_push Sha1 = Ok [sample_command]"
  using sample_line_parses
  by (simp add: parse_commands_def sample_push_decodes MAX_COMMANDS_def del: parse_command_packets.simps)

theorem parse_commands_valid_witness:
  "1 \<le> length [sample_command] \<and> length [sample_command] \<le> 256 \<and> distinct (map cmd_name [sample_command])
   \<and> list_all (valid_command reference_gix Sha1) [sample_command]"
  by (rule parse_commands_valid [OF reference_gix_laws sample_push_parses])

section \<open>Recorded refs\<close>

abbreviation target_of :: "bool \<Rightarrow> ref_command \<Rightarrow> oid" where
  "target_of proposed c \<equiv> (if proposed then cmd_new c else cmd_old c)"

lemma not_lower_hexdigit: "\<not> is_lower_hexdigit (CHR '' '')" "\<not> is_lower_hexdigit newline"
  by (auto simp: ascii_defs newline_def)

lemma byte_of_char_eq [simp]: "byte_of_char c = byte_of_char d \<longleftrightarrow> c = d"
  by (metis byte_of_char_inverse)

lemma canonical_id_bytes:
  assumes "canonical_id i"
  shows "space \<notin> set (as_bytes i)" and "byte_of_char newline \<notin> set (as_bytes i)"
  using assms not_lower_hexdigit by (auto simp: canonical_id_def list_all_iff as_bytes_def space_def)

text \<open>One recorded line, without its newline, and the two readers of it.\<close>

lemma parse_snapshot_line_serialized:
  assumes "hex_law g" and "canonical_id i" and "length i = hex_length fmt" and "full_name g n"
  shows "parse_snapshot_line g fmt (as_bytes i @ space # n) = Ok (n, i)"
proof -
  have take: "takeWhile (\<lambda>b. b \<noteq> space) (as_bytes i @ space # n) = as_bytes i"
    using canonical_id_bytes(1) [OF assms(2)] by (auto simp: takeWhile_append)
  have "parse_id g (Some (as_bytes i)) fmt = Ok i"
    using assms(1-3) by (simp add: parse_id_def hex_law_def)
  then show ?thesis using assms(4) by (simp add: parse_snapshot_line_def take)
qed

lemma parse_event_ref_serialized:
  assumes "canonical_id i" and "n \<noteq> []"
  shows "parse_event_ref (as_bytes i @ space # n) = Ok (i, n)"
proof -
  have "takeWhile (\<lambda>b. b \<noteq> space) (as_bytes i @ space # n) = as_bytes i"
    using canonical_id_bytes(1) [OF assms(1)] by (auto simp: takeWhile_append)
  moreover have "list_all is_ascii_hexdigit i"
    using assms(1) lower_hexdigit_hexdigit by (auto simp: canonical_id_def list_all_iff)
  ultimately show ?thesis
    using assms by (auto simp: parse_event_ref_def space_def [symmetric] canonical_id_def Let_def)
qed

lemma split_serialized:
  assumes "name_law g" and "list_all (valid_command g fmt) cs"
  shows "split_on (byte_of_char newline) (serialize_refs cs p)
    = map (\<lambda>c. as_bytes (target_of p c) @ space # cmd_name c) cs @ [[]]"
  using assms(2)
proof (induction cs)
  case Nil
  show ?case by (simp add: serialize_refs_def)
next
  case (Cons c cs)
  have "byte_of_char newline \<notin> set (as_bytes (target_of p c) @ space # cmd_name c)"
    using Cons.prems assms(1) canonical_id_bytes(2)
    by (auto simp: valid_command_def name_law_def space_def newline_def)
  from split_on_append [OF this] Cons show ?case by (simp add: serialize_refs_def serialize_ref_def)
qed

lemma parse_snapshot_lines_serialized:
  assumes "hex_law g" and "list_all (valid_command g fmt) cs"
  shows "parse_snapshot_lines g fmt (map (\<lambda>c. as_bytes (target_of p c) @ space # cmd_name c) cs @ [[]])
    = Ok (map (\<lambda>c. (cmd_name c, target_of p c)) cs)"
  using assms(2)
  by (induction cs) (auto simp: valid_command_def parse_snapshot_line_serialized [OF assms(1)])

lemma parse_event_lines_serialized:
  assumes "name_law g" and "list_all (valid_command g fmt) cs"
  shows "parse_event_lines (map (\<lambda>c. as_bytes (target_of p c) @ space # cmd_name c) cs @ [[]])
    = Ok (map (\<lambda>c. (target_of p c, cmd_name c)) cs)"
  using assms(2) by (induction cs) (use assms(1) in \<open>auto simp: valid_command_def name_law_def parse_event_ref_serialized\<close>)

lemma parse_ref_snapshot_serialized:
  assumes "gix_laws g" and "list_all (valid_command g fmt) cs"
  shows "parse_ref_snapshot g (serialize_refs cs p) fmt = Ok (map (\<lambda>c. (cmd_name c, target_of p c)) cs)"
proof -
  have "hex_law g" and "name_law g" using assms(1) by (simp_all add: gix_laws_def)
  then show ?thesis
    using assms(2) by (simp add: parse_ref_snapshot_def split_serialized [of g fmt] parse_snapshot_lines_serialized)
qed

lemma parse_event_refs_serialized:
  assumes "gix_laws g" and "list_all (valid_command g fmt) cs"
  shows "parse_event_refs (serialize_refs cs p) = Ok (map (\<lambda>c. (target_of p c, cmd_name c)) cs)"
proof -
  have "name_law g" using assms(1) by (simp add: gix_laws_def)
  then show ?thesis
    using assms(2)
    by (simp add: parse_event_refs_def split_serialized [of g fmt] parse_event_lines_serialized [of g fmt])
qed

lemma parsed_commands:
  assumes "gix_laws g" and "parse_commands g input fmt = Ok cs"
  shows "cs \<noteq> []" and "distinct (map cmd_name cs)" and "list_all (valid_command g fmt) cs"
  using assms parse_command_packets_valid [of g fmt 0 _ "[]" "[]" cs]
  by (auto simp: parse_commands_def gix_laws_def split: if_splits)

text \<open>C31. The refs of a push are recorded without loss: recovery and the store, which read the recorded text with
  different parsers, both get back the name and the old or new target of every command, in order.\<close>

theorem recorded_refs_roundtrip:
  assumes "gix_laws g" and "parse_commands g input object_format = Ok commands"
  shows "parse_ref_snapshot g (serialize_refs commands proposed) object_format
      = Ok (map (\<lambda>c. (cmd_name c, if proposed then cmd_new c else cmd_old c)) commands)
    \<and> parse_event_refs (serialize_refs commands proposed)
      = Ok (map (\<lambda>c. (if proposed then cmd_new c else cmd_old c, cmd_name c)) commands)"
  using parse_ref_snapshot_serialized parse_event_refs_serialized parsed_commands(3) assms by blast

theorem recorded_refs_roundtrip_witness:
  "parse_ref_snapshot reference_gix (serialize_refs [sample_command] True) Sha1
      = Ok [(as_bytes ''refs/heads/main'', replicate 40 (CHR ''a''))]
   \<and> parse_event_refs (serialize_refs [sample_command] True)
      = Ok [(replicate 40 (CHR ''a''), as_bytes ''refs/heads/main'')]"
  using recorded_refs_roundtrip [OF reference_gix_laws sample_push_parses, of True]
  by (simp add: sample_command_def)

section \<open>Refs before and after the transaction\<close>

lemma refs_match_iff: "refs_match refs e \<longleftrightarrow> (\<forall>(name, ident) \<in> set e. refs name = live_target ident)"
  by (auto simp: refs_match_def live_target_def list_all_iff split: if_splits)

lemma validate_initial_refs_iff:
  "validate_initial_refs refs cs = Ok u \<longleftrightarrow> refs_match refs (map (\<lambda>c. (cmd_name c, target_of False c)) cs)"
  by (simp add: validate_initial_refs_def refs_match_iff live_target_def list_all_iff)

lemma null_id_replicate: "is_null_id i \<Longrightarrow> i = replicate (length i) (CHR ''0'')"
  by (induction i) (auto simp: is_null_id_def)

lemma null_id_eq: "is_null_id i \<Longrightarrow> is_null_id j \<Longrightarrow> length i = length j \<Longrightarrow> i = j"
  using null_id_replicate [of i] null_id_replicate [of j] by simp

lemma live_target_eq: "length i = length j \<Longrightarrow> live_target i = live_target j \<longleftrightarrow> i = j"
  by (auto simp: live_target_def null_id_eq split: if_splits)

lemma foldl_edits_other:
  "n \<notin> set (map fst es) \<Longrightarrow> foldl (\<lambda>r (name, old, new). r(name := new)) refs es n = refs n"
  by (induction es arbitrary: refs) auto

lemma foldl_edits:
  "distinct (map fst es) \<Longrightarrow> (n, old, new) \<in> set es
   \<Longrightarrow> foldl (\<lambda>r (name, old, new). r(name := new)) refs es n = new"
proof (induction es arbitrary: refs)
  case (Cons e es)
  obtain m o' w where e: "e = (m, o', w)" by (cases e)
  show ?case
  proof (cases "(n, old, new) \<in> set es")
    case True
    with Cons.IH Cons.prems(1) show ?thesis by (simp add: e)
  next
    case False
    with Cons.prems(2) have "e = (n, old, new)" by simp
    moreover from this have "n \<notin> set (map fst es)" using Cons.prems(1) by simp
    ultimately show ?thesis using foldl_edits_other [of n es "refs(n := new)"] by (simp del: fun_upd_apply) simp
  qed
qed simp

lemma ref_transaction_applied:
  assumes "gix_laws g" and "distinct (map cmd_name cs)" and "apply_ref_transaction g refs cs = Ok refs'"
  shows "refs_match refs' (map (\<lambda>c. (cmd_name c, target_of True c)) cs)"
proof -
  have names: "map fst (ref_edits cs) = map cmd_name cs" by (simp add: ref_edits_def)
  with assms have refs': "refs' = foldl (\<lambda>r (name, old, new). r(name := new)) refs (ref_edits cs)"
    unfolding apply_ref_transaction_def gix_laws_def transaction_law_def by auto
  have "refs' (cmd_name c) = live_target (cmd_new c)" if "c \<in> set cs" for c
    unfolding refs' by (rule foldl_edits) (use assms(2) names that in \<open>auto simp: ref_edits_def comp_def\<close>)
  then show ?thesis by (auto simp: refs_match_iff)
qed

lemma moved_refs_differ:
  assumes "list_all (valid_command g fmt) cs" and "cs \<noteq> []"
    and "refs_match refs (map (\<lambda>c. (cmd_name c, target_of True c)) cs)"
  shows "\<not> refs_match refs (map (\<lambda>c. (cmd_name c, target_of False c)) cs)"
proof -
  obtain c where c: "c \<in> set cs" using assms(2) by fastforce
  then have "live_target (cmd_old c) \<noteq> live_target (cmd_new c)"
    using assms(1) live_target_eq [of "cmd_old c" "cmd_new c"] by (auto simp: valid_command_def list_all_iff)
  then show ?thesis using c assms(3) by (force simp: refs_match_iff)
qed

end
