(* ===== verification/Push_Recovery.thy ===== *)
theory Push_Recovery
  imports Push Ref_Commands
begin

text \<open>
  Crash safety of a push. The database and the repository change one after the other, so a process that stops in
  between leaves them apart; the lemmas follow one push through its crash points and show what recovery makes of the
  state it finds at each: up to the ref transaction the push is undone, after it the push is completed.
\<close>

section \<open>The last intent\<close>

text \<open>A push works on the row it has just appended. These lemmas say what its statements do to that row.\<close>

abbreviation intents :: "database \<Rightarrow> git_operation_intent list" where
  "intents \<equiv> db_git_operation_intent"

abbreviation set_intents :: "git_operation_intent list \<Rightarrow> database \<Rightarrow> database" where
  "set_intents t \<equiv> db_git_operation_intent_update (\<lambda>_. t)"

definition git_intent_row :: "new_git_intent \<Rightarrow> git_operation_intent" where
  "git_intent_row i = \<lparr>goi_id = ngi_id i, goi_repository_path = ngi_repository_path i, goi_actor = ngi_actor i,
     goi_initial_refs = ngi_initial_refs i, goi_proposed_refs = ngi_proposed_refs i,
     goi_event_payload = ngi_event_payload i, goi_quarantine_path = ngi_quarantine_path i,
     goi_state = ''pending'', goi_pack_name = None, goi_created_at = ngi_created_at i\<rparr>"

lemma begin_git_intent_Ok:
  "begin_git_intent db i = Ok db' \<Longrightarrow>
   db' = set_intents (intents db @ [git_intent_row i]) db \<and> ngi_id i \<notin> goi_id ` set (intents db)
   \<and> git_operation_intent_chk (git_intent_row i) \<and> git_operation_intent_uniq (intents db)"
  by (auto simp: begin_git_intent_def git_intent_row_def exec_insert_Ok git_operation_intent_uniq_def unique_by_append)

lemma map_last_row:
  assumes "goi_id r \<notin> goi_id ` set t" and "S r"
  shows "map (\<lambda>i. if goi_id i = goi_id r \<and> S i then f i else i) (t @ [r]) = t @ [f r]"
    and "filter (\<lambda>i. goi_id i = goi_id r \<and> S i) (t @ [r]) = [r]"
proof -
  have "goi_id x \<noteq> goi_id r" if "x \<in> set t" for x using that assms(1) by (metis image_eqI)
  then show "map (\<lambda>i. if goi_id i = goi_id r \<and> S i then f i else i) (t @ [r]) = t @ [f r]"
    and "filter (\<lambda>i. goi_id i = goi_id r \<and> S i) (t @ [r]) = [r]"
    using assms(2) by (auto intro!: map_idI simp: filter_empty_conv)
qed

lemma update_last_intent:
  assumes "intents db = t @ [r]" and "goi_id r \<notin> goi_id ` set t" and "S r"
    and "git_operation_intent_uniq t" and "git_operation_intent_chk (f r)" and "goi_id (f r) = goi_id r"
  shows "exec_update git_operation_intent_table (\<lambda>i. goi_id i = goi_id r \<and> S i) f db
    = Ok (set_intents (t @ [f r]) db, 1)"
  using assms map_last_row(1) [of r t S f] map_last_row(2) [of r t S]
  by (auto simp: exec_update_Ok count_rows_def git_operation_intent_uniq_def unique_by_append) (metis image_eqI)

lemma incomplete_last:
  assumes "incomplete_git_intents db = []" and "intents db' = intents db @ [r]"
  shows "incomplete_git_intents db' = (if goi_state r \<in> {''pending'', ''promoted''} then [r] else [])"
proof -
  have "filter (\<lambda>i. goi_state i \<in> {''pending'', ''promoted''}) (intents db) = []"
    using assms(1) by (metis (no_types, lifting) incomplete_git_intents_def length_0_conv length_sort)
  then show ?thesis using assms(2) by (simp add: incomplete_git_intents_def)
qed

lemma mark_last_intent:
  assumes "intents db = t @ [r]" and "goi_id r \<notin> goi_id ` set t" and "goi_state r = ''pending''"
    and "git_operation_intent_uniq t" and "git_operation_intent_chk r"
  shows "mark_git_objects_promoted db (goi_id r) p
    = Ok (set_intents (t @ [r\<lparr>goi_state := ''promoted'', goi_pack_name := p\<rparr>]) db)"
  using assms update_last_intent [OF assms(1,2), of "\<lambda>i. goi_state i = ''pending''"
      "\<lambda>i. i\<lparr>goi_state := ''promoted'', goi_pack_name := p\<rparr>"]
  by (simp add: mark_git_objects_promoted_def require_one_intent_def require_def git_operation_intent_chk_def)

lemma abandon_last_intent:
  assumes "intents db = t @ [r]" and "goi_id r \<notin> goi_id ` set t" and "goi_state r \<in> {''pending'', ''promoted''}"
    and "git_operation_intent_uniq t" and "git_operation_intent_chk r"
    and "filter (\<lambda>m. mint_intent_id m = goi_id r) (db_pull_request_merge_intent db) = []"
  shows "abandon_git_intent db (goi_id r) = Ok (set_intents (t @ [r\<lparr>goi_state := ''abandoned''\<rparr>]) db)"
proof -
  have "exec_delete pull_request_merge_intent_table (\<lambda>m. mint_intent_id m = goi_id r) db = (db, 0)"
    using assms(6) by (simp add: exec_delete_eq count_rows_def filter_empty_conv cong: filter_cong)
  then show ?thesis
    using assms update_last_intent [OF assms(1,2), of "\<lambda>i. goi_state i \<in> {''pending'', ''promoted''}"
        "\<lambda>i. i\<lparr>goi_state := ''abandoned''\<rparr>"]
    by (simp add: abandon_git_intent_def require_one_intent_def require_def git_operation_intent_chk_def)
qed

text \<open>Completing an intent writes events, audit rows and perhaps a pull request, but no other intent.\<close>

lemma insert_ref_events_intents:
  "intents db = t \<Longrightarrow> ensures (insert_ref_events env k db r i a c os ns) (\<lambda>db'. intents db' = t)"
  by (induction env k db r i a c os ns rule: insert_ref_events.induct) (auto intro!: wp sql_wp)

lemma insert_push_events_intents:
  "intents db = t \<Longrightarrow> ensures (insert_push_events env db i p a os ns c) (\<lambda>db'. intents db' = t)"
  unfolding insert_push_events_def
  by (auto intro!: wp sql_wp ensures_mono [OF insert_ref_events_intents])

lemma complete_pull_request_merge_intents:
  "intents db = t \<Longrightarrow> ensures (complete_pull_request_merge env k db i a c) (\<lambda>db'. intents db' = t)"
  unfolding complete_pull_request_merge_def by (auto intro!: wp sql_wp)

lemma complete_last_intent:
  assumes "intents db = t @ [r]" and "goi_id r \<notin> goi_id ` set t" and "goi_state r = ''promoted''"
    and "git_operation_intent_uniq t" and "git_operation_intent_chk r"
  shows "ensures (complete_git_intent env db (goi_id r)) (\<lambda>db'. intents db' = t @ [r\<lparr>goi_state := ''completed''\<rparr>])"
proof -
  have upd: "exec_update git_operation_intent_table (\<lambda>i. goi_id i = goi_id r \<and> goi_state i = ''promoted'')
      (\<lambda>i. i\<lparr>goi_state := ''completed''\<rparr>) db = Ok (set_intents (t @ [r\<lparr>goi_state := ''completed''\<rparr>]) db, 1)"
    using assms by (intro update_last_intent) (simp_all add: git_operation_intent_chk_def)
  show ?thesis
    unfolding complete_git_intent_def upd
    by (auto intro!: wp sql_wp ensures_mono [OF insert_push_events_intents]
        ensures_mono [OF complete_pull_request_merge_intents])
qed

section \<open>Paths and packs\<close>

lemma starts_with_iff: "starts_with s p \<longleftrightarrow> (\<exists>t. s = p @ t)"
  by (metis append_eq_conv_conj append_take_drop_id starts_with_def)

definition plain_component :: "string \<Rightarrow> bool" where
  "plain_component q \<longleftrightarrow> q \<notin> {[], ''.'', ''..''} \<and> CHR ''/'' \<notin> set q"

lemma path_join_cases:
  "p = [] \<and> path_join p q = q \<or> (\<exists>p'. p = p' @ ''/'' \<and> path_join p q = p' @ CHR ''/'' # q)
   \<or> p \<noteq> [] \<and> path_join p q = p @ CHR ''/'' # q"
proof (cases "p = []")
  case False
  show ?thesis
  proof (cases "last p = CHR ''/''")
    case True
    with \<open>p \<noteq> []\<close> have "p = butlast p @ ''/''" by (metis append_butlast_last_id)
    then show ?thesis by (metis True append_Cons append_Nil append_assoc path_join_def)
  qed (use \<open>p \<noteq> []\<close> in \<open>simp add: path_join_def\<close>)
qed (simp add: path_join_def)

lemma split_path_join:
  assumes "plain_component q"
  shows "filter (\<lambda>c. c \<noteq> [] \<and> c \<noteq> ''.'') (split_on (CHR ''/'') (path_join p q))
      = filter (\<lambda>c. c \<noteq> [] \<and> c \<noteq> ''.'') (split_on (CHR ''/'') p) @ [q]"
  using assms path_join_cases [of p q]
  by (auto simp: plain_component_def split_on_append_delimiter split_on_none)

lemma path_components_join:
  assumes "plain_component q"
  shows "path_components (path_join p q) = path_components p @ [q]"
proof -
  have "starts_with (path_join p q) ''/'' \<longleftrightarrow> starts_with p ''/''"
    using assms by (cases p; cases q) (auto simp: plain_component_def starts_with_def path_join_def)
  moreover have "hd (split_on (CHR ''/'') (path_join p q)) = hd (split_on (CHR ''/'') p)" if "p \<noteq> []"
    using that path_join_cases [of p q] by (auto simp: split_on_append_delimiter hd_split_on_append)
  ultimately show ?thesis
    using split_path_join [OF assms, of p] assms
    by (cases "p = []") (auto simp: path_components_def Let_def plain_component_def path_join_def split_on_none)
qed

lemma file_name_join: "plain_component q \<Longrightarrow> file_name (path_join p q) = Some q"
  using split_path_join [of q p] by (simp add: file_name_def Let_def plain_component_def)

lemma hex_component: "list_all is_lower_hexdigit i \<Longrightarrow> length i = 32 \<Longrightarrow> plain_component i"
  by (auto simp: plain_component_def list_all_iff ascii_defs)

lemma quarantine_path_checks:
  assumes "list_all is_lower_hexdigit i" and "length i = 32"
  shows "path_parent (path_components (quarantine_path p i))
      = Some (path_components (path_join p ''objects/tit-quarantine''))"
    and "file_name (quarantine_path p i) = Some i"
proof -
  have "path_join p ''objects/tit-quarantine'' = path_join (path_join p ''objects'') ''tit-quarantine''"
    by (simp add: path_join_def)
  moreover have "plain_component ''objects''" and "plain_component ''tit-quarantine''"
    by (simp_all add: plain_component_def)
  ultimately show "path_parent (path_components (quarantine_path p i))
      = Some (path_components (path_join p ''objects/tit-quarantine''))"
    using hex_component [OF assms] by (simp add: quarantine_path_def path_components_join path_parent_def butlast_append)
  show "file_name (quarantine_path p i) = Some i"
    using hex_component [OF assms] by (simp add: quarantine_path_def file_name_join)
qed

text \<open>gix names a pack \<^verbatim>\<open>pack-<hash>.pack\<close> and its index \<^verbatim>\<open>pack-<hash>.idx\<close>.\<close>

definition pack_named :: "incoming_pack \<Rightarrow> bool" where
  "pack_named pack \<longleftrightarrow> (case strip_suffix ''.pack'' (ip_pack_name pack) of
     None \<Rightarrow> False
   | Some stem \<Rightarrow> starts_with stem ''pack-'' \<and> CHR ''/'' \<notin> set stem \<and> ip_index_name pack = stem @ ''.idx'')"

lemma receive_objects_effect:
  assumes "receive_objects g db rp repository incoming cs = (repository', Ok pack_name)"
  shows "repository' = repository \<and> pack_name = None
    \<or> (\<exists>pack. incoming = Some pack \<and> pack_name = Some (ip_pack_name pack)
       \<and> ip_pack_name pack \<notin> repo_packs repository \<and> ip_index_name pack \<notin> repo_packs repository
       \<and> repository' = repository\<lparr>repo_packs := repo_packs repository \<union> {ip_index_name pack, ip_pack_name pack}\<rparr>)"
  using assms
  by (auto simp: receive_objects_def index_and_validate_pack_def promote_pack_def Let_def
      split: option.splits if_splits sum.splits bool.splits)

lemma remove_received_pack:
  assumes "receive_objects g db rp repository incoming cs = (repository', Ok pack_name)"
    and "case incoming of None \<Rightarrow> True | Some pack \<Rightarrow> pack_named pack"
  shows "remove_promoted_pack repository' pack_name = Ok repository"
  using receive_objects_effect [OF assms(1)]
proof (elim disjE exE conjE)
  fix pack
  assume pack: "incoming = Some pack" "pack_name = Some (ip_pack_name pack)"
    "ip_pack_name pack \<notin> repo_packs repository" "ip_index_name pack \<notin> repo_packs repository"
    "repository' = repository\<lparr>repo_packs := repo_packs repository \<union> {ip_index_name pack, ip_pack_name pack}\<rparr>"
  then obtain stem where stem: "ip_pack_name pack = stem @ ''.pack''" "starts_with stem ''pack-''"
    "CHR ''/'' \<notin> set stem" "ip_index_name pack = stem @ ''.idx''"
    using assms(2) by (auto simp: pack_named_def strip_suffix_Some split: option.splits)
  have "plain_component (stem @ ''.pack'')"
    using stem(2,3) by (cases stem) (auto simp: plain_component_def starts_with_def)
  then have "file_name (stem @ ''.pack'') = Some (stem @ ''.pack'')"
    using file_name_join [of "stem @ ''.pack''" "[]"] by (simp add: path_join_def)
  moreover have "starts_with (stem @ ''.pack'') ''pack-''"
    using stem(2) by (metis append_assoc starts_with_iff)
  moreover have "repo_packs repository \<union> {stem @ ''.idx'', stem @ ''.pack''} - {stem @ ''.pack'', stem @ ''.idx''}
      = repo_packs repository"
    using pack(3,4) stem by auto
  ultimately show ?thesis using pack(2,5) stem by (simp add: remove_promoted_pack_def)
qed (simp add: remove_promoted_pack_def)

section \<open>The stages of a push\<close>

text \<open>\<open>stages\<close> collects what a push that succeeds went through: its commands, the repository it opened, the row it
  recorded, the repository after the pack was moved in, the refs after the transaction and the last database.\<close>

record stages =
  st_commands :: "ref_command list"
  st_opened :: git_repository
  st_created_at :: int
  st_received :: git_repository
  st_pack :: "string option"
  st_refs :: refs
  st_final :: database

abbreviation recorded :: "receive_pack \<Rightarrow> stages \<Rightarrow> git_operation_intent" where
  "recorded rp st \<equiv> git_intent_row (push_intent rp (st_commands st) (st_created_at st))"

abbreviation promoted :: "receive_pack \<Rightarrow> stages \<Rightarrow> git_operation_intent" where
  "promoted rp st \<equiv> (recorded rp st)\<lparr>goi_state := ''promoted'', goi_pack_name := st_pack st\<rparr>"

text \<open>The worlds at the four crash points.\<close>

definition at_intent :: "push_world \<Rightarrow> receive_pack \<Rightarrow> stages \<Rightarrow> push_world" where
  "at_intent w rp st = w\<lparr>pw_db := set_intents (intents (pw_db w) @ [recorded rp st]) (pw_db w)\<rparr>"

definition at_objects :: "push_world \<Rightarrow> receive_pack \<Rightarrow> stages \<Rightarrow> push_world" where
  "at_objects w rp st = put_repository
     (w\<lparr>pw_db := set_intents (intents (pw_db w) @ [promoted rp st]) (pw_db w)\<rparr>)
     (rp_repository_path rp) (st_received st)"

definition at_refs :: "push_world \<Rightarrow> receive_pack \<Rightarrow> stages \<Rightarrow> push_world" where
  "at_refs w rp st = put_repository
     (w\<lparr>pw_db := set_intents (intents (pw_db w) @ [promoted rp st]) (pw_db w)\<rparr>)
     (rp_repository_path rp) ((st_received st)\<lparr>repo_refs := st_refs st\<rparr>)"

definition at_completed :: "push_world \<Rightarrow> receive_pack \<Rightarrow> stages \<Rightarrow> push_world" where
  "at_completed w rp st = (at_refs w rp st)\<lparr>pw_db := st_final st, pw_quarantine := pw_quarantine w - {rp_quarantine rp}\<rparr>"

definition stages_of :: "gix \<Rightarrow> env \<Rightarrow> push_world \<Rightarrow> receive_pack \<Rightarrow> blob \<Rightarrow> incoming_pack option \<Rightarrow> int option
    \<Rightarrow> stages \<Rightarrow> bool" where
  "stages_of g env w rp bytes incoming time st \<longleftrightarrow>
     parse_commands g bytes (rp_object_format rp) = Ok (st_commands st)
     \<and> open_bare (pw_disk w) (rp_repository_path rp) = Ok (st_opened st)
     \<and> validate_initial_refs (repo_refs (st_opened st)) (st_commands st) = Ok ()
     \<and> time = Some (st_created_at st)
     \<and> begin_git_intent (pw_db w) (push_intent rp (st_commands st) (st_created_at st)) = Ok (pw_db (at_intent w rp st))
     \<and> receive_objects g (pw_db (at_intent w rp st)) (rp\<lparr>rp_cleanup_on_drop := False\<rparr>) (st_opened st) incoming
         (st_commands st) = (st_received st, Ok (st_pack st))
     \<and> mark_git_objects_promoted (pw_db (at_intent w rp st)) (rp_intent_id rp) (st_pack st) = Ok (pw_db (at_objects w rp st))
     \<and> apply_ref_transaction g (repo_refs (st_received st)) (st_commands st) = Ok (st_refs st)
     \<and> complete_git_intent env (pw_db (at_refs w rp st)) (rp_intent_id rp) = Ok (st_final st)"

lemma git_intent_row_simps [simp]:
  "goi_id (git_intent_row i) = ngi_id i" "goi_state (git_intent_row i) = ''pending''"
  "goi_repository_path (git_intent_row i) = ngi_repository_path i"
  "goi_initial_refs (git_intent_row i) = ngi_initial_refs i" "goi_proposed_refs (git_intent_row i) = ngi_proposed_refs i"
  "goi_quarantine_path (git_intent_row i) = ngi_quarantine_path i" "goi_pack_name (git_intent_row i) = None"
  by (simp_all add: git_intent_row_def)

lemma push_intent_simps [simp]:
  "ngi_id (push_intent rp cs t) = rp_intent_id rp" "ngi_repository_path (push_intent rp cs t) = rp_repository_path rp"
  "ngi_initial_refs (push_intent rp cs t) = serialize_refs cs False"
  "ngi_proposed_refs (push_intent rp cs t) = serialize_refs cs True"
  "ngi_quarantine_path (push_intent rp cs t) = rp_quarantine rp"
  by (simp_all add: push_intent_def)

lemma push_intent_cleanup [simp]: "push_intent (rp\<lparr>rp_cleanup_on_drop := b\<rparr>) cs t = push_intent rp cs t"
  by (simp add: push_intent_def)

lemma begin_at_intent:
  "begin_git_intent (pw_db w) (push_intent rp cs t) = Ok db1
   \<Longrightarrow> db1 = set_intents (intents (pw_db w) @ [git_intent_row (push_intent rp cs t)]) (pw_db w)"
  by (simp add: begin_git_intent_Ok)

lemma mark_at_objects:
  assumes "begin_git_intent db i = Ok db1" and "mark_git_objects_promoted db1 (ngi_id i) p = Ok db2"
  shows "db2 = set_intents (intents db @ [(git_intent_row i)\<lparr>goi_state := ''promoted'', goi_pack_name := p\<rparr>]) db"
  using begin_git_intent_Ok [OF assms(1)] assms(2) mark_last_intent [of db1 "intents db" "git_intent_row i" p] by auto

lemma finish_stages:
  assumes "finish g env envs None w rp bytes incoming time = (w', rp', Some (Ok response))"
  obtains st where "stages_of g env w rp bytes incoming time st" and "w' = at_completed w rp st"
proof -
  let ?rp = "rp\<lparr>rp_cleanup_on_drop := False\<rparr>"
  from assms obtain cs repo t db1 where start: "parse_commands g bytes (rp_object_format rp) = Ok cs"
    "open_bare (pw_disk w) (rp_repository_path rp) = Ok repo" "validate_initial_refs (repo_refs repo) cs = Ok ()"
    "time = Some t" "begin_git_intent (pw_db w) (push_intent rp cs t) = Ok db1"
    and body: "push_body g env None (w\<lparr>pw_db := db1\<rparr>) ?rp repo incoming cs = (w', Some (Ok response))"
    by (auto simp: finish_def Let_def split: sum.splits prod.splits option.splits)
  from body obtain repo' pack db2 refs db3 where
    stages: "receive_objects g db1 ?rp repo incoming cs = (repo', Ok pack)"
      "mark_git_objects_promoted db1 (rp_intent_id rp) pack = Ok db2"
      "apply_ref_transaction g (repo_refs repo') cs = Ok refs" "complete_git_intent env db2 (rp_intent_id rp) = Ok db3"
    and w': "w' = (put_repository (put_repository (w\<lparr>pw_db := db2\<rparr>) (rp_repository_path rp) repo')
        (rp_repository_path rp) (repo'\<lparr>repo_refs := refs\<rparr>))
          \<lparr>pw_db := db3, pw_quarantine := pw_quarantine w - {rp_quarantine rp}\<rparr>"
    by (auto simp: push_body_def Let_def put_repository_def split: sum.splits prod.splits)
  let ?st = "\<lparr>st_commands = cs, st_opened = repo, st_created_at = t, st_received = repo', st_pack = pack,
    st_refs = refs, st_final = db3\<rparr>"
  have db1: "db1 = pw_db (at_intent w rp ?st)" using begin_at_intent [OF start(5)] by (simp add: at_intent_def)
  have db2: "db2 = pw_db (at_objects w rp ?st)" "db2 = pw_db (at_refs w rp ?st)"
    using mark_at_objects [OF start(5)] stages(2) by (simp_all add: at_objects_def at_refs_def put_repository_def)
  have "stages_of g env w rp bytes incoming time ?st"
    using start stages db1 db2 by (simp add: stages_of_def)
  moreover have "w' = at_completed w rp ?st"
    using w' by (simp add: at_completed_def at_refs_def put_repository_def)
  ultimately show thesis by (rule that)
qed

definition world_at :: "string \<Rightarrow> push_world \<Rightarrow> receive_pack \<Rightarrow> stages \<Rightarrow> push_world" where
  "world_at c w rp st =
     (if c = ''intent'' then at_intent w rp st else if c = ''objects'' then at_objects w rp st
      else if c = ''refs'' then at_refs w rp st else at_completed w rp st)"

lemma put_put_repository [simp]: "put_repository (put_repository w p a) p b = put_repository w p b"
  by (simp add: put_repository_def)

lemma put_repository_simps [simp]:
  "pw_db (put_repository w p r) = pw_db w" "pw_quarantine (put_repository w p r) = pw_quarantine w"
  "pw_disk (put_repository w p r) = (pw_disk w)(p := Ok r)"
  "(put_repository w p r)\<lparr>pw_db := db\<rparr> = put_repository (w\<lparr>pw_db := db\<rparr>) p r"
  by (simp_all add: put_repository_def)

lemma push_body_crash:
  assumes "stages_of g env w rp bytes incoming time st" and "c \<in> {''objects'', ''refs'', ''completed''}"
  shows "push_body g env (Some c) (at_intent w rp st) (rp\<lparr>rp_cleanup_on_drop := False\<rparr>) (st_opened st) incoming
    (st_commands st) = (world_at c w rp st, None)"
proof -
  have mid: "(put_repository (at_intent w rp st) (rp_repository_path rp) (st_received st))
      \<lparr>pw_db := pw_db (at_objects w rp st)\<rparr> = at_objects w rp st"
    by (simp add: at_intent_def at_objects_def)
  have refs: "put_repository (at_objects w rp st) (rp_repository_path rp) ((st_received st)\<lparr>repo_refs := st_refs st\<rparr>)
      = at_refs w rp st"
    by (simp add: at_objects_def at_refs_def)
  show ?thesis
    using assms
    by (auto simp: push_body_def stages_of_def mid refs Let_def world_at_def at_completed_def at_refs_def
        simp del: put_repository_simps(4))
qed

lemma finish_crash:
  assumes "stages_of g env w rp bytes incoming time st"
    and "c \<in> {''intent'', ''objects'', ''refs'', ''completed''}"
  shows "finish g env envs (Some c) w rp bytes incoming time
    = (world_at c w rp st, rp\<lparr>rp_cleanup_on_drop := False\<rparr>, None)"
proof -
  have "w\<lparr>pw_db := pw_db (at_intent w rp st)\<rparr> = at_intent w rp st" by (simp add: at_intent_def)
  moreover have "push_body g env (Some c) (at_intent w rp st) (rp\<lparr>rp_cleanup_on_drop := False\<rparr>) (st_opened st)
      incoming (st_commands st) = (world_at c w rp st, None)" if "c \<noteq> ''intent''"
    using push_body_crash [OF assms(1)] assms(2) that by blast
  moreover have "world_at c w rp st = at_intent w rp st" if "c = ''intent''" using that by (simp add: world_at_def)
  ultimately show ?thesis
    using assms(1) by (cases "c = ''intent''") (simp_all add: finish_def stages_of_def Let_def)
qed

section \<open>Recovery at each crash point\<close>

text \<open>The state in which a push starts: no other operation is incomplete, its identifier is a fresh random one, its
  quarantine is where \<^verbatim>\<open>open_inner\<close> puts it, and gix names its pack.\<close>

definition push_ready :: "push_world \<Rightarrow> receive_pack \<Rightarrow> incoming_pack option \<Rightarrow> bool" where
  "push_ready w rp incoming \<longleftrightarrow>
     incomplete_git_intents (pw_db w) = []
     \<and> list_all is_lower_hexdigit (rp_intent_id rp) \<and> length (rp_intent_id rp) = 32
     \<and> list_all (\<lambda>m. mint_intent_id m \<noteq> rp_intent_id rp) (db_pull_request_merge_intent (pw_db w))
     \<and> rp_quarantine rp = quarantine_path (rp_repository_path rp) (rp_intent_id rp)
     \<and> (case open_bare (pw_disk w) (rp_repository_path rp) of
          Inl _ \<Rightarrow> True | Inr repository \<Rightarrow> repo_format repository = rp_object_format rp)
     \<and> (case incoming of None \<Rightarrow> True | Some pack \<Rightarrow> pack_named pack)"

text \<open>Recovery of the one row of a push, when the repository on disk is \<open>repository\<close>.\<close>

lemma recover_recorded:
  assumes "gix_laws g" and "list_all (valid_command g (rp_object_format rp)) cs"
    and "open_bare (pw_disk v) (rp_repository_path rp) = Ok repository"
    and "repo_format repository = rp_object_format rp"
    and "list_all is_lower_hexdigit (rp_intent_id rp)" and "length (rp_intent_id rp) = 32"
    and "rp_quarantine rp = quarantine_path (rp_repository_path rp) (rp_intent_id rp)"
    and "incomplete_git_intents (pw_db v) = [r]"
    and "r = (git_intent_row (push_intent rp cs t))\<lparr>goi_state := state, goi_pack_name := pack\<rparr>"
    and "settle_intent (envs 0) v r repository (length cs)
       (refs_match (repo_refs repository) (map (\<lambda>c. (cmd_name c, target_of False c)) cs))
       (refs_match (repo_refs repository) (map (\<lambda>c. (cmd_name c, target_of True c)) cs)) = (v', Ok ())"
  shows "recover_incomplete_pushes g envs v = (v'\<lparr>pw_quarantine := pw_quarantine v' - {rp_quarantine rp}\<rparr>, Ok ())"
proof -
  have fields: "goi_repository_path r = rp_repository_path rp" "goi_initial_refs r = serialize_refs cs False"
    "goi_proposed_refs r = serialize_refs cs True" "goi_quarantine_path r = rp_quarantine rp"
    "goi_id r = rp_intent_id rp"
    using assms(9) by simp_all
  have snaps: "parse_ref_snapshot g (serialize_refs cs p) (repo_format repository)
      = Ok (map (\<lambda>c. (cmd_name c, target_of p c)) cs)" for p
    using parse_ref_snapshot_serialized [OF assms(1)] assms(2,4) by simp
  have "recover_intent g (envs 0) v r = (v'\<lparr>pw_quarantine := pw_quarantine v' - {rp_quarantine rp}\<rparr>, Ok ())"
    using assms(3,10) snaps quarantine_path_checks [OF assms(5,6), of "rp_repository_path rp"] assms(7)
    by (simp add: recover_intent_def fields)
  then show ?thesis by (simp add: recover_incomplete_pushes_def assms(8))
qed

definition push_undone :: "push_world \<Rightarrow> receive_pack \<Rightarrow> push_world \<Rightarrow> bool" where
  "push_undone w rp w' \<longleftrightarrow>
     pw_disk w' = pw_disk w \<and> pw_quarantine w' = pw_quarantine w - {rp_quarantine rp}
     \<and> (\<exists>r. pw_db w' = set_intents (intents (pw_db w) @ [r]) (pw_db w)
          \<and> goi_id r = rp_intent_id rp \<and> goi_state r = ''abandoned'')"

lemma stage_facts:
  assumes "gix_laws g" and "stages_of g env w rp bytes incoming time st" and "push_ready w rp incoming"
  shows "list_all (valid_command g (rp_object_format rp)) (st_commands st)" and "st_commands st \<noteq> []"
    and "distinct (map cmd_name (st_commands st))"
    and "refs_match (repo_refs (st_opened st)) (map (\<lambda>c. (cmd_name c, target_of False c)) (st_commands st))"
    and "rp_intent_id rp \<notin> goi_id ` set (intents (pw_db w))" and "git_operation_intent_uniq (intents (pw_db w))"
    and "git_operation_intent_chk (recorded rp st)"
    and "pw_disk w (rp_repository_path rp) = Ok (st_opened st)" and "repo_bare (st_opened st)"
    and "repo_format (st_opened st) = rp_object_format rp"
    and "repo_refs (st_received st) = repo_refs (st_opened st)" and "repo_bare (st_received st)"
    and "repo_format (st_received st) = rp_object_format rp"
proof -
  note st = assms(2) [unfolded stages_of_def]
  from st assms(1) show "list_all (valid_command g (rp_object_format rp)) (st_commands st)"
    and "st_commands st \<noteq> []" and "distinct (map cmd_name (st_commands st))" using parsed_commands by blast+
  from st show "refs_match (repo_refs (st_opened st)) (map (\<lambda>c. (cmd_name c, target_of False c)) (st_commands st))"
    using validate_initial_refs_iff by blast
  from st have begin': "begin_git_intent (pw_db w) (push_intent rp (st_commands st) (st_created_at st))
      = Ok (pw_db (at_intent w rp st))" by blast
  from begin_git_intent_Ok [OF begin'] show "rp_intent_id rp \<notin> goi_id ` set (intents (pw_db w))"
    and "git_operation_intent_uniq (intents (pw_db w))" and "git_operation_intent_chk (recorded rp st)" by auto
  from st have opened: "open_bare (pw_disk w) (rp_repository_path rp) = Ok (st_opened st)" by blast
  then show disk: "pw_disk w (rp_repository_path rp) = Ok (st_opened st)" and bare: "repo_bare (st_opened st)"
    by (auto simp: open_bare_def split: if_splits)
  from opened show format: "repo_format (st_opened st) = rp_object_format rp"
    using assms(3) by (simp add: push_ready_def)
  from st have "receive_objects g (pw_db (at_intent w rp st)) (rp\<lparr>rp_cleanup_on_drop := False\<rparr>) (st_opened st)
      incoming (st_commands st) = (st_received st, Ok (st_pack st))" by blast
  from receive_objects_effect [OF this] bare format
  show "repo_refs (st_received st) = repo_refs (st_opened st)" and "repo_bare (st_received st)"
    and "repo_format (st_received st) = rp_object_format rp" by auto
qed

lemma no_merge_rows:
  "push_ready w rp incoming
   \<Longrightarrow> filter (\<lambda>m. mint_intent_id m = rp_intent_id rp) (db_pull_request_merge_intent (pw_db w)) = []"
  by (simp add: push_ready_def list_all_iff filter_empty_conv)

lemma abandon_recorded:
  assumes "gix_laws g" and "stages_of g env w rp bytes incoming time st" and "push_ready w rp incoming"
    and "r = (recorded rp st)\<lparr>goi_state := state, goi_pack_name := pack\<rparr>" and "state \<in> {''pending'', ''promoted''}"
    and "db = set_intents (intents (pw_db w) @ [r]) (pw_db w)"
  shows "abandon_git_intent db (rp_intent_id rp)
    = Ok (set_intents (intents (pw_db w) @ [r\<lparr>goi_state := ''abandoned''\<rparr>]) (pw_db w))"
  using stage_facts [OF assms(1-3)] no_merge_rows [OF assms(3)] assms(4-)
    abandon_last_intent [of db "intents (pw_db w)" r]
  by (auto simp: git_operation_intent_chk_def)

lemma incomplete_recorded:
  assumes "push_ready w rp incoming" and "r = (recorded rp st)\<lparr>goi_state := state, goi_pack_name := pack\<rparr>"
    and "intents db = intents (pw_db w) @ [r]"
  shows "incomplete_git_intents db = (if state \<in> {''pending'', ''promoted''} then [r] else [])"
  using incomplete_last [of "pw_db w" db r] assms by (simp add: push_ready_def)

lemma recover_at_intent:
  assumes "gix_laws g" and "stages_of g env w rp bytes incoming time st" and "push_ready w rp incoming"
  shows "\<exists>w2. recover_incomplete_pushes g envs (at_intent w rp st) = (w2, Ok ()) \<and> push_undone w rp w2"
proof -
  let ?r = "(recorded rp st)\<lparr>goi_state := ''pending'', goi_pack_name := None\<rparr>"
  note facts = stage_facts [OF assms]
  have r: "recorded rp st = ?r" by (simp add: git_intent_row_def)
  have db: "pw_db (at_intent w rp st) = set_intents (intents (pw_db w) @ [?r]) (pw_db w)"
    by (simp add: at_intent_def flip: r)
  have "recover_incomplete_pushes g envs (at_intent w rp st)
      = (let v = (at_intent w rp st)\<lparr>pw_db := set_intents (intents (pw_db w) @ [?r\<lparr>goi_state := ''abandoned''\<rparr>]) (pw_db w)\<rparr>
         in v\<lparr>pw_quarantine := pw_quarantine v - {rp_quarantine rp}\<rparr>, Ok ())"
    unfolding Let_def
  proof (rule recover_recorded [OF assms(1) facts(1)])
    show "open_bare (pw_disk (at_intent w rp st)) (rp_repository_path rp) = Ok (st_opened st)"
      using facts(8,9) by (simp add: open_bare_def at_intent_def)
    show "incomplete_git_intents (pw_db (at_intent w rp st)) = [?r]"
      using incomplete_recorded [OF assms(3) refl, of "pw_db (at_intent w rp st)"] db by simp
    show "settle_intent (envs 0) (at_intent w rp st) ?r (st_opened st) (length (st_commands st))
       (refs_match (repo_refs (st_opened st)) (map (\<lambda>c. (cmd_name c, target_of False c)) (st_commands st)))
       (refs_match (repo_refs (st_opened st)) (map (\<lambda>c. (cmd_name c, target_of True c)) (st_commands st)))
      = ((at_intent w rp st)\<lparr>pw_db := set_intents (intents (pw_db w) @ [?r\<lparr>goi_state := ''abandoned''\<rparr>]) (pw_db w)\<rparr>, Ok ())"
      using facts(4) abandon_recorded [OF assms refl _ db] by (simp add: settle_intent_def store_step_def)
  qed (use facts assms(3) in \<open>auto simp: push_ready_def\<close>)
  then show ?thesis by (auto simp: push_undone_def Let_def at_intent_def)
qed

lemma restore_repository: "pw_disk w p = Ok r \<Longrightarrow> (pw_disk w)(p := Ok r) = pw_disk w"
  by auto

lemma promoted_row: "promoted rp st = (recorded rp st)\<lparr>goi_state := ''promoted'', goi_pack_name := st_pack st\<rparr>"
  by simp

lemma recover_at_objects:
  assumes "gix_laws g" and "stages_of g env w rp bytes incoming time st" and "push_ready w rp incoming"
  shows "\<exists>w2. recover_incomplete_pushes g envs (at_objects w rp st) = (w2, Ok ()) \<and> push_undone w rp w2"
proof -
  note facts = stage_facts [OF assms]
  let ?db = "set_intents (intents (pw_db w) @ [promoted rp st]) (pw_db w)"
  let ?v = "w\<lparr>pw_db := set_intents (intents (pw_db w) @ [(promoted rp st)\<lparr>goi_state := ''abandoned''\<rparr>]) (pw_db w)\<rparr>"
  have db: "pw_db (at_objects w rp st) = ?db" by (simp add: at_objects_def)
  have "receive_objects g (pw_db (at_intent w rp st)) (rp\<lparr>rp_cleanup_on_drop := False\<rparr>) (st_opened st)
      incoming (st_commands st) = (st_received st, Ok (st_pack st))"
    using assms(2) by (simp add: stages_of_def)
  then have removed: "remove_promoted_pack (st_received st) (st_pack st) = Ok (st_opened st)"
    using assms(3) by (intro remove_received_pack) (auto simp: push_ready_def)
  have restored: "put_repository ?v (rp_repository_path rp) (st_opened st) = ?v"
    using restore_repository [OF facts(8)] by (simp add: put_repository_def)
  have "recover_incomplete_pushes g envs (at_objects w rp st)
      = (?v\<lparr>pw_quarantine := pw_quarantine ?v - {rp_quarantine rp}\<rparr>, Ok ())"
  proof (rule recover_recorded [OF assms(1) facts(1)])
    show "open_bare (pw_disk (at_objects w rp st)) (rp_repository_path rp) = Ok (st_received st)"
      using facts(12) by (simp add: open_bare_def at_objects_def)
    show "incomplete_git_intents (pw_db (at_objects w rp st)) = [promoted rp st]"
      using incomplete_recorded [OF assms(3) refl, of "pw_db (at_objects w rp st)"] db by simp
    have "abandon_git_intent ?db (rp_intent_id rp)
        = Ok (set_intents (intents (pw_db w) @ [(promoted rp st)\<lparr>goi_state := ''abandoned''\<rparr>]) (pw_db w))"
      using abandon_recorded [OF assms promoted_row _ refl] by simp
    then show "settle_intent (envs 0) (at_objects w rp st) (promoted rp st) (st_received st) (length (st_commands st))
       (refs_match (repo_refs (st_received st)) (map (\<lambda>c. (cmd_name c, target_of False c)) (st_commands st)))
       (refs_match (repo_refs (st_received st)) (map (\<lambda>c. (cmd_name c, target_of True c)) (st_commands st)))
      = (?v, Ok ())"
      using facts(4,11) removed restored
      by (simp add: settle_intent_def store_step_def db) (simp add: at_objects_def put_repository_def)
  qed (use facts assms(3) in \<open>auto simp: push_ready_def\<close>)
  then show ?thesis by (auto simp: push_undone_def)
qed

lemma recover_at_refs:
  assumes "gix_laws g" and "stages_of g (envs 0) w rp bytes incoming time st" and "push_ready w rp incoming"
  shows "recover_incomplete_pushes g envs (at_refs w rp st) = (at_completed w rp st, Ok ())"
proof -
  note facts = stage_facts [OF assms]
  let ?repository = "(st_received st)\<lparr>repo_refs := st_refs st\<rparr>"
  let ?v = "(at_refs w rp st)\<lparr>pw_db := st_final st\<rparr>"
  have db: "pw_db (at_refs w rp st) = set_intents (intents (pw_db w) @ [promoted rp st]) (pw_db w)"
    by (simp add: at_refs_def)
  have moved: "refs_match (st_refs st) (map (\<lambda>c. (cmd_name c, target_of True c)) (st_commands st))"
    using assms(2) ref_transaction_applied [OF assms(1) facts(3), of "repo_refs (st_received st)"]
    by (simp add: stages_of_def)
  have "recover_incomplete_pushes g envs (at_refs w rp st)
      = (?v\<lparr>pw_quarantine := pw_quarantine ?v - {rp_quarantine rp}\<rparr>, Ok ())"
  proof (rule recover_recorded [OF assms(1) facts(1)])
    show "open_bare (pw_disk (at_refs w rp st)) (rp_repository_path rp) = Ok ?repository"
      using facts(12) by (simp add: open_bare_def at_refs_def)
    show "incomplete_git_intents (pw_db (at_refs w rp st)) = [promoted rp st]"
      using incomplete_recorded [OF assms(3) refl, of "pw_db (at_refs w rp st)"] db by simp
    show "settle_intent (envs 0) (at_refs w rp st) (promoted rp st) ?repository (length (st_commands st))
       (refs_match (repo_refs ?repository) (map (\<lambda>c. (cmd_name c, target_of False c)) (st_commands st)))
       (refs_match (repo_refs ?repository) (map (\<lambda>c. (cmd_name c, target_of True c)) (st_commands st)))
      = (?v, Ok ())"
      using moved moved_refs_differ [OF facts(1,2) moved] assms(2)
      by (simp add: settle_intent_def store_step_def stages_of_def)
  qed (use facts assms(3) in \<open>auto simp: push_ready_def\<close>)
  then show ?thesis by (simp add: at_completed_def at_refs_def put_repository_def)
qed

lemma recover_at_completed:
  assumes "gix_laws g" and "stages_of g env w rp bytes incoming time st" and "push_ready w rp incoming"
  shows "recover_incomplete_pushes g envs (at_completed w rp st) = (at_completed w rp st, Ok ())"
proof -
  note facts = stage_facts [OF assms]
  have "ensures (complete_git_intent env (pw_db (at_refs w rp st)) (goi_id (promoted rp st)))
      (\<lambda>db'. intents db' = intents (pw_db w) @ [(promoted rp st)\<lparr>goi_state := ''completed''\<rparr>])"
    using facts(5-7) by (intro complete_last_intent) (auto simp: at_refs_def git_operation_intent_chk_def)
  then have "intents (st_final st) = intents (pw_db w) @ [(promoted rp st)\<lparr>goi_state := ''completed''\<rparr>]"
    using assms(2) by (simp add: stages_of_def)
  then have "incomplete_git_intents (st_final st) = []"
    using incomplete_last [of "pw_db w" "st_final st"] assms(3) by (simp add: push_ready_def)
  then show ?thesis by (simp add: recover_incomplete_pushes_def at_completed_def)
qed


section \<open>A concrete push\<close>

definition sample_repository :: git_repository where
  "sample_repository = \<lparr>repo_refs = Map.empty, repo_packs = {}, repo_bare = True, repo_format = Sha1,
     repo_head = Some ''refs/heads/main''\<rparr>"

definition sample_path :: string where "sample_path = ''/r/tool.git''"

definition sample_world :: push_world where
  "sample_world = \<lparr>pw_db = sample_db,
     pw_disk = (\<lambda>path. if path = sample_path then Ok sample_repository else Err ''missing''),
     pw_quarantine = {}\<rparr>"

definition sample_receive :: "receive_pack" where
  "sample_receive =
     \<lparr>rp_repository_path = sample_path, rp_actor = ''alice'', rp_object_format = Sha1,
      rp_intent_id = id32 (CHR ''9''), rp_quarantine = quarantine_path sample_path (id32 (CHR ''9'')),
      rp_cleanup_on_drop = True, rp_policy_context = Some (''alice'', ''tool'')\<rparr>"

definition sample_begun :: database where
  "sample_begun = projr (begin_git_intent sample_db (push_intent sample_receive [sample_command] 7))"

definition sample_promoted :: database where
  "sample_promoted = projr (mark_git_objects_promoted sample_begun (id32 (CHR ''9'')) None)"

lemma sample_begin:
  "\<not> isl (begin_git_intent sample_db (push_intent sample_receive [sample_command] 7))" by code_simp

lemma sample_mark: "\<not> isl (mark_git_objects_promoted sample_begun (id32 (CHR ''9'')) None)" by code_simp

lemma sample_complete: "\<not> isl (complete_git_intent sample_env sample_promoted (id32 (CHR ''9'')))" by code_simp

lemma sample_status: "\<not> isl (status_response [sample_command] None)"
  by (simp add: status_response_def encode_data_def status_line_def sample_command_def MAX_PACKET_BYTES_def Let_def)
lemma sample_apply: "\<not> isl (apply_ref_transaction reference_gix Map.empty [sample_command])" by code_simp
lemma sample_initial: "validate_initial_refs Map.empty [sample_command] = Ok ()" by code_simp
lemma sample_policy: "validate_policy sample_begun (sample_receive\<lparr>rp_cleanup_on_drop := False\<rparr>)
  [sample_command] [CreateRef] = Ok ()" by code_simp

lemma sample_names: "starts_with (cmd_name sample_command) (as_bytes ''refs/heads/'')"
  "is_null_id (cmd_old sample_command)" "\<not> is_null_id (cmd_new sample_command)"
  "starts_with (cmd_new sample_command) ''a''" "\<not> starts_with (replicate 40 (CHR ''b'')) ''a''"
  "cmd_new sample_command \<noteq> replicate 40 (CHR ''b'')"
  by code_simp+

lemma sample_changes: "validate_proposed_objects (repository_source reference_gix sample_repository) [sample_command] = Ok [CreateRef]"
 using sample_names
 by (simp add: repository_source_def reference_gix_def kind_and_links_def combined_object_def
   within_limit_def validate_reachable_def MAX_WALK_OBJECTS_def MAX_OBJECT_BYTES_def)

lemma sample_ready: "push_ready sample_world sample_receive None" by code_simp

lemma sample_finishes:
  "\<exists>w' rp' response. finish reference_gix sample_env (\<lambda>_. sample_env) None sample_world sample_receive sample_push None
     (Some 7) = (w', rp', Some (Ok response))"
proof -
  let ?rp = "sample_receive\<lparr>rp_cleanup_on_drop := False\<rparr>"
  have rp: "rp_object_format sample_receive = Sha1" "rp_repository_path sample_receive = sample_path"
    "rp_intent_id sample_receive = id32 (CHR ''9'')" "pw_db sample_world = sample_db"
    "repo_refs sample_repository = Map.empty"
    by (simp_all add: sample_receive_def sample_world_def sample_repository_def)
  have opened: "open_bare (pw_disk sample_world) sample_path = Ok sample_repository"
    by (simp add: open_bare_def sample_world_def sample_repository_def)
  have begun: "begin_git_intent sample_db (push_intent sample_receive [sample_command] 7) = Ok sample_begun"
    using not_isl_Ok [OF sample_begin] by (simp add: sample_begun_def)
  have received: "receive_objects reference_gix sample_begun ?rp sample_repository None [sample_command]
      = (sample_repository, Ok None)"
    by (simp add: receive_objects_def sample_changes sample_policy del: validate_proposed_objects.simps)
  have marked: "mark_git_objects_promoted sample_begun (id32 (CHR ''9'')) None = Ok sample_promoted"
    using not_isl_Ok [OF sample_mark] by (simp add: sample_promoted_def)
  obtain refs db response where last: "apply_ref_transaction reference_gix Map.empty [sample_command] = Ok refs"
    "complete_git_intent sample_env sample_promoted (id32 (CHR ''9'')) = Ok db"
    "status_response [sample_command] None = Ok response"
    using not_isl_Ok [OF sample_apply] not_isl_Ok [OF sample_complete] not_isl_Ok [OF sample_status] by blast
  show ?thesis
    by (simp add: finish_def push_body_def rp opened begun received marked last sample_push_parses sample_initial Let_def)
qed


end
