(* ===== verification/Rate_Limit.thy ===== *)
theory Rate_Limit
  imports Prelude
begin

text \<open>
  The attempt limiter, \<^verbatim>\<open>src/rate_limit.rs\<close>: a sliding window of attempts per key and a bound on the number of
  keys. Instants are natural numbers; subtraction saturates at zero, as \<^verbatim>\<open>Instant::duration_since\<close> does. The hash map
  is an association list, of which only the lookup and the number of keys matter. The mutex makes each call of
  \<open>allow\<close> one step; a poisoned mutex is not modelled.

  The lemmas show that the stored attempts of a key are exactly its allowed attempts within the window, from which
  both directions follow: no window ever sees more than \<^verbatim>\<open>maximum\<close> attempts, and an attempt is only refused for one
  of the two reasons.
\<close>

type_synonym 'k attempt_state = "('k \<times> nat list) list"

record attempt_limiter =
  maximum :: nat
  window :: nat
  maximum_keys :: nat

definition retain_recent :: "attempt_limiter \<Rightarrow> nat \<Rightarrow> 'k attempt_state \<Rightarrow> 'k attempt_state" where
  "retain_recent limiter now attempts =
     filter (\<lambda>(_, instants). instants \<noteq> [])
       (map (\<lambda>(key, instants). (key, dropWhile (\<lambda>attempt. window limiter \<le> now - attempt) instants)) attempts)"

definition push_attempt :: "'k \<Rightarrow> nat \<Rightarrow> 'k attempt_state \<Rightarrow> 'k attempt_state" where
  "push_attempt key now attempts =
     map (\<lambda>(k, instants). (k, if k = key then instants @ [now] else instants)) attempts"

definition allow :: "attempt_limiter \<Rightarrow> nat \<Rightarrow> 'k \<Rightarrow> 'k attempt_state \<Rightarrow> bool \<times> 'k attempt_state" where
  "allow limiter now key attempts =
     (let attempts = retain_recent limiter now attempts in
      if map_of attempts key = None \<and> maximum_keys limiter \<le> length attempts then (False, attempts)
      else
        let attempts = (if map_of attempts key = None then (key, []) # attempts else attempts) in
        if maximum limiter \<le> length (the (map_of attempts key)) then (False, attempts)
        else (True, push_attempt key now attempts))"

section \<open>Runs\<close>

text \<open>A run of requests, with the log of the attempts that were allowed.\<close>

definition limiter_step :: "attempt_limiter \<Rightarrow> 'k attempt_state \<times> (nat \<times> 'k) list \<Rightarrow> nat \<times> 'k
    \<Rightarrow> 'k attempt_state \<times> (nat \<times> 'k) list" where
  "limiter_step limiter s request =
     (case (s, request) of ((attempts, log), (now, key)) \<Rightarrow>
        let (allowed, attempts) = allow limiter now key attempts in
        (attempts, if allowed then log @ [(now, key)] else log))"

definition limiter_run :: "attempt_limiter \<Rightarrow> (nat \<times> 'k) list \<Rightarrow> 'k attempt_state \<times> (nat \<times> 'k) list" where
  "limiter_run limiter requests = foldl (limiter_step limiter) ([], []) requests"

definition times_of :: "'k \<Rightarrow> (nat \<times> 'k) list \<Rightarrow> nat list" where
  "times_of key log = map fst (filter (\<lambda>(_, k). k = key) log)"

definition recent :: "attempt_limiter \<Rightarrow> nat \<Rightarrow> nat list \<Rightarrow> nat list" where
  "recent limiter now instants = filter (\<lambda>t. now - t < window limiter) instants"

definition stored :: "'k attempt_state \<Rightarrow> 'k \<Rightarrow> nat list" where
  "stored attempts key = (case map_of attempts key of None \<Rightarrow> [] | Some instants \<Rightarrow> instants)"

lemma dropWhile_sorted_recent:
  "sorted instants \<Longrightarrow> dropWhile (\<lambda>t. window l \<le> now - t) instants = recent l now instants"
proof (induction instants)
  case (Cons t instants)
  show ?case
  proof (cases "window l \<le> now - t")
    case True
    with Cons show ?thesis by (simp add: recent_def)
  next
    case False
    then have "\<forall>s\<in>set instants. now - s < window l" using Cons.prems by fastforce
    with False show ?thesis by (simp add: recent_def)
  qed
qed (simp add: recent_def)

lemma recent_recent: "n \<le> now \<Longrightarrow> recent l now (recent l n instants) = recent l now instants"
  by (auto simp: recent_def intro!: filter_cong)

lemma retain_subset: "fst ` set (retain_recent l now attempts) \<subseteq> fst ` set attempts"
  by (force simp: retain_recent_def)

lemma map_of_retain:
  assumes "distinct (map fst attempts)"
  shows "map_of (retain_recent l now attempts) k =
    (case map_of attempts k of None \<Rightarrow> None
     | Some instants \<Rightarrow> let ts = dropWhile (\<lambda>t. window l \<le> now - t) instants in if ts = [] then None else Some ts)"
  using assms
proof (induction attempts)
  case (Cons a attempts)
  obtain key instants where a: "a = (key, instants)" by (cases a)
  have "map_of (retain_recent l now attempts) key = None"
    using Cons.prems a retain_subset [of l now attempts] by (auto simp: map_of_eq_None_iff)
  with Cons show ?case by (auto simp: a retain_recent_def Let_def split: option.splits)
qed (simp add: retain_recent_def)

lemma stored_retain:
  assumes "distinct (map fst attempts)" and "sorted (stored attempts k)"
  shows "stored (retain_recent l now attempts) k = recent l now (stored attempts k)"
  using assms by (cases "map_of attempts k")
    (simp_all add: stored_def map_of_retain dropWhile_sorted_recent Let_def, simp add: recent_def)

lemma retain_keys:
  assumes "distinct (map fst attempts)"
  shows "distinct (map fst (retain_recent l now attempts))" and "length (retain_recent l now attempts) \<le> length attempts"
proof -
  have "map fst (map (\<lambda>(key, instants). (key, dropWhile (\<lambda>t. window l \<le> now - t) instants)) attempts) = map fst attempts"
    by auto
  then show "distinct (map fst (retain_recent l now attempts))"
    using assms unfolding retain_recent_def by (metis distinct_map_filter)
  show "length (retain_recent l now attempts) \<le> length attempts"
    unfolding retain_recent_def by (metis length_filter_le length_map)
qed

lemma push_attempt_keys [simp]: "map fst (push_attempt k now attempts) = map fst attempts"
  "length (push_attempt k now attempts) = length attempts"
  by (auto simp: push_attempt_def)

lemma map_of_push:
  "map_of (push_attempt key now attempts) k = map_option (\<lambda>ts. if k = key then ts @ [now] else ts) (map_of attempts k)"
  by (induction attempts) (auto simp: push_attempt_def)

lemma times_of_append [simp]: "times_of k (log @ [(now, key)]) = times_of k log @ (if k = key then [now] else [])"
  by (simp add: times_of_def)

section \<open>What is stored\<close>

definition limiter_ok :: "attempt_limiter \<Rightarrow> nat \<Rightarrow> 'k attempt_state \<Rightarrow> (nat \<times> 'k) list \<Rightarrow> bool" where
  "limiter_ok limiter now attempts log \<longleftrightarrow>
     distinct (map fst attempts) \<and> length attempts \<le> maximum_keys limiter
     \<and> sorted (map fst log) \<and> (\<forall>t\<in>fst ` set log. t \<le> now)
     \<and> (\<forall>key. stored attempts key = recent limiter now (times_of key log))"

lemma sorted_times_of: "sorted (map fst log) \<Longrightarrow> sorted (times_of k log)"
  unfolding times_of_def by (induction log) auto

lemma sorted_recent: "sorted instants \<Longrightarrow> sorted (recent l now instants)"
  by (simp add: recent_def sorted_wrt_filter)

lemma stored_kept:
  assumes "limiter_ok l n attempts log" and "n \<le> now"
  shows "stored (retain_recent l now attempts) k = recent l now (times_of k log)"
  using stored_retain [of attempts k l now] recent_recent [OF assms(2)] assms(1)
    sorted_recent [OF sorted_times_of, of log l n k]
  by (simp add: limiter_ok_def)

lemma kept_nonempty:
  assumes "distinct (map fst attempts)"
  shows "k \<in> fst ` set (retain_recent l now attempts) \<longleftrightarrow> stored (retain_recent l now attempts) k \<noteq> []"
proof -
  have "k \<in> fst ` set (retain_recent l now attempts) \<longleftrightarrow> map_of (retain_recent l now attempts) k \<noteq> None"
    by (simp add: map_of_eq_None_iff)
  then show ?thesis using map_of_retain [OF assms, of l now k]
    by (cases "map_of attempts k") (auto simp: stored_def Let_def)
qed

lemma allow_verdict:
  assumes ok: "limiter_ok l n attempts log" and "n \<le> now" and "0 < window l"
  defines "kept \<equiv> retain_recent l now attempts"
  shows "fst (allow l now key attempts) \<longleftrightarrow>
      length (recent l now (times_of key log)) < maximum l
      \<and> (key \<in> fst ` set kept \<or> length kept < maximum_keys l)"
    and "limiter_ok l now (snd (allow l now key attempts))
      (if fst (allow l now key attempts) then log @ [(now, key)] else log)"
proof -
  have dist: "distinct (map fst attempts)" and len: "length attempts \<le> maximum_keys l"
    and log: "sorted (map fst log)" "\<forall>t\<in>fst ` set log. t \<le> n"
    using ok by (auto simp: limiter_ok_def)
  have kept: "stored kept k = recent l now (times_of k log)" for k
    using stored_kept [OF ok assms(2)] by (simp add: kept_def)
  have kd: "distinct (map fst kept)" and kl: "length kept \<le> maximum_keys l"
    using retain_keys [OF dist, of l now] len by (auto simp: kept_def)
  have mem: "map_of kept key = None \<longleftrightarrow> key \<notin> fst ` set kept" by (simp add: map_of_eq_None_iff)
  show "fst (allow l now key attempts) \<longleftrightarrow> length (recent l now (times_of key log)) < maximum l
      \<and> (key \<in> fst ` set kept \<or> length kept < maximum_keys l)"
    using kept [of key] mem unfolding allow_def Let_def kept_def [symmetric]
    by (auto simp: stored_def split: option.splits)
  have older: "\<forall>t\<in>fst ` set log. t \<le> now" using log(2) assms(2) by fastforce
  then have late: "sorted (map fst (log @ [(now, key)]))" "\<forall>t\<in>fst ` set (log @ [(now, key)]). t \<le> now"
    using log(1) by (auto simp: sorted_append)
  define entry where "entry = (if map_of kept key = None then (key, []) # kept else kept)"
  have "stored entry k = stored kept k" for k by (simp add: entry_def stored_def)
  then have entry: "distinct (map fst entry)" "\<And>k. stored entry k = recent l now (times_of k log)"
    using kd mem kept by (auto simp: entry_def)
  have entry_len: "length entry \<le> maximum_keys l" if "key \<in> fst ` set kept \<or> length kept < maximum_keys l"
    using that kl mem by (auto simp: entry_def)
  have pushed: "stored (push_attempt key now entry) k = recent l now (times_of k (log @ [(now, key)]))" for k
  proof (cases "map_of entry k")
    case None
    then have "k \<noteq> key" by (auto simp: entry_def split: if_splits)
    with None entry(2) [of k] show ?thesis by (simp add: stored_def map_of_push)
  next
    case (Some ts)
    with entry(2) [of k] assms(3) show ?thesis by (simp add: stored_def map_of_push recent_def)
  qed
  have allow: "allow l now key attempts =
      (if map_of kept key = None \<and> maximum_keys l \<le> length kept then (False, kept)
       else if maximum l \<le> length (the (map_of entry key)) then (False, entry) else (True, push_attempt key now entry))"
    by (simp add: allow_def Let_def kept_def entry_def)
  show "limiter_ok l now (snd (allow l now key attempts))
      (if fst (allow l now key attempts) then log @ [(now, key)] else log)"
    using kd kl kept log(1) older late entry entry_len pushed mem unfolding limiter_ok_def allow by auto
qed

lemma limiter_run_snoc:
  "limiter_run l (requests @ [(now, key)]) =
     (let (attempts, log) = limiter_run l requests in
      (snd (allow l now key attempts), if fst (allow l now key attempts) then log @ [(now, key)] else log))"
  by (simp add: limiter_run_def limiter_step_def Let_def case_prod_unfold)

definition last_time :: "(nat \<times> 'k) list \<Rightarrow> nat" where
  "last_time requests = (if requests = [] then 0 else fst (last requests))"

lemma limiter_run_ok:
  assumes "0 < window l" and "sorted (map fst requests)"
  shows "limiter_ok l (last_time requests) (fst (limiter_run l requests)) (snd (limiter_run l requests))"
  using assms(2)
proof (induction requests rule: rev_induct)
  case Nil
  show ?case by (simp add: limiter_run_def limiter_ok_def stored_def recent_def times_of_def)
next
  case (snoc request requests)
  obtain now key where r: "request = (now, key)" by (cases request)
  have "sorted (map fst requests)" and "last_time requests \<le> now"
    using snoc.prems r by (auto simp: sorted_append last_time_def)
  then show ?case
    using allow_verdict(2) [OF snoc.IH _ assms(1), of now key] r
    by (simp add: limiter_run_snoc last_time_def case_prod_unfold Let_def)
qed

lemma recent_log:
  "length (recent l now (times_of key log)) = length (filter (\<lambda>(t, k). k = key \<and> now - t < window l) log)"
  by (induction log) (auto simp: recent_def times_of_def)



text \<open>The limiter refuses for a reason: a request at time \<open>now\<close> after a run is allowed exactly if its key had fewer
  than \<^verbatim>\<open>maximum\<close> allowed attempts within the window before it, and is already tracked or leaves room for another
  key; the keys that count are those with an attempt in the window.\<close>

lemma limiter_refuses_for_reason:
  assumes "0 < window limiter" and "0 < maximum limiter" and "sorted (map fst requests)" and "last_time requests \<le> now"
  defines "allowed \<equiv> filter (\<lambda>(t, k). now - t < window limiter) (snd (limiter_run limiter requests))"
  shows "fst (allow limiter now key (fst (limiter_run limiter requests))) \<longleftrightarrow>
      length (filter (\<lambda>(t, k). k = key) allowed) < maximum limiter
      \<and> (key \<in> snd ` set allowed \<or> card (snd ` set allowed) < maximum_keys limiter)"
proof -
  let ?attempts = "fst (limiter_run limiter requests)" and ?log = "snd (limiter_run limiter requests)"
  let ?kept = "retain_recent limiter now ?attempts"
  have ok: "limiter_ok limiter (last_time requests) ?attempts ?log" using limiter_run_ok assms(1,3) .
  then have dist: "distinct (map fst ?attempts)" by (simp add: limiter_ok_def)
  have "k \<in> fst ` set ?kept \<longleftrightarrow> k \<in> snd ` set allowed" for k
    using kept_nonempty [OF dist, of k limiter now] stored_kept [OF ok assms(4), of k]
    by (force simp: recent_def times_of_def filter_empty_conv allowed_def)
  then have keys: "fst ` set ?kept = snd ` set allowed" by blast
  then have "length ?kept = card (snd ` set allowed)"
    using distinct_card [OF retain_keys(1) [OF dist, of limiter now]] by simp
  moreover have "length (recent limiter now (times_of key ?log)) = length (filter (\<lambda>(t, k). k = key) allowed)"
    by (simp add: recent_log allowed_def case_prod_unfold conj_commute)
  ultimately show ?thesis
    using allow_verdict(1) [OF ok assms(4,1), of key] keys by simp
qed

end
