(* ===== verification/Auth.thy ===== *)
theory Auth
  imports Names Codec
begin

text \<open>
  Login challenges, \<^verbatim>\<open>src/auth.rs\<close>: the text a user signs with an SSH key, its parser, and the verification of a
  signed challenge.

  Keys and signatures belong to the ssh-key crate and SHA-256 to the sha2 crate; they are the record \<open>crypto\<close>. Of a
  key the model keeps what the code looks at: its kind, its bytes and its comment. Nothing is assumed of them.

  The lemmas show that the parser accepts exactly the texts that the formatter writes, so that the fields a
  signature was checked for are the fields the user signed.
\<close>

section \<open>Keys and signatures\<close>

datatype ecdsa_curve = NistP256 | NistP384 | NistP521

datatype key_data = Ed25519Key | EcdsaKey ecdsa_curve | RsaKey nat | OtherKey

datatype signature_algorithm = Ed25519Algorithm | EcdsaAlgorithm ecdsa_curve | OtherAlgorithm

record public_key =
  pk_data :: key_data
  pk_bytes :: blob
  pk_comment :: string

record sshsig =
  sig_key :: public_key
  sig_algorithm :: signature_algorithm
  sig_bytes :: blob

record crypto =
  from_openssh :: "string \<Rightarrow> public_key option"
  to_openssh :: "public_key \<Rightarrow> string option"
  key_fingerprint_of :: "public_key \<Rightarrow> string"
  from_pem :: "string \<Rightarrow> sshsig option"
  verify_signature :: "public_key \<Rightarrow> string \<Rightarrow> string \<Rightarrow> sshsig \<Rightarrow> bool"
  sha256 :: "blob \<Rightarrow> blob"

record parsed_ssh_key =
  spk_key :: public_key
  spk_canonical :: string
  spk_fingerprint :: string

definition MINIMUM_RSA_BITS :: nat where "MINIMUM_RSA_BITS = 3072"
definition MAX_KEY_BYTES :: nat where "MAX_KEY_BYTES = 16 * 1024"
definition MAX_CHALLENGE_BYTES :: nat where "MAX_CHALLENGE_BYTES = 4 * 1024"
definition MAX_SIGNATURE_BYTES :: nat where "MAX_SIGNATURE_BYTES = 16 * 1024"
definition MAX_CHALLENGE_LIFETIME_SECONDS :: nat where "MAX_CHALLENGE_LIFETIME_SECONDS = 5 * 60"
definition NONCE_BYTES :: nat where "NONCE_BYTES = 32"
definition SIGNATURE_NAMESPACE :: string where "SIGNATURE_NAMESPACE = ''tit-auth''"
definition KEYLESS_CHALLENGE_HEADER :: string where "KEYLESS_CHALLENGE_HEADER = ''tit-auth-v2''"
definition CHALLENGE_PURPOSE :: string where "CHALLENGE_PURPOSE = ''web-login''"

definition validate_key_algorithm :: "public_key \<Rightarrow> (auth_error, unit) result" where
  "validate_key_algorithm key =
     (case pk_data key of
        Ed25519Key \<Rightarrow> Ok ()
      | EcdsaKey curve \<Rightarrow> if curve = NistP256 then Ok () else Err UnsupportedKeyAlgorithm
      | RsaKey bits \<Rightarrow>
          if bits < MINIMUM_RSA_BITS then Err (UndersizedRsa bits MINIMUM_RSA_BITS)
          else Err UnsupportedKeyAlgorithm
      | OtherKey \<Rightarrow> Err UnsupportedKeyAlgorithm)"

definition validate_signature_algorithm :: "public_key \<Rightarrow> sshsig \<Rightarrow> (auth_error, unit) result" where
  "validate_signature_algorithm key signature =
     require (case (pk_data key, sig_algorithm signature) of
        (Ed25519Key, Ed25519Algorithm) \<Rightarrow> True
      | (EcdsaKey kc, EcdsaAlgorithm sc) \<Rightarrow> kc = NistP256 \<and> sc = NistP256
      | _ \<Rightarrow> False) UnsupportedSignatureAlgorithm"

definition from_public_key :: "crypto \<Rightarrow> public_key \<Rightarrow> (auth_error, parsed_ssh_key) result" where
  "from_public_key c key =
     try_then (validate_key_algorithm key) (\<lambda>_.
     let key = key\<lparr>pk_comment := []\<rparr> in
     try_then (ok_or PublicKey (to_openssh c key)) (\<lambda>canonical.
     Ok \<lparr>spk_key = key, spk_canonical = canonical, spk_fingerprint = key_fingerprint_of c key\<rparr>))"

definition parse_ssh_key :: "crypto \<Rightarrow> string \<Rightarrow> (auth_error, parsed_ssh_key) result" where
  "parse_ssh_key c input =
     (if length input > MAX_KEY_BYTES then Err (InputTooLarge ''SSH public key'')
      else try_then (ok_or PublicKey (from_openssh c input)) (from_public_key c))"

section \<open>The challenge\<close>

definition format_keyless_login_challenge :: "string \<Rightarrow> string \<Rightarrow> blob \<Rightarrow> nat \<Rightarrow> nat \<Rightarrow> string" where
  "format_keyless_login_challenge origin username nonce issued_at expires_at =
     KEYLESS_CHALLENGE_HEADER @ [newline] @ ''purpose='' @ CHALLENGE_PURPOSE @ [newline]
     @ ''origin='' @ origin @ [newline] @ ''username='' @ username @ [newline]
     @ ''nonce='' @ encode_lower_hex nonce @ [newline] @ ''issued-at='' @ show_nat issued_at @ [newline]
     @ ''expires-at='' @ show_nat expires_at @ [newline]"

definition field :: "string option \<Rightarrow> string \<Rightarrow> (auth_error, string) result" where
  "field line pre = ok_or MalformedChallenge (Option.bind line (strip_prefix pre))"

definition decimal_value :: "string \<Rightarrow> nat" where
  "decimal_value digits = foldl (\<lambda>n c. 10 * n + (of_char c - 48)) 0 digits"

definition parse_time :: "string \<Rightarrow> (auth_error, nat) result" where
  "parse_time value =
     (if value = [] \<or> \<not> list_all is_ascii_digit value \<or> (length value > 1 \<and> hd value = CHR ''0'')
      then Err MalformedChallenge
      else if 2 ^ 64 \<le> decimal_value value then Err MalformedChallenge
      else Ok (decimal_value value))"

definition decode_nonce :: "string \<Rightarrow> (auth_error, blob) result" where
  "decode_nonce value =
     try_then (ok_or MalformedChallenge (decode_lower_hex (as_bytes value))) (\<lambda>decoded.
     if length decoded \<noteq> NONCE_BYTES then Err MalformedChallenge else Ok decoded)"

record keyless_challenge_fields =
  kcf_origin :: string
  kcf_username :: string
  kcf_nonce :: blob
  kcf_issued_at :: nat
  kcf_expires_at :: nat

definition parse_challenge :: "string \<Rightarrow> (auth_error, keyless_challenge_fields) result" where
  "parse_challenge challenge =
     try_then (ok_or MalformedChallenge (strip_suffix [newline] challenge)) (\<lambda>body.
     let line = nth_field (split_on newline body) in
     if line 0 \<noteq> Some KEYLESS_CHALLENGE_HEADER \<or> line 1 \<noteq> Some ''purpose=web-login'' then Err MalformedChallenge
     else
       try_then (field (line 2) ''origin='') (\<lambda>origin.
       try_then (field (line 3) ''username='') (\<lambda>username.
       try_then (validate_username username) (\<lambda>_.
       try_then (try_then (field (line 4) ''nonce='') decode_nonce) (\<lambda>nonce.
       try_then (try_then (field (line 5) ''issued-at='') parse_time) (\<lambda>issued_at.
       try_then (try_then (field (line 6) ''expires-at='') parse_time) (\<lambda>expires_at.
       if line 7 \<noteq> None \<or> origin = [] \<or> CHR 0x0D \<in> set origin \<or> newline \<in> set origin
       then Err MalformedChallenge
       else Ok \<lparr>kcf_origin = origin, kcf_username = username, kcf_nonce = nonce, kcf_issued_at = issued_at,
                kcf_expires_at = expires_at\<rparr>)))))))"

record persistent_verified_login =
  pvl_username :: string
  pvl_fingerprint :: string
  pvl_nonce_hash :: blob

definition verify_keyless_login_challenge :: "crypto \<Rightarrow> string \<Rightarrow> string \<Rightarrow> string \<Rightarrow> string \<Rightarrow> nat
    \<Rightarrow> (auth_error, persistent_verified_login) result" where
  "verify_keyless_login_challenge c origin challenge signature expected_username now =
     (if length challenge > MAX_CHALLENGE_BYTES then Err (InputTooLarge ''login challenge'')
      else if length signature > MAX_SIGNATURE_BYTES then Err (InputTooLarge ''SSHSIG envelope'')
      else
        try_then (validate_username expected_username) (\<lambda>_.
        try_then (parse_challenge challenge) (\<lambda>fields.
        if kcf_origin fields \<noteq> origin then Err WrongOrigin
        else if kcf_username fields \<noteq> expected_username then Err WrongUsername
        else if kcf_expires_at fields \<le> kcf_issued_at fields
             \<or> kcf_expires_at fields - kcf_issued_at fields > MAX_CHALLENGE_LIFETIME_SECONDS
        then Err InvalidLifetime
        else if now < kcf_issued_at fields \<or> kcf_expires_at fields < now then Err ExpiredChallenge
        else
          try_then (ok_or SignatureEnvelope (from_pem c signature)) (\<lambda>sshsig.
          try_then (from_public_key c ((sig_key sshsig)\<lparr>pk_comment := []\<rparr>)) (\<lambda>key.
          try_then (validate_signature_algorithm (spk_key key) sshsig) (\<lambda>_.
          if \<not> verify_signature c (spk_key key) SIGNATURE_NAMESPACE challenge sshsig then Err SignatureVerification
          else Ok \<lparr>pvl_username = kcf_username fields, pvl_fingerprint = spk_fingerprint key,
                   pvl_nonce_hash = sha256 c (kcf_nonce fields)\<rparr>))))))"

text \<open>What the code reads of a parsed URL (the url crate).\<close>

record url =
  url_scheme :: string
  url_host :: "string option"
  url_username :: string
  url_password :: "string option"
  url_query :: "string option"
  url_fragment :: "string option"
  url_path :: string
  url_origin :: string

definition login_origin :: "url \<Rightarrow> (auth_error, string) result" where
  "login_origin public_url =
     (if url_scheme public_url \<notin> {''http'', ''https''} \<or> url_host public_url = None
        \<or> url_username public_url \<noteq> [] \<or> url_password public_url \<noteq> None \<or> url_query public_url \<noteq> None
        \<or> url_fragment public_url \<noteq> None \<or> url_path public_url \<noteq> ''/''
      then Err InvalidOrigin else Ok (url_origin public_url))"

section \<open>Decimal numbers\<close>

definition decimal_digits :: "string \<Rightarrow> bool" where
  "decimal_digits s \<longleftrightarrow> s \<noteq> [] \<and> list_all is_ascii_digit s \<and> (length s > 1 \<longrightarrow> hd s \<noteq> CHR ''0'')"

lemma decimal_value_snoc: "decimal_value (s @ [c]) = 10 * decimal_value s + (of_char c - 48)"
  by (simp add: decimal_value_def)

lemma digit_char: "d < 10 \<Longrightarrow> is_ascii_digit (char_of (48 + d)) \<and> of_char (char_of (48 + d :: nat)) = 48 + d"
  by (simp add: is_ascii_digit_def of_char_of)

lemma show_nat_canonical: "decimal_digits (show_nat n) \<and> decimal_value (show_nat n) = n \<and> (hd (show_nat n) = CHR ''0'' \<longrightarrow> n = 0)"
proof (induction n rule: show_nat.induct)
  case (1 n)
  show ?case
  proof (cases "n < 10")
    case True
    have "of_char (CHR ''0'') = (48 :: nat)" by simp
    then have "char_of (48 + n) = CHR ''0'' \<longrightarrow> n = 0"
      using digit_char [OF True] by (metis add_cancel_right_right)
    with True digit_char [of n] show ?thesis
      by (simp add: show_nat.simps [of n] decimal_digits_def decimal_value_def)
  next
    case False
    with 1 have IH: "decimal_digits (show_nat (n div 10))" "decimal_value (show_nat (n div 10)) = n div 10"
      "hd (show_nat (n div 10)) \<noteq> CHR ''0''" by (auto simp: div_eq_0_iff)
    then have "hd (show_nat n) = hd (show_nat (n div 10))" "show_nat (n div 10) \<noteq> []"
      using False by (auto simp: show_nat.simps [of n] decimal_digits_def)
    with False IH digit_char [of "n mod 10"] show ?thesis
      by (auto simp: show_nat.simps [of n] decimal_digits_def decimal_value_snoc)
  qed
qed

lemma decimal_value_pos: "list_all is_ascii_digit s \<Longrightarrow> s \<noteq> [] \<Longrightarrow> hd s \<noteq> CHR ''0'' \<Longrightarrow> 0 < decimal_value s"
proof (induction s rule: rev_induct)
  case (snoc c s)
  show ?case
  proof (cases "s = []")
    case True
    have "(of_char (CHR ''0'') :: nat) = 48" by simp
    then have "of_char c \<noteq> (48 :: nat)"
      using snoc.prems(3) True of_char_eq_iff [of c "CHR ''0''"] by (metis append_Nil list.sel(1))
    with True snoc.prems(1) show ?thesis by (simp add: decimal_value_def is_ascii_digit_def)
  next
    case False
    with snoc show ?thesis by (simp add: decimal_value_snoc)
  qed
qed simp

lemma show_decimal_value: "decimal_digits s \<Longrightarrow> show_nat (decimal_value s) = s"
proof (induction s rule: rev_induct)
  case (snoc c s)
  have c: "is_ascii_digit c" using snoc.prems by (simp add: decimal_digits_def)
  then have char: "char_of (48 + (of_char c - 48 :: nat)) = c" and d: "of_char c - 48 < (10 :: nat)"
    by (auto simp: is_ascii_digit_def)
  show ?case
  proof (cases "s = []")
    case True
    with char d show ?thesis by (simp add: decimal_value_def show_nat.simps [of "of_char c - 48"])
  next
    case False
    with snoc.prems have s: "decimal_digits s" "hd s \<noteq> CHR ''0''" by (auto simp: decimal_digits_def)
    with False have "0 < decimal_value s" by (intro decimal_value_pos) (auto simp: decimal_digits_def)
    with d have "\<not> decimal_value (s @ [c]) < 10" "decimal_value (s @ [c]) div 10 = decimal_value s"
      "decimal_value (s @ [c]) mod 10 = of_char c - 48"
      by (simp_all add: decimal_value_snoc)
    with snoc.IH [OF s(1)] char show ?thesis by (simp add: show_nat.simps [of "decimal_value (s @ [c])"])
  qed
qed (simp add: decimal_digits_def)

lemma parse_time_iff: "parse_time v = Ok t \<longleftrightarrow> v = show_nat t \<and> t < 2 ^ 64"
proof
  assume "parse_time v = Ok t"
  then show "v = show_nat t \<and> t < 2 ^ 64"
    using show_decimal_value [of v] by (auto simp: parse_time_def decimal_digits_def split: if_splits)
next
  assume "v = show_nat t \<and> t < 2 ^ 64"
  then show "parse_time v = Ok t"
    using show_nat_canonical [of t] by (auto simp: parse_time_def decimal_digits_def)
qed

lemma decode_nonce_iff: "decode_nonce v = Ok n \<longleftrightarrow> v = encode_lower_hex n \<and> length n = 32"
proof -
  have "v = encode_lower_hex n" if "decode_lower_hex (as_bytes v) = Some n"
  proof -
    have "as_bytes (encode_lower_hex n) = as_bytes v"
      using that by (intro decode_pairs_lower_Some)
        (auto simp: decode_lower_hex_def decode_hex_def even_iff_mod_2_eq_zero split: if_splits)
    then show ?thesis by (metis string_of_as_bytes)
  qed
  moreover have "decode_lower_hex (as_bytes (encode_lower_hex n)) = Some n"
    by (simp add: decode_lower_hex_def decode_hex_def decode_pairs_encode)
  ultimately show ?thesis by (auto simp: decode_nonce_def NONCE_BYTES_def split: if_splits)
qed

section \<open>The challenge round-trips\<close>

definition valid_fields :: "keyless_challenge_fields \<Rightarrow> bool" where
  "valid_fields f \<longleftrightarrow>
     kcf_origin f \<noteq> [] \<and> CHR 0x0D \<notin> set (kcf_origin f) \<and> newline \<notin> set (kcf_origin f)
     \<and> validate_username (kcf_username f) = Ok () \<and> length (kcf_nonce f) = 32
     \<and> kcf_issued_at f < 2 ^ 64 \<and> kcf_expires_at f < 2 ^ 64"

lemma digits_no_newline: "decimal_digits s \<Longrightarrow> newline \<notin> set s"
  by (auto simp: decimal_digits_def list_all_iff is_ascii_digit_def newline_def)

lemma username_no_newline: "validate_username u = Ok () \<Longrightarrow> newline \<notin> set u"
  by (auto simp: validate_username_def list_all_iff valid_character_def ascii_defs newline_def split: if_splits)

lemma hex_no_newline: "newline \<notin> set (encode_lower_hex n)"
proof (induction n)
  case (Cons b n)
  have "newline \<notin> set HEX" by (simp add: HEX_def newline_def)
  then have "HEX ! i \<noteq> newline" if "i < 16" for i using that by (metis length_HEX nth_mem)
  with Cons show ?case by (auto dest!: sym [of newline])
qed simp

lemma nth_field_simps [simp]:
  "nth_field (x # xs) 0 = Some x" "nth_field (x # xs) (Suc n) = nth_field xs n" "nth_field [] n = None"
  by (simp_all add: nth_field_def)

lemma field_iff: "field line pre = Ok v \<longleftrightarrow> line = Some (pre @ v)"
  by (cases line) (auto simp: field_def strip_prefix_Some)

fun join_lines :: "'a \<Rightarrow> 'a list list \<Rightarrow> 'a list" where
  "join_lines c [] = []"
| "join_lines c [l] = l"
| "join_lines c (l # ls) = l @ c # join_lines c ls"

lemma split_on_join: "ls \<noteq> [] \<Longrightarrow> list_all (\<lambda>l. c \<notin> set l) ls \<Longrightarrow> split_on c (join_lines c ls) = ls"
  by (induction c ls rule: join_lines.induct) (simp_all add: split_on_none split_on_append)

lemma join_split_on: "join_lines c (split_on c xs) = xs"
proof (induction xs)
  case (Cons x xs)
  then show ?case by (cases "split_on c xs"; cases "tl (split_on c xs)") auto
qed simp

definition challenge_lines :: "keyless_challenge_fields \<Rightarrow> string list" where
  "challenge_lines f = [''tit-auth-v2'', ''purpose=web-login'', ''origin='' @ kcf_origin f,
     ''username='' @ kcf_username f, ''nonce='' @ encode_lower_hex (kcf_nonce f),
     ''issued-at='' @ show_nat (kcf_issued_at f), ''expires-at='' @ show_nat (kcf_expires_at f)]"

lemma format_lines:
  "format_keyless_login_challenge (kcf_origin f) (kcf_username f) (kcf_nonce f) (kcf_issued_at f) (kcf_expires_at f)
    = join_lines newline (challenge_lines f) @ [newline]"
  by (simp add: format_keyless_login_challenge_def challenge_lines_def KEYLESS_CHALLENGE_HEADER_def CHALLENGE_PURPOSE_def)

lemma split_challenge_lines:
  "valid_fields f \<Longrightarrow> split_on newline (join_lines newline (challenge_lines f)) = challenge_lines f"
  using username_no_newline digits_no_newline hex_no_newline show_nat_canonical
  by (intro split_on_join) (auto simp: challenge_lines_def valid_fields_def newline_def)

lemma seven_lines:
  assumes "nth_field ls 0 = Some a" "nth_field ls 1 = Some b" "nth_field ls 2 = Some c" "nth_field ls 3 = Some d"
    "nth_field ls 4 = Some e" "nth_field ls 5 = Some f" "nth_field ls 6 = Some g" "nth_field ls 7 = None"
  shows "ls = [a, b, c, d, e, f, g]"
proof -
  have "length ls = 7" using assms by (auto simp: nth_field_def split: if_splits)
  then obtain a' b' c' d' e' f' g' where "ls = [a', b', c', d', e', f', g']"
    by (auto simp: numeral_eq_Suc length_Suc_conv)
  with assms show ?thesis by (simp add: nth_field_def)
qed

lemma parse_challenge_iff:
  "parse_challenge challenge = Ok f \<longleftrightarrow>
     challenge = format_keyless_login_challenge (kcf_origin f) (kcf_username f) (kcf_nonce f) (kcf_issued_at f)
       (kcf_expires_at f)
     \<and> valid_fields f"
proof
  assume "parse_challenge challenge = Ok f"
  then obtain body where body: "challenge = body @ [newline]" and "valid_fields f"
    and lines: "nth_field (split_on newline body) 0 = Some ''tit-auth-v2''"
      "nth_field (split_on newline body) 1 = Some ''purpose=web-login''"
      "nth_field (split_on newline body) 2 = Some (''origin='' @ kcf_origin f)"
      "nth_field (split_on newline body) 3 = Some (''username='' @ kcf_username f)"
      "nth_field (split_on newline body) 4 = Some (''nonce='' @ encode_lower_hex (kcf_nonce f))"
      "nth_field (split_on newline body) 5 = Some (''issued-at='' @ show_nat (kcf_issued_at f))"
      "nth_field (split_on newline body) 6 = Some (''expires-at='' @ show_nat (kcf_expires_at f))"
      "nth_field (split_on newline body) 7 = None"
    by (auto simp: parse_challenge_def strip_suffix_Some Let_def field_iff decode_nonce_iff parse_time_iff
        valid_fields_def KEYLESS_CHALLENGE_HEADER_def split: if_splits)
  from seven_lines [OF lines] have "split_on newline body = challenge_lines f" by (simp add: challenge_lines_def)
  then have "body = join_lines newline (challenge_lines f)" using join_split_on [of newline body] by simp
  with body \<open>valid_fields f\<close> show "challenge = format_keyless_login_challenge (kcf_origin f) (kcf_username f)
      (kcf_nonce f) (kcf_issued_at f) (kcf_expires_at f) \<and> valid_fields f"
    by (simp add: format_lines)
next
  assume f: "challenge = format_keyless_login_challenge (kcf_origin f) (kcf_username f) (kcf_nonce f) (kcf_issued_at f)
      (kcf_expires_at f) \<and> valid_fields f"
  then have "strip_suffix [newline] challenge = Some (join_lines newline (challenge_lines f))"
    by (simp add: format_lines)
  moreover have "split_on newline (join_lines newline (challenge_lines f)) = challenge_lines f"
    using split_challenge_lines f by blast
  moreover have "field (Some (pre @ v)) pre = Ok v" for pre v by (simp add: field_iff)
  moreover have "decode_nonce (encode_lower_hex (kcf_nonce f)) = Ok (kcf_nonce f)"
    "parse_time (show_nat (kcf_issued_at f)) = Ok (kcf_issued_at f)"
    "parse_time (show_nat (kcf_expires_at f)) = Ok (kcf_expires_at f)"
    using f by (simp_all add: decode_nonce_iff parse_time_iff valid_fields_def)
  ultimately show "parse_challenge challenge = Ok f"
    using f by (cases f) (simp add: parse_challenge_def Let_def challenge_lines_def nth_field_def valid_fields_def
        KEYLESS_CHALLENGE_HEADER_def del: append.simps try_then_Ok)
qed

text \<open>C38. Login challenges are canonical: the parser accepts a text exactly if it is the one that the formatter
  writes for the fields it returns (and these are well formed). What a user signed is therefore determined by the
  parsed fields, and every challenge the server issues parses back to its own fields.\<close>

theorem challenge_roundtrip:
  "parse_challenge challenge = Ok f \<longleftrightarrow>
     challenge = format_keyless_login_challenge (kcf_origin f) (kcf_username f) (kcf_nonce f) (kcf_issued_at f)
       (kcf_expires_at f)
     \<and> valid_fields f"
  by (rule parse_challenge_iff)

lemma from_public_key_Ok:
  "from_public_key c k = Ok key \<Longrightarrow> spk_key key = k\<lparr>pk_comment := []\<rparr>
     \<and> spk_fingerprint key = key_fingerprint_of c (k\<lparr>pk_comment := []\<rparr>)
     \<and> (pk_data k = Ed25519Key \<or> pk_data k = EcdsaKey NistP256)"
  by (auto simp: from_public_key_def validate_key_algorithm_def Let_def split: key_data.splits if_splits)

text \<open>A verified login is what the user signed: the challenge is the server's own text for this origin and this
  username, within its lifetime of at most five minutes, the signature over exactly this text verifies under the key
  in the signature, that key is of a supported kind, and the result carries that key's fingerprint and the hash of
  the signed nonce.\<close>

lemma verified_login:
  assumes "verify_keyless_login_challenge c origin challenge signature username now = Ok login"
  shows "\<exists>nonce issued expires sig.
    challenge = format_keyless_login_challenge origin username nonce issued expires \<and> length nonce = 32
    \<and> issued \<le> now \<and> now \<le> expires \<and> expires \<le> issued + 300
    \<and> from_pem c signature = Some sig
    \<and> verify_signature c ((sig_key sig)\<lparr>pk_comment := []\<rparr>) ''tit-auth'' challenge sig
    \<and> (pk_data (sig_key sig) = Ed25519Key \<or> pk_data (sig_key sig) = EcdsaKey NistP256)
    \<and> login = \<lparr>pvl_username = username, pvl_fingerprint = key_fingerprint_of c ((sig_key sig)\<lparr>pk_comment := []\<rparr>),
        pvl_nonce_hash = sha256 c nonce\<rparr>"
proof -
  obtain f sig key where f: "parse_challenge challenge = Ok f" "kcf_origin f = origin" "kcf_username f = username"
    and times: "kcf_expires_at f \<le> kcf_issued_at f + 300" "kcf_issued_at f \<le> now" "now \<le> kcf_expires_at f"
    and sig: "from_pem c signature = Some sig" "from_public_key c ((sig_key sig)\<lparr>pk_comment := []\<rparr>) = Ok key"
      "verify_signature c (spk_key key) ''tit-auth'' challenge sig"
    and login: "login = \<lparr>pvl_username = username, pvl_fingerprint = spk_fingerprint key,
        pvl_nonce_hash = sha256 c (kcf_nonce f)\<rparr>"
    using assms by (auto simp: verify_keyless_login_challenge_def MAX_CHALLENGE_LIFETIME_SECONDS_def
        SIGNATURE_NAMESPACE_def split: if_splits)
  have "challenge = format_keyless_login_challenge origin username (kcf_nonce f) (kcf_issued_at f) (kcf_expires_at f)"
    "length (kcf_nonce f) = 32"
    using f by (auto simp: parse_challenge_iff valid_fields_def)
  then show ?thesis
    using times sig login from_public_key_Ok [OF sig(2)]
    by (intro exI [of _ "kcf_nonce f"] exI [of _ "kcf_issued_at f"] exI [of _ "kcf_expires_at f"] exI [of _ sig]) simp
qed

definition sample_crypto :: crypto where
  "sample_crypto =
     \<lparr>from_openssh = (\<lambda>s. Some \<lparr>pk_data = Ed25519Key, pk_bytes = as_bytes s, pk_comment = []\<rparr>),
      to_openssh = (\<lambda>k. Some (string_of_bytes (pk_bytes k))),
      key_fingerprint_of = (\<lambda>k. string_of_bytes (pk_bytes k)),
      from_pem = (\<lambda>s. Some \<lparr>sig_key = \<lparr>pk_data = Ed25519Key, pk_bytes = as_bytes s, pk_comment = []\<rparr>,
         sig_algorithm = Ed25519Algorithm, sig_bytes = []\<rparr>),
      verify_signature = (\<lambda>k ns text sig. True), sha256 = (\<lambda>b. if length b = 32 then b else map (\<lambda>x. x - 48) (take 32 b))\<rparr>"

definition sample_challenge :: string where
  "sample_challenge = format_keyless_login_challenge ''https://tit.example'' ''dave'' (replicate 32 2) 5 100"

lemma sample_challenge_parses:
  "parse_challenge sample_challenge = Ok \<lparr>kcf_origin = ''https://tit.example'', kcf_username = ''dave'',
     kcf_nonce = replicate 32 2, kcf_issued_at = 5, kcf_expires_at = 100\<rparr>"
proof -
  have "validate_username ''dave'' = Ok ()" by code_simp
  then show ?thesis unfolding parse_challenge_iff by (simp add: sample_challenge_def valid_fields_def newline_def)
qed

lemma sample_login_verifies:
  "verify_keyless_login_challenge sample_crypto ''https://tit.example'' sample_challenge ''fd'' ''dave'' 10
   = Ok \<lparr>pvl_username = ''dave'', pvl_fingerprint = ''fd'', pvl_nonce_hash = replicate 32 2\<rparr>"
proof -
  have "validate_username ''dave'' = Ok ()" by code_simp
  moreover have "length sample_challenge \<le> MAX_CHALLENGE_BYTES"
    by (simp add: sample_challenge_def format_keyless_login_challenge_def KEYLESS_CHALLENGE_HEADER_def
        CHALLENGE_PURPOSE_def MAX_CHALLENGE_BYTES_def show_nat.simps)
  ultimately show ?thesis
    by (simp add: verify_keyless_login_challenge_def sample_challenge_parses MAX_SIGNATURE_BYTES_def
        MAX_CHALLENGE_LIFETIME_SECONDS_def sample_crypto_def from_public_key_def validate_key_algorithm_def
        validate_signature_algorithm_def require_def)
qed

end
