(* ===== verification/Session.thy ===== *)
theory Session
  imports Auth Store_Login
begin

text \<open>
  Web logins, \<^verbatim>\<open>src/session.rs\<close>: the service that issues challenges and approvals, verifies signed challenges against
  the store and authenticates sessions. It composes \<open>Auth\<close> (the signed text) with \<open>Store_Login\<close> (nonces, approvals
  and sessions).

  \<open>draw k\<close> is the result of the \<open>k\<close>-th call of \<^verbatim>\<open>random_bytes\<close> in an operation, \<open>clock\<close> that of \<^verbatim>\<open>unix_timestamp\<close>. A
  token is stored only as its hash. An operation returns the database it leaves and its result.
\<close>

datatype session_error =
    SessionAuth auth_error
  | SessionStore store_error
  | InvalidToken
  | SessionRandom
  | SessionClock
  | SessionUnavailable

record web_login_service =
  wls_crypto :: crypto
  wls_origin :: string

definition CHALLENGE_LIFETIME_SECONDS :: int where "CHALLENGE_LIFETIME_SECONDS = 5 * 60"
definition SESSION_LIFETIME_SECONDS :: int where "SESSION_LIFETIME_SECONDS = 7 * 24 * 60 * 60"
definition SECRET_BYTES :: nat where "SECRET_BYTES = 32"

record issued_challenge =
  ic_challenge :: string
  ic_login_csrf :: string

record issued_login_approval =
  ila_secret :: string
  ila_login_csrf :: string

record approved_login =
  apl_origin :: string
  apl_username :: string

record new_session =
  ns_token :: string
  ns_csrf :: string

definition new_service :: "crypto \<Rightarrow> url \<Rightarrow> (session_error, web_login_service) result" where
  "new_service c public_url =
     try_then (map_err SessionAuth (login_origin public_url)) (\<lambda>origin. Ok \<lparr>wls_crypto = c, wls_origin = origin\<rparr>)"

definition hash_token :: "web_login_service \<Rightarrow> string \<Rightarrow> blob" where
  "hash_token svc token = sha256 (wls_crypto svc) (as_bytes token)"

definition random_bytes :: "(nat \<Rightarrow> blob option) \<Rightarrow> nat \<Rightarrow> (session_error, blob) result" where
  "random_bytes draw k = ok_or SessionRandom (draw k)"

definition validate_token :: "string \<Rightarrow> (session_error, unit) result" where
  "validate_token token =
     (if length token \<noteq> SECRET_BYTES * 2 \<or> \<not> list_all is_ascii_hexdigit token then Err InvalidToken else Ok ())"

definition now :: "int option \<Rightarrow> (session_error, int) result" where
  "now clock = ok_or SessionClock clock"

definition audit_account :: "string \<Rightarrow> string" where
  "audit_account username =
     (if username \<noteq> [] \<and> length username \<le> 40 \<and> list_all (\<lambda>c. of_char c < (128 :: nat)) username
      then username else ''invalid-account'')"

text \<open>\<^verbatim>\<open>checked_add\<close> on \<^verbatim>\<open>i64\<close>, with the clock error of its callers.\<close>

definition add_seconds :: "int \<Rightarrow> int \<Rightarrow> (session_error, int) result" where
  "add_seconds t d = (if t + d < 2 ^ 63 then Ok (t + d) else Err SessionClock)"

definition issue_challenge :: "web_login_service \<Rightarrow> (nat \<Rightarrow> blob option) \<Rightarrow> int option \<Rightarrow> database \<Rightarrow> string
    \<Rightarrow> (session_error, database \<times> issued_challenge) result" where
  "issue_challenge svc draw clock db username =
     try_then (map_err SessionAuth (validate_username username)) (\<lambda>_.
     try_then (now clock) (\<lambda>created_at.
     if created_at < 0 then Err SessionClock
     else
       let issued_at = nat created_at in
       if 2 ^ 64 \<le> issued_at + nat CHALLENGE_LIFETIME_SECONDS then Err SessionClock
       else
         let expires_at = issued_at + nat CHALLENGE_LIFETIME_SECONDS in
         try_then (random_bytes draw 0) (\<lambda>nonce.
         try_then (random_bytes draw 1) (\<lambda>csrf_bytes.
         let login_csrf = encode_lower_hex csrf_bytes in
         if 2 ^ 63 \<le> expires_at then Err SessionClock
         else
           try_then (map_err SessionStore (create_login_nonce db
             \<lparr>nln_nonce_hash = sha256 (wls_crypto svc) nonce, nln_csrf_hash = hash_token svc login_csrf,
              nln_username = username, nln_created_at = created_at, nln_expires_at = int expires_at\<rparr>)) (\<lambda>db.
           Ok (db,
             \<lparr>ic_challenge =
                format_keyless_login_challenge (wls_origin svc) username nonce issued_at expires_at,
              ic_login_csrf = login_csrf\<rparr>))))))"

definition issue_approval :: "web_login_service \<Rightarrow> (nat \<Rightarrow> blob option) \<Rightarrow> int option \<Rightarrow> database
    \<Rightarrow> (session_error, database \<times> issued_login_approval) result" where
  "issue_approval svc draw clock db =
     try_then (now clock) (\<lambda>created_at.
     try_then (add_seconds created_at CHALLENGE_LIFETIME_SECONDS) (\<lambda>expires_at.
     try_then (random_bytes draw 0) (\<lambda>secret_bytes.
     try_then (random_bytes draw 1) (\<lambda>csrf_bytes.
     let secret = encode_lower_hex secret_bytes; login_csrf = encode_lower_hex csrf_bytes in
     try_then (map_err SessionStore (create_login_approval db
       \<lparr>nla_secret_hash = hash_token svc secret, nla_csrf_hash = hash_token svc login_csrf,
        nla_purpose = ''login'', nla_expected_username = None, nla_created_at = created_at,
        nla_expires_at = expires_at\<rparr>)) (\<lambda>db.
     Ok (db, \<lparr>ila_secret = secret, ila_login_csrf = login_csrf\<rparr>))))))"

definition issue_account_approval :: "web_login_service \<Rightarrow> (nat \<Rightarrow> blob option) \<Rightarrow> int option \<Rightarrow> database
    \<Rightarrow> string \<Rightarrow> string \<Rightarrow> (session_error, database \<times> issued_login_approval) result" where
  "issue_account_approval svc draw clock db username csrf =
     try_then (map_err SessionAuth (validate_username username)) (\<lambda>_.
     try_then (validate_token csrf) (\<lambda>_.
     try_then (now clock) (\<lambda>created_at.
     try_then (add_seconds created_at CHALLENGE_LIFETIME_SECONDS) (\<lambda>expires_at.
     try_then (random_bytes draw 0) (\<lambda>secret_bytes.
     let secret = encode_lower_hex secret_bytes in
     try_then (map_err SessionStore (create_login_approval db
       \<lparr>nla_secret_hash = hash_token svc secret, nla_csrf_hash = hash_token svc csrf,
        nla_purpose = ''account-key'', nla_expected_username = Some username, nla_created_at = created_at,
        nla_expires_at = expires_at\<rparr>)) (\<lambda>db.
     Ok (db, \<lparr>ila_secret = secret, ila_login_csrf = csrf\<rparr>)))))))"

definition approve :: "web_login_service \<Rightarrow> int option \<Rightarrow> database \<Rightarrow> string \<Rightarrow> string \<Rightarrow> string
    \<Rightarrow> (session_error, database \<times> approved_login) result" where
  "approve svc clock db secret username fingerprint =
     try_then (validate_token secret) (\<lambda>_.
     try_then (now clock) (\<lambda>approved_at.
     try_then (map_err SessionStore (approve_login db
       \<lparr>al_secret_hash = hash_token svc secret, al_username = username, al_fingerprint = fingerprint,
        al_approved_at = approved_at\<rparr>)) (\<lambda>db.
     Ok (db, \<lparr>apl_origin = wls_origin svc, apl_username = username\<rparr>))))"

definition complete_approval :: "web_login_service \<Rightarrow> (nat \<Rightarrow> blob option) \<Rightarrow> int option \<Rightarrow> database \<Rightarrow> string
    \<Rightarrow> string \<Rightarrow> string \<Rightarrow> (session_error, database \<times> new_session) result" where
  "complete_approval svc draw clock db secret login_csrf correlation_id =
     try_then (validate_token secret) (\<lambda>_.
     try_then (validate_token login_csrf) (\<lambda>_.
     try_then (now clock) (\<lambda>created_at.
     try_then (random_bytes draw 0) (\<lambda>session_bytes.
     try_then (random_bytes draw 1) (\<lambda>csrf_bytes.
     let session = encode_lower_hex session_bytes; csrf = encode_lower_hex csrf_bytes in
     try_then (add_seconds created_at SESSION_LIFETIME_SECONDS) (\<lambda>expires_at.
     try_then (map_err SessionStore (consume_login_approval db
       \<lparr>naws_secret_hash = hash_token svc secret, naws_login_csrf_hash = hash_token svc login_csrf,
        naws_session_hash = hash_token svc session, naws_csrf_hash = hash_token svc csrf,
        naws_created_at = created_at, naws_expires_at = expires_at,
        naws_correlation_id = correlation_id\<rparr>)) (\<lambda>(db, _).
     Ok (db, \<lparr>ns_token = session, ns_csrf = csrf\<rparr>))))))))"

text \<open>The closure in \<^verbatim>\<open>verify\<close>, and \<^verbatim>\<open>verify\<close>, which records a failure in the audit trail.\<close>

definition verify_signed :: "web_login_service \<Rightarrow> (nat \<Rightarrow> blob option) \<Rightarrow> int \<Rightarrow> database \<Rightarrow> string \<Rightarrow> string
    \<Rightarrow> string \<Rightarrow> string \<Rightarrow> string \<Rightarrow> (session_error, database \<times> new_session) result" where
  "verify_signed svc draw created_at db username challenge signature login_csrf correlation_id =
     try_then (validate_token login_csrf) (\<lambda>_.
     if created_at < 0 then Err SessionClock
     else
       try_then (map_err SessionAuth (verify_keyless_login_challenge (wls_crypto svc) (wls_origin svc) challenge
         signature username (nat created_at))) (\<lambda>verified.
       try_then (random_bytes draw 0) (\<lambda>session_bytes.
       try_then (random_bytes draw 1) (\<lambda>csrf_bytes.
       let session = encode_lower_hex session_bytes; csrf = encode_lower_hex csrf_bytes in
       try_then (add_seconds created_at SESSION_LIFETIME_SECONDS) (\<lambda>expires_at.
       try_then (map_err SessionStore (consume_login_nonce db
         \<lparr>nws_nonce_hash = pvl_nonce_hash verified, nws_login_csrf_hash = hash_token svc login_csrf,
          nws_username = pvl_username verified, nws_fingerprint = pvl_fingerprint verified,
          nws_session_hash = hash_token svc session, nws_csrf_hash = hash_token svc csrf,
          nws_created_at = created_at, nws_expires_at = expires_at,
          nws_correlation_id = correlation_id\<rparr>)) (\<lambda>db.
       Ok (db, \<lparr>ns_token = session, ns_csrf = csrf\<rparr>)))))))"

definition login_failure :: "database \<Rightarrow> string \<Rightarrow> string \<Rightarrow> int \<Rightarrow> (store_error, database) result" where
  "login_failure db username correlation_id created_at =
     record_audit_event db
       \<lparr>nae_action = ''login'', nae_actor = audit_account username, nae_target = audit_account username,
        nae_outcome = ''failure'', nae_correlation_id = correlation_id, nae_created_at = created_at\<rparr>"

definition verify :: "web_login_service \<Rightarrow> (nat \<Rightarrow> blob option) \<Rightarrow> int option \<Rightarrow> database \<Rightarrow> string \<Rightarrow> string
    \<Rightarrow> string \<Rightarrow> string \<Rightarrow> string \<Rightarrow> database \<times> (session_error, new_session) result" where
  "verify svc draw clock db username challenge signature login_csrf correlation_id =
     (case now clock of
        Inl e \<Rightarrow> (db, Err e)
      | Inr created_at \<Rightarrow>
          (case verify_signed svc draw created_at db username challenge signature login_csrf correlation_id of
             Inr (db, session) \<Rightarrow> (db, Ok session)
           | Inl e \<Rightarrow>
               (case login_failure db username correlation_id created_at of
                  Inl e \<Rightarrow> (db, Err (SessionStore e))
                | Inr db \<Rightarrow> (db, Err e))))"

definition authenticate :: "web_login_service \<Rightarrow> int option \<Rightarrow> database \<Rightarrow> string \<Rightarrow> string option
    \<Rightarrow> (session_error, web_session_record) result" where
  "authenticate svc clock db session csrf =
     try_then (validate_token session) (\<lambda>_.
     try_then (case csrf of None \<Rightarrow> Ok () | Some csrf \<Rightarrow> validate_token csrf) (\<lambda>_.
     try_then (now clock) (\<lambda>t.
     map_err SessionStore
       (find_web_session db (hash_token svc session) (map_option (hash_token svc) csrf) t))))"

definition record_login_failure :: "int option \<Rightarrow> database \<Rightarrow> string \<Rightarrow> string \<Rightarrow> (session_error, database) result" where
  "record_login_failure clock db username correlation_id =
     try_then (now clock) (\<lambda>created_at. map_err SessionStore (login_failure db username correlation_id created_at))"

definition end_all :: "int option \<Rightarrow> database \<Rightarrow> string \<Rightarrow> (session_error, database) result" where
  "end_all clock db username =
     try_then (now clock) (\<lambda>t. map_err SessionStore (end_account_sessions db username t))"

section \<open>Logins\<close>

definition draws_secrets :: "(nat \<Rightarrow> blob option) \<Rightarrow> bool" where
  "draws_secrets draw \<longleftrightarrow> (\<forall>k b. draw k = Some b \<longrightarrow> length b = 32)"

lemma encode_hex_digits: "list_all is_ascii_hexdigit (encode_lower_hex b)"
proof (induction b)
  case (Cons x b)
  have "list_all is_ascii_hexdigit HEX" by code_simp
  then have "is_ascii_hexdigit (HEX ! i)" if "i < 16" for i using that by (simp add: list_all_length)
  with Cons show ?case by simp
qed simp

lemma validate_secret: "length b = 32 \<Longrightarrow> validate_token (encode_lower_hex b) = Ok ()"
  by (simp add: validate_token_def SECRET_BYTES_def encode_hex_digits)

lemma consume_login_nonce_match:
  assumes "consume_login_nonce db l = Ok db'"
  shows "\<exists>n a k. n \<in> set (db_login_nonce db) \<and> a \<in> set (db_account db) \<and> k \<in> set (db_ssh_public_key db)
    \<and> login_nonce_match l (n, a, k)"
proof -
  obtain p where "find (login_nonce_match l) (List.product (db_login_nonce db)
      (List.product (db_account db) (db_ssh_public_key db))) = Some p"
    using assms by (auto simp: consume_login_nonce_def)
  moreover obtain n a k where "p = (n, a, k)" by (cases p)
  ultimately show ?thesis using find_SomeD by (metis (no_types, lifting) mem_Sigma_iff set_product)
qed

definition login_of :: "web_login_service \<Rightarrow> persistent_verified_login \<Rightarrow> new_session \<Rightarrow> string \<Rightarrow> int \<Rightarrow> string
    \<Rightarrow> new_web_session" where
  "login_of svc verified session login_csrf t correlation_id =
     \<lparr>nws_nonce_hash = pvl_nonce_hash verified, nws_login_csrf_hash = hash_token svc login_csrf,
      nws_username = pvl_username verified, nws_fingerprint = pvl_fingerprint verified,
      nws_session_hash = hash_token svc (ns_token session), nws_csrf_hash = hash_token svc (ns_csrf session),
      nws_created_at = t, nws_expires_at = t + SESSION_LIFETIME_SECONDS, nws_correlation_id = correlation_id\<rparr>"

lemma verify_Ok:
  assumes "verify svc draw clock db username challenge signature login_csrf cid = (db', Ok session)"
  obtains t verified sb cb where "clock = Some t" "0 \<le> t" "validate_token login_csrf = Ok ()"
    "verify_keyless_login_challenge (wls_crypto svc) (wls_origin svc) challenge signature username (nat t) = Ok verified"
    "draw 0 = Some sb" "draw 1 = Some cb"
    "session = \<lparr>ns_token = encode_lower_hex sb, ns_csrf = encode_lower_hex cb\<rparr>"
    "consume_login_nonce db (login_of svc verified session login_csrf t cid) = Ok db'"
  using assms
  by (auto simp: verify_def verify_signed_def now_def random_bytes_def add_seconds_def Let_def login_of_def
      split: sum.splits if_splits prod.splits)

text \<open>The nonce hash a verified login carries depends only on the challenge.\<close>

lemma verified_nonce:
  assumes "verify_keyless_login_challenge c origin challenge signature username t = Ok v"
    and "verify_keyless_login_challenge c origin' challenge signature' username' t' = Ok v'"
  shows "pvl_nonce_hash v' = pvl_nonce_hash v"
  using assms by (auto simp: verify_keyless_login_challenge_def split: if_splits)

lemma verified_username:
  "verify_keyless_login_challenge c origin challenge signature username t = Ok v \<Longrightarrow> pvl_username v = username"
  by (auto simp: verify_keyless_login_challenge_def split: if_splits)

lemma verify_consumes:
  assumes "db_ok db" and "verify svc draw clock db username challenge signature login_csrf cid = (db', Ok session)"
  shows "isl (snd (verify svc draw' clock' db' username' challenge signature' login_csrf' cid'))"
proof (rule ccontr)
  assume "\<not> isl (snd (verify svc draw' clock' db' username' challenge signature' login_csrf' cid'))"
  then obtain db'' session' where
    "verify svc draw' clock' db' username' challenge signature' login_csrf' cid' = (db'', Ok session')"
    by (metis not_isl_Ok surjective_pairing)
  then obtain t' v' where second:
    "consume_login_nonce db' (login_of svc v' session' login_csrf' t' cid') = Ok db''"
    "verify_keyless_login_challenge (wls_crypto svc) (wls_origin svc) challenge signature' username' (nat t') = Ok v'"
    by (elim verify_Ok) blast
  from assms(2) obtain t v where first: "consume_login_nonce db (login_of svc v session login_csrf t cid) = Ok db'"
    "verify_keyless_login_challenge (wls_crypto svc) (wls_origin svc) challenge signature username (nat t) = Ok v"
    by (elim verify_Ok) blast
  have "consume_login_nonce db' (login_of svc v' session' login_csrf' t' cid') = Err InvalidLoginChallenge"
    using ensuresD [OF nonce_consumed [OF assms(1)] first(1)] verified_nonce [OF first(2) second(2)]
    by (intro spent_nonce_Err) (simp add: login_of_def)
  with second(1) show False by simp
qed

lemma verify_session:
  assumes "db_ok db" and "draws_secrets draw" and "clock = Some t"
    and "verify svc draw clock db username challenge signature login_csrf cid = (db', Ok session)"
    and "t' \<le> t + 7 * 24 * 60 * 60" and "csrf = None \<or> csrf = Some (ns_csrf session)"
  shows "\<exists>admin. authenticate svc (Some t') db' (ns_token session) csrf
    = Ok \<lparr>wsr_username = username, wsr_is_administrator = admin\<rparr>"
proof -
  obtain v sb cb where v: "pvl_username v = username" and draws: "draw 0 = Some sb" "draw 1 = Some cb"
    "session = \<lparr>ns_token = encode_lower_hex sb, ns_csrf = encode_lower_hex cb\<rparr>"
    and consumed: "consume_login_nonce db (login_of svc v session login_csrf t cid) = Ok db'"
    using verify_Ok [OF assms(4)] verified_username assms(3) by (metis option.inject)
  have ok: "db_ok db'" using ensuresD [OF consume_login_nonce_keeps [OF assms(1)] consumed] .
  obtain s a where s: "s \<in> set (db_web_session db')" "a \<in> set (db_account db')" "acct_username a = username"
    "acct_state a = ''active''" "acct_id a = sess_account_id s" "sess_session_hash s = hash_token svc (ns_token session)"
    "sess_csrf_hash s = hash_token svc (ns_csrf session)" "sess_expires_at s = t + SESSION_LIFETIME_SECONDS"
    "sess_ended_at s = None"
    using ensuresD [OF consume_login_nonce_session consumed] v by (auto simp: login_of_def)
  have "find_web_session db' (hash_token svc (ns_token session)) (map_option (hash_token svc) csrf) t'
      = Ok \<lparr>wsr_username = acct_username a, wsr_is_administrator = acct_is_administrator a\<rparr>"
    using find_web_session_fresh [OF ok s(1,2,5,4,9), of t' "map_option (hash_token svc) csrf"] s(6-8) assms(5,6)
    by (auto simp: SESSION_LIFETIME_SECONDS_def)
  moreover have "validate_token (ns_token session) = Ok ()" "validate_token (ns_csrf session) = Ok ()"
    using draws assms(2) by (auto simp: draws_secrets_def validate_secret)
  ultimately show ?thesis
    using s(3) assms(6) by (auto simp: authenticate_def now_def split: option.splits)
qed

text \<open>C7. A web login needs a key of the account: when \<^verbatim>\<open>verify\<close> opens a session for a username, the challenge is the
  text the server issues for that username, its nonce is stored unused and unexpired together with the browser's
  login token, and the signature over it verifies under an unrevoked key of that active account.\<close>

theorem web_login_sound:
  assumes "verify svc draw (Some t) db username challenge signature login_csrf correlation_id = (db', Ok session)"
  shows "\<exists>n a k nonce issued expires sig.
    n \<in> set (db_login_nonce db) \<and> a \<in> set (db_account db) \<and> k \<in> set (db_ssh_public_key db)
    \<and> acct_username a = username \<and> acct_state a = ''active'' \<and> nonce_account_id n = acct_id a
    \<and> nonce_nonce_hash n = sha256 (wls_crypto svc) nonce \<and> nonce_csrf_hash n = hash_token svc login_csrf
    \<and> nonce_consumed_at n = None \<and> t \<le> nonce_expires_at n
    \<and> challenge = format_keyless_login_challenge (wls_origin svc) username nonce issued expires
    \<and> from_pem (wls_crypto svc) signature = Some sig
    \<and> verify_signature (wls_crypto svc) ((sig_key sig)\<lparr>pk_comment := []\<rparr>) ''tit-auth'' challenge sig
    \<and> key_account_id k = acct_id a \<and> key_revoked_at k = None
    \<and> key_fingerprint k = key_fingerprint_of (wls_crypto svc) ((sig_key sig)\<lparr>pk_comment := []\<rparr>)"
proof -
  obtain v where v: "verify_keyless_login_challenge (wls_crypto svc) (wls_origin svc) challenge signature username
      (nat t) = Ok v" and consumed: "consume_login_nonce db (login_of svc v session login_csrf t correlation_id) = Ok db'"
    using verify_Ok [OF assms] by (metis option.inject)
  from verified_login [OF v] consume_login_nonce_match [OF consumed] show ?thesis
    by (fastforce simp: login_nonce_match_def login_of_def)
qed


section \<open>A concrete login\<close>

definition sample_service :: web_login_service where
  "sample_service = \<lparr>wls_crypto = sample_crypto, wls_origin = ''https://tit.example''\<rparr>"

definition sample_draw :: "nat \<Rightarrow> blob option" where
  "sample_draw k = Some (replicate 32 (word_of_nat (k + 17)))"

definition sample_session :: new_session where
  "sample_session = \<lparr>ns_token = encode_lower_hex (replicate 32 17), ns_csrf = encode_lower_hex (replicate 32 18)\<rparr>"

definition sample_request :: new_web_session where
  "sample_request = login_of sample_service
     \<lparr>pvl_username = ''dave'', pvl_fingerprint = ''fd'', pvl_nonce_hash = replicate 32 2\<rparr> sample_session
     (replicate 64 (CHR ''3'')) 10 ''req''"

lemma sample_draws: "draws_secrets sample_draw"
  by (simp add: draws_secrets_def sample_draw_def)

lemma sample_consumes: "\<not> isl (consume_login_nonce sample_db sample_request)"
  by code_simp

lemma sample_verifies:
  "verify sample_service sample_draw (Some 10) sample_db ''dave'' sample_challenge ''fd'' (replicate 64 (CHR ''3'')) ''req''
   = (projr (consume_login_nonce sample_db sample_request), Ok sample_session)"
proof -
  have "validate_token (replicate 64 (CHR ''3'')) = Ok ()" by code_simp
  moreover obtain db where "consume_login_nonce sample_db sample_request = Ok db"
    using not_isl_Ok [OF sample_consumes] by blast
  ultimately show ?thesis
    using sample_login_verifies
    by (simp add: Let_def verify_def verify_signed_def now_def random_bytes_def sample_draw_def add_seconds_def
        SESSION_LIFETIME_SECONDS_def sample_request_def login_of_def sample_session_def sample_service_def)
qed

theorem web_login_sound_witness:
  "\<exists>n a k. n \<in> set (db_login_nonce sample_db) \<and> a \<in> set (db_account sample_db) \<and> k \<in> set (db_ssh_public_key sample_db)
     \<and> acct_username a = ''dave'' \<and> key_account_id k = acct_id a \<and> nonce_account_id n = acct_id a"
  using web_login_sound [OF sample_verifies] by blast


end
