(* ===== verification/Services.thy ===== *)
theory Services
  imports Session Store_Feeds
begin

text \<open>
  The services that stand between the servers and the store: issues (\<^verbatim>\<open>src/issue.rs\<close>), organizations
  (\<^verbatim>\<open>src/organization.rs\<close>), watches (\<^verbatim>\<open>src/watch.rs\<close>) and feed tokens (\<^verbatim>\<open>src/feed_token.rs\<close>). Each operation
  validates its input, reads the clock and draws what it needs at random, and calls one operation of the store.
  The guarantees of the store's operations hold for these callers like for any other, as the steps of the store
  take arbitrary arguments.
\<close>

section \<open>Issues\<close>

datatype issue_error =
    IssueAuth auth_error
  | IssueRepositoryName repository_name_error
  | IssueStore store_error
  | IssueNumber
  | IssueTitle
  | IssueBody
  | IssueStateInvalid
  | IssueClock

definition MAX_TITLE_BYTES :: nat where "MAX_TITLE_BYTES = 200"
definition MAX_BODY_BYTES :: nat where "MAX_BODY_BYTES = 256 * 1024"
definition PAGE_SIZE :: nat where "PAGE_SIZE = 50"

definition validate_context :: "string \<Rightarrow> string \<Rightarrow> string option \<Rightarrow> (issue_error, unit) result" where
  "validate_context owner repository actor =
     try_then (map_err IssueAuth (validate_username owner)) (\<lambda>_.
     try_then (map_err IssueRepositoryName (validate_slug repository)) (\<lambda>_.
     case actor of None \<Rightarrow> Ok () | Some actor \<Rightarrow> map_err IssueAuth (validate_username actor)))"

definition validate_number :: "int \<Rightarrow> (issue_error, unit) result" where
  "validate_number number = (if number < 1 then Err IssueNumber else Ok ())"

definition validate_list :: "string \<Rightarrow> nat \<Rightarrow> (issue_error, unit) result" where
  "validate_list state page =
     (if state \<notin> {''all'', ''open'', ''closed''} \<or> page = 0 \<or> page > 10000 then Err IssueStateInvalid else Ok ())"

definition validate_page :: "nat \<Rightarrow> (issue_error, unit) result" where
  "validate_page page = (if page = 0 \<or> page > 10000 then Err IssueNumber else Ok ())"

definition validate_title :: "string \<Rightarrow> (issue_error, unit) result" where
  "validate_title title =
     (if title = [] \<or> length title > MAX_TITLE_BYTES \<or> trim (chars title) \<noteq> chars title
        \<or> list_ex is_control (chars title)
      then Err IssueTitle else Ok ())"

definition validate_body :: "string \<Rightarrow> bool \<Rightarrow> (issue_error, unit) result" where
  "validate_body body empty_ok =
     (if length body > MAX_BODY_BYTES \<or> (\<not> empty_ok \<and> trim (chars body) = [])
        \<or> list_ex (\<lambda>c. is_control c \<and> c \<notin> {10, 13, 9}) (chars body)
      then Err IssueBody else Ok ())"

definition issue_service_create :: "env \<Rightarrow> int option \<Rightarrow> database \<Rightarrow> string \<Rightarrow> string \<Rightarrow> string \<Rightarrow> string \<Rightarrow> string
    \<Rightarrow> (issue_error, database \<times> issue_record) result" where
  "issue_service_create env clock db owner repository actor title body =
     try_then (validate_context owner repository (Some actor)) (\<lambda>_.
     try_then (validate_title title) (\<lambda>_.
     try_then (validate_body body True) (\<lambda>_.
     try_then (ok_or IssueClock clock) (\<lambda>created_at.
     map_err IssueStore (create_issue env db
       \<lparr>ni_owner = owner, ni_repository = repository, ni_actor = actor, ni_title = title, ni_body = body,
        ni_created_at = created_at\<rparr>)))))"

definition issue_service_list :: "database \<Rightarrow> string \<Rightarrow> string \<Rightarrow> string option
    \<Rightarrow> (issue_error, repository_record \<times> issue_record list) result" where
  "issue_service_list db owner repository actor =
     try_then (validate_context owner repository actor) (\<lambda>_.
     map_err IssueStore (issues db owner repository actor))"

definition issue_service_list_page :: "database \<Rightarrow> string \<Rightarrow> string \<Rightarrow> string option \<Rightarrow> string \<Rightarrow> nat
    \<Rightarrow> (issue_error, repository_record \<times> issue_record record_page) result" where
  "issue_service_list_page db owner repository actor state page =
     try_then (validate_context owner repository actor) (\<lambda>_.
     try_then (validate_list state page) (\<lambda>_.
     try_then (map_err IssueStore (issue_page db owner repository actor state page PAGE_SIZE)) (\<lambda>(record, result).
     if page > 1 \<and> rp_items result = [] then Err IssueStateInvalid else Ok (record, result))))"

definition issue_service_get_page :: "database \<Rightarrow> string \<Rightarrow> string \<Rightarrow> int \<Rightarrow> string option \<Rightarrow> nat \<Rightarrow> nat
    \<Rightarrow> (issue_error, issue_detail) result" where
  "issue_service_get_page db owner repository number actor comments_page timeline_page =
     try_then (validate_context owner repository actor) (\<lambda>_.
     try_then (validate_number number) (\<lambda>_.
     try_then (validate_page comments_page) (\<lambda>_.
     try_then (validate_page timeline_page) (\<lambda>_.
     try_then (map_err IssueStore (get_issue_detail db owner repository number actor
       \<lparr>tp_primary_page = comments_page, tp_timeline_page = timeline_page, tp_page_size = PAGE_SIZE\<rparr>)) (\<lambda>detail.
     if comments_page > 1 \<and> idt_comments detail = [] \<or> timeline_page > 1 \<and> idt_timeline detail = []
     then Err IssueNumber else Ok detail)))))"

definition issue_service_edit :: "env \<Rightarrow> int option \<Rightarrow> database \<Rightarrow> string \<Rightarrow> string \<Rightarrow> int \<Rightarrow> string \<Rightarrow> string \<Rightarrow> string
    \<Rightarrow> (issue_error, database) result" where
  "issue_service_edit env clock db owner repository number actor title body =
     try_then (validate_context owner repository (Some actor)) (\<lambda>_.
     try_then (validate_number number) (\<lambda>_.
     try_then (validate_title title) (\<lambda>_.
     try_then (validate_body body True) (\<lambda>_.
     try_then (ok_or IssueClock clock) (\<lambda>changed_at.
     map_err IssueStore (edit_issue env db
       \<lparr>ic_owner = owner, ic_repository = repository, ic_number = number, ic_actor = actor,
        ic_changed_at = changed_at\<rparr> title body))))))"

definition issue_service_comment :: "env \<Rightarrow> int option \<Rightarrow> database \<Rightarrow> string \<Rightarrow> string \<Rightarrow> int \<Rightarrow> string \<Rightarrow> string
    \<Rightarrow> (issue_error, database \<times> string) result" where
  "issue_service_comment env clock db owner repository number actor body =
     try_then (validate_context owner repository (Some actor)) (\<lambda>_.
     try_then (validate_number number) (\<lambda>_.
     try_then (validate_body body False) (\<lambda>_.
     try_then (ok_or IssueClock clock) (\<lambda>created_at.
     map_err IssueStore (comment_issue env db owner repository number actor body created_at)))))"

definition issue_service_set_state :: "env \<Rightarrow> int option \<Rightarrow> database \<Rightarrow> string \<Rightarrow> string \<Rightarrow> int \<Rightarrow> string \<Rightarrow> string
    \<Rightarrow> (issue_error, database) result" where
  "issue_service_set_state env clock db owner repository number actor state =
     try_then (validate_context owner repository (Some actor)) (\<lambda>_.
     try_then (validate_number number) (\<lambda>_.
     if state \<notin> {''open'', ''closed''} then Err IssueStateInvalid
     else
       try_then (ok_or IssueClock clock) (\<lambda>changed_at.
       map_err IssueStore (set_issue_state env db owner repository number actor state changed_at))))"

section \<open>Organizations\<close>

datatype organization_error =
    OrganizationAuth auth_error
  | OrganizationStore store_error
  | OrganizationInvalidProfile
  | OrganizationClock
  | OrganizationRandom

definition MAX_DISPLAY_NAME_BYTES :: nat where "MAX_DISPLAY_NAME_BYTES = 100"
definition MAX_DESCRIPTION_BYTES :: nat where "MAX_DESCRIPTION_BYTES = 512"

definition validate_members :: "string \<Rightarrow> string \<Rightarrow> string \<Rightarrow> (organization_error, unit) result" where
  "validate_members organization actor username =
     map_err OrganizationAuth
       (try_then (validate_username organization) (\<lambda>_.
        try_then (validate_username actor) (\<lambda>_.
        validate_username username)))"

definition validate_organization_profile :: "string \<Rightarrow> string \<Rightarrow> (organization_error, unit) result" where
  "validate_organization_profile display_name description =
     (if display_name = [] \<or> length display_name > MAX_DISPLAY_NAME_BYTES
        \<or> length description > MAX_DESCRIPTION_BYTES \<or> list_ex is_control (chars display_name)
        \<or> list_ex (\<lambda>c. is_control c \<and> c \<noteq> 10) (chars description)
      then Err OrganizationInvalidProfile else Ok ())"

text \<open>The clock and the correlation id that every change of an organization takes, in this order.\<close>

definition stamped :: "int option \<Rightarrow> string option \<Rightarrow> (int \<Rightarrow> string \<Rightarrow> (store_error, 'a) result)
    \<Rightarrow> (organization_error, 'a) result" where
  "stamped clock drawn f =
     try_then (ok_or OrganizationClock clock) (\<lambda>t.
     try_then (ok_or OrganizationRandom drawn) (\<lambda>correlation_id.
     map_err OrganizationStore (f t correlation_id)))"

definition organization_create :: "int option \<Rightarrow> string option \<Rightarrow> database \<Rightarrow> string \<Rightarrow> string \<Rightarrow> string \<Rightarrow> string
    \<Rightarrow> (organization_error, database) result" where
  "organization_create clock drawn db slug display_name description owner =
     try_then (map_err OrganizationAuth (validate_username slug)) (\<lambda>_.
     try_then (map_err OrganizationAuth (validate_username owner)) (\<lambda>_.
     try_then (validate_organization_profile display_name description) (\<lambda>_.
     stamped clock drawn (create_organization db slug display_name description owner))))"

definition organization_set_member :: "int option \<Rightarrow> string option \<Rightarrow> database \<Rightarrow> string \<Rightarrow> string \<Rightarrow> string \<Rightarrow> string
    \<Rightarrow> (organization_error, database) result" where
  "organization_set_member clock drawn db organization actor username role =
     try_then (validate_members organization actor username) (\<lambda>_.
     stamped clock drawn (set_organization_member db organization actor username role))"

definition organization_update_profile :: "int option \<Rightarrow> string option \<Rightarrow> database \<Rightarrow> string \<Rightarrow> string \<Rightarrow> string
    \<Rightarrow> string \<Rightarrow> (organization_error, database) result" where
  "organization_update_profile clock drawn db organization actor display_name description =
     try_then (map_err OrganizationAuth (validate_username organization)) (\<lambda>_.
     try_then (map_err OrganizationAuth (validate_username actor)) (\<lambda>_.
     try_then (validate_organization_profile display_name description) (\<lambda>_.
     stamped clock drawn (update_organization_profile db organization actor display_name description))))"

definition organization_remove_member :: "int option \<Rightarrow> string option \<Rightarrow> database \<Rightarrow> string \<Rightarrow> string \<Rightarrow> string
    \<Rightarrow> (organization_error, database) result" where
  "organization_remove_member clock drawn db organization actor username =
     try_then (validate_members organization actor username) (\<lambda>_.
     stamped clock drawn (remove_organization_member db organization actor username))"

definition organization_maintained_namespaces :: "database \<Rightarrow> string \<Rightarrow> (organization_error, string list) result" where
  "organization_maintained_namespaces db username =
     try_then (map_err OrganizationAuth (validate_username username)) (\<lambda>_.
     map_err OrganizationStore (maintained_namespaces db username))"

definition can_manage :: "database \<Rightarrow> string \<Rightarrow> string \<Rightarrow> (organization_error, bool) result" where
  "can_manage db organization username =
     try_then (map_err OrganizationAuth (validate_username organization)) (\<lambda>_.
     try_then (organization_maintained_namespaces db username) (\<lambda>namespaces.
     Ok (organization \<in> set namespaces)))"

definition is_owner :: "database \<Rightarrow> string \<Rightarrow> string \<Rightarrow> (organization_error, bool) result" where
  "is_owner db organization username =
     try_then (map_err OrganizationAuth (validate_username organization)) (\<lambda>_.
     try_then (map_err OrganizationAuth (validate_username username)) (\<lambda>_.
     try_then (map_err OrganizationStore (organization_member_role db organization username)) (\<lambda>role.
     Ok (role = Some ''owner''))))"

section \<open>Watches\<close>

datatype watch_error = WatchAuth auth_error | WatchRepositoryName repository_name_error | WatchStore store_error | WatchClock

definition watch_service_get :: "database \<Rightarrow> string \<Rightarrow> string \<Rightarrow> string option
    \<Rightarrow> (watch_error, repository_record \<times> watch_record option) result" where
  "watch_service_get db owner repository actor =
     try_then (map_err WatchAuth (validate_username owner)) (\<lambda>_.
     try_then (map_err WatchRepositoryName (validate_slug repository)) (\<lambda>_.
     try_then (case actor of None \<Rightarrow> Ok () | Some actor \<Rightarrow> map_err WatchAuth (validate_username actor)) (\<lambda>_.
     map_err WatchStore (get_watch db owner repository actor))))"

definition validate_watch :: "string \<Rightarrow> string \<Rightarrow> string \<Rightarrow> (watch_error, unit) result" where
  "validate_watch owner repository actor =
     try_then (map_err WatchAuth (validate_username owner)) (\<lambda>_.
     try_then (map_err WatchRepositoryName (validate_slug repository)) (\<lambda>_.
     map_err WatchAuth (validate_username actor)))"

definition watch_service_set :: "env \<Rightarrow> int option \<Rightarrow> database \<Rightarrow> string \<Rightarrow> string \<Rightarrow> string \<Rightarrow> bool
    \<Rightarrow> (watch_error, database \<times> watch_record option) result" where
  "watch_service_set env clock db owner repository actor watching =
     try_then (validate_watch owner repository actor) (\<lambda>_.
     try_then (ok_or WatchClock clock) (\<lambda>t.
     map_err WatchStore (set_watch env db owner repository actor watching t)))"

section \<open>Feed tokens\<close>

datatype feed_token_error =
  FeedAuth auth_error | FeedStore store_error | FeedInvalidToken | FeedRandom | FeedClock

record issued_feed_token =
  ift_record :: feed_token_record
  ift_token :: string

definition random_token :: "(nat \<Rightarrow> blob option) \<Rightarrow> (feed_token_error, string) result" where
  "random_token draw = try_then (ok_or FeedRandom (draw 0)) (\<lambda>bytes. Ok (encode_lower_hex bytes))"

definition feed_hash :: "crypto \<Rightarrow> string \<Rightarrow> blob" where
  "feed_hash c token = sha256 c (as_bytes token)"

definition validate_feed_token :: "string \<Rightarrow> (feed_token_error, unit) result" where
  "validate_feed_token token =
     (if length token \<noteq> 32 * 2 \<or> \<not> list_all is_ascii_hexdigit token then Err FeedInvalidToken else Ok ())"

definition validate_id :: "string \<Rightarrow> (feed_token_error, unit) result" where
  "validate_id ident = (if length ident \<noteq> 32 \<or> \<not> list_all is_ascii_hexdigit ident then Err FeedInvalidToken else Ok ())"

definition feed_list :: "database \<Rightarrow> string \<Rightarrow> (feed_token_error, feed_token_record list) result" where
  "feed_list db actor =
     try_then (map_err FeedAuth (validate_username actor)) (\<lambda>_. map_err FeedStore (feed_tokens db actor))"

definition feed_issue :: "crypto \<Rightarrow> env \<Rightarrow> (nat \<Rightarrow> blob option) \<Rightarrow> int option \<Rightarrow> database \<Rightarrow> string
    \<Rightarrow> (feed_token_error, database \<times> issued_feed_token) result" where
  "feed_issue c env draw clock db actor =
     try_then (map_err FeedAuth (validate_username actor)) (\<lambda>_.
     try_then (random_token draw) (\<lambda>token.
     try_then (ok_or FeedClock clock) (\<lambda>t.
     try_then (map_err FeedStore (create_feed_token env db actor (feed_hash c token) t)) (\<lambda>(db, record).
     Ok (db, \<lparr>ift_record = record, ift_token = token\<rparr>)))))"

definition feed_rotate :: "crypto \<Rightarrow> env \<Rightarrow> (nat \<Rightarrow> blob option) \<Rightarrow> int option \<Rightarrow> database \<Rightarrow> string \<Rightarrow> string
    \<Rightarrow> (feed_token_error, database \<times> issued_feed_token) result" where
  "feed_rotate c env draw clock db actor ident =
     try_then (map_err FeedAuth (validate_username actor)) (\<lambda>_.
     try_then (validate_id ident) (\<lambda>_.
     try_then (random_token draw) (\<lambda>token.
     try_then (ok_or FeedClock clock) (\<lambda>t.
     try_then (map_err FeedStore (rotate_feed_token env db actor ident (feed_hash c token) t)) (\<lambda>(db, record).
     Ok (db, \<lparr>ift_record = record, ift_token = token\<rparr>))))))"

definition feed_revoke :: "int option \<Rightarrow> database \<Rightarrow> string \<Rightarrow> string \<Rightarrow> (feed_token_error, database) result" where
  "feed_revoke clock db actor ident =
     try_then (map_err FeedAuth (validate_username actor)) (\<lambda>_.
     try_then (validate_id ident) (\<lambda>_.
     try_then (ok_or FeedClock clock) (\<lambda>t. map_err FeedStore (revoke_feed_token db actor ident t))))"

definition feed_read :: "crypto \<Rightarrow> database \<Rightarrow> string \<Rightarrow> nat
    \<Rightarrow> (feed_token_error, string \<times> (repository_record \<times> repository_event) list) result" where
  "feed_read c db token limit =
     try_then (validate_feed_token token) (\<lambda>_. map_err FeedStore (token_feed_events db (feed_hash c token) limit))"

definition feed_activity :: "database \<Rightarrow> string \<Rightarrow> activity_cursor option \<Rightarrow> nat
    \<Rightarrow> (feed_token_error, activity_page) result" where
  "feed_activity db actor before limit =
     try_then (map_err FeedAuth (validate_username actor)) (\<lambda>_.
     map_err FeedStore (watched_activity_page db actor before limit))"

end
