(* ===== verification/Account_Service.thy ===== *)
theory Account_Service
  imports Session Store_Feeds
begin

text \<open>
  The account service, \<^verbatim>\<open>src/account.rs\<close>: invitations, sign-up, recovery, keys, suspension and profiles. Secrets are
  random, handed out once and stored only as hashes; a store operation that fails leaves a failure in the audit
  trail. An operation returns the database it leaves and its result.

  The reads of public profiles and of the activity calendar are not modelled.
\<close>

datatype account_error =
    AccountAuth auth_error
  | AccountStore store_error
  | InvalidLabel
  | InvalidProfile
  | InvalidSecret
  | AccountRandom
  | AccountClock

definition INVITATION_PREFIX :: string where "INVITATION_PREFIX = ''tit-invite-v1:''"
definition RECOVERY_PREFIX :: string where "RECOVERY_PREFIX = ''tit-recovery-v1:''"
definition INVITATION_LIFETIME_SECONDS :: int where "INVITATION_LIFETIME_SECONDS = 24 * 60 * 60"

definition hash_secret :: "crypto \<Rightarrow> string \<Rightarrow> blob" where
  "hash_secret c secret = sha256 c (as_bytes secret)"

definition random_secret :: "blob option \<Rightarrow> string \<Rightarrow> (account_error, string) result" where
  "random_secret drawn pre = try_then (ok_or AccountRandom drawn) (\<lambda>bytes. Ok (pre @ encode_lower_hex bytes))"

definition require_secret :: "string \<Rightarrow> string \<Rightarrow> (account_error, unit) result" where
  "require_secret secret pre =
     try_then (ok_or InvalidSecret (strip_prefix pre secret)) (\<lambda>encoded.
     if length encoded \<noteq> SECRET_BYTES * 2 \<or> \<not> list_all is_ascii_hexdigit encoded then Err InvalidSecret else Ok ())"

definition validate_account_token :: "string \<Rightarrow> (account_error, unit) result" where
  "validate_account_token token =
     (if length token \<noteq> SECRET_BYTES * 2 \<or> \<not> list_all is_ascii_hexdigit token then Err InvalidSecret else Ok ())"

definition validate_label :: "string \<Rightarrow> (account_error, unit) result" where
  "validate_label label =
     (if label = [] \<or> length label > 80 \<or> trim (chars label) \<noteq> chars label \<or> list_ex is_control (chars label)
      then Err InvalidLabel else Ok ())"

definition validate_profile :: "string \<Rightarrow> string \<Rightarrow> (account_error, unit) result" where
  "validate_profile bio contact_email =
     (if length bio > 512 \<or> list_ex (\<lambda>c. is_control c \<and> c \<noteq> 10) (chars bio) then Err InvalidProfile
      else if length contact_email > 254 \<or> list_ex is_control (chars contact_email)
        \<or> (contact_email \<noteq> []
           \<and> (length (filter (\<lambda>c. c = CHR ''@'') contact_email) \<noteq> 1 \<or> hd contact_email = CHR ''@''
              \<or> last contact_email = CHR ''@''))
      then Err InvalidProfile
      else Ok ())"

definition bounded_audit_target :: "string \<Rightarrow> string" where
  "bounded_audit_target target =
     (if length target \<le> 512 \<and> \<not> list_ex is_control (chars target) then target else ''invalid-target'')"

definition new_key :: "parsed_ssh_key \<Rightarrow> string \<Rightarrow> new_ssh_key" where
  "new_key key label =
     \<lparr>nk_canonical_key = spk_canonical key, nk_fingerprint = spk_fingerprint key, nk_label = label\<rparr>"

definition audit_failure :: "database \<Rightarrow> string \<Rightarrow> string \<Rightarrow> string \<Rightarrow> string \<Rightarrow> int
    \<Rightarrow> (account_error, database) result" where
  "audit_failure db action actor target correlation_id created_at =
     map_err AccountStore (record_audit_event db
       \<lparr>nae_action = action, nae_actor = actor, nae_target = target, nae_outcome = ''failure'',
        nae_correlation_id = correlation_id, nae_created_at = created_at\<rparr>)"

text \<open>What the operations do with an error \<open>e\<close>: they record it and return it, or the error of recording it.\<close>

definition fail_audited :: "database \<Rightarrow> (account_error, database) result \<Rightarrow> account_error
    \<Rightarrow> database \<times> (account_error, 'a) result" where
  "fail_audited db recorded e = (case recorded of Inl e' \<Rightarrow> (db, Err e') | Inr db' \<Rightarrow> (db', Err e))"

definition issue_invitation :: "crypto \<Rightarrow> blob option \<Rightarrow> int option \<Rightarrow> database
    \<Rightarrow> (account_error, database \<times> string) result" where
  "issue_invitation c drawn clock db =
     try_then (ok_or AccountClock clock) (\<lambda>t.
     if 2 ^ 63 \<le> t + INVITATION_LIFETIME_SECONDS then Err AccountClock
     else
       try_then (random_secret drawn INVITATION_PREFIX) (\<lambda>code.
       try_then (map_err AccountStore
         (create_signup_invitation db (hash_secret c code) t (t + INVITATION_LIFETIME_SECONDS))) (\<lambda>db.
       Ok (db, code))))"

definition signup :: "crypto \<Rightarrow> blob option \<Rightarrow> int option \<Rightarrow> database \<Rightarrow> string \<Rightarrow> string \<Rightarrow> string \<Rightarrow> string
    \<Rightarrow> database \<times> (account_error, string) result" where
  "signup c drawn clock db invitation username public_key correlation_id =
     (case try_then (map_err AccountAuth (validate_username username)) (\<lambda>_.
           try_then (require_secret invitation INVITATION_PREFIX) (\<lambda>_.
           try_then (map_err AccountAuth (parse_ssh_key c public_key)) (\<lambda>key.
           try_then (random_secret drawn RECOVERY_PREFIX) (\<lambda>recovery.
           try_then (ok_or AccountClock clock) (\<lambda>created_at. Ok (key, recovery, created_at)))))) of
        Inl e \<Rightarrow> (db, Err e)
      | Inr (key, recovery, created_at) \<Rightarrow>
          (case create_account_with_invitation db
              \<lparr>iva_invitation_hash = hash_secret c invitation, iva_username = username,
               iva_key = new_key key ''initial'', iva_recovery_hash = hash_secret c recovery,
               iva_created_at = created_at, iva_correlation_id = correlation_id\<rparr> of
             Inl e \<Rightarrow> fail_audited db (audit_failure db ''account.signup'' username username correlation_id created_at)
               (AccountStore e)
           | Inr db \<Rightarrow> (db, Ok recovery)))"

definition recover :: "crypto \<Rightarrow> blob option \<Rightarrow> int option \<Rightarrow> database \<Rightarrow> string \<Rightarrow> string \<Rightarrow> string \<Rightarrow> string
    \<Rightarrow> database \<times> (account_error, string) result" where
  "recover c drawn clock db username recovery public_key correlation_id =
     (case try_then (map_err AccountAuth (validate_username username)) (\<lambda>_.
           try_then (require_secret recovery RECOVERY_PREFIX) (\<lambda>_.
           try_then (map_err AccountAuth (parse_ssh_key c public_key)) (\<lambda>key.
           try_then (random_secret drawn RECOVERY_PREFIX) (\<lambda>replacement.
           try_then (ok_or AccountClock clock) (\<lambda>created_at. Ok (key, replacement, created_at)))))) of
        Inl e \<Rightarrow> (db, Err e)
      | Inr (key, replacement, created_at) \<Rightarrow>
          (case recover_account db
              \<lparr>ar_username = username, ar_old_recovery_hash = hash_secret c recovery,
               ar_key = new_key key ''recovery'', ar_new_recovery_hash = hash_secret c replacement,
               ar_created_at = created_at, ar_correlation_id = correlation_id\<rparr> of
             Inl e \<Rightarrow> fail_audited db (audit_failure db ''account.recover'' username username correlation_id created_at)
               (AccountStore e)
           | Inr db \<Rightarrow> (db, Ok replacement)))"

definition add_key :: "crypto \<Rightarrow> int option \<Rightarrow> database \<Rightarrow> string \<Rightarrow> string \<Rightarrow> string \<Rightarrow> string \<Rightarrow> string
    \<Rightarrow> database \<times> (account_error, string) result" where
  "add_key c clock db username label public_key actor correlation_id =
     (case try_then (map_err AccountAuth (validate_username username)) (\<lambda>_.
           try_then (validate_label label) (\<lambda>_.
           try_then (map_err AccountAuth (parse_ssh_key c public_key)) (\<lambda>key.
           try_then (ok_or AccountClock clock) (\<lambda>created_at. Ok (key, created_at))))) of
        Inl e \<Rightarrow> (db, Err e)
      | Inr (key, created_at) \<Rightarrow>
          (case add_account_key db username (new_key key label) created_at actor correlation_id of
             Inl e \<Rightarrow> fail_audited db
               (audit_failure db ''key.add'' actor (username @ '':'' @ spk_fingerprint key) correlation_id created_at)
               (AccountStore e)
           | Inr db \<Rightarrow> (db, Ok (spk_fingerprint key))))"

definition revoke_key :: "int option \<Rightarrow> database \<Rightarrow> string \<Rightarrow> string \<Rightarrow> string \<Rightarrow> string
    \<Rightarrow> database \<times> (account_error, unit) result" where
  "revoke_key clock db username fingerprint actor correlation_id =
     (case try_then (map_err AccountAuth (validate_username username)) (\<lambda>_. ok_or AccountClock clock) of
        Inl e \<Rightarrow> (db, Err e)
      | Inr changed_at \<Rightarrow>
          (case revoke_account_key db username fingerprint changed_at actor correlation_id of
             Inl e \<Rightarrow> fail_audited db
               (audit_failure db ''key.revoke'' actor (bounded_audit_target (username @ '':'' @ fingerprint))
                 correlation_id changed_at) (AccountStore e)
           | Inr db \<Rightarrow> (db, Ok ())))"

definition suspend :: "int option \<Rightarrow> database \<Rightarrow> string \<Rightarrow> bool \<Rightarrow> string \<Rightarrow> string
    \<Rightarrow> database \<times> (account_error, unit) result" where
  "suspend clock db username suspended actor correlation_id =
     (case try_then (map_err AccountAuth (validate_username username)) (\<lambda>_. ok_or AccountClock clock) of
        Inl e \<Rightarrow> (db, Err e)
      | Inr changed_at \<Rightarrow>
          (case suspend_account db username suspended changed_at actor correlation_id of
             Inl e \<Rightarrow> fail_audited db
               (audit_failure db (if suspended then ''account.suspend'' else ''account.resume'') actor username
                 correlation_id changed_at) (AccountStore e)
           | Inr db \<Rightarrow> (db, Ok ())))"

definition account_update_profile :: "database \<Rightarrow> string \<Rightarrow> string \<Rightarrow> string \<Rightarrow> (account_error, database) result" where
  "account_update_profile db username bio contact_email =
     try_then (map_err AccountAuth (validate_username username)) (\<lambda>_.
     try_then (validate_profile bio contact_email) (\<lambda>_.
     map_err AccountStore (update_profile db username bio contact_email)))"

record account_key_request =
  akr_username :: string
  akr_session :: string
  akr_csrf :: string
  akr_secret :: string
  akr_correlation_id :: string

definition key_authorization :: "crypto \<Rightarrow> account_key_request \<Rightarrow> int \<Rightarrow> account_key_authorization" where
  "key_authorization c request changed_at =
     \<lparr>aka_username = akr_username request, aka_session_hash = hash_secret c (akr_session request),
      aka_csrf_hash = hash_secret c (akr_csrf request), aka_secret_hash = hash_secret c (akr_secret request),
      aka_changed_at = changed_at, aka_correlation_id = akr_correlation_id request\<rparr>"

definition validate_request :: "account_key_request \<Rightarrow> (account_error, unit) result" where
  "validate_request request =
     try_then (map_err AccountAuth (validate_username (akr_username request))) (\<lambda>_.
     try_then (validate_account_token (akr_session request)) (\<lambda>_.
     try_then (validate_account_token (akr_csrf request)) (\<lambda>_.
     validate_account_token (akr_secret request))))"

definition complete_key_add :: "crypto \<Rightarrow> int option \<Rightarrow> database \<Rightarrow> account_key_request \<Rightarrow> string \<Rightarrow> string
    \<Rightarrow> database \<times> (account_error, string) result" where
  "complete_key_add c clock db request label public_key =
     (case ok_or AccountClock clock of
        Inl e \<Rightarrow> (db, Err e)
      | Inr changed_at \<Rightarrow>
          (case try_then (validate_request request) (\<lambda>_.
                try_then (validate_label label) (\<lambda>_.
                try_then (map_err AccountAuth (parse_ssh_key c public_key)) (\<lambda>key.
                try_then (map_err AccountStore (complete_account_key_add db
                  (key_authorization c request changed_at) (new_key key label))) (\<lambda>db.
                Ok (db, spk_fingerprint key))))) of
             Inl e \<Rightarrow> fail_audited db
               (audit_failure db ''key.add'' (akr_username request) (akr_username request)
                 (akr_correlation_id request) changed_at) e
           | Inr (db, fingerprint) \<Rightarrow> (db, Ok fingerprint)))"

definition complete_key_revoke :: "crypto \<Rightarrow> int option \<Rightarrow> database \<Rightarrow> account_key_request \<Rightarrow> string
    \<Rightarrow> database \<times> (account_error, unit) result" where
  "complete_key_revoke c clock db request fingerprint =
     (case ok_or AccountClock clock of
        Inl e \<Rightarrow> (db, Err e)
      | Inr changed_at \<Rightarrow>
          (case try_then (validate_request request) (\<lambda>_.
                map_err AccountStore (complete_account_key_revoke db
                  (key_authorization c request changed_at) fingerprint)) of
             Inl e \<Rightarrow> fail_audited db
               (audit_failure db ''key.revoke'' (akr_username request)
                 (bounded_audit_target (akr_username request @ '':'' @ fingerprint))
                 (akr_correlation_id request) changed_at) e
           | Inr db \<Rightarrow> (db, Ok ())))"

section \<open>Invitations\<close>

lemma required_random_secret:
  "length b = 32 \<Longrightarrow> require_secret (pre @ encode_lower_hex b) pre = Ok ()"
  by (simp add: require_secret_def SECRET_BYTES_def encode_hex_digits)

lemma on_unique_not_invitation: "on_unique e x = InvalidInvitation \<longleftrightarrow> x = UniqueViolation \<and> e = InvalidInvitation"
  by (simp add: on_unique_def)

lemma map_err_Err: "map_err g m = Inl e \<longleftrightarrow> (\<exists>x. m = Inl x \<and> g x = e)"
  by (cases m) auto

lemma map_sum_Err: "map_sum f g m = Inl e \<longleftrightarrow> (\<exists>x. m = Inl x \<and> f x = e)"
  by (cases m) auto

text \<open>Past the invitation itself, nothing in the transaction blames the invitation.\<close>

lemma live_invitation_accepted:
  assumes "db_ok db" and "i \<in> set (db_signup_invitation db)" and "inv_code_hash i = iva_invitation_hash account"
    and "inv_consumed_at i = None" and "inv_created_at i \<le> iva_created_at account"
    and "iva_created_at account \<le> inv_expires_at i"
  shows "create_account_with_invitation db account \<noteq> Err InvalidInvitation"
proof -
  let ?P = "\<lambda>i. inv_code_hash i = iva_invitation_hash account \<and> inv_consumed_at i = None
    \<and> inv_expires_at i \<ge> iva_created_at account"
  have u: "unique_by inv_id (db_signup_invitation db)" "unique_by inv_code_hash (db_signup_invitation db)"
    and chk: "signup_invitation_chk i"
    using inv.ok_uniq [OF assms(1)] inv.ok_chk [OF assms(1)] assms(2)
    by (auto simp: signup_invitation_uniq_def list_all_iff)
  have same: "j = i" if "j \<in> set (db_signup_invitation db)" "?P j" for j
    using unique_by_key [OF u(2) that(1) assms(2)] that(2) assms(3) by simp
  have "i \<in> set (filter ?P (db_signup_invitation db))" using assms by simp
  then have "length (filter ?P (db_signup_invitation db)) = 1"
    using unique_by_count [OF u(2), of ?P "iva_invitation_hash account"] by (cases "filter ?P (db_signup_invitation db)") auto
  then have one: "exec_update signup_invitation_table ?P (\<lambda>i. i\<lparr>inv_consumed_at := Some (iva_created_at account)\<rparr>) db
      = Inr (db', n) \<Longrightarrow> n = 1" for db' n
    by (auto simp: exec_update_Ok count_rows_def)
  show ?thesis
    by (auto simp: create_account_with_invitation_def insert_account_def insert_ssh_key_def insert_recovery_credential_def
        insert_audit_event_def try_then_Err map_err_Err map_sum_Err on_unique_not_invitation Let_def
        split: if_splits dest: one)
qed


definition sample_invited :: "database \<times> string" where
  "sample_invited = projr (issue_invitation sample_crypto (Some (replicate 32 7)) (Some 50) sample_db)"

lemma sample_invitation:
  "issue_invitation sample_crypto (Some (replicate 32 7)) (Some 50) sample_db = Ok (fst sample_invited, snd sample_invited)"
proof -
  have "\<not> isl (issue_invitation sample_crypto (Some (replicate 32 7)) (Some 50) sample_db)" by code_simp
  then show ?thesis unfolding sample_invited_def prod.collapse by (rule not_isl_Ok)
qed


end
