(* ===== verification/Git_Repository.thy ===== *)
theory Git_Repository
  imports Ref_Commands
begin

text \<open>
  The repository on disk as the services use it, \<^verbatim>\<open>GitRepository\<close> of \<^verbatim>\<open>src/git/repository.rs\<close>: opening, branches, the
  default branch, updates of single refs, merge commits and the walk over reachable objects that packs and integrity
  checks are built on.

  The repository is the record \<open>git_repository\<close> of \<open>Receive_Pack\<close>, and gix is the same parameter. The merge
  of two commits and the writing of a commit are gix's as well (\<open>gix_merge\<close>). Loose objects that a merge writes
  are not part of the record, and the texts of gix errors are kept only where the code does something with them.

  The lemmas show what a successful update of a ref says about the repository before and after it, and that the walk
  returns exactly the objects reachable from its roots.
\<close>

section \<open>Opening and branches\<close>

datatype git_repository_error =
    GitCreate string string
  | GitOpen string string
  | GitNotBare string
  | GitReferences
  | GitReferenceLimit
  | GitInvalidBranch
  | GitInvalidReference string
  | GitMissingReference string
  | GitBranchNotCommit
  | GitRefTransaction string
  | GitMerge string
  | GitMergeConflict
  | GitObjectUnreadable oid
  | GitMissingObject oid
  | GitDamagedObject oid
  | GitUnadvertisedWant
  | GitPack
  | GitWrongObjectFormat
  | GitObjectLimit
  | GitCancelled

definition git_open :: "(string \<Rightarrow> (string, git_repository) result) \<Rightarrow> string
    \<Rightarrow> (git_repository_error, git_repository) result" where
  "git_open disk path =
     try_then (map_err (GitOpen path) (disk path)) (\<lambda>repository.
     if \<not> repo_bare repository then Err (GitNotBare path) else Ok repository)"

definition kind_of_object :: "git_object \<Rightarrow> object_kind" where
  "kind_of_object obj =
     (case obj of
        BlobObject \<Rightarrow> Blob | CommitObject _ _ \<Rightarrow> Commit | TreeObject _ \<Rightarrow> Tree | TagObject _ \<Rightarrow> Tag
      | Malformed kind \<Rightarrow> kind)"

definition find_object :: "gix \<Rightarrow> git_repository \<Rightarrow> oid \<Rightarrow> (git_repository_error, git_object) result" where
  "find_object g repository ident =
     (case try_find_object g (repo_packs repository) ident of
        Inr (Some (obj, bytes)) \<Rightarrow> Ok obj
      | _ \<Rightarrow> Err (GitObjectUnreadable ident))"

definition try_find_reference :: "gix \<Rightarrow> git_repository \<Rightarrow> string
    \<Rightarrow> (git_repository_error, oid option) result" where
  "try_find_reference g repository name =
     (if \<not> full_name g (as_bytes name) then Err GitReferences else Ok (repo_refs repository (as_bytes name)))"

definition resolve_branch :: "gix \<Rightarrow> git_repository \<Rightarrow> string \<Rightarrow> (git_repository_error, oid) result" where
  "resolve_branch g repository name =
     (if \<not> starts_with name ''refs/heads/'' \<or> length name > 1024 then Err GitInvalidBranch
      else
        try_then (try_find_reference g repository name) (\<lambda>reference.
        try_then (ok_or (GitMissingReference name) reference) (\<lambda>target.
        try_then (find_object g repository target) (\<lambda>obj.
        if kind_of_object obj \<noteq> Commit then Err GitBranchNotCommit else Ok target))))"

definition reference_target :: "gix \<Rightarrow> git_repository \<Rightarrow> string \<Rightarrow> (git_repository_error, oid option) result" where
  "reference_target g repository name = try_find_reference g repository name"

definition default_branch :: "git_repository \<Rightarrow> string option" where
  "default_branch repository =
     (case repo_head repository of
        None \<Rightarrow> None
      | Some name \<Rightarrow> if starts_with name ''refs/heads/'' then Some name else None)"

definition set_default_branch :: "gix \<Rightarrow> git_repository \<Rightarrow> string
    \<Rightarrow> (git_repository_error, git_repository) result" where
  "set_default_branch g repository name =
     try_then (resolve_branch g repository name) (\<lambda>_.
     if \<not> full_name g (as_bytes name) then Err GitInvalidBranch
     else Ok (repository\<lparr>repo_head := Some name\<rparr>))"

definition update_reference_with_log :: "gix \<Rightarrow> git_repository \<Rightarrow> string \<Rightarrow> oid option \<Rightarrow> oid
    \<Rightarrow> (git_repository_error, git_repository) result" where
  "update_reference_with_log g repository name expected new =
     (if length new \<noteq> hex_length (repo_format repository) then Err GitWrongObjectFormat
      else if \<not> full_name g (as_bytes name) then Err (GitInvalidReference name)
      else
        try_then (map_err GitRefTransaction
          (edit_references g (repo_refs repository) [(as_bytes name, expected, Some new)])) (\<lambda>refs.
        Ok (repository\<lparr>repo_refs := refs\<rparr>)))"

definition update_reference :: "gix \<Rightarrow> git_repository \<Rightarrow> string \<Rightarrow> oid option \<Rightarrow> oid
    \<Rightarrow> (git_repository_error, git_repository) result" where
  "update_reference g repository name expected new = update_reference_with_log g repository name expected new"

section \<open>Merge commits\<close>

record merge_commit =
  mc_message :: string
  mc_tree :: oid
  mc_name :: string
  mc_email :: string
  mc_seconds :: int
  mc_parents :: "oid list"

text \<open>\<open>merge_commits\<close> gives whether conflicts are left and the tree it writes.\<close>

record gix_merge =
  merge_commits :: "git_repository \<Rightarrow> oid \<Rightarrow> oid \<Rightarrow> (string, bool \<times> (string, oid) result) result"
  write_object :: "git_repository \<Rightarrow> merge_commit \<Rightarrow> (string, oid) result"

definition write_merge_commit :: "gix_merge \<Rightarrow> git_repository \<Rightarrow> oid \<Rightarrow> oid \<Rightarrow> string \<Rightarrow> int \<Rightarrow> string
    \<Rightarrow> (git_repository_error, oid) result" where
  "write_merge_commit m repository base head actor created_at message =
     (if length base \<noteq> hex_length (repo_format repository) \<or> length head \<noteq> hex_length (repo_format repository)
      then Err GitWrongObjectFormat
      else
        try_then (map_err GitMerge (merge_commits m repository base head)) (\<lambda>(conflicts, tree).
        if conflicts then Err GitMergeConflict
        else
          try_then (map_err GitMerge tree) (\<lambda>tree.
          map_err GitMerge (write_object m repository
            \<lparr>mc_message = message, mc_tree = tree, mc_name = actor, mc_email = actor @ ''@users.tit'',
             mc_seconds = created_at, mc_parents = [base, head]\<rparr>))))"

section \<open>The walk over reachable objects\<close>

definition MAX_OBJECTS_PER_PACK :: nat where "MAX_OBJECTS_PER_PACK = 100000"

definition parse_link :: "git_repository \<Rightarrow> oid \<Rightarrow> oid \<Rightarrow> (git_repository_error, oid) result" where
  "parse_link repository owner ident =
     (if length ident \<noteq> hex_length (repo_format repository) then Err (GitDamagedObject owner) else Ok ident)"

fun parse_links :: "git_repository \<Rightarrow> oid \<Rightarrow> oid list \<Rightarrow> (git_repository_error, oid list) result" where
  "parse_links repository owner [] = Ok []"
| "parse_links repository owner (ident # idents) =
     try_then (parse_link repository owner ident) (\<lambda>ident.
     try_then (parse_links repository owner idents) (\<lambda>idents. Ok (ident # idents)))"

definition object_links :: "git_repository \<Rightarrow> oid \<Rightarrow> git_object \<Rightarrow> (git_repository_error, oid list) result" where
  "object_links repository ident obj =
     (case obj of
        BlobObject \<Rightarrow> Ok []
      | CommitObject tree parents \<Rightarrow> parse_links repository ident (tree # parents)
      | TreeObject entries \<Rightarrow> Ok (map snd (filter (\<lambda>(submodule, _). \<not> submodule) entries))
      | TagObject target \<Rightarrow> parse_links repository ident [target]
      | Malformed kind \<Rightarrow> if kind = Blob then Ok [] else Err (GitDamagedObject ident))"

text \<open>The stack \<^verbatim>\<open>pending\<close> has its top at the head of the list. \<open>cancelled\<close> is what the flag reads at each
  round, \<open>missing\<close> the roots that may be absent.\<close>

function walk_loop :: "gix \<Rightarrow> git_repository \<Rightarrow> oid list option \<Rightarrow> (nat \<Rightarrow> bool) \<Rightarrow> nat \<Rightarrow> oid list \<Rightarrow> oid list
    \<Rightarrow> (git_repository_error, oid list) result" where
  "walk_loop g repository missing cancelled round [] seen = Ok seen"
| "walk_loop g repository missing cancelled round (ident # pending) seen =
     (if cancelled round then Err GitCancelled
      else if ident \<in> set seen then walk_loop g repository missing cancelled (round + 1) pending seen
      else if MAX_OBJECTS_PER_PACK < length (ident # seen) then Err GitObjectLimit
      else
        (case try_find_object g (repo_packs repository) ident of
           Inl _ \<Rightarrow> Err (GitObjectUnreadable ident)
         | Inr None \<Rightarrow>
             if (case missing of None \<Rightarrow> False | Some roots \<Rightarrow> ident \<in> set roots)
             then walk_loop g repository missing cancelled (round + 1) pending seen
             else Err (GitMissingObject ident)
         | Inr (Some (obj, bytes)) \<Rightarrow>
             (case object_links repository ident obj of
                Inl e \<Rightarrow> Err e
              | Inr links \<Rightarrow>
                  walk_loop g repository missing cancelled (round + 1) (rev links @ pending) (ident # seen))))"
  by pat_completeness auto
termination
  by (relation "(\<lambda>(g, repository, missing, cancelled, round, pending, seen). MAX_OBJECTS_PER_PACK - length seen)
       <*mlex*> measure (\<lambda>(g, repository, missing, cancelled, round, pending, seen). length pending)")
    (auto intro: wf_mlex mlex_less mlex_leq)

definition walk_reachable :: "gix \<Rightarrow> git_repository \<Rightarrow> oid list \<Rightarrow> oid list option \<Rightarrow> (nat \<Rightarrow> bool)
    \<Rightarrow> (git_repository_error, oid list) result" where
  "walk_reachable g repository roots missing cancelled =
     walk_loop g repository missing cancelled 0 (rev roots) []"

section \<open>Updates of a ref\<close>

lemma single_edit:
  assumes "transaction_law g" and "edit_references g refs [(name, old, new)] = Ok refs'"
  shows "refs name = old \<and> refs' = refs(name := new)"
  using assms(1) [unfolded transaction_law_def, rule_format, OF assms(2)] by simp

lemma update_reference_Ok:
  assumes "gix_laws g" and "update_reference g repository name expected new = Ok repository'"
  shows "repo_refs repository (as_bytes name) = expected" "full_name g (as_bytes name)"
    "repository' = repository\<lparr>repo_refs := (repo_refs repository)(as_bytes name := Some new)\<rparr>"
  using assms single_edit [of g "repo_refs repository" "as_bytes name" expected "Some new"]
  by (auto simp: update_reference_def update_reference_with_log_def gix_laws_def split: if_splits)

lemma update_reference_self:
  assumes "gix_laws g" and "update_reference g repository name (Some new) new = Ok repository'"
  shows "repository' = repository"
  using update_reference_Ok [OF assms] by (simp add: fun_upd_idem)

section \<open>What the walk returns\<close>

definition present :: "gix \<Rightarrow> git_repository \<Rightarrow> oid \<Rightarrow> bool" where
  "present g repository ident \<longleftrightarrow> (\<exists>obj bytes. try_find_object g (repo_packs repository) ident = Ok (Some (obj, bytes)))"

definition refers_to :: "gix \<Rightarrow> git_repository \<Rightarrow> oid \<Rightarrow> oid \<Rightarrow> bool" where
  "refers_to g repository a b \<longleftrightarrow>
     (\<exists>obj bytes links. try_find_object g (repo_packs repository) a = Ok (Some (obj, bytes))
        \<and> object_links repository a obj = Ok links \<and> b \<in> set links)"

text \<open>The invariant of the walk: what it has seen is there, and so is, seen or pending, every present object that
  one of those refers to.\<close>

definition followed :: "gix \<Rightarrow> git_repository \<Rightarrow> oid list \<Rightarrow> oid list \<Rightarrow> bool" where
  "followed g repository pending seen \<longleftrightarrow>
     (\<forall>a\<in>set seen. present g repository a
        \<and> (\<forall>b. refers_to g repository a b \<longrightarrow> present g repository b \<longrightarrow> b \<in> set seen \<union> set pending))"

lemma followedD:
  assumes "followed g repository [] seen" and "a \<in> set seen" and "refers_to g repository a b"
    and "present g repository b"
  shows "b \<in> set seen"
proof -
  have "b \<in> set seen \<union> set []" using assms unfolding followed_def by blast
  then show ?thesis by simp
qed

lemma walk_loop_closed:
  "walk_loop g repository missing cancelled round pending seen = Ok final \<Longrightarrow> followed g repository pending seen
   \<Longrightarrow> followed g repository [] final \<and> set seen \<subseteq> set final
     \<and> (\<forall>x\<in>set pending. present g repository x \<longrightarrow> x \<in> set final)"
proof (induction g repository missing cancelled round pending seen rule: walk_loop.induct)
  case (1 g repository missing cancelled round seen)
  then show ?case by auto
next
  case (2 g repository missing cancelled round ident pending seen)
  show ?case
  proof (cases "ident \<in> set seen")
    case True
    then have "followed g repository pending seen" using "2.prems"(2) by (auto simp: followed_def)
    with True "2.IH"(1) "2.prems" show ?thesis by (auto split: if_splits)
  next
    case False
    show ?thesis
    proof (cases "present g repository ident")
      case True
      then obtain obj bytes where found: "try_find_object g (repo_packs repository) ident = Ok (Some (obj, bytes))"
        by (auto simp: present_def)
      with False "2.prems"(1) obtain links where k: "object_links repository ident obj = Ok links"
          and go: "\<not> cancelled round" "\<not> MAX_OBJECTS_PER_PACK < length (ident # seen)"
          and rest: "walk_loop g repository missing cancelled (round + 1) (rev links @ pending) (ident # seen) = Ok final"
        by (auto split: if_splits sum.splits)
      have "followed g repository (rev links @ pending) (ident # seen)"
        using "2.prems"(2) found k by (auto simp: followed_def refers_to_def present_def)
      with "2.IH"(3) [OF go(1) False go(2) found refl refl k rest] show ?thesis by auto
    next
      case absent: False
      with False "2.prems"(1)
      have rest: "walk_loop g repository missing cancelled (round + 1) pending seen = Ok final"
        and go: "\<not> cancelled round" "\<not> MAX_OBJECTS_PER_PACK < length (ident # seen)"
          "try_find_object g (repo_packs repository) ident = Ok None"
          "case missing of None \<Rightarrow> False | Some roots \<Rightarrow> ident \<in> set roots"
        by (auto simp: present_def split: if_splits sum.splits option.splits)
      have "followed g repository pending seen" using "2.prems"(2) absent by (auto simp: followed_def)
      with "2.IH"(2) [OF go(1) False go(2,3) refl go(4) rest] absent show ?thesis by auto
    qed
  qed
qed

lemma walk_loop_distinct:
  "walk_loop g repository missing cancelled round pending seen = Ok final \<Longrightarrow> distinct seen \<Longrightarrow> distinct final"
  by (induction g repository missing cancelled round pending seen rule: walk_loop.induct)
    (auto split: if_splits sum.splits option.splits)

lemma walk_reachable_distinct: "walk_reachable g repository roots missing cancelled = Ok seen \<Longrightarrow> distinct seen"
  unfolding walk_reachable_def by (erule walk_loop_distinct) simp

lemma walk_loop_within:
  "walk_loop g repository missing cancelled round pending seen = Ok final
   \<Longrightarrow> set pending \<union> set seen \<subseteq> R \<Longrightarrow> (\<And>a b. a \<in> R \<Longrightarrow> refers_to g repository a b \<Longrightarrow> b \<in> R) \<Longrightarrow> set final \<subseteq> R"
proof (induction g repository missing cancelled round pending seen rule: walk_loop.induct)
  case (2 g repository missing cancelled round ident pending seen)
  from "2.prems"(1) consider
      "\<not> cancelled round" "ident \<in> set seen" "walk_loop g repository missing cancelled (round + 1) pending seen = Ok final"
    | "\<not> cancelled round" "ident \<notin> set seen" "\<not> MAX_OBJECTS_PER_PACK < length (ident # seen)"
        "try_find_object g (repo_packs repository) ident = Ok None"
        "case missing of None \<Rightarrow> False | Some roots \<Rightarrow> ident \<in> set roots"
        "walk_loop g repository missing cancelled (round + 1) pending seen = Ok final"
    | obj bytes links where "\<not> cancelled round" "ident \<notin> set seen" "\<not> MAX_OBJECTS_PER_PACK < length (ident # seen)"
        "try_find_object g (repo_packs repository) ident = Ok (Some (obj, bytes))"
        "object_links repository ident obj = Ok links"
        "walk_loop g repository missing cancelled (round + 1) (rev links @ pending) (ident # seen) = Ok final"
    by (auto split: if_splits sum.splits option.splits)
  then show ?case
  proof cases
    case 1
    then show ?thesis using "2.IH"(1) [OF 1] "2.prems"(2,3) by auto
  next
    case 2
    then show ?thesis using "2.IH"(2) [OF 2(1-4) refl 2(5,6)] "2.prems"(2,3) by auto
  next
    case 3
    have "refers_to g repository ident x" if "x \<in> set links" for x using 3 that by (auto simp: refers_to_def)
    then have "set links \<subseteq> R" using "2.prems"(2,3) by auto
    then show ?thesis using "2.IH"(3) [OF 3(1-4) refl refl 3(5,6)] "2.prems"(2,3) by auto
  qed
qed simp

text \<open>A walk that succeeds returns exactly the objects that exist and can be reached from its roots, whatever roots
  are allowed to be missing.\<close>

lemma walk_reachable_exact:
  assumes "walk_reachable g repository roots missing cancelled = Ok seen"
  shows "set seen = {b. present g repository b \<and> (\<exists>r\<in>set roots. (refers_to g repository)\<^sup>*\<^sup>* r b)}"
proof
  let ?R = "{b. \<exists>r\<in>set roots. (refers_to g repository)\<^sup>*\<^sup>* r b}"
  have run: "walk_loop g repository missing cancelled 0 (rev roots) [] = Ok seen"
    using assms by (simp add: walk_reachable_def)
  have closed: "followed g repository [] seen" "\<forall>x\<in>set roots. present g repository x \<longrightarrow> x \<in> set seen"
    using walk_loop_closed [OF run] by (simp_all add: followed_def [of _ _ "rev roots"])
  have "set seen \<subseteq> ?R"
  proof (rule walk_loop_within [OF run])
    show "b \<in> ?R" if "a \<in> ?R" "refers_to g repository a b" for a b
    proof -
      from that(1) obtain r where r: "r \<in> set roots" "(refers_to g repository)\<^sup>*\<^sup>* r a" by blast
      from r(2) that(2) have "(refers_to g repository)\<^sup>*\<^sup>* r b" by (rule rtranclp.rtrancl_into_rtrancl)
      with r(1) show ?thesis by blast
    qed
  qed auto
  then show "set seen \<subseteq> {b. present g repository b \<and> (\<exists>r\<in>set roots. (refers_to g repository)\<^sup>*\<^sup>* r b)}"
    using closed(1) by (auto simp: followed_def)
  show "{b. present g repository b \<and> (\<exists>r\<in>set roots. (refers_to g repository)\<^sup>*\<^sup>* r b)} \<subseteq> set seen"
  proof
    fix b assume "b \<in> {b. present g repository b \<and> (\<exists>r\<in>set roots. (refers_to g repository)\<^sup>*\<^sup>* r b)}"
    then obtain r where r: "r \<in> set roots" "(refers_to g repository)\<^sup>*\<^sup>* r b" "present g repository b" by auto
    from r(2,3) show "b \<in> set seen"
    proof (induction rule: rtranclp_induct)
      case base
      then show ?case using closed(2) r(1) by simp
    next
      case (step y z)
      from step(2) have "present g repository y" by (auto simp: refers_to_def present_def)
      then have "y \<in> set seen" by (rule step.IH)
      from followedD [OF closed(1) this step(2) step.prems] show ?case .
    qed
  qed
qed

text \<open>Two commits over one empty tree; a third root that is not there may be missing.\<close>

definition sample_gix :: gix where
  "sample_gix = reference_gix\<lparr>try_find_object := (\<lambda>files i.
     Ok (if i = replicate 40 (CHR ''2'') then Some (CommitObject (replicate 40 (CHR ''e'')) [replicate 40 (CHR ''1'')], 10)
       else if i = replicate 40 (CHR ''1'') then Some (CommitObject (replicate 40 (CHR ''e'')) [], 10)
       else if i = replicate 40 (CHR ''e'') then Some (TreeObject [], 0) else None))\<rparr>"

definition sample_bare :: git_repository where
  "sample_bare = \<lparr>repo_refs = Map.empty, repo_packs = {}, repo_bare = True, repo_format = Sha1,
     repo_head = Some ''refs/heads/main''\<rparr>"

lemma sample_walk:
  "walk_reachable sample_gix sample_bare [replicate 40 (CHR ''2''), replicate 40 (CHR ''3'')]
     (Some [replicate 40 (CHR ''3'')]) (\<lambda>_. False)
   = Ok [replicate 40 (CHR ''e''), replicate 40 (CHR ''1''), replicate 40 (CHR ''2'')]"
proof -
  have ne: "replicate 40 c = replicate 40 d \<longleftrightarrow> c = d" for c d :: char by (simp add: replicate_eq_replicate)
  show ?thesis
    by (simp add: walk_reachable_def sample_gix_def reference_gix_def sample_bare_def object_links_def parse_link_def
        hex_length_def MAX_OBJECTS_PER_PACK_def ne del: replicate.simps)
qed

end
