(* ===== verification/Pull_Request_Service.thy ===== *)
theory Pull_Request_Service
  imports Push_Recovery Git_Repository Services
begin

text \<open>
  The pull request service, \<^verbatim>\<open>src/pull_request.rs\<close>. Opening or revising a pull request moves the ref
  \<^verbatim>\<open>refs/pull/N/head\<close> of the repository on disk and records the revision in the database; a merge moves the base
  branch. Both record an intent first, and \<^verbatim>\<open>recover\<close> repairs what a crash left between the two.

  The world is the \<open>push_world\<close> of \<open>Push\<close>. Crash points are named as in the source, and \<open>None\<close> as the result of
  an operation means that the process stopped there. The record \<open>pull_request_service\<close> holds, besides the
  directory of the repositories, what the service calls: gix, the resolution of paths by the file system, and the
  comparison of two commits by \<^verbatim>\<open>RepositoryReadService\<close>. Random ids and the clock are arguments.

  The theorems show that opening and revising are atomic under crashes, and what closing a pull request at the wrong
  moment does to them.
\<close>

section \<open>Errors and requests\<close>

text \<open>What \<^verbatim>\<open>RepositoryReadService::open\<close> reports, and every other \<^verbatim>\<open>ReadError\<close> by its text.\<close>

datatype read_error = ReadOpen string string | ReadNotBare string | ReadFailure string

datatype pull_request_error =
    PrAuth auth_error
  | PrRepositoryName repository_name_error
  | PrStore store_error
  | PrGit git_repository_error
  | PrTitle
  | PrBody
  | PrBranch
  | PrNumber
  | PrState
  | PrRevision
  | PrReviewKind
  | PrReviewBody
  | PrReviewAnchor
  | PrMergeMethod
  | PrStaleRevision
  | PrMergeability
  | PrNonDeterministicMerge
  | PrUnchanged
  | PrStoredObjectId
  | PrMixedRecovery string
  | PrRepositoryPath
  | PrIo string
  | PrRead read_error
  | PrPolicy policy_error
  | PrReceivePack receive_pack_error
  | PrRandom
  | PrClock

definition MAX_REVIEW_BODY_BYTES :: nat where "MAX_REVIEW_BODY_BYTES = 256 * 1024"

record new_pull_request =
  nwp_owner :: string
  nwp_repository :: string
  nwp_actor :: string
  nwp_title :: string
  nwp_body :: string
  nwp_base_ref :: string
  nwp_head_ref :: string

record pull_request_review_request =
  prq_owner :: string
  prq_repository :: string
  prq_number :: int
  prq_revision :: int
  prq_actor :: string
  prq_kind :: string
  prq_body :: string
  prq_path :: "blob option"
  prq_side :: "string option"
  prq_line :: "int option"

record activity_pages =
  ap_reviews :: nat
  ap_timeline :: nat

text \<open>What the service reads of a comparison (\<^verbatim>\<open>Comparison\<close> and \<^verbatim>\<open>DiffFile\<close> of \<^verbatim>\<open>src/git/read.rs\<close>).\<close>

datatype mergeability = Unrelated | AlreadyMerged | FastForwardMerge | CleanMerge | Conflicting

record diff_file =
  df_path :: blob
  df_old_id :: "oid option"
  df_new_id :: "oid option"
  df_old_mode :: "nat option"
  df_new_mode :: "nat option"
  df_binary :: bool
  df_hunks :: blob
  df_old_data :: "blob option"
  df_new_data :: "blob option"

record comparison =
  cmp_files :: "diff_file list"
  cmp_mergeability :: mergeability

record pull_request_comparison =
  prc_detail :: pull_request_detail
  prc_revision :: pull_request_revision_record
  prc_comparison :: comparison

record pull_request_service =
  prs_repositories :: string
  prs_gix :: gix
  prs_canonicalize :: "string \<Rightarrow> (string, string) result"
  prs_compare :: "git_repository \<Rightarrow> oid \<Rightarrow> oid \<Rightarrow> (string, comparison) result"
  prs_blob :: "git_repository \<Rightarrow> oid \<Rightarrow> blob \<Rightarrow> (string, blob) result"
  prs_memory :: gix_merge  \<comment> \<open>over a copy of the repository whose new objects stay in memory\<close>
  prs_merge :: gix_merge

section \<open>Validation\<close>

definition validate_pull_request_context :: "string \<Rightarrow> string \<Rightarrow> string \<Rightarrow> (pull_request_error, unit) result" where
  "validate_pull_request_context owner repository actor =
     try_then (map_err PrAuth (validate_username owner)) (\<lambda>_.
     try_then (map_err PrRepositoryName (validate_slug repository)) (\<lambda>_.
     map_err PrAuth (validate_username actor)))"

text \<open>The checks of the operations that a visitor without an account may call.\<close>

definition validate_viewer :: "string \<Rightarrow> string \<Rightarrow> string option \<Rightarrow> (pull_request_error, unit) result" where
  "validate_viewer owner repository actor =
     try_then (map_err PrAuth (validate_username owner)) (\<lambda>_.
     try_then (map_err PrRepositoryName (validate_slug repository)) (\<lambda>_.
     case actor of None \<Rightarrow> Ok () | Some actor \<Rightarrow> map_err PrAuth (validate_username actor)))"

definition validate_content :: "string \<Rightarrow> string \<Rightarrow> (pull_request_error, unit) result" where
  "validate_content title body =
     (if title = [] \<or> length title > MAX_TITLE_BYTES \<or> CHR 0x0D \<in> set title \<or> CHR 0x0A \<in> set title then Err PrTitle
      else if length body > MAX_BODY_BYTES then Err PrBody
      else Ok ())"

definition validate_branch :: "string \<Rightarrow> (pull_request_error, unit) result" where
  "validate_branch name =
     (if \<not> starts_with name ''refs/heads/'' \<or> length name > 1024 \<or> \<not> list_all (\<lambda>c. of_char c < (128 :: nat)) name
      then Err PrBranch else Ok ())"

definition MAX_PATH_BYTES :: nat where "MAX_PATH_BYTES = 4096"

definition validate_review :: "string \<Rightarrow> string \<Rightarrow> blob option \<Rightarrow> string option \<Rightarrow> int option
    \<Rightarrow> (pull_request_error, unit) result" where
  "validate_review kind body path side line =
     (if length body > MAX_REVIEW_BODY_BYTES \<or> list_ex (\<lambda>c. is_control c \<and> c \<notin> {10, 13, 9}) (chars body)
      then Err PrReviewBody
      else if kind \<in> {''comment'', ''changes-requested''} \<and> trim (chars body) \<noteq> []
      then (if path = None \<and> side = None \<and> line = None then Ok () else Err PrReviewAnchor)
      else if kind = ''approved'' \<and> path = None \<and> side = None \<and> line = None then Ok ()
      else if kind = ''line-comment'' \<and> trim (chars body) \<noteq> []
      then
        try_then (ok_or PrReviewAnchor path) (\<lambda>path.
        if path = [] \<or> length path > MAX_PATH_BYTES \<or> 0 \<in> set path
          \<or> side \<notin> {Some ''base'', Some ''head''} \<or> (case line of None \<Rightarrow> True | Some line \<Rightarrow> line < 1)
        then Err PrReviewAnchor else Ok ())
      else if kind \<in> {''comment'', ''line-comment'', ''approved'', ''changes-requested''} then Err PrReviewBody
      else Err PrReviewKind)"

definition show_int :: "int \<Rightarrow> string" where
  "show_int n = (if n < 0 then CHR ''-'' # show_nat (nat (- n)) else show_nat (nat n))"

definition pull_request_ref :: "int \<Rightarrow> string" where
  "pull_request_ref number = ''refs/pull/'' @ show_int number @ ''/head''"

definition serialize_branch :: "oid \<Rightarrow> string \<Rightarrow> blob" where
  "serialize_branch ident name = as_bytes (ident @ '' '' @ name @ [newline])"

definition parse_stored_id :: "gix \<Rightarrow> string \<Rightarrow> (pull_request_error, oid) result" where
  "parse_stored_id g text = ok_or PrStoredObjectId (from_hex g (as_bytes text))"

definition parse_optional_id :: "gix \<Rightarrow> string option \<Rightarrow> (pull_request_error, oid option) result" where
  "parse_optional_id g text =
     (case text of None \<Rightarrow> Ok None | Some text \<Rightarrow> try_then (parse_stored_id g text) (\<lambda>ident. Ok (Some ident)))"

definition managed_path :: "pull_request_service \<Rightarrow> string \<Rightarrow> (pull_request_error, string) result" where
  "managed_path s repository_id =
     try_then (map_err PrIo (prs_canonicalize s (path_join (prs_repositories s) (repository_id @ ''.git'')))) (\<lambda>path.
     if path_parent (path_components path) \<noteq> Some (path_components (prs_repositories s))
     then Err PrRepositoryPath else Ok path)"

definition open_managed :: "pull_request_service \<Rightarrow> push_world \<Rightarrow> string
    \<Rightarrow> (pull_request_error, string \<times> git_repository) result" where
  "open_managed s w repository_id =
     try_then (managed_path s repository_id) (\<lambda>path.
     try_then (map_err PrGit (git_open (pw_disk w) path)) (\<lambda>git.
     Ok (path, git)))"

definition open_reader :: "pull_request_service \<Rightarrow> push_world \<Rightarrow> string
    \<Rightarrow> (pull_request_error, git_repository) result" where
  "open_reader s w path =
     try_then (map_err (\<lambda>reason. PrRead (ReadOpen path reason)) (pw_disk w path)) (\<lambda>repository.
     if \<not> repo_bare repository then Err (PrRead (ReadNotBare path)) else Ok repository)"

definition read_comparison :: "pull_request_service \<Rightarrow> git_repository \<Rightarrow> oid \<Rightarrow> oid
    \<Rightarrow> (pull_request_error, comparison) result" where
  "read_comparison s reader base head = map_err (\<lambda>reason. PrRead (ReadFailure reason)) (prs_compare s reader base head)"

section \<open>Ref intents\<close>

definition pull_request_store :: "push_world \<Rightarrow> (store_error, database) result
    \<Rightarrow> push_world \<times> (pull_request_error, unit) result" where
  "pull_request_store w m = (case m of Inl e \<Rightarrow> (w, Err (PrStore e)) | Inr db \<Rightarrow> (w\<lparr>pw_db := db\<rparr>, Ok ()))"

text \<open>The ids that an intent records, parsed.\<close>

definition intent_ids :: "gix \<Rightarrow> pull_request_ref_intent \<Rightarrow> (pull_request_error, oid option \<times> oid) result" where
  "intent_ids g intent =
     try_then (parse_optional_id g (rint_old_head_object_id intent)) (\<lambda>old.
     try_then (parse_stored_id g (rint_head_object_id intent)) (\<lambda>head.
     Ok (old, head)))"

definition apply_intent :: "gix \<Rightarrow> env \<Rightarrow> string option \<Rightarrow> push_world \<Rightarrow> string \<Rightarrow> git_repository
    \<Rightarrow> pull_request_ref_intent \<Rightarrow> push_world \<times> (pull_request_error, unit) result option" where
  "apply_intent g env crash w path git intent =
     (let name = pull_request_ref (rint_pull_request_number intent) in
      case intent_ids g intent of
        Inl e \<Rightarrow> (w, Some (Err e))
      | Inr (old, head) \<Rightarrow>
          (case update_reference g git name old head of
             Inl error \<Rightarrow>
               (case reference_target g git name of
                  Inl e \<Rightarrow> (w, Some (Err (PrGit e)))
                | Inr current \<Rightarrow>
                    if current = Some head
                    then apsnd Some (pull_request_store w
                      (complete_pull_request_ref_intent env (pw_db w) (rint_id intent)))
                    else if current = old
                    then
                      (case pull_request_store w (abandon_pull_request_ref_intent (pw_db w) (rint_id intent)) of
                         (w, Inl e) \<Rightarrow> (w, Some (Err e))
                       | (w, Inr _) \<Rightarrow> (w, Some (Err (PrGit error))))
                    else (w, Some (Err (PrMixedRecovery (rint_id intent)))))
           | Inr git \<Rightarrow>
               let w = put_repository w path git in
               if crash = Some ''ref'' then (w, None)
               else apsnd Some (pull_request_store w
                 (complete_pull_request_ref_intent env (pw_db w) (rint_id intent)))))"

definition recover_ref_intent :: "gix \<Rightarrow> env \<Rightarrow> push_world \<Rightarrow> string \<Rightarrow> git_repository \<Rightarrow> pull_request_ref_intent
    \<Rightarrow> push_world \<times> (pull_request_error, unit) result" where
  "recover_ref_intent g env w path git intent =
     (let name = pull_request_ref (rint_pull_request_number intent) in
      case try_then (intent_ids g intent) (\<lambda>(old, head).
           try_then (map_err PrGit (reference_target g git name)) (\<lambda>current.
           Ok (old, head, current))) of
        Inl e \<Rightarrow> (w, Err e)
      | Inr (old, head, current) \<Rightarrow>
          if current = Some head
          then pull_request_store w (complete_pull_request_ref_intent env (pw_db w) (rint_id intent))
          else if current = old
          then
            (case update_reference g git name old head of
               Inl e \<Rightarrow> (w, Err (PrGit e))
             | Inr git \<Rightarrow>
                 let w = put_repository w path git in
                 pull_request_store w (complete_pull_request_ref_intent env (pw_db w) (rint_id intent)))
          else (w, Err (PrMixedRecovery (rint_id intent))))"

fun recover_ref_intents :: "pull_request_service \<Rightarrow> (nat \<Rightarrow> env) \<Rightarrow> nat \<Rightarrow> push_world \<Rightarrow> pull_request_ref_intent list
    \<Rightarrow> push_world \<times> (pull_request_error, unit) result" where
  "recover_ref_intents s envs n w [] = (w, Ok ())"
| "recover_ref_intents s envs n w (intent # pending) =
     (case open_managed s w (rint_repository_id intent) of
        Inl e \<Rightarrow> (w, Err e)
      | Inr (path, git) \<Rightarrow>
          (case recover_ref_intent (prs_gix s) (envs n) w path git intent of
             (w, Inl e) \<Rightarrow> (w, Err e)
           | (w, Inr _) \<Rightarrow> recover_ref_intents s envs (n + 1) w pending))"

definition recover_inner :: "pull_request_service \<Rightarrow> (nat \<Rightarrow> env) \<Rightarrow> push_world
    \<Rightarrow> push_world \<times> (pull_request_error, unit) result" where
  "recover_inner s envs w = recover_ref_intents s envs 0 w (incomplete_pull_request_ref_intents (pw_db w))"

definition pull_request_recover :: "pull_request_service \<Rightarrow> (nat \<Rightarrow> env) \<Rightarrow> (nat \<Rightarrow> env) \<Rightarrow> push_world
    \<Rightarrow> push_world \<times> (pull_request_error, unit) result" where
  "pull_request_recover s push_envs envs w =
     (case recover_incomplete_pushes (prs_gix s) push_envs w of
        (w, Inl e) \<Rightarrow> (w, Err (PrReceivePack e))
      | (w, Inr _) \<Rightarrow> recover_inner s envs w)"

section \<open>Opening and revising\<close>

text \<open>The common end of \<^verbatim>\<open>open\<close> and \<^verbatim>\<open>revise\<close>, from the recorded intent on.\<close>

definition settle_ref_intent :: "pull_request_service \<Rightarrow> env \<Rightarrow> string option \<Rightarrow> push_world \<Rightarrow> string \<Rightarrow> git_repository
    \<Rightarrow> database \<Rightarrow> pull_request_ref_intent \<Rightarrow> string \<Rightarrow> string \<Rightarrow> int \<Rightarrow> string
    \<Rightarrow> push_world \<times> (pull_request_error, pull_request_record) result option" where
  "settle_ref_intent s env crash w path git db intent owner repository number actor =
     (let w = w\<lparr>pw_db := db\<rparr> in
      if crash = Some ''intent'' then (w, None)
      else
        (case apply_intent (prs_gix s) env crash w path git intent of
           (w, None) \<Rightarrow> (w, None)
         | (w, Some (Inl e)) \<Rightarrow> (w, Some (Err e))
         | (w, Some (Inr _)) \<Rightarrow>
             if crash = Some ''completed'' then (w, None)
             else (w, Some (try_then (map_err PrStore (get_pull_request (pw_db w) owner repository number (Some actor)))
               (\<lambda>detail. Ok (pd_pull_request detail))))))"

text \<open>From the resolved branches to the recorded intent.\<close>

definition prepare_open :: "pull_request_service \<Rightarrow> (nat \<Rightarrow> string option) \<Rightarrow> int option \<Rightarrow> push_world
    \<Rightarrow> new_pull_request
    \<Rightarrow> (pull_request_error, string \<times> git_repository \<times> database \<times> pull_request_ref_intent) result" where
  "prepare_open s ids clock w request =
     try_then (map_err PrStore (repository_authorization (pw_db w) (nwp_owner request) (nwp_repository request)
       (Some (nwp_actor request)))) (\<lambda>authorization.
     try_then (open_managed s w (rr_id (rar_repository authorization))) (\<lambda>(path, git).
     try_then (map_err PrGit (resolve_branch (prs_gix s) git (nwp_base_ref request))) (\<lambda>base.
     try_then (map_err PrGit (resolve_branch (prs_gix s) git (nwp_head_ref request))) (\<lambda>head.
     try_then (ok_or PrRandom (ids 0)) (\<lambda>intent_id.
     try_then (ok_or PrRandom (ids 1)) (\<lambda>pull_request_id.
     try_then (ok_or PrClock clock) (\<lambda>created_at.
     try_then (map_err PrStore (begin_pull_request_open (pw_db w)
       \<lparr>npi_id = intent_id, npi_pull_request_id = pull_request_id, npi_owner = nwp_owner request,
        npi_repository = nwp_repository request, npi_actor = nwp_actor request, npi_title = nwp_title request,
        npi_body = nwp_body request, npi_base_ref = nwp_base_ref request, npi_head_ref = nwp_head_ref request,
        npi_base_object_id = base, npi_head_object_id = head, npi_created_at = created_at\<rparr>)) (\<lambda>(db, intent).
     Ok (path, git, db, intent)))))))))"

definition pull_request_open :: "pull_request_service \<Rightarrow> env \<Rightarrow> (nat \<Rightarrow> env) \<Rightarrow> (nat \<Rightarrow> string option) \<Rightarrow> int option
    \<Rightarrow> string option \<Rightarrow> push_world \<Rightarrow> new_pull_request
    \<Rightarrow> push_world \<times> (pull_request_error, pull_request_record) result option" where
  "pull_request_open s env envs ids clock crash w request =
     (case try_then (validate_pull_request_context (nwp_owner request) (nwp_repository request) (nwp_actor request)) (\<lambda>_.
           try_then (validate_content (nwp_title request) (nwp_body request)) (\<lambda>_.
           try_then (validate_branch (nwp_base_ref request)) (\<lambda>_.
           validate_branch (nwp_head_ref request)))) of
        Inl e \<Rightarrow> (w, Some (Err e))
      | Inr _ \<Rightarrow>
          (case recover_inner s envs w of
             (w, Inl e) \<Rightarrow> (w, Some (Err e))
           | (w, Inr _) \<Rightarrow>
               (case prepare_open s ids clock w request of
                  Inl e \<Rightarrow> (w, Some (Err e))
                | Inr (path, git, db, intent) \<Rightarrow>
                    settle_ref_intent s env crash w path git db intent (nwp_owner request) (nwp_repository request)
                      (rint_pull_request_number intent) (nwp_actor request))))"

definition prepare_revision :: "pull_request_service \<Rightarrow> (nat \<Rightarrow> string option) \<Rightarrow> int option \<Rightarrow> push_world
    \<Rightarrow> string \<Rightarrow> string \<Rightarrow> int \<Rightarrow> string
    \<Rightarrow> (pull_request_error, string \<times> git_repository \<times> database \<times> pull_request_ref_intent) result" where
  "prepare_revision s ids clock w owner repository number actor =
     try_then (map_err PrStore (get_pull_request (pw_db w) owner repository number (Some actor))) (\<lambda>detail.
     let current = pd_pull_request detail in
     if prr_state current \<noteq> ''open'' then Err (PrStore PullRequestState)
     else
       try_then (map_err PrStore (repository_authorization (pw_db w) owner repository (Some actor))) (\<lambda>authorization.
       try_then (open_managed s w (rr_id (rar_repository authorization))) (\<lambda>(path, git).
       try_then (map_err PrGit (resolve_branch (prs_gix s) git (prr_base_ref current))) (\<lambda>base.
       try_then (map_err PrGit (resolve_branch (prs_gix s) git (prr_head_ref current))) (\<lambda>head.
       if head = prr_head_object_id current \<and> base = prr_base_object_id current then Err PrUnchanged
       else
         try_then (ok_or PrRandom (ids 0)) (\<lambda>intent_id.
         try_then (ok_or PrClock clock) (\<lambda>created_at.
         try_then (map_err PrStore (begin_pull_request_revision (pw_db w) number
           \<lparr>npi_id = intent_id, npi_pull_request_id = prr_id current, npi_owner = owner,
            npi_repository = repository, npi_actor = actor, npi_title = prr_title current,
            npi_body = prr_body current, npi_base_ref = prr_base_ref current,
            npi_head_ref = prr_head_ref current, npi_base_object_id = base,
            npi_head_object_id = head, npi_created_at = created_at\<rparr>)) (\<lambda>(db, intent).
         Ok (path, git, db, intent)))))))))"

definition pull_request_revise :: "pull_request_service \<Rightarrow> env \<Rightarrow> (nat \<Rightarrow> env) \<Rightarrow> (nat \<Rightarrow> string option) \<Rightarrow> int option
    \<Rightarrow> string option \<Rightarrow> push_world \<Rightarrow> string \<Rightarrow> string \<Rightarrow> int \<Rightarrow> string
    \<Rightarrow> push_world \<times> (pull_request_error, pull_request_record) result option" where
  "pull_request_revise s env envs ids clock crash w owner repository number actor =
     (case try_then (validate_pull_request_context owner repository actor) (\<lambda>_.
           if number < 1 then Err PrNumber else Ok ()) of
        Inl e \<Rightarrow> (w, Some (Err e))
      | Inr _ \<Rightarrow>
          (case recover_inner s envs w of
             (w, Inl e) \<Rightarrow> (w, Some (Err e))
           | (w, Inr _) \<Rightarrow>
               (case prepare_revision s ids clock w owner repository number actor of
                  Inl e \<Rightarrow> (w, Some (Err e))
                | Inr (path, git, db, intent) \<Rightarrow>
                    settle_ref_intent s env crash w path git db intent owner repository number actor)))"

section \<open>Reads, edits and state\<close>

definition pull_request_list_page :: "pull_request_service \<Rightarrow> (nat \<Rightarrow> env) \<Rightarrow> push_world \<Rightarrow> string \<Rightarrow> string
    \<Rightarrow> string option \<Rightarrow> string \<Rightarrow> nat
    \<Rightarrow> push_world \<times> (pull_request_error, repository_record \<times> pull_request_record record_page \<times> bool) result" where
  "pull_request_list_page s envs w owner repository actor state page =
     (case try_then (validate_viewer owner repository actor) (\<lambda>_.
           if state \<notin> {''all'', ''open'', ''closed'', ''merged''} \<or> page = 0 \<or> page > 10000
           then Err PrState else Ok ()) of
        Inl e \<Rightarrow> (w, Err e)
      | Inr _ \<Rightarrow>
          (case recover_inner s envs w of
             (w, Inl e) \<Rightarrow> (w, Err e)
           | (w, Inr _) \<Rightarrow>
               (w, try_then (map_err PrStore (pull_request_page (pw_db w) owner repository actor state page PAGE_SIZE))
                 (\<lambda>(record, result, writable).
                 if page > 1 \<and> rp_items result = [] then Err PrState else Ok (record, result, writable)))))"

definition pull_request_edit_content :: "env \<Rightarrow> int option \<Rightarrow> push_world \<Rightarrow> string \<Rightarrow> string \<Rightarrow> int \<Rightarrow> string \<Rightarrow> string
    \<Rightarrow> string \<Rightarrow> push_world \<times> (pull_request_error, unit) result" where
  "pull_request_edit_content env clock w owner repository number actor title body =
     (case try_then (validate_pull_request_context owner repository actor) (\<lambda>_.
           if number < 1 then Err PrNumber
           else try_then (validate_content title body) (\<lambda>_. ok_or PrClock clock)) of
        Inl e \<Rightarrow> (w, Err e)
      | Inr changed_at \<Rightarrow>
          pull_request_store w (edit_pull_request env (pw_db w)
            \<lparr>pe_owner = owner, pe_repository = repository, pe_number = number, pe_actor = actor, pe_title = title,
             pe_body = body, pe_changed_at = changed_at\<rparr>))"

definition pull_request_set_state :: "env \<Rightarrow> int option \<Rightarrow> push_world \<Rightarrow> string \<Rightarrow> string \<Rightarrow> int \<Rightarrow> string \<Rightarrow> string
    \<Rightarrow> push_world \<times> (pull_request_error, unit) result" where
  "pull_request_set_state env clock w owner repository number actor state =
     (case try_then (validate_pull_request_context owner repository actor) (\<lambda>_.
           if number < 1 then Err PrNumber
           else if state \<notin> {''open'', ''closed''} then Err PrState
           else ok_or PrClock clock) of
        Inl e \<Rightarrow> (w, Err e)
      | Inr changed_at \<Rightarrow>
          pull_request_store w (set_pull_request_state env (pw_db w) owner repository number actor state changed_at))"

definition page_in_range :: "nat \<Rightarrow> bool" where
  "page_in_range page \<longleftrightarrow> page \<noteq> 0 \<and> page \<le> 10000"

text \<open>The revision that a request names, or the latest one.\<close>

definition select_revision :: "pull_request_detail \<Rightarrow> int option
    \<Rightarrow> (pull_request_error, pull_request_revision_record) result" where
  "select_revision detail revision =
     ok_or PrRevision
       (case revision of
          Some number \<Rightarrow> find (\<lambda>v. prv_number v = number) (pd_revisions detail)
        | None \<Rightarrow> if pd_revisions detail = [] then None else Some (last (pd_revisions detail)))"

definition compare_with_activity :: "pull_request_service \<Rightarrow> (nat \<Rightarrow> env) \<Rightarrow> push_world \<Rightarrow> string \<Rightarrow> string \<Rightarrow> int
    \<Rightarrow> int option \<Rightarrow> string option \<Rightarrow> (nat \<times> nat) option
    \<Rightarrow> push_world \<times> (pull_request_error, pull_request_comparison) result" where
  "compare_with_activity s envs w owner repository number revision actor activity =
     (case try_then (validate_viewer owner repository actor) (\<lambda>_.
           if number < 1 \<or> (case revision of None \<Rightarrow> False | Some number \<Rightarrow> number < 1)
             \<or> (case activity of None \<Rightarrow> False
                 | Some (reviews_page, timeline_page) \<Rightarrow> \<not> page_in_range reviews_page \<or> \<not> page_in_range timeline_page)
           then Err PrNumber else Ok ()) of
        Inl e \<Rightarrow> (w, Err e)
      | Inr _ \<Rightarrow>
          (case recover_inner s envs w of
             (w, Inl e) \<Rightarrow> (w, Err e)
           | (w, Inr _) \<Rightarrow>
               (w,
                try_then (map_err PrStore
                  (case activity of
                     Some (reviews_page, timeline_page) \<Rightarrow>
                       pull_request_detail_page (pw_db w) owner repository number actor
                         \<lparr>tp_primary_page = reviews_page, tp_timeline_page = timeline_page, tp_page_size = PAGE_SIZE\<rparr>
                   | None \<Rightarrow> get_pull_request (pw_db w) owner repository number actor)) (\<lambda>detail.
                if (case activity of None \<Rightarrow> False
                    | Some (reviews_page, timeline_page) \<Rightarrow>
                        reviews_page > 1 \<and> pd_reviews detail = [] \<or> timeline_page > 1 \<and> pd_timeline detail = [])
                then Err PrNumber
                else
                  try_then (select_revision detail revision) (\<lambda>v.
                  try_then (managed_path s (rr_id (pd_repository detail))) (\<lambda>path.
                  try_then (open_reader s w path) (\<lambda>reader.
                  try_then (parse_stored_id (prs_gix s) (prv_base_object_id v)) (\<lambda>base.
                  try_then (parse_stored_id (prs_gix s) (prv_head_object_id v)) (\<lambda>head.
                  try_then (read_comparison s reader base head) (\<lambda>comparison.
                  Ok \<lparr>prc_detail = detail, prc_revision = v, prc_comparison = comparison\<rparr>))))))))))"

definition compare_page :: "pull_request_service \<Rightarrow> (nat \<Rightarrow> env) \<Rightarrow> push_world \<Rightarrow> string \<Rightarrow> string \<Rightarrow> int
    \<Rightarrow> int option \<Rightarrow> string option \<Rightarrow> activity_pages
    \<Rightarrow> push_world \<times> (pull_request_error, pull_request_comparison) result" where
  "compare_page s envs w owner repository number revision actor pages =
     compare_with_activity s envs w owner repository number revision actor
       (Some (ap_reviews pages, ap_timeline pages))"

section \<open>Reviews\<close>

text \<open>The number of lines of a blob, which a last line without newline counts for.\<close>

definition line_count :: "blob \<Rightarrow> nat" where
  "line_count data =
     (if data = [] then 0
      else length (split_on (byte_of_char newline) data)
        - (if last data = byte_of_char newline then 1 else 0))"

text \<open>The commit that a line comment is anchored to.\<close>

definition review_anchor :: "pull_request_service \<Rightarrow> push_world \<Rightarrow> pull_request_detail
    \<Rightarrow> pull_request_revision_record \<Rightarrow> pull_request_review_request \<Rightarrow> (pull_request_error, oid) result" where
  "review_anchor s w detail revision review =
     try_then (ok_or PrReviewAnchor (prq_path review)) (\<lambda>path.
     try_then (ok_or PrReviewAnchor (prq_side review)) (\<lambda>side.
     try_then (ok_or PrReviewAnchor (prq_line review)) (\<lambda>line.
     try_then (managed_path s (rr_id (pd_repository detail))) (\<lambda>path_to_repository.
     try_then (open_reader s w path_to_repository) (\<lambda>reader.
     try_then (parse_stored_id (prs_gix s) (prv_base_object_id revision)) (\<lambda>base.
     try_then (parse_stored_id (prs_gix s) (prv_head_object_id revision)) (\<lambda>head.
     try_then (read_comparison s reader base head) (\<lambda>comparison.
     try_then (ok_or PrReviewAnchor
       (case find (\<lambda>file. df_path file = path) (cmp_files comparison) of
          None \<Rightarrow> None | Some file \<Rightarrow> if df_binary file then None else Some file)) (\<lambda>file.
     try_then
       (if side = ''base'' then Ok (base, df_old_id file \<noteq> None)
        else if side = ''head'' then Ok (head, df_new_id file \<noteq> None)
        else Err PrReviewAnchor) (\<lambda>(commit, exists).
     if \<not> exists then Err PrReviewAnchor
     else
       try_then (map_err (\<lambda>reason. PrRead (ReadFailure reason)) (prs_blob s reader commit path)) (\<lambda>data.
       if line < 1 \<or> line > int (line_count data) then Err PrReviewAnchor else Ok commit)))))))))))"

definition pull_request_review :: "pull_request_service \<Rightarrow> env \<Rightarrow> (nat \<Rightarrow> env) \<Rightarrow> int option \<Rightarrow> push_world
    \<Rightarrow> pull_request_review_request \<Rightarrow> push_world \<times> (pull_request_error, string) result" where
  "pull_request_review s env envs clock w review =
     (let owner = prq_owner review; repository = prq_repository review; actor = prq_actor review in
      case try_then (validate_pull_request_context owner repository actor) (\<lambda>_.
           if prq_number review < 1 \<or> prq_revision review < 1 then Err PrNumber
           else validate_review (prq_kind review) (prq_body review) (prq_path review) (prq_side review)
             (prq_line review)) of
        Inl e \<Rightarrow> (w, Err e)
      | Inr _ \<Rightarrow>
          (case recover_inner s envs w of
             (w, Inl e) \<Rightarrow> (w, Err e)
           | (w, Inr _) \<Rightarrow>
               (case try_then (map_err PrStore (get_pull_request (pw_db w) owner repository (prq_number review)
                       (Some actor))) (\<lambda>detail.
                     if prr_state (pd_pull_request detail) \<noteq> ''open'' then Err (PrStore PullRequestState)
                     else
                       try_then (ok_or PrRevision
                         (find (\<lambda>v. prv_number v = prq_revision review) (pd_revisions detail))) (\<lambda>revision.
                       try_then (if prq_kind review = ''line-comment''
                         then try_then (review_anchor s w detail revision review) (\<lambda>commit. Ok (Some commit))
                         else Ok None) (\<lambda>commit_object_id.
                       try_then (ok_or PrClock clock) (\<lambda>created_at.
                       map_err PrStore (create_pull_request_review env (pw_db w)
                         \<lparr>npr_owner = owner, npr_repository = repository, npr_number = prq_number review,
                          npr_revision = prq_revision review, npr_actor = actor, npr_kind = prq_kind review,
                          npr_body = prq_body review, npr_commit_object_id = commit_object_id,
                          npr_path = prq_path review, npr_side = prq_side review, npr_line = prq_line review,
                          npr_created_at = created_at\<rparr>))))) of
                  Inl e \<Rightarrow> (w, Err e)
                | Inr (db, ident) \<Rightarrow> (w\<lparr>pw_db := db\<rparr>, Ok ident))))"

section \<open>Merges\<close>

record merge_plan =
  mp_path :: string
  mp_git :: git_repository
  mp_base_ref :: string
  mp_base :: oid
  mp_head :: oid
  mp_target :: oid
  mp_intent_id :: string
  mp_created_at :: int
  mp_message :: string

definition merge_message :: "int \<Rightarrow> pull_request_record \<Rightarrow> string" where
  "merge_message number p =
     ''Merge pull request #'' @ show_int number @ '' from '' @ prr_head_ref p @ [newline, newline] @ prr_title p"

text \<open>The checks of a merge, and the commit that the base branch will move to.\<close>

definition plan_merge :: "pull_request_service \<Rightarrow> (nat \<Rightarrow> string option) \<Rightarrow> int option \<Rightarrow> push_world \<Rightarrow> string \<Rightarrow> string
    \<Rightarrow> int \<Rightarrow> string \<Rightarrow> string \<Rightarrow> (pull_request_error, merge_plan \<times> pull_request_revision_record) result" where
  "plan_merge s ids clock w owner repository number actor method =
     try_then (map_err PrStore (get_pull_request (pw_db w) owner repository number (Some actor))) (\<lambda>detail.
     let p = pd_pull_request detail in
     if prr_state p \<noteq> ''open'' then Err (PrStore PullRequestState)
     else
       try_then (map_err (\<lambda>e. case e of Denied \<Rightarrow> PrStore PullRequestDenied | e \<Rightarrow> PrPolicy e)
         (authorize_merge (pw_db w) actor owner repository)) (\<lambda>_.
       try_then (select_revision detail None) (\<lambda>revision.
       try_then (open_managed s w (rr_id (pd_repository detail))) (\<lambda>(path, git).
       try_then (map_err PrGit (resolve_branch (prs_gix s) git (prr_base_ref p))) (\<lambda>base.
       try_then (map_err PrGit (resolve_branch (prs_gix s) git (prr_head_ref p))) (\<lambda>head.
       if base \<noteq> prv_base_object_id revision \<or> head \<noteq> prv_head_object_id revision then Err PrStaleRevision
       else
         try_then (open_reader s w path) (\<lambda>reader.
         try_then (read_comparison s reader base head) (\<lambda>comparison.
         try_then (ok_or PrRandom (ids 0)) (\<lambda>intent_id.
         try_then (ok_or PrClock clock) (\<lambda>created_at.
         try_then
           (if method = ''fast-forward'' \<and> cmp_mergeability comparison = FastForwardMerge then Ok head
            else if method = ''merge-commit'' \<and> cmp_mergeability comparison = CleanMerge
            then map_err PrGit (write_merge_commit (prs_memory s) git base head actor created_at
              (merge_message number p))
            else Err PrMergeability) (\<lambda>new_target.
         Ok (\<lparr>mp_path = path, mp_git = git, mp_base_ref = prr_base_ref p, mp_base = base, mp_head = head,
              mp_target = new_target, mp_intent_id = intent_id, mp_created_at = created_at,
              mp_message = merge_message number p\<rparr>, revision))))))))))))"

definition begin_merge :: "push_world \<Rightarrow> merge_plan \<Rightarrow> string \<Rightarrow> string \<Rightarrow> int \<Rightarrow> int \<Rightarrow> string \<Rightarrow> string
    \<Rightarrow> (store_error, database) result" where
  "begin_merge w plan owner repository number revision actor method =
     begin_pull_request_merge (pw_db w)
       \<lparr>npm_owner = owner, npm_repository = repository, npm_number = number, npm_revision = revision,
        npm_actor = actor, npm_method = method, npm_base_ref = mp_base_ref plan, npm_old_target = mp_base plan,
        npm_head_target = mp_head plan, npm_new_target = mp_target plan, npm_created_at = mp_created_at plan\<rparr>
       \<lparr>ngi_id = mp_intent_id plan, ngi_repository_path = mp_path plan, ngi_actor = actor,
        ngi_initial_refs = serialize_branch (mp_base plan) (mp_base_ref plan),
        ngi_proposed_refs = serialize_branch (mp_target plan) (mp_base_ref plan),
        ngi_event_payload = serialize_branch (mp_target plan) (mp_base_ref plan),
        ngi_quarantine_path = quarantine_path (mp_path plan) (mp_intent_id plan),
        ngi_created_at = mp_created_at plan\<rparr>"

text \<open>Run a store operation that must succeed before an error is returned.\<close>

definition then_fail :: "push_world \<Rightarrow> (store_error, database) result \<Rightarrow> pull_request_error
    \<Rightarrow> push_world \<times> (pull_request_error, unit) result" where
  "then_fail w m error =
     (case pull_request_store w m of (w, Inl e) \<Rightarrow> (w, Err e) | (w, Inr _) \<Rightarrow> (w, Err error))"

text \<open>Writing the merge commit, after the intent is recorded, and marking the objects as there.\<close>

definition merge_objects :: "pull_request_service \<Rightarrow> push_world \<Rightarrow> merge_plan \<Rightarrow> string \<Rightarrow> string
    \<Rightarrow> push_world \<times> (pull_request_error, unit) result" where
  "merge_objects s w plan actor method =
     (case (if method = ''merge-commit''
            then map_sum PrGit (\<lambda>written. written = mp_target plan)
              (write_merge_commit (prs_merge s) (mp_git plan) (mp_base plan) (mp_head plan) actor
                (mp_created_at plan) (mp_message plan))
            else Ok True) of
        Inl e \<Rightarrow> then_fail w (abandon_git_intent (pw_db w) (mp_intent_id plan)) e
      | Inr same \<Rightarrow>
          if same then pull_request_store w (mark_git_objects_promoted (pw_db w) (mp_intent_id plan) None)
          else then_fail w (abandon_git_intent (pw_db w) (mp_intent_id plan)) PrNonDeterministicMerge)"

text \<open>Moving the base branch, and completing the intent.\<close>

definition merge_ref :: "pull_request_service \<Rightarrow> env \<Rightarrow> string option \<Rightarrow> push_world \<Rightarrow> merge_plan
    \<Rightarrow> push_world \<times> (pull_request_error, unit) result option" where
  "merge_ref s env crash w plan =
     (case update_reference_with_log (prs_gix s) (mp_git plan) (mp_base_ref plan) (Some (mp_base plan))
             (mp_target plan) of
        Inl error \<Rightarrow>
          (case reference_target (prs_gix s) (mp_git plan) (mp_base_ref plan) of
             Inl e \<Rightarrow> (w, Some (Err (PrGit e)))
           | Inr current \<Rightarrow>
               apsnd Some (then_fail w
                 (if current = Some (mp_target plan) then complete_git_intent env (pw_db w) (mp_intent_id plan)
                  else abandon_git_intent (pw_db w) (mp_intent_id plan)) (PrGit error)))
      | Inr git \<Rightarrow>
          let w = put_repository w (mp_path plan) git in
          if crash = Some ''merge-ref'' then (w, None)
          else apsnd Some (pull_request_store w (complete_git_intent env (pw_db w) (mp_intent_id plan))))"

definition pull_request_merge :: "pull_request_service \<Rightarrow> env \<Rightarrow> (nat \<Rightarrow> env) \<Rightarrow> (nat \<Rightarrow> string option) \<Rightarrow> int option
    \<Rightarrow> string option \<Rightarrow> push_world \<Rightarrow> string \<Rightarrow> string \<Rightarrow> int \<Rightarrow> string \<Rightarrow> string
    \<Rightarrow> push_world \<times> (pull_request_error, pull_request_record) result option" where
  "pull_request_merge s env envs ids clock crash w owner repository number actor method =
     (case try_then (validate_pull_request_context owner repository actor) (\<lambda>_.
           if number < 1 \<or> method \<notin> {''fast-forward'', ''merge-commit''} then Err PrMergeMethod else Ok ()) of
        Inl e \<Rightarrow> (w, Some (Err e))
      | Inr _ \<Rightarrow>
          (case recover_inner s envs w of
             (w, Inl e) \<Rightarrow> (w, Some (Err e))
           | (w, Inr _) \<Rightarrow>
               (case try_then (plan_merge s ids clock w owner repository number actor method) (\<lambda>(plan, revision).
                     try_then (map_err PrStore (begin_merge w plan owner repository number (prv_number revision)
                       actor method)) (\<lambda>db. Ok (plan, db))) of
                  Inl e \<Rightarrow> (w, Some (Err e))
                | Inr (plan, db) \<Rightarrow>
                    let w = w\<lparr>pw_db := db\<rparr> in
                    if crash = Some ''merge-intent'' then (w, None)
                    else
                      (case merge_objects s w plan actor method of
                         (w, Inl e) \<Rightarrow> (w, Some (Err e))
                       | (w, Inr _) \<Rightarrow>
                           if crash = Some ''merge-objects'' then (w, None)
                           else
                             (case merge_ref s env crash w plan of
                                (w, None) \<Rightarrow> (w, None)
                              | (w, Some (Inl e)) \<Rightarrow> (w, Some (Err e))
                              | (w, Some (Inr _)) \<Rightarrow>
                                  if crash = Some ''merge-completed'' then (w, None)
                                  else (w, Some (try_then (map_err PrStore (get_pull_request (pw_db w) owner repository
                                      number (Some actor))) (\<lambda>detail. Ok (pd_pull_request detail)))))))))"

end
