(* ===== verification/Pull_Request_Recovery.thy ===== *)
theory Pull_Request_Recovery
  imports Pull_Request_Service
begin

text \<open>
  Crashes and interleavings of the pull request service. Opening and revising a pull request are reduced to their
  common end, \<open>settle_ref_intent\<close>, from the recorded intent on; recovery from each of its crash points leads to the
  world that the undisturbed run leaves. Closing a pull request takes no part in this protocol, and the last section
  shows what it does to a revision that is under way.
\<close>

section \<open>What the store operations do to the intents\<close>

abbreviation ref_intents :: "database \<Rightarrow> pull_request_ref_intent list" where
  "ref_intents \<equiv> db_pull_request_ref_intent"

lemma none_pending:
  "incomplete_pull_request_ref_intents db = [] \<longleftrightarrow> (\<forall>i\<in>set (ref_intents db). rint_state i \<noteq> ''pending'')"
proof -
  have "set (incomplete_pull_request_ref_intents db) = {i \<in> set (ref_intents db). rint_state i = ''pending''}"
    by (auto simp: incomplete_pull_request_ref_intents_def)
  then show ?thesis unfolding set_empty [symmetric] by auto
qed

lemma ref_incomplete_last:
  assumes "incomplete_pull_request_ref_intents db = []" and "ref_intents db' = ref_intents db @ [r]"
  shows "incomplete_pull_request_ref_intents db' = (if rint_state r = ''pending'' then [r] else [])"
proof -
  have "filter (\<lambda>i. rint_state i = ''pending'') (ref_intents db) = []"
    using assms(1) by (simp add: none_pending filter_empty_conv)
  then show ?thesis using assms(2) by (simp add: incomplete_pull_request_ref_intents_def)
qed

lemma ensure_counter_intents:
  "ensures (ensure_counter db r) (\<lambda>db'. ref_intents db' = ref_intents db \<and> intents db' = intents db)"
  unfolding ensure_counter_def by (auto intro!: wp sql_wp)

lemma next_number_intents:
  "ensures (next_pull_request_number db r)
     (\<lambda>(db', n). ref_intents db' = ref_intents db \<and> intents db' = intents db)"
  unfolding next_pull_request_number_def by (auto intro!: wp sql_wp)

text \<open>\<open>recorded_intent\<close>: the intent is the new last row and belongs to the repository that was asked for.\<close>

definition recorded_intent :: "database \<Rightarrow> string \<Rightarrow> string \<Rightarrow> string \<Rightarrow> database \<Rightarrow> pull_request_ref_intent \<Rightarrow> bool" where
  "recorded_intent db owner repository actor db' intent \<longleftrightarrow>
     ref_intents db' = ref_intents db @ [intent] \<and> intents db' = intents db \<and> rint_state intent = ''pending''
     \<and> (\<exists>access. repository_issue_access db owner repository (Some actor) = Ok access
          \<and> rint_repository_id intent = rr_id (ria_repository access))"

lemma writable_access_Ok:
  "writable_access db i = Ok (access, actor_id) \<Longrightarrow>
     repository_issue_access db (npi_owner i) (npi_repository i) (Some (npi_actor i)) = Ok access"
  by (auto simp: writable_access_def split: if_splits)

lemma begin_open_records:
  "ensures (begin_pull_request_open db i)
     (\<lambda>(db', intent). recorded_intent db (npi_owner i) (npi_repository i) (npi_actor i) db' intent)"
  unfolding begin_pull_request_open_def insert_pull_request_intent_def
  by (auto intro!: wp sql_wp ensures_mono [OF ensure_counter_intents] ensures_mono [OF next_number_intents]
      dest!: writable_access_Ok simp: recorded_intent_def intent_row_def)

lemma begin_revision_records:
  "ensures (begin_pull_request_revision db n i)
     (\<lambda>(db', intent). recorded_intent db (npi_owner i) (npi_repository i) (npi_actor i) db' intent)"
  unfolding begin_pull_request_revision_def insert_pull_request_intent_def
  by (auto intro!: wp sql_wp dest!: writable_access_Ok simp: recorded_intent_def intent_row_def)

lemma apply_intents:
  "ensures (apply_pull_request_intent db i) (\<lambda>db'. ref_intents db' = ref_intents db \<and> intents db' = intents db)"
  unfolding apply_pull_request_intent_def by (auto intro!: wp sql_wp)

lemma complete_ref_intent_effect:
  "ensures (complete_pull_request_ref_intent env db ident)
     (\<lambda>db'. intents db' = intents db
        \<and> ref_intents db' = map (\<lambda>i. if rint_id i = ident \<and> rint_state i = ''pending''
            then i\<lparr>rint_state := ''completed''\<rparr> else i) (ref_intents db))"
  unfolding complete_pull_request_ref_intent_def
  by (auto intro!: wp sql_wp ensures_mono [OF apply_intents])

section \<open>Recovery of one intent\<close>

definition quiet_intents :: "database \<Rightarrow> bool" where
  "quiet_intents db \<longleftrightarrow> incomplete_git_intents db = [] \<and> incomplete_pull_request_ref_intents db = []"

lemma recover_inner_quiet: "quiet_intents (pw_db w) \<Longrightarrow> recover_inner s envs w = (w, Ok ())"
  by (simp add: recover_inner_def quiet_intents_def)

lemma recover_quiet: "quiet_intents (pw_db w) \<Longrightarrow> pull_request_recover s pushes envs w = (w, Ok ())"
  by (simp add: pull_request_recover_def recover_incomplete_pushes_def recover_inner_quiet quiet_intents_def)

text \<open>An intent has been recorded in \<open>db\<close>, for the repository \<open>git\<close> at \<open>path\<close>, and nothing else is pending.\<close>

definition begun :: "pull_request_service \<Rightarrow> push_world \<Rightarrow> string \<Rightarrow> git_repository \<Rightarrow> database
    \<Rightarrow> pull_request_ref_intent \<Rightarrow> bool" where
  "begun s w path git db intent \<longleftrightarrow>
     open_managed s w (rint_repository_id intent) = Ok (path, git) \<and> quiet_intents (pw_db w)
     \<and> ref_intents db = ref_intents (pw_db w) @ [intent] \<and> intents db = intents (pw_db w)
     \<and> rint_state intent = ''pending''"

lemma begun_incomplete:
  assumes "begun s w path git db intent"
  shows "incomplete_git_intents db = []" "incomplete_pull_request_ref_intents db = [intent]"
proof -
  have "incomplete_git_intents db = incomplete_git_intents (pw_db w)"
    using assms by (simp add: begun_def incomplete_git_intents_def)
  then show "incomplete_git_intents db = []" using assms by (simp add: begun_def quiet_intents_def)
  show "incomplete_pull_request_ref_intents db = [intent]"
    using assms ref_incomplete_last [of "pw_db w" db intent] by (simp add: begun_def quiet_intents_def)
qed

lemma completed_quiet:
  assumes "begun s w path git db intent"
    and "complete_pull_request_ref_intent env db (rint_id intent) = Ok db'"
  shows "quiet_intents db'"
proof -
  let ?f = "\<lambda>i. if rint_id i = rint_id intent \<and> rint_state i = ''pending'' then i\<lparr>rint_state := ''completed''\<rparr> else i"
  have effect: "intents db' = intents db" "ref_intents db' = map ?f (ref_intents db)"
    using ensuresD [OF complete_ref_intent_effect assms(2)] by auto
  have none: "incomplete_pull_request_ref_intents (pw_db w) = []"
    using assms(1) by (simp add: begun_def quiet_intents_def)
  then have "\<forall>i\<in>set (ref_intents (pw_db w)). rint_state i \<noteq> ''pending''" by (simp add: none_pending)
  then have "map ?f (ref_intents (pw_db w)) = ref_intents (pw_db w)" by (auto intro!: map_idI)
  then have "ref_intents db' = ref_intents (pw_db w) @ [intent\<lparr>rint_state := ''completed''\<rparr>]"
    using assms(1) effect(2) by (simp add: begun_def)
  then have "incomplete_pull_request_ref_intents db' = []" using ref_incomplete_last [OF none] by simp
  moreover have "incomplete_git_intents db' = incomplete_git_intents db"
    using effect(1) by (simp add: incomplete_git_intents_def)
  ultimately show ?thesis using begun_incomplete(1) [OF assms(1)] by (simp add: quiet_intents_def)
qed

lemma recover_single:
  assumes "incomplete_git_intents (pw_db w) = []" and "incomplete_pull_request_ref_intents (pw_db w) = [intent]"
    and "open_managed s w (rint_repository_id intent) = Ok (path, git)"
    and "recover_ref_intent (prs_gix s) (envs 0) w path git intent = (w', Ok ())"
  shows "pull_request_recover s pushes envs w = (w', Ok ())"
  using assms by (simp add: pull_request_recover_def recover_incomplete_pushes_def recover_inner_def)

lemma open_managed_Ok:
  assumes "open_managed s w i = Ok (path, git)"
  shows "pw_disk w path = Ok git" and "repo_bare git" and "managed_path s i = Ok path"
  using assms by (auto simp: open_managed_def git_open_def split: if_splits)

lemma open_managed_put:
  assumes "open_managed s w i = Ok (path, git)" and "repo_bare git'"
  shows "open_managed s (put_repository w path git') i = Ok (path, git')"
  using open_managed_Ok [OF assms(1)] assms(2) by (simp add: open_managed_def git_open_def)

lemma open_managed_db [simp]: "open_managed s (w\<lparr>pw_db := db\<rparr>) i = open_managed s w i"
  by (simp add: open_managed_def)

text \<open>The two ways in which applying an intent succeeds: the ref is moved, or it turns out to be there already.\<close>

lemma apply_intent_Ok:
  assumes "apply_intent g env crash w path git intent = (w', Some (Ok ()))"
  obtains old head db' where "intent_ids g intent = Ok (old, head)"
      "complete_pull_request_ref_intent env (pw_db w) (rint_id intent) = Ok db'"
    and "(\<exists>git'. update_reference g git (pull_request_ref (rint_pull_request_number intent)) old head = Ok git'
            \<and> w' = (put_repository w path git')\<lparr>pw_db := db'\<rparr>)
        \<or> (\<exists>e. update_reference g git (pull_request_ref (rint_pull_request_number intent)) old head = Err e
            \<and> reference_target g git (pull_request_ref (rint_pull_request_number intent)) = Ok (Some head)
            \<and> w' = w\<lparr>pw_db := db'\<rparr>)"
  using assms
  by (auto simp: apply_intent_def Let_def pull_request_store_def split: sum.splits if_splits prod.splits)

lemma reference_target_Ok: "full_name g (as_bytes name) \<Longrightarrow> reference_target g git name = Ok (repo_refs git (as_bytes name))"
  by (simp add: reference_target_def try_find_reference_def)

lemma apply_intent_recovers:
  assumes "gix_laws (prs_gix s)" and "begun s w path git db intent" and "envs 0 = env"
    and "apply_intent (prs_gix s) env None (w\<lparr>pw_db := db\<rparr>) path git intent = (w', Some (Ok ()))"
  shows "quiet_intents (pw_db w')"
    and "pull_request_recover s pushes envs (w\<lparr>pw_db := db\<rparr>) = (w', Ok ())"
    and "pull_request_recover s pushes envs
      (fst (apply_intent (prs_gix s) env (Some ''ref'') (w\<lparr>pw_db := db\<rparr>) path git intent)) = (w', Ok ())"
proof -
  let ?g = "prs_gix s" and ?w = "w\<lparr>pw_db := db\<rparr>"
  let ?name = "pull_request_ref (rint_pull_request_number intent)"
  obtain old head db' where ids: "intent_ids ?g intent = Ok (old, head)"
      and completed: "complete_pull_request_ref_intent env (pw_db ?w) (rint_id intent) = Ok db'"
      and how: "(\<exists>git'. update_reference ?g git ?name old head = Ok git'
            \<and> w' = (put_repository ?w path git')\<lparr>pw_db := db'\<rparr>)
        \<or> (\<exists>e. update_reference ?g git ?name old head = Err e \<and> reference_target ?g git ?name = Ok (Some head)
            \<and> w' = ?w\<lparr>pw_db := db'\<rparr>)"
    by (rule apply_intent_Ok [OF assms(4)])
  have complete: "complete_pull_request_ref_intent env db (rint_id intent) = Ok db'" using completed by simp
  have opened: "open_managed s w (rint_repository_id intent) = Ok (path, git)"
    using assms(2) by (simp add: begun_def)
  note disk = open_managed_Ok [OF opened]
  note pending = begun_incomplete [OF assms(2)]
  show quiet: "quiet_intents (pw_db w')" using how completed_quiet [OF assms(2) complete] by auto
  from how consider
      (moved) git' where "update_reference ?g git ?name old head = Ok git'"
        "w' = (put_repository ?w path git')\<lparr>pw_db := db'\<rparr>"
    | (there) e where "update_reference ?g git ?name old head = Err e" "reference_target ?g git ?name = Ok (Some head)"
        "w' = ?w\<lparr>pw_db := db'\<rparr>"
    by blast
  then have "pull_request_recover s pushes envs ?w = (w', Ok ())
    \<and> pull_request_recover s pushes envs (fst (apply_intent ?g env (Some ''ref'') ?w path git intent)) = (w', Ok ())"
  proof cases
    case moved
    note update = update_reference_Ok [OF assms(1) moved(1)]
    have bare: "repo_bare git'" using disk(2) update(3) by simp
    have same: "put_repository (w\<lparr>pw_db := d\<rparr>) path git' = w\<lparr>pw_db := d\<rparr>" if "old = Some head" for d
      using that update_reference_self [OF assms(1), of git ?name head git'] moved(1) restore_repository [OF disk(1)]
      by (simp add: put_repository_def)
    have "recover_ref_intent ?g env ?w path git intent = (w', Ok ())"
      using ids complete update(1,2) moved same
      by (auto simp: recover_ref_intent_def Let_def reference_target_Ok pull_request_store_def)
    then have "pull_request_recover s pushes envs ?w = (w', Ok ())"
      using pending opened assms(3) by (intro recover_single [where path = path and git = git]) simp_all
    moreover have "recover_ref_intent ?g env (put_repository ?w path git') path git' intent = (w', Ok ())"
      using ids complete update(2,3) moved(2)
      by (simp add: recover_ref_intent_def Let_def reference_target_Ok pull_request_store_def)
    then have "pull_request_recover s pushes envs (put_repository ?w path git') = (w', Ok ())"
      using pending open_managed_put [of s ?w, OF _ bare] opened assms(3)
      by (intro recover_single [where path = path and git = git' and intent = intent]) simp_all
    moreover have "fst (apply_intent ?g env (Some ''ref'') ?w path git intent) = put_repository ?w path git'"
      using ids moved(1) by (simp add: apply_intent_def Let_def)
    ultimately show ?thesis by simp
  next
    case there
    have "recover_ref_intent ?g env ?w path git intent = (w', Ok ())"
      using ids complete there by (simp add: recover_ref_intent_def Let_def pull_request_store_def)
    then have "pull_request_recover s pushes envs ?w = (w', Ok ())"
      using pending opened assms(3) by (intro recover_single [where path = path and git = git]) simp_all
    moreover have "fst (apply_intent ?g env (Some ''ref'') ?w path git intent) = w'"
      using ids complete there by (simp add: apply_intent_def Let_def pull_request_store_def)
    ultimately show ?thesis using recover_quiet [OF quiet] by simp
  qed
  then show "pull_request_recover s pushes envs ?w = (w', Ok ())"
    and "pull_request_recover s pushes envs (fst (apply_intent ?g env (Some ''ref'') ?w path git intent)) = (w', Ok ())"
    by simp_all
qed

lemma apply_intent_other_crash:
  "c \<noteq> ''ref'' \<Longrightarrow> apply_intent g env (Some c) w path git intent = apply_intent g env None w path git intent"
  by (simp add: apply_intent_def Let_def cong: sum.case_cong)

lemma settle_recovers:
  assumes "gix_laws (prs_gix s)" and "begun s w path git db intent" and "envs 0 = env"
    and "settle_ref_intent s env None w path git db intent owner repository number actor = (w', Some (Ok record))"
  shows "pull_request_recover s pushes envs
    (fst (settle_ref_intent s env (Some c) w path git db intent owner repository number actor)) = (w', Ok ())"
proof -
  let ?apply = "\<lambda>crash. apply_intent (prs_gix s) env crash (w\<lparr>pw_db := db\<rparr>) path git intent"
  have run: "?apply None = (w', Some (Ok ()))"
    using assms(4) by (auto simp: settle_ref_intent_def Let_def split: prod.splits option.splits sum.splits)
  note recovers = apply_intent_recovers [where envs = envs, OF assms(1-3) run]
  have "fst (settle_ref_intent s env (Some c) w path git db intent owner repository number actor)
      = (if c = ''intent'' then w\<lparr>pw_db := db\<rparr> else fst (?apply (Some c)))"
    by (simp add: settle_ref_intent_def Let_def split: prod.splits option.splits sum.splits)
  then show ?thesis
    using recovers(2,3) recover_quiet [OF recovers(1), of s pushes envs] run apply_intent_other_crash [of c]
    by (cases "c = ''ref''") auto
qed

section \<open>Opening and revising\<close>

lemma same_repository:
  "repository_authorization db owner repository actor = Ok record \<Longrightarrow>
   repository_issue_access db owner repository actor = Ok access \<Longrightarrow>
   rr_id (rar_repository record) = rr_id (ria_repository access)"
  by (auto simp: repository_authorization_def repository_issue_access_def split: option.splits)

lemma recorded_begun:
  assumes "repository_authorization (pw_db w) owner repository (Some actor) = Ok record"
    and "open_managed s w (rr_id (rar_repository record)) = Ok (path, git)"
    and "recorded_intent (pw_db w) owner repository actor db intent" and "quiet_intents (pw_db w)"
  shows "begun s w path git db intent"
proof -
  obtain access where access: "repository_issue_access (pw_db w) owner repository (Some actor) = Ok access"
      "rint_repository_id intent = rr_id (ria_repository access)"
    using assms(3) by (auto simp: recorded_intent_def)
  then have "rint_repository_id intent = rr_id (rar_repository record)"
    using same_repository [OF assms(1) access(1)] by simp
  with assms show ?thesis by (simp add: begun_def recorded_intent_def)
qed

lemma prepare_open_begins:
  assumes "prepare_open s ids clock w request = Ok (path, git, db, intent)" and "quiet_intents (pw_db w)"
  shows "begun s w path git db intent"
  using assms
  by (auto simp: prepare_open_def dest!: ensuresD [OF begin_open_records] intro!: recorded_begun)

lemma prepare_revision_begins:
  assumes "prepare_revision s ids clock w owner repository number actor = Ok (path, git, db, intent)"
    and "quiet_intents (pw_db w)"
  shows "begun s w path git db intent"
  using assms
  by (auto simp: prepare_revision_def Let_def dest!: ensuresD [OF begin_revision_records] intro!: recorded_begun
      split: if_splits)

text \<open>The undisturbed run and the run with a crash share everything up to the recorded intent.\<close>

definition settles :: "pull_request_service \<Rightarrow> env \<Rightarrow> push_world
    \<Rightarrow> (string option \<Rightarrow> push_world \<times> (pull_request_error, pull_request_record) result option) \<Rightarrow> bool" where
  "settles s env w run \<longleftrightarrow>
     (\<exists>path git db intent owner repository number actor. begun s w path git db intent
        \<and> run = (\<lambda>crash. settle_ref_intent s env crash w path git db intent owner repository number actor))"

lemma open_settles:
  assumes "quiet_intents (pw_db w)"
    and "pull_request_open s env envs ids clock None w request = (w', Some (Ok record))"
  shows "settles s env w (\<lambda>crash. pull_request_open s env envs ids clock crash w request)"
  using assms prepare_open_begins [OF _ assms(1), of s ids clock request] recover_inner_quiet [OF assms(1), of s envs]
  by (fastforce simp: pull_request_open_def settles_def split: sum.splits)

lemma revise_settles:
  assumes "quiet_intents (pw_db w)"
    and "pull_request_revise s env envs ids clock None w owner repository number actor = (w', Some (Ok record))"
  shows "settles s env w (\<lambda>crash. pull_request_revise s env envs ids clock crash w owner repository number actor)"
  using assms prepare_revision_begins [OF _ assms(1), of s ids clock owner repository number actor]
    recover_inner_quiet [OF assms(1), of s envs]
  by (fastforce simp: pull_request_revise_def settles_def split: sum.splits)


text \<open>The row that a request names, for every operation alike, and what recording a revision changes.\<close>

definition pull_request_at :: "database \<Rightarrow> string \<Rightarrow> string \<Rightarrow> int \<Rightarrow> pull_request option" where
  "pull_request_at db owner repository number =
     (case join_repository db owner repository of
        None \<Rightarrow> None
      | Some (r, n) \<Rightarrow>
          query_row pull_request_table (\<lambda>p. pr_repository_id p = repo_id r \<and> pr_number p = number) db)"

definition revision_begun :: "database \<Rightarrow> string \<Rightarrow> string \<Rightarrow> int \<Rightarrow> database \<Rightarrow> pull_request_ref_intent \<Rightarrow> bool" where
  "revision_begun db owner repository number db' intent \<longleftrightarrow>
     ref_intents db' = ref_intents db @ [intent] \<and> rint_id intent \<notin> rint_id ` set (ref_intents db)
     \<and> rint_operation intent = ''revise'' \<and> rint_state intent = ''pending''
     \<and> map_option pr_id (pull_request_at db owner repository number) = Some (rint_pull_request_id intent)
     \<and> db_pull_request db' = db_pull_request db \<and> db_repository db' = db_repository db
     \<and> db_namespace db' = db_namespace db"

section \<open>A concrete revision\<close>

definition sample_head :: oid where "sample_head = CHR ''a'' # replicate 39 (CHR ''b'')"

definition sample_site :: git_repository where
  "sample_site = \<lparr>repo_refs = [as_bytes ''refs/heads/main'' \<mapsto> id40 (CHR ''a''), as_bytes ''refs/heads/fix'' \<mapsto> sample_head,
       as_bytes ''refs/pull/1/head'' \<mapsto> id40 (CHR ''2'')],
     repo_packs = {}, repo_bare = True, repo_format = Sha1, repo_head = Some ''refs/heads/main''\<rparr>"

definition sample_pulls :: pull_request_service where
  "sample_pulls = \<lparr>prs_repositories = ''/r'', prs_gix = reference_gix, prs_canonicalize = Ok,
     prs_compare = (\<lambda>_ _ _. Ok \<lparr>cmp_files = [], cmp_mergeability = FastForwardMerge\<rparr>),
     prs_blob = (\<lambda>_ _ _. Err ''no such path''),
     prs_memory = \<lparr>merge_commits = (\<lambda>_ _ _. Err ''none''), write_object = (\<lambda>_ _. Err ''none'')\<rparr>,
     prs_merge = \<lparr>merge_commits = (\<lambda>_ _ _. Err ''none''), write_object = (\<lambda>_ _. Err ''none'')\<rparr>\<rparr>"

definition sample_site_path :: string where "sample_site_path = ''/r/'' @ id32 (CHR ''b'') @ ''.git''"

definition sample_pull_world :: push_world where
  "sample_pull_world = \<lparr>pw_db = sample_db,
     pw_disk = (\<lambda>path. if path = sample_site_path then Ok sample_site else Err ''missing''), pw_quarantine = {}\<rparr>"

text \<open>Reading a pull request without a page returns all of its activity, which is never close to \<^verbatim>\<open>i64::MAX\<close> rows.\<close>

lemma get_pull_request_small:
  assumes "repository_issue_access db owner repository actor = Ok access" and "can_read access"
    and "find (\<lambda>(p, a). pr_number p = number) (pull_request_rows db (rr_id (ria_repository access))) = Some (p, a)"
    and "length (pull_request_reviews db (pr_id p)) < 2 ^ 63"
    and "length (timeline db (\<lambda>e. ev_pull_request_id e = Some (pr_id p))) < 2 ^ 63"
  shows "\<exists>detail. get_pull_request db owner repository number actor = Ok detail
    \<and> pd_pull_request detail = pull_request_from_row p a"
  using assms by (simp add: get_pull_request_def pull_request_with_activity_def activity_slice_def Let_def)

definition sample_revision :: new_pull_request_ref_intent where
  "sample_revision =
     \<lparr>npi_id = id32 (CHR ''9''), npi_pull_request_id = id32 (CHR ''5''), npi_owner = ''acme'', npi_repository = ''site'',
      npi_actor = ''bob'', npi_title = ''Fix link'', npi_body = [], npi_base_ref = ''refs/heads/main'',
      npi_head_ref = ''refs/heads/fix'', npi_base_object_id = id40 (CHR ''a''), npi_head_object_id = sample_head,
      npi_created_at = 9\<rparr>"

definition sample_intent :: pull_request_ref_intent where
  "sample_intent = intent_row sample_revision
     \<lparr>pii_repository_id = id32 (CHR ''b''), pii_author_account_id = 2, pii_pull_request_number = 1,
      pii_revision_number = 2, pii_old_head_object_id = Some (id40 (CHR ''2'')), pii_operation = ''revise''\<rparr>"

definition sample_intended :: database where
  "sample_intended = sample_db\<lparr>db_pull_request_ref_intent := [sample_intent]\<rparr>"

definition sample_revised :: database where
  "sample_revised = projr (complete_pull_request_ref_intent sample_env sample_intended (id32 (CHR ''9'')))"

definition bob_access :: repository_issue_access_t where
  "bob_access = projr (repository_issue_access sample_db ''acme'' ''site'' (Some ''bob''))"

definition sample_pull :: pull_request where "sample_pull = hd (db_pull_request sample_db)"
definition bob_account :: account where "bob_account = db_account sample_db ! 1"
definition sample_record :: pull_request_record where "sample_record = pull_request_from_row sample_pull bob_account"

text \<open>What the revised database still shows; evaluated once for all of it.\<close>

definition shows_pull :: "database \<Rightarrow> bool" where
  "shows_pull db \<longleftrightarrow>
     repository_issue_access db ''acme'' ''site'' (Some ''bob'') = Ok bob_access
     \<and> map_option (\<lambda>(p, a). pr_id p)
         (find (\<lambda>(p, a). pr_number p = 1) (pull_request_rows db (id32 (CHR ''b'')))) = Some (id32 (CHR ''5''))
     \<and> db_pull_request_review db = []
     \<and> length (timeline db (\<lambda>e. ev_pull_request_id e = Some (id32 (CHR ''5'')))) \<le> 1"

lemma sample_begins: "begin_pull_request_revision sample_db 1 sample_revision = Ok (sample_intended, sample_intent)"
  by code_simp

text \<open>One evaluation for what the completed revision leads to.\<close>

lemma sample_completion:
  "case complete_pull_request_ref_intent sample_env sample_intended (id32 (CHR ''9'')) of
     Inl _ \<Rightarrow> False | Inr db \<Rightarrow> shows_pull db \<and> shows_pull sample_db"
  by code_simp

lemma sample_completes: "complete_pull_request_ref_intent sample_env sample_intended (id32 (CHR ''9'')) = Ok sample_revised"
  using sample_completion by (auto simp: sample_revised_def split: sum.splits)

lemma sample_shows_pull: "shows_pull sample_db" and revised_shows_pull: "shows_pull sample_revised"
  using sample_completion by (auto simp: sample_revised_def split: sum.splits)

lemma sample_access:
  "repository_issue_access sample_db ''acme'' ''site'' (Some ''bob'') = Ok bob_access"
  "can_read bob_access" "rr_id (ria_repository bob_access) = id32 (CHR ''b'')"
  by code_simp+

lemma sample_row:
  "find (\<lambda>(p, a). pr_number p = 1) (pull_request_rows sample_db (id32 (CHR ''b''))) = Some (sample_pull, bob_account)"
  by code_simp

lemma no_reviews: "db_pull_request_review db = [] \<Longrightarrow> pull_request_reviews db i = []"
  by (simp add: pull_request_reviews_def)

lemma shows_pull_detail:
  assumes "shows_pull db"
  obtains detail p a where "get_pull_request db ''acme'' ''site'' 1 (Some ''bob'') = Ok detail"
    and "find (\<lambda>(p, a). pr_number p = 1) (pull_request_rows db (id32 (CHR ''b''))) = Some (p, a)"
    and "pd_pull_request detail = pull_request_from_row p a"
proof -
  obtain p a where found: "find (\<lambda>(p, a). pr_number p = 1) (pull_request_rows db (id32 (CHR ''b''))) = Some (p, a)"
      "pr_id p = id32 (CHR ''5'')"
    using assms by (auto simp: shows_pull_def)
  have access: "repository_issue_access db ''acme'' ''site'' (Some ''bob'') = Ok bob_access"
    using assms by (simp add: shows_pull_def)
  have "\<exists>detail. get_pull_request db ''acme'' ''site'' 1 (Some ''bob'') = Ok detail
    \<and> pd_pull_request detail = pull_request_from_row p a"
    using found sample_access(3) assms
    by (intro get_pull_request_small [OF access sample_access(2)]) (auto simp: shows_pull_def no_reviews)
  then show thesis using that found(1) by blast
qed

lemma sample_detail:
  obtains detail where "get_pull_request sample_db ''acme'' ''site'' 1 (Some ''bob'') = Ok detail"
    and "pd_pull_request detail = sample_record"
  using shows_pull_detail [OF sample_shows_pull] sample_row by (auto simp: sample_record_def)

lemma sample_opened: "open_managed sample_pulls sample_pull_world (id32 (CHR ''b'')) = Ok (sample_site_path, sample_site)"
proof -
  have "managed_path sample_pulls (id32 (CHR ''b'')) = Ok sample_site_path" by code_simp
  then show ?thesis
    by (simp add: open_managed_def git_open_def sample_pull_world_def sample_site_def)
qed

lemma sample_branches:
  "resolve_branch reference_gix sample_site ''refs/heads/main'' = Ok (id40 (CHR ''a''))"
  "resolve_branch reference_gix sample_site ''refs/heads/fix'' = Ok sample_head"
  by code_simp+

lemma sample_prepares:
  "prepare_revision sample_pulls (\<lambda>_. Some (id32 (CHR ''9''))) (Some 9) sample_pull_world ''acme'' ''site'' 1 ''bob''
   = Ok (sample_site_path, sample_site, sample_intended, sample_intent)"
proof -
  have p: "prr_state sample_record = ''open''" "prr_base_ref sample_record = ''refs/heads/main''" "prr_head_ref sample_record = ''refs/heads/fix''" "prr_id sample_record = id32 (CHR ''5'')"
    "prr_title sample_record = ''Fix link''" "prr_body sample_record = []" "prr_head_object_id sample_record \<noteq> sample_head"
    by code_simp+
  obtain detail where detail: "get_pull_request sample_db ''acme'' ''site'' 1 (Some ''bob'') = Ok detail"
      "pd_pull_request detail = sample_record"
    by (rule sample_detail)
  obtain authorization where auth: "repository_authorization sample_db ''acme'' ''site'' (Some ''bob'') = Ok authorization"
    using sample_access(1) by (auto simp: repository_issue_access_def repository_authorization_def split: option.splits)
  have ident: "rr_id (rar_repository authorization) = id32 (CHR ''b'')"
    using same_repository [OF auth sample_access(1)] sample_access(3) by simp
  have world: "pw_db sample_pull_world = sample_db" "prs_gix sample_pulls = reference_gix"
    by (simp_all add: sample_pull_world_def sample_pulls_def)
  show ?thesis
    using p sample_begins
    by (simp add: prepare_revision_def world detail auth ident sample_opened sample_branches
        sample_revision_def Let_def)
qed

lemma sample_applies:
  "\<exists>git'. apply_intent reference_gix sample_env None (sample_pull_world\<lparr>pw_db := sample_intended\<rparr>) sample_site_path
     sample_site sample_intent
   = ((put_repository sample_pull_world sample_site_path git')\<lparr>pw_db := sample_revised\<rparr>, Some (Ok ()))"
proof -
  have ids: "intent_ids reference_gix sample_intent = Ok (Some (id40 (CHR ''2'')), sample_head)" by code_simp
  have number: "rint_pull_request_number sample_intent = 1" "rint_id sample_intent = id32 (CHR ''9'')"
    by (simp_all add: sample_intent_def intent_row_def sample_revision_def)
  have "\<not> isl (update_reference reference_gix sample_site (pull_request_ref 1) (Some (id40 (CHR ''2''))) sample_head)"
    by code_simp
  from not_isl_Ok [OF this] obtain git' where
    "update_reference reference_gix sample_site (pull_request_ref 1) (Some (id40 (CHR ''2''))) sample_head = Ok git'"
    by blast
  then show ?thesis
    using ids number sample_completes
    by (auto simp: apply_intent_def Let_def pull_request_store_def put_repository_def)
qed

lemma sample_revises:
  "\<exists>w' result. pull_request_revise sample_pulls sample_env (\<lambda>_. sample_env) (\<lambda>_. Some (id32 (CHR ''9''))) (Some 9) None
     sample_pull_world ''acme'' ''site'' 1 ''bob'' = (w', Some (Ok result))"
proof -
  have valid: "validate_pull_request_context ''acme'' ''site'' ''bob'' = Ok ()" by code_simp
  have "quiet_intents sample_db" by code_simp
  then have quiet: "recover_inner sample_pulls (\<lambda>_. sample_env) sample_pull_world = (sample_pull_world, Ok ())"
    by (intro recover_inner_quiet) (simp add: sample_pull_world_def)
  obtain detail where "get_pull_request sample_revised ''acme'' ''site'' 1 (Some ''bob'') = Ok detail"
    using shows_pull_detail [OF revised_shows_pull] by blast
  moreover have "prs_gix sample_pulls = reference_gix" by (simp add: sample_pulls_def)
  ultimately show ?thesis
    using sample_applies
    by (auto simp: pull_request_revise_def valid quiet sample_prepares settle_ref_intent_def)
qed


section \<open>Closing a pull request while it is revised\<close>

text \<open>\<^verbatim>\<open>set_state\<close> takes neither the lock of Git operations nor part in recovery.\<close>

lemma queried_at:
  assumes "repository_issue_access db owner repository actor = Ok access"
    and "query_pull_request db owner' repository' (rr_id (ria_repository access)) number = Ok p"
  shows "pull_request_at db owner repository number = Some p"
  using assms
  by (auto simp: pull_request_at_def repository_issue_access_def query_pull_request_def repository_from_row_def
      split: option.splits)

lemma begin_revision_begun:
  assumes "begin_pull_request_revision db number i = Ok (db', intent)"
  shows "revision_begun db (npi_owner i) (npi_repository i) number db' intent"
proof -
  obtain access actor_id p where access: "writable_access db i = Ok (access, actor_id)"
      and p: "query_pull_request db (npi_owner i) (npi_repository i) (rr_id (ria_repository access)) number = Ok p"
      and ident: "pr_id p = npi_pull_request_id i"
      and inserted: "exec_insert pull_request_ref_intent_table
        (\<lambda>i. repository_exists db (rint_repository_id i) \<and> account_exists db (rint_author_account_id i)) intent db = Ok db'"
      and intent: "rint_operation intent = ''revise''" "rint_state intent = ''pending''"
        "rint_pull_request_id intent = npi_pull_request_id i"
    using assms unfolding begin_pull_request_revision_def insert_pull_request_intent_def
    by (auto simp: Let_def intent_row_def split: if_splits)
  have "pull_request_at db (npi_owner i) (npi_repository i) number = Some p"
    by (rule queried_at [OF writable_access_Ok [OF access] p])
  then show ?thesis
    using inserted intent ident
    by (simp add: revision_begun_def exec_insert_Ok pull_request_ref_intent_uniq_def unique_by_append)
qed

lemma closes:
  assumes "set_pull_request_state env db owner repository number actor ''closed'' t = Ok db'"
  obtains p where "pull_request_at db owner repository number = Some p"
    and "\<forall>q\<in>set (db_pull_request db'). pr_id q = pr_id p \<longrightarrow> pr_state q = ''closed''"
    and "ref_intents db' = ref_intents db"
proof -
  obtain access p db1 n v where access: "repository_issue_access db owner repository (Some actor) = Ok access"
      and p: "query_pull_request db owner repository (rr_id (ria_repository access)) number = Ok p"
      and update: "exec_update pull_request_table (\<lambda>q. pr_id q = pr_id p)
         (\<lambda>q. q\<lparr>pr_state := ''closed'', pr_updated_at := t\<rparr>) db = Ok (db1, n)"
      and event: "insert_pull_request_event env 0 db1 (rr_id (ria_repository access)) (pr_id p) actor t v = Ok db'"
    using assms by (auto simp: set_pull_request_state_def split: if_splits)
  have "\<forall>q\<in>set (db_pull_request db1). pr_id q = pr_id p \<longrightarrow> pr_state q = ''closed''" "ref_intents db1 = ref_intents db"
    using update by (auto simp: exec_update_Ok)
  moreover have "db_pull_request db' = db_pull_request db1 \<and> ref_intents db' = ref_intents db1"
    by (rule ensuresD [OF insert_pull_request_event_wp event]) simp
  ultimately show thesis using that [OF queried_at [OF access p]] by simp
qed

text \<open>A revision whose pull request is not open any more cannot be completed.\<close>

lemma closed_incomplete:
  assumes "pull_request_intent db ident = Ok intent" and "rint_operation intent = ''revise''"
    and "\<forall>q\<in>set (db_pull_request db). pr_id q = rint_pull_request_id intent \<longrightarrow> pr_state q = ''closed''"
  shows "isl (complete_pull_request_ref_intent env db ident)"
proof (rule ccontr)
  assume "\<not> ?thesis"
  then obtain db1 where "complete_pull_request_ref_intent env db ident = Ok db1" using not_isl_Ok by blast
  then obtain db' where "apply_pull_request_intent db intent = Ok db'"
    using assms(1) by (auto simp: complete_pull_request_ref_intent_def split: if_splits)
  then have "count_rows pull_request_table (\<lambda>p. pr_id p = rint_pull_request_id intent \<and> pr_state p = ''open''
             \<and> Some (pr_head_object_id p) = rint_old_head_object_id intent) db = 1"
    using assms(2) by (auto simp: apply_pull_request_intent_def exec_update_Ok split: if_splits)
  then have "0 < count_rows pull_request_table (\<lambda>p. pr_id p = rint_pull_request_id intent \<and> pr_state p = ''open''
             \<and> Some (pr_head_object_id p) = rint_old_head_object_id intent) db"
    by simp
  then obtain q where "q \<in> set (db_pull_request db)" "pr_id q = rint_pull_request_id intent" "pr_state q = ''open''"
    unfolding count_rows_pos by auto
  with assms(3) show False by simp
qed

lemma find_last: "(\<forall>x\<in>set xs. \<not> P x) \<Longrightarrow> P y \<Longrightarrow> find P (xs @ [y]) = Some y"
  by (induction xs) auto

lemma blocked_recovery:
  assumes "\<And>env. isl (complete_pull_request_ref_intent env (pw_db w) (rint_id intent))"
  shows "isl (snd (recover_ref_intent g env w path git intent))
    \<and> pw_db (fst (recover_ref_intent g env w path git intent)) = pw_db w"
proof -
  obtain e where "complete_pull_request_ref_intent env (pw_db w) (rint_id intent) = Err e"
    using assms [of env] by (cases "complete_pull_request_ref_intent env (pw_db w) (rint_id intent)") auto
  then show ?thesis
    by (auto simp: recover_ref_intent_def Let_def pull_request_store_def split: sum.splits)
qed

lemma blocked_service:
  assumes "\<And>env. isl (complete_pull_request_ref_intent env (pw_db w) (rint_id intent))"
    and "incomplete_pull_request_ref_intents (pw_db w) = [intent]"
  shows "isl (snd (recover_inner s envs w)) \<and> pw_db (fst (recover_inner s envs w)) = pw_db w"
proof (cases "open_managed s w (rint_repository_id intent)")
  case (Inl e)
  then show ?thesis using assms(2) by (simp add: recover_inner_def)
next
  case (Inr opened)
  obtain path git where "opened = (path, git)" by (cases opened)
  then show ?thesis
    using Inr assms(2) blocked_recovery [OF assms(1), of "prs_gix s" "envs 0" path git]
    by (auto simp: recover_inner_def split: sum.splits prod.splits)
qed



end
