(* ===== verification/Repository_Service.thy ===== *)
theory Repository_Service
  imports Pull_Request_Recovery
begin

text \<open>
  The repository service, \<^verbatim>\<open>src/repository.rs\<close>: the creation of a repository on disk and in the database, its default
  branch, which lives in both places, and the settings that are in the database alone.

  The world extends the one of a push by the set of existing paths. Creation and the change of the default branch
  have no crash points in the source; where a theorem needs them, the operation takes the name of the effect after
  which the process stops. gix enters through the initialization of a repository; the listing of refs
  is an argument. File operations do not fail.

  The theorems show that a creation leaves a directory exactly when it leaves a row, that the change of the default
  branch is atomic under crashes, and when it leaves an intent that no recovery can settle.
\<close>

section \<open>Errors and state\<close>

datatype repository_service_error =
    RsAuth auth_error
  | RsRepositoryName repository_name_error
  | RsStore store_error
  | RsGit git_repository_error
  | RsCanonicalize string string
  | RsPathEscape string
  | RsIdentifierCollision
  | RsDescription
  | RsRandom
  | RsClock
  | RsDefaultBranchState

record repository_world = push_world +
  rw_paths :: "string set"

text \<open>The two gix calls of \<^verbatim>\<open>create_bare\<close>: the initialization, and how a repository reads after \<^verbatim>\<open>HEAD\<close> is
  written.\<close>

record repository_service =
  rs_root :: string
  rs_gix :: gix
  rs_init :: "string \<Rightarrow> hash_kind \<Rightarrow> (string, git_repository) result"
  rs_canonicalize :: "string \<Rightarrow> (string, string) result"
  rs_missing :: string  \<comment> \<open>the reason that gix gives for a directory that is not there\<close>
  rs_references :: "git_repository \<Rightarrow> (git_repository_error, string list) result"

definition repository_git_path :: "repository_service \<Rightarrow> string \<Rightarrow> string" where
  "repository_git_path s repository_id = path_join (rs_root s) (repository_id @ ''.git'')"

definition repository_store :: "'a push_world_scheme \<Rightarrow> (store_error, database) result
    \<Rightarrow> 'a push_world_scheme \<times> (repository_service_error, unit) result" where
  "repository_store w m = (case m of Inl e \<Rightarrow> (w, Err (RsStore e)) | Inr db \<Rightarrow> (w\<lparr>pw_db := db\<rparr>, Ok ()))"

section \<open>Validation\<close>

definition MAX_REPOSITORY_DESCRIPTION_BYTES :: nat where "MAX_REPOSITORY_DESCRIPTION_BYTES = 512"

definition validate_repository :: "string \<Rightarrow> string \<Rightarrow> (repository_service_error, unit) result" where
  "validate_repository owner repository =
     try_then (map_err RsAuth (validate_username owner)) (\<lambda>_.
     map_err RsRepositoryName (validate_slug repository))"

definition validate_maintainer :: "string \<Rightarrow> string \<Rightarrow> string \<Rightarrow> (repository_service_error, unit) result" where
  "validate_maintainer owner repository actor =
     try_then (validate_repository owner repository) (\<lambda>_. map_err RsAuth (validate_username actor))"

definition validate_description :: "string \<Rightarrow> (repository_service_error, unit) result" where
  "validate_description description =
     (if length description > MAX_REPOSITORY_DESCRIPTION_BYTES
        \<or> list_ex (\<lambda>c. is_control c \<and> c \<noteq> 10) (chars description)
      then Err RsDescription else Ok ())"

definition object_format_name :: "hash_kind \<Rightarrow> string" where
  "object_format_name kind = (case kind of Sha1 \<Rightarrow> ''sha1'' | Sha256 \<Rightarrow> ''sha256'')"

section \<open>Reads\<close>

record repository_collaborator_record =
  rcr_username :: string
  rcr_role :: string

record repository_settings =
  rse_repository :: repository_record
  rse_description :: string
  rse_collaborators :: "repository_collaborator_record list"
  rse_default_branch :: string
  rse_branches :: "string list"

definition stored_repository_settings :: "database \<Rightarrow> string \<Rightarrow> string \<Rightarrow> string
    \<Rightarrow> (store_error, repository_settings) result" where
  "stored_repository_settings db owner slug actor =
     try_then (repository_issue_access db owner slug (Some actor)) (\<lambda>access.
     if \<not> can_maintain access then Err PullRequestDenied
     else
       let repository = ria_repository access;
           description = (case query_row repository_profile_table (\<lambda>p. prof_repository_id p = rr_id repository) db of
             None \<Rightarrow> [] | Some p \<Rightarrow> prof_description p);
           collaborators = map (\<lambda>(c, a). \<lparr>rcr_username = acct_username a, rcr_role = collab_role c\<rparr>)
             (sort_key (\<lambda>(c, a). map (of_char :: char \<Rightarrow> nat) (acct_username a))
               (filter (\<lambda>(c, a). acct_id a = collab_account_id c \<and> collab_repository_id c = rr_id repository)
                 (List.product (db_repository_collaborator db) (db_account db)))) in
       try_then (repository_default_branch db owner slug) (\<lambda>branch.
       Ok \<lparr>rse_repository = repository, rse_description = description, rse_collaborators = collaborators,
           rse_default_branch = branch, rse_branches = []\<rparr>))"

definition repository_service_default_branch :: "database \<Rightarrow> string \<Rightarrow> string
    \<Rightarrow> (repository_service_error, string) result" where
  "repository_service_default_branch db owner repository =
     try_then (validate_repository owner repository) (\<lambda>_.
     map_err RsStore (repository_default_branch db owner repository))"

definition repository_service_can_manage :: "database \<Rightarrow> string \<Rightarrow> string \<Rightarrow> string
    \<Rightarrow> (repository_service_error, bool) result" where
  "repository_service_can_manage db owner repository actor =
     try_then (validate_maintainer owner repository actor) (\<lambda>_.
     map_err RsStore (repository_can_maintain db owner repository actor))"

definition repository_service_settings :: "repository_service \<Rightarrow> 'a push_world_scheme \<Rightarrow> string \<Rightarrow> string \<Rightarrow> string
    \<Rightarrow> (repository_service_error, repository_settings) result" where
  "repository_service_settings s w owner repository actor =
     try_then (validate_maintainer owner repository actor) (\<lambda>_.
     try_then (map_err RsStore (stored_repository_settings (pw_db w) owner repository actor)) (\<lambda>settings.
     try_then (map_err RsGit (git_open (pw_disk w) (repository_git_path s (rr_id (rse_repository settings)))))
       (\<lambda>git.
     try_then (map_err RsGit (rs_references s git)) (\<lambda>references.
     Ok (settings\<lparr>rse_branches := filter (\<lambda>name. starts_with name ''refs/heads/'') references\<rparr>)))))"

section \<open>The default branch\<close>

text \<open>The checks and the recorded intent; the repository that \<^verbatim>\<open>HEAD\<close> will be set in.\<close>

definition begin_default_branch :: "repository_service \<Rightarrow> string option \<Rightarrow> int option \<Rightarrow> 'a push_world_scheme
    \<Rightarrow> string \<Rightarrow> string \<Rightarrow> string \<Rightarrow> string
    \<Rightarrow> (repository_service_error, string \<times> git_repository \<times> string \<times> database) result" where
  "begin_default_branch s drawn_id clock w owner repository actor branch =
     try_then (ok_or RsClock clock) (\<lambda>changed_at.
     try_then (ok_or RsRandom drawn_id) (\<lambda>intent_id.
     try_then (map_err RsStore (stored_repository_settings (pw_db w) owner repository actor)) (\<lambda>settings.
     let path = repository_git_path s (rr_id (rse_repository settings)) in
     try_then (map_err RsGit (git_open (pw_disk w) path)) (\<lambda>git.
     try_then (map_err RsGit (resolve_branch (rs_gix s) git branch)) (\<lambda>_.
     if default_branch git \<noteq> Some (rse_default_branch settings) then Err RsDefaultBranchState
     else
       try_then (map_err RsStore (begin_repository_default_branch (pw_db w)
         \<lparr>ndb_id = intent_id, ndb_owner = owner, ndb_slug = repository, ndb_actor = actor,
          ndb_previous_branch = rse_default_branch settings, ndb_default_branch = branch,
          ndb_changed_at = changed_at\<rparr>)) (\<lambda>db.
       Ok (path, git, intent_id, db)))))))"

definition update_default_branch :: "repository_service \<Rightarrow> string option \<Rightarrow> int option \<Rightarrow> string option
    \<Rightarrow> 'a push_world_scheme \<Rightarrow> string \<Rightarrow> string \<Rightarrow> string \<Rightarrow> string
    \<Rightarrow> 'a push_world_scheme \<times> (repository_service_error, unit) result option" where
  "update_default_branch s drawn_id clock crash w owner repository actor branch =
     (case try_then (validate_maintainer owner repository actor) (\<lambda>_.
           begin_default_branch s drawn_id clock w owner repository actor branch) of
        Inl e \<Rightarrow> (w, Some (Err e))
      | Inr (path, git, intent_id, db) \<Rightarrow>
          let w = w\<lparr>pw_db := db\<rparr> in
          if crash = Some ''intent'' then (w, None)
          else
            (case set_default_branch (rs_gix s) git branch of
               Inl error \<Rightarrow>
                 (case repository_store w (abandon_repository_default_branch (pw_db w) intent_id) of
                    (w, Inl e) \<Rightarrow> (w, Some (Err e))
                  | (w, Inr _) \<Rightarrow> (w, Some (Err (RsGit error))))
             | Inr git \<Rightarrow>
                 let w = w\<lparr>pw_disk := (pw_disk w)(path := Ok git)\<rparr> in
                 if crash = Some ''head'' then (w, None)
                 else apsnd Some (repository_store w (complete_repository_default_branch (pw_db w) intent_id))))"

text \<open>One intent of the loop in \<^verbatim>\<open>recover\<close>.\<close>

definition recover_default_branch :: "repository_service \<Rightarrow> 'a push_world_scheme \<Rightarrow> repository_default_branch_intent
    \<Rightarrow> 'a push_world_scheme \<times> (repository_service_error, unit) result" where
  "recover_default_branch s w intent =
     (case git_open (pw_disk w) (repository_git_path s (bint_repository_id intent)) of
        Inl e \<Rightarrow> (w, Err (RsGit e))
      | Inr git \<Rightarrow>
          if default_branch git = Some (bint_previous_ref_name intent)
          then repository_store w (abandon_repository_default_branch (pw_db w) (bint_id intent))
          else if default_branch git = Some (bint_proposed_ref_name intent)
          then repository_store w (complete_repository_default_branch (pw_db w) (bint_id intent))
          else (w, Err RsDefaultBranchState))"

fun recover_default_branches :: "repository_service \<Rightarrow> 'a push_world_scheme \<Rightarrow> repository_default_branch_intent list
    \<Rightarrow> 'a push_world_scheme \<times> (repository_service_error, unit) result" where
  "recover_default_branches s w [] = (w, Ok ())"
| "recover_default_branches s w (intent # rest) =
     (case recover_default_branch s w intent of
        (w, Inl e) \<Rightarrow> (w, Err e)
      | (w, Inr _) \<Rightarrow> recover_default_branches s w rest)"

definition repository_recover :: "repository_service \<Rightarrow> 'a push_world_scheme
    \<Rightarrow> 'a push_world_scheme \<times> (repository_service_error, unit) result" where
  "repository_recover s w = recover_default_branches s w (incomplete_repository_default_branches (pw_db w))"

section \<open>Settings\<close>

definition update_settings :: "int option \<Rightarrow> string option \<Rightarrow> 'a push_world_scheme \<Rightarrow> string \<Rightarrow> string \<Rightarrow> string \<Rightarrow> string
    \<Rightarrow> string \<Rightarrow> 'a push_world_scheme \<times> (repository_service_error, unit) result" where
  "update_settings clock drawn_id w owner repository actor description visibility =
     (case try_then (validate_maintainer owner repository actor) (\<lambda>_.
           try_then (validate_description description) (\<lambda>_.
           try_then (ok_or RsClock clock) (\<lambda>changed_at.
           try_then (ok_or RsRandom drawn_id) (\<lambda>correlation_id. Ok (changed_at, correlation_id))))) of
        Inl e \<Rightarrow> (w, Err e)
      | Inr (changed_at, correlation_id) \<Rightarrow>
          repository_store w (update_repository_settings (pw_db w)
            \<lparr>rsu_owner = owner, rsu_slug = repository, rsu_actor = actor, rsu_description = description,
             rsu_visibility = visibility, rsu_changed_at = changed_at, rsu_correlation_id = correlation_id\<rparr>))"

definition update_collaborator :: "int option \<Rightarrow> string option \<Rightarrow> 'a push_world_scheme \<Rightarrow> string \<Rightarrow> string \<Rightarrow> string
    \<Rightarrow> string \<Rightarrow> string option \<Rightarrow> 'a push_world_scheme \<times> (repository_service_error, unit) result" where
  "update_collaborator clock drawn_id w owner repository actor username role =
     (case try_then (validate_maintainer owner repository actor) (\<lambda>_.
           try_then (map_err RsAuth (validate_username username)) (\<lambda>_.
           try_then (ok_or RsClock clock) (\<lambda>changed_at.
           try_then (ok_or RsRandom drawn_id) (\<lambda>correlation_id. Ok (changed_at, correlation_id))))) of
        Inl e \<Rightarrow> (w, Err e)
      | Inr (changed_at, correlation_id) \<Rightarrow>
          repository_store w (update_repository_collaborator (pw_db w)
            \<lparr>rcu_owner = owner, rcu_slug = repository, rcu_actor = actor, rcu_username = username, rcu_role = role,
             rcu_changed_at = changed_at, rcu_correlation_id = correlation_id\<rparr>))"

definition archive_for_actor :: "int option \<Rightarrow> string option \<Rightarrow> 'a push_world_scheme \<Rightarrow> string \<Rightarrow> string \<Rightarrow> string
    \<Rightarrow> 'a push_world_scheme \<times> (repository_service_error, unit) result" where
  "archive_for_actor clock drawn_id w owner repository actor =
     (case try_then (validate_maintainer owner repository actor) (\<lambda>_.
           try_then (ok_or RsClock clock) (\<lambda>changed_at.
           try_then (ok_or RsRandom drawn_id) (\<lambda>correlation_id. Ok (changed_at, correlation_id)))) of
        Inl e \<Rightarrow> (w, Err e)
      | Inr (changed_at, correlation_id) \<Rightarrow>
          repository_store w (archive_repository_for_actor (pw_db w) owner repository actor changed_at correlation_id))"

definition rename_for_owner :: "int option \<Rightarrow> string option \<Rightarrow> 'a push_world_scheme \<Rightarrow> string \<Rightarrow> string \<Rightarrow> string \<Rightarrow> string
    \<Rightarrow> 'a push_world_scheme \<times> (repository_service_error, unit) result" where
  "rename_for_owner clock drawn_id w owner repository new_name actor =
     (case try_then (validate_repository owner repository) (\<lambda>_.
           try_then (map_err RsRepositoryName (validate_slug new_name)) (\<lambda>_.
           try_then (map_err RsAuth (validate_username actor)) (\<lambda>_.
           try_then (ok_or RsClock clock) (\<lambda>changed_at.
           try_then (ok_or RsRandom drawn_id) (\<lambda>correlation_id. Ok (changed_at, correlation_id)))))) of
        Inl e \<Rightarrow> (w, Err e)
      | Inr (changed_at, correlation_id) \<Rightarrow>
          repository_store w
            (rename_repository_for_owner (pw_db w) owner repository new_name actor changed_at correlation_id))"

definition unarchive_for_owner :: "int option \<Rightarrow> string option \<Rightarrow> 'a push_world_scheme \<Rightarrow> string \<Rightarrow> string \<Rightarrow> string
    \<Rightarrow> 'a push_world_scheme \<times> (repository_service_error, unit) result" where
  "unarchive_for_owner clock drawn_id w owner repository actor =
     (case try_then (validate_maintainer owner repository actor) (\<lambda>_.
           try_then (ok_or RsClock clock) (\<lambda>changed_at.
           try_then (ok_or RsRandom drawn_id) (\<lambda>correlation_id. Ok (changed_at, correlation_id)))) of
        Inl e \<Rightarrow> (w, Err e)
      | Inr (changed_at, correlation_id) \<Rightarrow>
          repository_store w (unarchive_repository_for_owner (pw_db w) owner repository actor changed_at correlation_id))"

section \<open>Creation\<close>

record repository_creation =
  rc_actor :: string
  rc_owner :: string
  rc_slug :: string
  rc_object_format :: hash_kind
  rc_correlation_id :: string
  rc_created_at :: int

definition create_bare :: "repository_service \<Rightarrow> string \<Rightarrow> hash_kind \<Rightarrow> (git_repository_error, git_repository) result" where
  "create_bare s path object_format =
     try_then (map_err (GitCreate path) (rs_init s path object_format)) (\<lambda>repository.
     let repository = repository\<lparr>repo_head := Some ''refs/heads/main''\<rparr> in
     if \<not> repo_bare repository then Err (GitNotBare path)
     else if repo_format repository \<noteq> object_format then Err GitWrongObjectFormat
     else Ok repository)"

definition pending_git_path :: "repository_service \<Rightarrow> string \<Rightarrow> string" where
  "pending_git_path s ident = path_join (rs_root s) (''.pending-'' @ ident @ ''.git'')"

definition add_created_repository :: "repository_world \<Rightarrow> string \<Rightarrow> git_repository \<Rightarrow> repository_world" where
  "add_created_repository w path git =
     w\<lparr>pw_disk := (pw_disk w)(path := Ok git), rw_paths := insert path (rw_paths w)\<rparr>"

definition remove_created_repository :: "repository_service \<Rightarrow> repository_world \<Rightarrow> string \<Rightarrow> repository_world" where
  "remove_created_repository s w path =
     w\<lparr>pw_disk := (pw_disk w)(path := Err (rs_missing s)), rw_paths := rw_paths w - {path}\<rparr>"

definition create_inner :: "repository_service \<Rightarrow> env \<Rightarrow> string option \<Rightarrow> repository_world \<Rightarrow> repository_creation
    \<Rightarrow> repository_world \<times> (repository_service_error, repository_record) result" where
  "create_inner s env drawn_id w creation =
     (case drawn_id of
        None \<Rightarrow> (w, Err RsRandom)
      | Some ident \<Rightarrow>
          let pending_path = pending_git_path s ident; final_path = repository_git_path s ident in
          if pending_path \<in> rw_paths w \<or> final_path \<in> rw_paths w then (w, Err RsIdentifierCollision)
          else
            (case create_bare s pending_path (rc_object_format creation) of
               Inl e \<Rightarrow> (remove_created_repository s w pending_path, Err (RsGit e))
             | Inr git \<Rightarrow>
                 let w = add_created_repository (remove_created_repository s w pending_path) final_path git in
                 (case rs_canonicalize s final_path of
                    Inl e \<Rightarrow> (remove_created_repository s w final_path, Err (RsCanonicalize final_path e))
                  | Inr canonical_path \<Rightarrow>
                      if path_parent (path_components canonical_path) \<noteq> Some (path_components (rs_root s))
                      then (remove_created_repository s w canonical_path, Err (RsPathEscape canonical_path))
                      else
                        (case create_repository env (pw_db w)
                                \<lparr>nr_id = ident, nr_owner = rc_owner creation, nr_slug = rc_slug creation,
                                 nr_object_format = object_format_name (rc_object_format creation),
                                 nr_default_branch = ''refs/heads/main'', nr_created_at = rc_created_at creation,
                                 nr_origin = Created, nr_initial_references = [], nr_actor = rc_actor creation,
                                 nr_correlation_id = rc_correlation_id creation\<rparr> of
                           Inl e \<Rightarrow> (remove_created_repository s w canonical_path, Err (RsStore e))
                         | Inr db \<Rightarrow>
                             (w\<lparr>pw_db := db\<rparr>,
                              Ok \<lparr>rr_id = ident, rr_owner = rc_owner creation, rr_slug = rc_slug creation,
                                  rr_visibility = ''public'', rr_state = ''active'',
                                  rr_object_format = object_format_name (rc_object_format creation),
                                  rr_created_at = rc_created_at creation, rr_archived_at = None\<rparr>)))))"

definition repository_create :: "repository_service \<Rightarrow> env \<Rightarrow> string option \<Rightarrow> int option \<Rightarrow> repository_world \<Rightarrow> string
    \<Rightarrow> string \<Rightarrow> string \<Rightarrow> hash_kind \<Rightarrow> string
    \<Rightarrow> repository_world \<times> (repository_service_error, repository_record) result" where
  "repository_create s env drawn_id clock w actor owner slug object_format correlation_id =
     (case try_then (validate_repository owner slug) (\<lambda>_. ok_or RsClock clock) of
        Inl e \<Rightarrow> (w, Err e)
      | Inr created_at \<Rightarrow>
          (case create_inner s env drawn_id w
                  \<lparr>rc_actor = actor, rc_owner = owner, rc_slug = slug, rc_object_format = object_format,
                   rc_correlation_id = correlation_id, rc_created_at = created_at\<rparr> of
             (w, Inr result) \<Rightarrow> (w, Ok result)
           | (w, Inl error) \<Rightarrow>
               (case repository_store w (record_audit_event (pw_db w)
                  \<lparr>nae_action = ''repository.create'', nae_actor = actor, nae_target = owner @ ''/'' @ slug,
                   nae_outcome = ''failure'', nae_correlation_id = correlation_id, nae_created_at = created_at\<rparr>) of
                  (w, Inl e) \<Rightarrow> (w, Err e)
                | (w, Inr _) \<Rightarrow> (w, Err error))))"

definition create_for_account :: "repository_service \<Rightarrow> env \<Rightarrow> string option \<Rightarrow> int option \<Rightarrow> repository_world \<Rightarrow> string
    \<Rightarrow> string \<Rightarrow> hash_kind \<Rightarrow> string
    \<Rightarrow> repository_world \<times> (repository_service_error, repository_record) result" where
  "create_for_account s env drawn_id clock w actor slug object_format correlation_id =
     repository_create s env drawn_id clock w actor actor slug object_format correlation_id"

definition create_for_namespace :: "repository_service \<Rightarrow> env \<Rightarrow> string option \<Rightarrow> int option \<Rightarrow> repository_world
    \<Rightarrow> string \<Rightarrow> string \<Rightarrow> string \<Rightarrow> hash_kind \<Rightarrow> string
    \<Rightarrow> repository_world \<times> (repository_service_error, repository_record) result" where
  "create_for_namespace s env drawn_id clock w actor owner slug object_format correlation_id =
     repository_create s env drawn_id clock w actor owner slug object_format correlation_id"

definition create_for_administrator :: "repository_service \<Rightarrow> env \<Rightarrow> string option \<Rightarrow> int option \<Rightarrow> repository_world
    \<Rightarrow> string \<Rightarrow> string \<Rightarrow> hash_kind \<Rightarrow> string
    \<Rightarrow> repository_world \<times> (repository_service_error, repository_record) result" where
  "create_for_administrator s env drawn_id clock w owner slug object_format correlation_id =
     repository_create s env drawn_id clock w ''admin-cli'' owner slug object_format correlation_id"

section \<open>What a creation leaves\<close>

text \<open>The directories of the managed repositories are those of the rows of the table.\<close>

definition managed_world :: "repository_service \<Rightarrow> repository_world \<Rightarrow> bool" where
  "managed_world s w \<longleftrightarrow>
     (\<forall>ident. repository_git_path s ident \<in> rw_paths w
        \<longleftrightarrow> (\<exists>r\<in>set (db_repository (pw_db w)). repo_id r = ident))"

lemma insert_reference_events_repository:
  "db_repository db = t \<Longrightarrow> ensures (insert_reference_events env k db r refs) (\<lambda>db'. db_repository db' = t)"
  by (induction env k db r refs rule: insert_reference_events.induct) (auto intro!: wp sql_wp)

lemma create_repository_adds:
  assumes "create_repository env db r = Ok db'"
  shows "\<exists>row. repo_id row = nr_id r \<and> repo_slug row = nr_slug r \<and> repo_object_format row = nr_object_format r
    \<and> db_repository db' = db_repository db @ [row]"
proof -
  have "ensures (create_repository env db r) (\<lambda>db'. \<exists>row. repo_id row = nr_id r \<and> repo_slug row = nr_slug r
      \<and> repo_object_format row = nr_object_format r \<and> db_repository db' = db_repository db @ [row])"
    unfolding create_repository_def
    by (auto intro!: wp sql_wp ensures_mono [OF insert_reference_events_repository])
  from ensuresD [OF this assms] show ?thesis .
qed

lemma repository_git_path_inject [simp]: "repository_git_path s i = repository_git_path s j \<longleftrightarrow> i = j"
  by (auto simp: repository_git_path_def path_join_def split: if_splits)

lemma pending_is_git_path: "pending_git_path s ident = repository_git_path s (''.pending-'' @ ident)"
  by (simp add: pending_git_path_def repository_git_path_def)

lemma record_audit_event_repository:
  "ensures (record_audit_event db e) (\<lambda>db'. db_repository db' = db_repository db)"
  unfolding record_audit_event_def by (auto intro!: wp sql_wp)

text \<open>Failures take back what was put on disk; a success adds one directory and the row with its name.\<close>

lemma create_inner_effect:
  assumes "create_inner s env drawn_id w creation = (w', r)"
    and canonical: "\<And>p q. rs_canonicalize s p = Ok q \<Longrightarrow> q = p"
  shows "(\<exists>e. r = Err e) \<and> rw_paths w' = rw_paths w \<and> db_repository (pw_db w') = db_repository (pw_db w)
    \<or> (\<exists>stored row. r = Ok stored \<and> repo_id row = rr_id stored
        \<and> repository_git_path s (rr_id stored) \<notin> rw_paths w
        \<and> rw_paths w' = insert (repository_git_path s (rr_id stored)) (rw_paths w)
        \<and> db_repository (pw_db w') = db_repository (pw_db w) @ [row])"
  using assms(1)
  by (auto simp: create_inner_def Let_def add_created_repository_def remove_created_repository_def
      split: option.splits if_splits sum.splits dest!: create_repository_adds canonical)

lemma repository_create_effect:
  assumes "repository_create s env drawn_id clock w actor owner slug object_format correlation_id = (w', r)"
    and canonical: "\<And>p q. rs_canonicalize s p = Ok q \<Longrightarrow> q = p"
  shows "(\<exists>e. r = Err e) \<and> rw_paths w' = rw_paths w \<and> db_repository (pw_db w') = db_repository (pw_db w)
    \<or> (\<exists>stored row. r = Ok stored \<and> repo_id row = rr_id stored
        \<and> repository_git_path s (rr_id stored) \<notin> rw_paths w
        \<and> rw_paths w' = insert (repository_git_path s (rr_id stored)) (rw_paths w)
        \<and> db_repository (pw_db w') = db_repository (pw_db w) @ [row])"
  using assms(1)
  by (auto simp: repository_create_def repository_store_def split: sum.splits prod.splits
      dest!: create_inner_effect [OF _ canonical] ensuresD [OF record_audit_event_repository])


definition sample_hosting :: repository_service where
  "sample_hosting = \<lparr>rs_root = ''/r'', rs_gix = reference_gix,
     rs_init = (\<lambda>_ kind. Ok \<lparr>repo_refs = Map.empty, repo_packs = {}, repo_bare = True, repo_format = kind, repo_head = None\<rparr>),
     rs_canonicalize = Ok, rs_missing = ''missing'', rs_references = (\<lambda>_. Ok [])\<rparr>"

definition sample_hosted :: repository_world where
  "sample_hosted = \<lparr>pw_db = sample_db,
     pw_disk = (\<lambda>path. if path = sample_site_path then Ok sample_site else Err ''missing''), pw_quarantine = {},
     rw_paths = set (map (\<lambda>r. repository_git_path sample_hosting (repo_id r)) (db_repository sample_db))\<rparr>"

definition long_branch :: string where "long_branch = ''refs/heads/'' @ replicate 502 (CHR ''x'')"

definition long_world :: repository_world where
  "long_world = sample_hosted\<lparr>pw_disk := (pw_disk sample_hosted)
     (sample_site_path := Ok (sample_site\<lparr>repo_refs := [as_bytes long_branch \<mapsto> sample_head]\<rparr>))\<rparr>"

definition site_settings :: repository_settings where
  "site_settings = projr (stored_repository_settings sample_db ''acme'' ''site'' ''alice'')"

lemma sample_managed: "managed_world sample_hosting sample_hosted"
  by (auto simp: managed_world_def sample_hosted_def)


section \<open>The default branch under crashes\<close>

abbreviation branch_intents :: "database \<Rightarrow> repository_default_branch_intent list" where
  "branch_intents \<equiv> db_repository_default_branch_intent"

lemma no_branch_intents: "incomplete_repository_default_branches db = [] \<longleftrightarrow> branch_intents db = []"
  by (metis incomplete_repository_default_branches_def length_0_conv length_sort)

lemma one_branch_intent:
  "incomplete_repository_default_branches (db\<lparr>db_repository_default_branch_intent := [i]\<rparr>) = [i]"
  by (simp add: incomplete_repository_default_branches_def)

lemma stored_settings_Ok:
  assumes "stored_repository_settings db owner slug actor = Ok settings"
  obtains access where "repository_issue_access db owner slug (Some actor) = Ok access"
    and "rse_repository settings = ria_repository access"
    and "repository_default_branch db owner slug = Ok (rse_default_branch settings)"
  using assms by (auto simp: stored_repository_settings_def Let_def split: if_splits)

lemma begin_branch_intent:
  assumes "begin_repository_default_branch db n = Ok db'"
    and "repository_issue_access db (ndb_owner n) (ndb_slug n) (Some (ndb_actor n)) = Ok access"
  shows "db' = db\<lparr>db_repository_default_branch_intent := branch_intents db @
    [\<lparr>bint_id = ndb_id n, bint_repository_id = rr_id (ria_repository access), bint_actor = ndb_actor n,
      bint_previous_ref_name = ndb_previous_branch n, bint_proposed_ref_name = ndb_default_branch n,
      bint_created_at = ndb_changed_at n\<rparr>]\<rparr>"
  using assms
  by (auto simp: begin_repository_default_branch_def exec_insert_Ok split: if_splits)

lemma begin_default_branch_Ok:
  assumes "begin_default_branch s drawn_id clock w owner repository actor branch = Ok (path, git, ident, db)"
  obtains i where "git_open (pw_disk w) path = Ok git" and "path = repository_git_path s (bint_repository_id i)"
    and "default_branch git = Some (bint_previous_ref_name i)" and "bint_proposed_ref_name i = branch"
    and "repository_default_branch (pw_db w) owner repository = Ok (bint_previous_ref_name i)"
    and "bint_id i = ident"
    and "db = (pw_db w)\<lparr>db_repository_default_branch_intent := branch_intents (pw_db w) @ [i]\<rparr>"
proof -
  from assms obtain changed_at settings where
      stored: "stored_repository_settings (pw_db w) owner repository actor = Ok settings"
    and path: "path = repository_git_path s (rr_id (rse_repository settings))"
    and opened: "git_open (pw_disk w) path = Ok git" "default_branch git = Some (rse_default_branch settings)"
    and recorded: "begin_repository_default_branch (pw_db w)
         \<lparr>ndb_id = ident, ndb_owner = owner, ndb_slug = repository, ndb_actor = actor,
          ndb_previous_branch = rse_default_branch settings, ndb_default_branch = branch,
          ndb_changed_at = changed_at\<rparr> = Ok db"
    by (auto simp: begin_default_branch_def Let_def split: if_splits)
  obtain access where access: "repository_issue_access (pw_db w) owner repository (Some actor) = Ok access"
      "rse_repository settings = ria_repository access"
      "repository_default_branch (pw_db w) owner repository = Ok (rse_default_branch settings)"
    by (rule stored_settings_Ok [OF stored])
  from begin_branch_intent [OF recorded] access path opened show thesis by (intro that) simp_all
qed

lemma set_default_branch_Ok:
  assumes "set_default_branch g git branch = Ok git'"
  shows "git' = git\<lparr>repo_head := Some branch\<rparr>" and "default_branch git' = Some branch"
  using assms by (auto simp: set_default_branch_def resolve_branch_def default_branch_def split: if_splits)

lemma abandon_only_intent:
  assumes "branch_intents db = []" and "bint_id i = ident"
  shows "abandon_repository_default_branch (db\<lparr>db_repository_default_branch_intent := [i]\<rparr>) ident = Ok db"
proof -
  have "db\<lparr>db_repository_default_branch_intent := []\<rparr> = db" using assms(1) by simp
  then show ?thesis using assms by (simp add: abandon_repository_default_branch_def exec_delete_eq count_rows_def)
qed

text \<open>A change that gets as far as recording its intent, with nothing else pending: the world with the intent and
  the world with the new \<^verbatim>\<open>HEAD\<close>, and what recovery makes of each.\<close>

lemma default_branch_begun:
  assumes "branch_intents (pw_db w) = []"
    and "begin_default_branch s drawn_id clock w owner repository actor branch = Ok (path, git, ident, db)"
    and "repository_default_branch (pw_db w) owner repository \<noteq> Ok branch"
  shows "repository_recover s (w\<lparr>pw_db := db\<rparr>) = (w, Ok ())"
    and "set_default_branch (rs_gix s) git branch = Ok git' \<Longrightarrow>
      repository_recover s (w\<lparr>pw_db := db, pw_disk := (pw_disk w)(path := Ok git')\<rparr>)
      = repository_store (w\<lparr>pw_db := db, pw_disk := (pw_disk w)(path := Ok git')\<rparr>)
          (complete_repository_default_branch db ident)"
proof -
  obtain i where i: "git_open (pw_disk w) path = Ok git" "path = repository_git_path s (bint_repository_id i)"
      "default_branch git = Some (bint_previous_ref_name i)" "bint_proposed_ref_name i = branch"
      "repository_default_branch (pw_db w) owner repository = Ok (bint_previous_ref_name i)" "bint_id i = ident"
      "db = (pw_db w)\<lparr>db_repository_default_branch_intent := branch_intents (pw_db w) @ [i]\<rparr>"
    by (rule begin_default_branch_Ok [OF assms(2)])
  have db: "db = (pw_db w)\<lparr>db_repository_default_branch_intent := [i]\<rparr>" using i(7) assms(1) by simp
  have differ: "bint_previous_ref_name i \<noteq> branch" using i(5) assms(3) by auto
  show "repository_recover s (w\<lparr>pw_db := db\<rparr>) = (w, Ok ())"
    using i(1-3,6) abandon_only_intent [OF assms(1) i(6)]
    by (simp add: repository_recover_def recover_default_branch_def repository_store_def db one_branch_intent)
  assume set: "set_default_branch (rs_gix s) git branch = Ok git'"
  have bare: "repo_bare git'" using i(1) set_default_branch_Ok(1) [OF set] by (auto simp: git_open_def split: if_splits)
  show "repository_recover s (w\<lparr>pw_db := db, pw_disk := (pw_disk w)(path := Ok git')\<rparr>)
      = repository_store (w\<lparr>pw_db := db, pw_disk := (pw_disk w)(path := Ok git')\<rparr>)
          (complete_repository_default_branch db ident)"
    using i(2,4,6) bare differ set_default_branch_Ok(2) [OF set]
    by (auto simp: repository_recover_def recover_default_branch_def git_open_def db one_branch_intent
        split: prod.split sum.split)
qed

text \<open>C5. Changing the default branch is atomic under crashes, although it is stored twice, in \<^verbatim>\<open>HEAD\<close> and in the
  database. Take a change to a different branch that would succeed when no other is pending, leaving the world
  \<open>w'\<close>. If the process stops after the intent was recorded, recovery restores the world from before; if it stops after
  \<^verbatim>\<open>HEAD\<close> was written, recovery leads to \<open>w'\<close>.\<close>

theorem default_branch_crash_atomic:
  assumes "incomplete_repository_default_branches (pw_db w) = []"
    and "repository_default_branch (pw_db w) owner repository \<noteq> Ok branch"
    and "update_default_branch s drawn_id clock None w owner repository actor branch = (w', Some (Ok ()))"
  shows "repository_recover s
      (fst (update_default_branch s drawn_id clock (Some ''intent'') w owner repository actor branch)) = (w, Ok ())
    \<and> repository_recover s
      (fst (update_default_branch s drawn_id clock (Some ''head'') w owner repository actor branch)) = (w', Ok ())"
proof -
  have none: "branch_intents (pw_db w) = []" using assms(1) by (simp add: no_branch_intents)
  from assms(3) obtain path git ident db git' where
      valid: "validate_maintainer owner repository actor = Ok ()"
    and recorded: "begin_default_branch s drawn_id clock w owner repository actor branch = Ok (path, git, ident, db)"
    and set: "set_default_branch (rs_gix s) git branch = Ok git'"
    and complete: "repository_store (w\<lparr>pw_db := db, pw_disk := (pw_disk w)(path := Ok git')\<rparr>)
        (complete_repository_default_branch db ident) = (w', Ok ())"
    by (auto simp: update_default_branch_def Let_def apsnd_def map_prod_def split: sum.splits prod.splits)
  note recovers = default_branch_begun [OF none recorded assms(2)]
  show ?thesis
    using valid recorded set recovers(1) recovers(2) [OF set] complete by (simp add: update_default_branch_def Let_def)
qed

lemma sample_branches_quiet:
  "incomplete_repository_default_branches sample_db = []"
  "repository_default_branch sample_db ''acme'' ''site'' = Ok ''refs/heads/main''"
proof -
  have "incomplete_repository_default_branches sample_db = []
      \<and> repository_default_branch sample_db ''acme'' ''site'' = Ok ''refs/heads/main''"
    by code_simp
  then show "incomplete_repository_default_branches sample_db = []"
    "repository_default_branch sample_db ''acme'' ''site'' = Ok ''refs/heads/main''" by simp_all
qed

lemma default_branch_crash_atomic_witness:
  "repository_recover sample_hosting (fst (update_default_branch sample_hosting (Some (id32 (CHR ''7''))) (Some 9)
     (Some ''intent'') sample_hosted ''acme'' ''site'' ''alice'' ''refs/heads/fix'')) = (sample_hosted, Ok ())"
proof -
  let ?run = "update_default_branch sample_hosting (Some (id32 (CHR ''7''))) (Some 9) None sample_hosted
    ''acme'' ''site'' ''alice'' ''refs/heads/fix''"
  have "snd ?run = Some (Ok ())" by code_simp
  then have "?run = (fst ?run, Some (Ok ()))" by (simp add: prod_eq_iff)
  moreover have "incomplete_repository_default_branches (pw_db sample_hosted) = []"
    "repository_default_branch (pw_db sample_hosted) ''acme'' ''site'' \<noteq> Ok ''refs/heads/fix''"
    using sample_branches_quiet by (simp_all add: sample_hosted_def)
  ultimately show ?thesis using default_branch_crash_atomic by blast
qed

section \<open>A branch name that recovery cannot record\<close>

text \<open>A branch name may have 1024 characters, in the service and in the CHECK constraints on the intent and on the
  default branch. The audit row of the change names the branch behind the repository, in a column of at most 512.\<close>

lemma utf8_scalars_append: "list_all (\<lambda>b. b < 128) bs \<Longrightarrow> utf8_scalars (bs @ r) = bs @ utf8_scalars r"
  by (induction bs) auto

lemma sql_length_append:
  assumes "list_all plain_ascii a"
  shows "sql_length (a @ s) = length a + sql_length s"
proof -
  have "chars (a @ s) = map of_char a @ chars s"
    using assms unfolding chars_def map_append
    by (intro utf8_scalars_append) (auto simp: list_all_iff plain_ascii_def)
  moreover have "takeWhile (\<lambda>c. c \<noteq> (0::nat)) (map of_char a @ t) = map of_char a @ takeWhile (\<lambda>c. c \<noteq> 0) t" for t
    using assms by (intro takeWhile_append2) (auto simp: list_all_iff plain_ascii_def)
  ultimately show ?thesis by (simp add: sql_length_def)
qed

lemma namespace_slug_plain: "namespace_slug_check s \<Longrightarrow> list_all plain_ascii s"
  by (auto simp: namespace_slug_check_def username_check_def not_glob_outside_def
      intro: list_all_mono username_char_plain)

lemma slug_check_plain: "slug_check s \<Longrightarrow> list_all plain_ascii s"
  by (auto simp: slug_check_def not_glob_outside_def intro: list_all_mono slug_char_plain)

lemma audit_target: "insert_audit_event db e = Ok db' \<Longrightarrow> sql_length (nae_target e) \<le> 512"
  by (auto simp: insert_audit_event_def exec_insert_Ok audit_event_chk_def text_between_def)

lemma complete_audits:
  assumes "complete_repository_default_branch db ident = Ok db'"
  obtains i r n where "i \<in> set (branch_intents db)" and "r \<in> set (db_repository db)" and "n \<in> set (db_namespace db)"
    and "sql_length (ns_slug n @ ''/'' @ repo_slug r @ '':'' @ bint_proposed_ref_name i) \<le> 512"
proof -
  from assms obtain i r n db1 db2 where
      found: "find (\<lambda>(i, r, n). repo_id r = bint_repository_id i \<and> ns_id n = repo_owner_namespace_id r
           \<and> bint_id i = ident)
         (List.product (branch_intents db) (List.product (db_repository db) (db_namespace db))) = Some (i, r, n)"
    and audit: "audit_success db1 ''repository.default-branch'' (bint_actor i)
         (ns_slug n @ ''/'' @ repo_slug r @ '':'' @ bint_proposed_ref_name i) ident (bint_created_at i) = Ok db2"
    by (auto simp: complete_repository_default_branch_def exec_delete_eq split: if_splits)
  have "(i, r, n) \<in> set (List.product (branch_intents db) (List.product (db_repository db) (db_namespace db)))"
    using find_SomeD [OF found] by simp
  then show thesis using audit_target [OF audit] by (intro that) simp_all
qed

lemma complete_too_long:
  assumes "db_ok db" and "branch_intents db = [i]" and "512 < sql_length (bint_proposed_ref_name i)"
  shows "\<exists>e. complete_repository_default_branch db ident = Err e"
proof (rule ccontr)
  assume "\<nexists>e. complete_repository_default_branch db ident = Err e"
  then obtain db' where "complete_repository_default_branch db ident = Ok db'"
    by (cases "complete_repository_default_branch db ident") auto
  from complete_audits [OF this] obtain r n where "r \<in> set (db_repository db)" "n \<in> set (db_namespace db)"
      and short: "sql_length (ns_slug n @ ''/'' @ repo_slug r @ '':'' @ bint_proposed_ref_name i) \<le> 512"
    using assms(2) by (metis empty_set list.simps(15) singletonD)
  then have plain: "list_all plain_ascii (ns_slug n)" "list_all plain_ascii (repo_slug r)"
    using ns.ok_chk [OF assms(1)] repo.ok_chk [OF assms(1)]
    by (auto simp: list_all_iff namespace_chk_def repository_chk_def
        dest!: bspec intro: namespace_slug_plain [unfolded list_all_iff, THEN bspec] slug_check_plain [unfolded list_all_iff, THEN bspec])
  have "plain_ascii (CHR ''/'')" "plain_ascii (CHR '':'')" by code_simp+
  then have "list_all plain_ascii (ns_slug n @ ''/'' @ repo_slug r @ '':'')" using plain by simp
  from sql_length_append [OF this, of "bint_proposed_ref_name i"] short assms(3) show False by simp
qed

text \<open>C30. A default branch whose name is longer than 512 characters is a trap. The change passes every check and moves
  \<^verbatim>\<open>HEAD\<close>, then the audit row is refused, so the database keeps the old branch and the intent stays. Recovery sees
  the new \<^verbatim>\<open>HEAD\<close>, tries to complete the change, and fails in the same way each time: it leaves the world as it is and
  returns an error, on which \<^verbatim>\<open>serve\<close> does not start.\<close>

theorem long_default_branch_blocks_recovery:
  assumes "db_ok (pw_db w)" and "incomplete_repository_default_branches (pw_db w) = []"
    and "repository_default_branch (pw_db w) owner repository \<noteq> Ok branch" and "512 < sql_length branch"
    and "validate_maintainer owner repository actor = Ok ()"
    and "begin_default_branch s drawn_id clock w owner repository actor branch = Ok (path, git, ident, db)"
  shows "\<exists>w' git' e. update_default_branch s drawn_id clock None w owner repository actor branch = (w', Some (Err e))
    \<and> pw_disk w' path = Ok git' \<and> default_branch git' = Some branch \<and> pw_db w' = db
    \<and> repository_recover s w' = (w', Err e)"
proof -
  have none: "branch_intents (pw_db w) = []" using assms(2) by (simp add: no_branch_intents)
  let ?git = "git\<lparr>repo_head := Some branch\<rparr>"
  let ?w = "w\<lparr>pw_db := db, pw_disk := (pw_disk w)(path := Ok ?git)\<rparr>"
  have set: "set_default_branch (rs_gix s) git branch = Ok ?git"
    using assms(6) by (auto simp: begin_default_branch_def set_default_branch_def resolve_branch_def
        try_find_reference_def Let_def split: if_splits)
  have ok: "db_ok db"
    using assms(6) ensuresD [OF begin_repository_default_branch_keeps [OF assms(1)]]
    by (auto simp: begin_default_branch_def Let_def split: if_splits)
  obtain i where i: "branch_intents db = [i]" "bint_proposed_ref_name i = branch"
    by (rule begin_default_branch_Ok [OF assms(6)]) (use none in simp)
  obtain e where e: "complete_repository_default_branch db ident = Err e"
    using complete_too_long [OF ok i(1)] assms(4) i(2) by blast
  have "update_default_branch s drawn_id clock None w owner repository actor branch = (?w, Some (Err (RsStore e)))"
    using assms(5,6) set e by (simp add: update_default_branch_def repository_store_def Let_def)
  moreover have "repository_recover s ?w = (?w, Err (RsStore e))"
    using default_branch_begun(2) [OF none assms(6,3) set] e by (simp add: repository_store_def)
  moreover have "default_branch ?git = Some branch" by (rule set_default_branch_Ok(2) [OF set])
  ultimately show ?thesis by (intro exI [of _ ?w] exI [of _ ?git] exI [of _ "RsStore e"]) simp
qed

lemma long_branch_plain: "list_all plain_ascii long_branch"
proof -
  have "list_all plain_ascii ''refs/heads/''" "plain_ascii (CHR ''x'')" by code_simp+
  then show ?thesis by (simp add: long_branch_def list_all_iff)
qed

lemma long_branch_length: "length long_branch = 513" "sql_length long_branch = 513"
  using sql_length_ascii [OF long_branch_plain] by (simp_all add: long_branch_def)

lemma long_branch_resolves:
  "resolve_branch reference_gix (sample_site\<lparr>repo_refs := [as_bytes long_branch \<mapsto> sample_head]\<rparr>) long_branch = Ok sample_head"
proof -
  have "list_all (\<lambda>b. 32 < b \<and> b \<noteq> 127) (as_bytes ''refs/heads/'')" "32 < byte_of_char (CHR ''x'')" "byte_of_char (CHR ''x'') \<noteq> 127"
    by code_simp+
  then have "full_name reference_gix (as_bytes long_branch)"
    unfolding long_branch_def by (simp add: reference_gix_def as_bytes_def list_all_iff)
  moreover have "starts_with long_branch ''refs/heads/''" by (simp add: long_branch_def starts_with_def)
  moreover have "find_object reference_gix (sample_site\<lparr>repo_refs := r\<rparr>) sample_head = Ok (CommitObject (id40 (CHR ''b'')) [])" for r
    by (simp add: find_object_def reference_gix_def sample_head_def starts_with_def id40_def)
  ultimately show ?thesis
    by (simp add: resolve_branch_def try_find_reference_def long_branch_length kind_of_object_def)
qed

lemma site_settings_stored:
  "stored_repository_settings sample_db ''acme'' ''site'' ''alice'' = Ok site_settings"
  "rr_id (rse_repository site_settings) = id32 (CHR ''b'')" "rse_default_branch site_settings = ''refs/heads/main''"
proof -
  have "\<not> isl (stored_repository_settings sample_db ''acme'' ''site'' ''alice'')" by code_simp
  from not_isl_Ok [OF this] show "stored_repository_settings sample_db ''acme'' ''site'' ''alice'' = Ok site_settings"
    by (simp add: site_settings_def)
  show "rr_id (rse_repository site_settings) = id32 (CHR ''b'')" "rse_default_branch site_settings = ''refs/heads/main''"
    by code_simp+
qed

lemma long_branch_recorded:
  "\<exists>db. begin_repository_default_branch sample_db
     \<lparr>ndb_id = id32 (CHR ''7''), ndb_owner = ''acme'', ndb_slug = ''site'', ndb_actor = ''alice'',
      ndb_previous_branch = ''refs/heads/main'', ndb_default_branch = long_branch, ndb_changed_at = 9\<rparr> = Ok db"
proof -
  obtain access where access: "repository_issue_access sample_db ''acme'' ''site'' (Some ''alice'') = Ok access"
      "rse_repository site_settings = ria_repository access"
    by (rule stored_settings_Ok [OF site_settings_stored(1)])
  have maintain: "can_maintain access"
    using site_settings_stored(1) access(1) by (auto simp: stored_repository_settings_def split: if_splits)
  have row: "query_row repository_default_branch_table (\<lambda>b. branch_repository_id b = id32 (CHR ''b'')) sample_db
      = Some \<lparr>branch_repository_id = id32 (CHR ''b''), branch_ref_name = ''refs/heads/main''\<rparr>"
    "branch_intents sample_db = []" "repository_exists sample_db (id32 (CHR ''b''))" "hex_id_check (id32 (CHR ''7''))"
    "branch_name_check ''refs/heads/main''"
    by code_simp+
  have "branch_name_check long_branch"
    using long_branch_length by (simp add: branch_name_check_def text_between_def long_branch_def)
  then show ?thesis
    using access maintain row site_settings_stored(2)
    by (simp add: begin_repository_default_branch_def exec_insert_def sql_insert_def
        repository_default_branch_intent_chk_def repository_default_branch_intent_uniq_def unique_by_def)
qed

lemma long_default_branch_blocks_recovery_witness:
  "\<exists>w' e. update_default_branch sample_hosting (Some (id32 (CHR ''7''))) (Some 9) None long_world
     ''acme'' ''site'' ''alice'' long_branch = (w', Some (Err e)) \<and> repository_recover sample_hosting w' = (w', Err e)"
proof -
  have path: "repository_git_path sample_hosting (id32 (CHR ''b'')) = sample_site_path" by code_simp
  let ?site = "sample_site\<lparr>repo_refs := [as_bytes long_branch \<mapsto> sample_head]\<rparr>"
  have world: "pw_db long_world = sample_db" "git_open (pw_disk long_world) sample_site_path = Ok ?site"
      "default_branch ?site = Some ''refs/heads/main''" "rs_gix sample_hosting = reference_gix"
    by (simp_all add: long_world_def sample_hosted_def git_open_def sample_site_def default_branch_def
        starts_with_def sample_hosting_def)
  obtain db where recorded: "begin_repository_default_branch sample_db
     \<lparr>ndb_id = id32 (CHR ''7''), ndb_owner = ''acme'', ndb_slug = ''site'', ndb_actor = ''alice'',
      ndb_previous_branch = ''refs/heads/main'', ndb_default_branch = long_branch, ndb_changed_at = 9\<rparr> = Ok db"
    using long_branch_recorded by blast
  have "begin_default_branch sample_hosting (Some (id32 (CHR ''7''))) (Some 9) long_world ''acme'' ''site'' ''alice''
      long_branch = Ok (sample_site_path, ?site, id32 (CHR ''7''), db)"
    by (simp add: begin_default_branch_def world site_settings_stored path long_branch_resolves recorded)
  moreover have "validate_maintainer ''acme'' ''site'' ''alice'' = Ok ()" by code_simp
  moreover have differs: "''refs/heads/main'' \<noteq> long_branch"
    by (rule notI, drule arg_cong [where f = length]) (simp add: long_branch_length)
  moreover have "incomplete_repository_default_branches (pw_db long_world) = []"
    using sample_branches_quiet(1) by (simp add: world)
  moreover have "repository_default_branch (pw_db long_world) ''acme'' ''site'' \<noteq> Ok long_branch"
    using sample_branches_quiet(2) differs by (simp add: world)
  moreover have "db_ok (pw_db long_world)" using sample_db_ok by (simp add: long_world_def sample_hosted_def)
  moreover have "512 < sql_length long_branch" by (simp add: long_branch_length)
  ultimately show ?thesis using long_default_branch_blocks_recovery by blast
qed

end
