(* ===== verification/Upload_Pack.thy ===== *)
theory Upload_Pack
  imports Git_Repository
begin

text \<open>
  Fetching: the listing of refs, the choice of objects and the packs of \<^verbatim>\<open>src/git/repository.rs\<close>, and the service
  \<^verbatim>\<open>src/git/upload_pack.rs\<close> that answers the requests of a client.

  The iteration over refs and the encoding of a pack are gix's, the parameter \<open>gix_listing\<close>: an encoded pack is the
  list of its writes. The cancellation flag is read once in each round of each phase. Writing into a vector does
  not fail.

  The lemmas follow a negotiation through its lines; the theorem says which objects the answer to a fetch carries.
\<close>

section \<open>References\<close>

record git_reference =
  ref_name :: blob
  ref_target :: oid
  ref_peeled :: "oid option"
  ref_symbolic_target :: "blob option"

text \<open>A reference as gix iterates over it; one that is symbolic has no id.\<close>

record raw_reference =
  raw_name :: blob
  raw_id :: "oid option"
  raw_peeled :: "(string, oid) result"

record gix_listing =
  all_references :: "git_repository \<Rightarrow> (string, (string, raw_reference) result list) result"
  head_reference :: "git_repository \<Rightarrow> (string, (blob \<times> oid) option) result"
  encode_pack :: "hash_kind \<Rightarrow> (oid \<times> git_object \<times> nat) list \<Rightarrow> (string, blob list) result"

definition MAX_REFERENCES :: nat where "MAX_REFERENCES = 10000"
definition MAX_REFERENCE_NAME_BYTES :: nat where "MAX_REFERENCE_NAME_BYTES = 4096"

definition peeled_target :: "raw_reference \<Rightarrow> oid \<Rightarrow> (git_repository_error, oid option) result" where
  "peeled_target raw target =
     (if starts_with (raw_name raw) (as_bytes ''refs/tags/'')
      then try_then (map_err (\<lambda>_. GitReferences) (raw_peeled raw)) (\<lambda>candidate.
        Ok (if candidate \<noteq> target then Some candidate else None))
      else Ok None)"

fun collect_references :: "nat \<Rightarrow> (string, raw_reference) result list \<Rightarrow> git_reference list
    \<Rightarrow> (git_repository_error, git_reference list) result" where
  "collect_references maximum [] references = Ok references"
| "collect_references maximum (reference # iterator) references =
     (if maximum \<le> length references then Err GitReferenceLimit
      else
        (case reference of
           Inl _ \<Rightarrow> Err GitReferences
         | Inr raw \<Rightarrow>
             (case raw_id raw of
                None \<Rightarrow> collect_references maximum iterator references
              | Some target \<Rightarrow>
                  if MAX_REFERENCE_NAME_BYTES < length (raw_name raw) then Err GitReferenceLimit
                  else
                    try_then (peeled_target raw target) (\<lambda>peeled.
                    collect_references maximum iterator (references @
                      [\<lparr>ref_name = raw_name raw, ref_target = target, ref_peeled = peeled,
                        ref_symbolic_target = None\<rparr>])))))"

definition references_with_limit :: "gix_listing \<Rightarrow> git_repository \<Rightarrow> nat
    \<Rightarrow> (git_repository_error, git_reference list) result" where
  "references_with_limit l repository maximum =
     (if maximum = 0 \<or> maximum > MAX_REFERENCES then Err GitReferenceLimit
      else
        try_then (map_err (\<lambda>_. GitReferences) (all_references l repository)) (\<lambda>iterator.
        try_then (collect_references maximum iterator []) (\<lambda>references.
        let references = sort_key (\<lambda>r. map (unat :: byte \<Rightarrow> nat) (ref_name r)) references in
        try_then (map_err (\<lambda>_. GitReferences) (head_reference l repository)) (\<lambda>head.
        case head of
          None \<Rightarrow> Ok references
        | Some (name, target) \<Rightarrow>
            if maximum \<le> length references then Err GitReferenceLimit
            else Ok (\<lparr>ref_name = as_bytes ''HEAD'', ref_target = target, ref_peeled = None,
                      ref_symbolic_target = Some name\<rparr> # references)))))"

definition references :: "gix_listing \<Rightarrow> git_repository \<Rightarrow> (git_repository_error, git_reference list) result" where
  "references l repository = references_with_limit l repository MAX_REFERENCES"

section \<open>Packs\<close>

definition REPOSITORY_MAX_OBJECT_BYTES :: nat where "REPOSITORY_MAX_OBJECT_BYTES = 64 * 1024 * 1024"
definition REPOSITORY_MAX_PACK_BYTES :: nat where "REPOSITORY_MAX_PACK_BYTES = 256 * 1024 * 1024"

definition advertised_ids :: "git_reference list \<Rightarrow> oid list" where
  "advertised_ids refs =
     concat (map (\<lambda>r. ref_target r # (case ref_peeled r of None \<Rightarrow> [] | Some peeled \<Rightarrow> [peeled])) refs)"

definition pack_entry :: "gix \<Rightarrow> git_repository \<Rightarrow> oid \<Rightarrow> nat
    \<Rightarrow> (git_repository_error, (oid \<times> git_object \<times> nat) \<times> nat) result" where
  "pack_entry g repository ident total_object_bytes =
     (case try_find_object g (repo_packs repository) ident of
        Inr (Some (obj, bytes)) \<Rightarrow>
          if total_object_bytes + bytes \<ge> 2 ^ 64 then Err GitObjectLimit
          else if bytes > REPOSITORY_MAX_OBJECT_BYTES \<or> total_object_bytes + bytes > REPOSITORY_MAX_PACK_BYTES then Err GitObjectLimit
          else Ok ((ident, obj, bytes), total_object_bytes + bytes)
      | _ \<Rightarrow> Err (GitObjectUnreadable ident))"

fun pack_entries :: "gix \<Rightarrow> git_repository \<Rightarrow> (nat \<Rightarrow> bool) \<Rightarrow> nat \<Rightarrow> nat \<Rightarrow> oid list
    \<Rightarrow> (git_repository_error, (oid \<times> git_object \<times> nat) list) result" where
  "pack_entries g repository cancelled round packed [] = Ok []"
| "pack_entries g repository cancelled round packed (ident # idents) =
     (if cancelled round then Err GitPack
      else
        try_then (map_err (\<lambda>_. GitPack) (pack_entry g repository ident packed)) (\<lambda>(entry, packed).
        try_then (pack_entries g repository cancelled (round + 1) packed idents) (\<lambda>entries.
        Ok (entry # entries))))"

text \<open>\<^verbatim>\<open>CountingWriter\<close> around a writer: \<open>sink\<close> is one write of the inner one, on what has been written so far.\<close>

fun counting_writer :: "(blob \<Rightarrow> blob \<Rightarrow> ('e, blob) result) \<Rightarrow> nat \<Rightarrow> nat \<Rightarrow> blob list \<Rightarrow> blob
    \<Rightarrow> (git_repository_error, blob) result" where
  "counting_writer sink limit written [] output = Ok output"
| "counting_writer sink limit written (data # writes) output =
     (if written + length data \<ge> 2 ^ 64 \<or> written + length data > limit then Err GitPack
      else
        try_then (map_err (\<lambda>_. GitPack) (sink data output)) (\<lambda>output.
        counting_writer sink limit (written + length data) writes output))"

text \<open>The objects of the pack: what the wants reach and the haves do not, in the order of their ids.\<close>

definition objects_to_send :: "gix \<Rightarrow> gix_listing \<Rightarrow> git_repository \<Rightarrow> (nat \<Rightarrow> nat \<Rightarrow> bool) \<Rightarrow> oid list \<Rightarrow> oid list
    \<Rightarrow> (git_repository_error, oid list) result" where
  "objects_to_send g l repository cancelled wants haves =
     (if list_ex (\<lambda>i. length i \<noteq> hex_length (repo_format repository)) wants
        \<or> list_ex (\<lambda>i. length i \<noteq> hex_length (repo_format repository)) haves
      then Err GitWrongObjectFormat
      else
        try_then (references l repository) (\<lambda>refs.
        let advertised = advertised_ids refs in
        if wants = [] \<or> list_ex (\<lambda>want. want \<notin> set advertised) wants then Err GitUnadvertisedWant
        else
          try_then (walk_reachable g repository haves (Some haves) (cancelled 0)) (\<lambda>excluded.
          try_then (walk_reachable g repository wants None (cancelled 1)) (\<lambda>reached.
          let objects = sort_key (map (of_char :: char \<Rightarrow> nat)) (filter (\<lambda>i. i \<notin> set excluded) reached) in
          if length objects \<ge> 2 ^ 32 then Err GitObjectLimit else Ok objects))))"

definition write_pack :: "gix \<Rightarrow> gix_listing \<Rightarrow> git_repository \<Rightarrow> (nat \<Rightarrow> nat \<Rightarrow> bool) \<Rightarrow> oid list \<Rightarrow> oid list
    \<Rightarrow> (blob \<Rightarrow> blob \<Rightarrow> ('e, blob) result) \<Rightarrow> blob \<Rightarrow> (git_repository_error, blob) result" where
  "write_pack g l repository cancelled wants haves sink output =
     try_then (objects_to_send g l repository cancelled wants haves) (\<lambda>objects.
     try_then (pack_entries g repository (cancelled 2) 0 0 objects) (\<lambda>entries.
     try_then (map_err (\<lambda>_. GitPack) (encode_pack l (repo_format repository) entries)) (\<lambda>writes.
     counting_writer sink REPOSITORY_MAX_PACK_BYTES 0 writes output)))"

definition integrity_check :: "gix \<Rightarrow> gix_listing \<Rightarrow> git_repository \<Rightarrow> (git_repository_error, unit) result" where
  "integrity_check g l repository =
     try_then (references l repository) (\<lambda>refs.
     try_then (walk_reachable g repository (advertised_ids refs) None (\<lambda>_. False)) (\<lambda>_. Ok ()))"

section \<open>The protocol\<close>

datatype protocol_version = V0 | V1 | V2

datatype upload_pack_error =
    UpRepository git_repository_error
  | UpPacketLine packet_line_error
  | UpUnsupportedRequest
  | UpInvalidObjectId
  | UpNegotiationLimit
  | UpIncompleteNegotiation

definition AGENT :: string where "AGENT = ''tit/0.2.0''"
definition MAX_NEGOTIATION_IDS :: nat where "MAX_NEGOTIATION_IDS = 256"

definition hash_name :: "hash_kind \<Rightarrow> string" where
  "hash_name kind = (case kind of Sha1 \<Rightarrow> ''sha1'' | Sha256 \<Rightarrow> ''sha256'')"

definition trim_line :: "blob \<Rightarrow> blob" where
  "trim_line line = (case strip_suffix [byte_of_char newline] line of None \<Rightarrow> line | Some rest \<Rightarrow> rest)"

definition advertised_ref :: "oid \<Rightarrow> blob \<Rightarrow> blob option \<Rightarrow> blob" where
  "advertised_ref target name capabilities =
     as_bytes (target @ '' '') @ name @ (case capabilities of None \<Rightarrow> [] | Some c \<Rightarrow> 0 # c) @ [byte_of_char newline]"

definition format_ref :: "git_reference \<Rightarrow> bool \<Rightarrow> bool \<Rightarrow> blob" where
  "format_ref reference symrefs peel =
     as_bytes (ref_target reference @ '' '') @ ref_name reference
     @ (case ref_symbolic_target reference of
          Some target \<Rightarrow> if symrefs then as_bytes '' symref-target:'' @ target else [] | None \<Rightarrow> [])
     @ (case ref_peeled reference of Some target \<Rightarrow> if peel then as_bytes ('' peeled:'' @ target) else [] | None \<Rightarrow> [])
     @ [byte_of_char newline]"

abbreviation encode_line :: "string \<Rightarrow> blob \<Rightarrow> (upload_pack_error, blob) result" where
  "encode_line line output \<equiv> map_err UpPacketLine (encode_data (as_bytes line @ [byte_of_char newline]) output)"

definition upload_parse_id :: "gix \<Rightarrow> git_repository \<Rightarrow> blob \<Rightarrow> (upload_pack_error, oid) result" where
  "upload_parse_id g repository input =
     (case from_hex g input of
        None \<Rightarrow> Err UpInvalidObjectId
      | Some ident \<Rightarrow> if length ident \<noteq> hex_length (repo_format repository) then Err UpInvalidObjectId else Ok ident)"

section \<open>The advertisement\<close>

fun advertise_references :: "string \<Rightarrow> nat \<Rightarrow> git_reference list \<Rightarrow> blob \<Rightarrow> (upload_pack_error, blob) result" where
  "advertise_references capabilities index [] output = Ok output"
| "advertise_references capabilities index (reference # refs) output =
     try_then (map_err UpPacketLine (encode_data
       (advertised_ref (ref_target reference) (ref_name reference)
         (if index = 0 then Some (as_bytes capabilities) else None)) output)) (\<lambda>output.
     try_then (case ref_peeled reference of
         None \<Rightarrow> Ok output
       | Some peeled \<Rightarrow> map_err UpPacketLine
           (encode_data (advertised_ref peeled (ref_name reference @ as_bytes ''^{}'') None) output)) (\<lambda>output.
     advertise_references capabilities (index + 1) refs output))"

definition advertise_v0_or_v1 :: "gix_listing \<Rightarrow> git_repository \<Rightarrow> bool \<Rightarrow> blob \<Rightarrow> (upload_pack_error, blob) result" where
  "advertise_v0_or_v1 l repository version_packet output =
     try_then (if version_packet then encode_line ''version 1'' output else Ok output) (\<lambda>output.
     try_then (map_err UpRepository (references l repository)) (\<lambda>refs.
     let capabilities = ''agent='' @ AGENT @ '' object-format='' @ hash_name (repo_format repository) in
     try_then
       (if refs = []
        then map_err UpPacketLine (encode_data
          (as_bytes (replicate (hex_length (repo_format repository)) (CHR ''0'') @ '' capabilities^{}'') @ 0 #
           as_bytes capabilities @ [byte_of_char newline]) output)
        else advertise_references capabilities 0 refs output) (\<lambda>output.
     Ok (encode_flush output))))"

fun encode_lines_to :: "string list \<Rightarrow> blob \<Rightarrow> (upload_pack_error, blob) result" where
  "encode_lines_to [] output = Ok output"
| "encode_lines_to (line # rest) output = try_then (encode_line line output) (encode_lines_to rest)"

definition advertise_v2 :: "git_repository \<Rightarrow> blob \<Rightarrow> (upload_pack_error, blob) result" where
  "advertise_v2 repository output =
     try_then (encode_lines_to [''version 2'', ''agent='' @ AGENT,
       ''object-format='' @ hash_name (repo_format repository), ''ls-refs=symrefs peel'', ''fetch=wait-for-done'']
       output) (\<lambda>output. Ok (encode_flush output))"

definition advertisement :: "gix_listing \<Rightarrow> git_repository \<Rightarrow> protocol_version \<Rightarrow> bool \<Rightarrow> (upload_pack_error, blob) result" where
  "advertisement l repository version http =
     try_then (if http \<and> version \<noteq> V2
         then try_then (encode_line ''# service=git-upload-pack'' []) (\<lambda>output. Ok (encode_flush output))
         else Ok []) (\<lambda>output.
     case version of
       V0 \<Rightarrow> advertise_v0_or_v1 l repository False output
     | V1 \<Rightarrow> advertise_v0_or_v1 l repository True output
     | V2 \<Rightarrow> advertise_v2 repository output)"

section \<open>Requests\<close>

text \<open>What a negotiation has collected: wants and haves, each id once, and whether \<^verbatim>\<open>done\<close> was read.\<close>

record negotiation =
  neg_wants :: "oid list"
  neg_haves :: "oid list"
  neg_done :: bool

definition insert_id :: "oid \<Rightarrow> oid list \<Rightarrow> oid list" where
  "insert_id ident ids = (if ident \<in> set ids then ids else ids @ [ident])"

text \<open>One line of a negotiation; \<open>want\<close> is the part of a line that holds the id, \<open>ignored\<close> the lines without effect.\<close>

definition negotiation_line :: "gix \<Rightarrow> git_repository \<Rightarrow> (blob \<Rightarrow> blob) \<Rightarrow> blob list \<Rightarrow> blob \<Rightarrow> negotiation
    \<Rightarrow> (upload_pack_error, negotiation) result" where
  "negotiation_line g repository want ignored line n =
     try_then
       (case strip_prefix (as_bytes ''want '') line of
          Some v \<Rightarrow>
            try_then (upload_parse_id g repository (want v)) (\<lambda>ident.
            Ok (n\<lparr>neg_wants := insert_id ident (neg_wants n)\<rparr>))
        | None \<Rightarrow>
            (case strip_prefix (as_bytes ''have '') line of
               Some v \<Rightarrow>
                 try_then (upload_parse_id g repository v) (\<lambda>ident.
                 Ok (n\<lparr>neg_haves := insert_id ident (neg_haves n)\<rparr>))
             | None \<Rightarrow>
                 if line = as_bytes ''done'' then Ok (n\<lparr>neg_done := True\<rparr>)
                 else if line \<in> set ignored then Ok n
                 else Err UpUnsupportedRequest)) (\<lambda>n.
     if length (neg_wants n) > MAX_NEGOTIATION_IDS \<or> length (neg_haves n) > MAX_NEGOTIATION_IDS
     then Err UpNegotiationLimit else Ok n)"

fun negotiate_v1 :: "gix \<Rightarrow> git_repository \<Rightarrow> packet list \<Rightarrow> negotiation \<Rightarrow> (upload_pack_error, negotiation) result" where
  "negotiate_v1 g repository [] n = Ok n"
| "negotiate_v1 g repository (Data line # packets) n =
     try_then (negotiation_line g repository (takeWhile (\<lambda>b. b \<noteq> space)) [] (trim_line line) n)
       (negotiate_v1 g repository packets)"
| "negotiate_v1 g repository (_ # packets) n = negotiate_v1 g repository packets n"

fun negotiate_v2 :: "gix \<Rightarrow> git_repository \<Rightarrow> packet list \<Rightarrow> negotiation \<Rightarrow> (upload_pack_error, negotiation) result" where
  "negotiate_v2 g repository [] n = Ok n"
| "negotiate_v2 g repository (Data line # packets) n =
     try_then (negotiation_line g repository id
         [as_bytes ''thin-pack'', as_bytes ''no-progress'', as_bytes ''include-tag'', as_bytes ''ofs-delta'']
         (trim_line line) n) (negotiate_v2 g repository packets)"
| "negotiate_v2 g repository (Flush # packets) n = negotiate_v2 g repository packets n"
| "negotiate_v2 g repository (_ # packets) n = Err UpUnsupportedRequest"

abbreviation no_negotiation :: negotiation where
  "no_negotiation \<equiv> \<lparr>neg_wants = [], neg_haves = [], neg_done = False\<rparr>"

text \<open>A write into a vector, and one through \<^verbatim>\<open>SidebandWriter\<close>.\<close>

definition vector_write :: "blob \<Rightarrow> blob \<Rightarrow> (upload_pack_error, blob) result" where
  "vector_write data output = Ok (output @ data)"

definition sideband_write :: "blob \<Rightarrow> blob \<Rightarrow> (packet_line_error, blob) result" where
  "sideband_write data output = encode_sideband data output"

definition respond_v1 :: "gix \<Rightarrow> gix_listing \<Rightarrow> git_repository \<Rightarrow> (nat \<Rightarrow> nat \<Rightarrow> bool) \<Rightarrow> packet list
    \<Rightarrow> (upload_pack_error, blob) result" where
  "respond_v1 g l repository cancelled packets =
     try_then (negotiate_v1 g repository packets no_negotiation) (\<lambda>n.
     if \<not> neg_done n \<or> neg_wants n = [] then Err UpIncompleteNegotiation
     else
       try_then (encode_line ''NAK'' []) (\<lambda>output.
       map_err UpRepository (write_pack g l repository cancelled (neg_wants n) (neg_haves n) vector_write output)))"

definition respond_fetch :: "gix \<Rightarrow> gix_listing \<Rightarrow> git_repository \<Rightarrow> (nat \<Rightarrow> nat \<Rightarrow> bool) \<Rightarrow> packet list
    \<Rightarrow> (upload_pack_error, blob) result" where
  "respond_fetch g l repository cancelled packets =
     try_then (negotiate_v2 g repository packets no_negotiation) (\<lambda>n.
     if neg_wants n = [] then Err UpIncompleteNegotiation
     else if \<not> neg_done n
     then try_then (encode_lines_to [''acknowledgments'', ''NAK''] []) (\<lambda>output. Ok (encode_flush output))
     else
       try_then (encode_line ''packfile'' []) (\<lambda>output.
       try_then (map_err UpRepository
         (write_pack g l repository cancelled (neg_wants n) (neg_haves n) sideband_write output)) (\<lambda>output.
       Ok (encode_flush output))))"

record ls_refs_arguments =
  lra_symrefs :: bool
  lra_peel :: bool
  lra_prefixes :: "blob list"

fun parse_ls_refs :: "packet list \<Rightarrow> ls_refs_arguments \<Rightarrow> (upload_pack_error, ls_refs_arguments) result" where
  "parse_ls_refs [] a = Ok a"
| "parse_ls_refs (Data line # packets) a =
     (let line = trim_line line in
      if line = as_bytes ''symrefs'' then parse_ls_refs packets (a\<lparr>lra_symrefs := True\<rparr>)
      else if line = as_bytes ''peel'' then parse_ls_refs packets (a\<lparr>lra_peel := True\<rparr>)
      else
        (case strip_prefix (as_bytes ''ref-prefix '') line of
           Some pre \<Rightarrow> parse_ls_refs packets (a\<lparr>lra_prefixes := lra_prefixes a @ [pre]\<rparr>)
         | None \<Rightarrow> Err UpUnsupportedRequest))"
| "parse_ls_refs (Flush # packets) a = parse_ls_refs packets a"
| "parse_ls_refs (_ # packets) a = Err UpUnsupportedRequest"

fun encode_refs :: "ls_refs_arguments \<Rightarrow> git_reference list \<Rightarrow> blob \<Rightarrow> (upload_pack_error, blob) result" where
  "encode_refs a [] output = Ok output"
| "encode_refs a (reference # refs) output =
     (if lra_prefixes a \<noteq> [] \<and> \<not> list_ex (\<lambda>pre. starts_with (ref_name reference) pre) (lra_prefixes a)
      then encode_refs a refs output
      else try_then (map_err UpPacketLine
          (encode_data (format_ref reference (lra_symrefs a) (lra_peel a)) output)) (encode_refs a refs))"

definition respond_ls_refs :: "gix_listing \<Rightarrow> git_repository \<Rightarrow> packet list \<Rightarrow> (upload_pack_error, blob) result" where
  "respond_ls_refs l repository packets =
     try_then (parse_ls_refs packets \<lparr>lra_symrefs = False, lra_peel = False, lra_prefixes = []\<rparr>) (\<lambda>a.
     try_then (map_err UpRepository (references l repository)) (\<lambda>refs.
     try_then (encode_refs a refs []) (\<lambda>output. Ok (encode_flush output))))"

fun command_name_from :: "hash_kind \<Rightarrow> packet list \<Rightarrow> blob option \<Rightarrow> (upload_pack_error, blob option) result" where
  "command_name_from object_format [] command = Ok command"
| "command_name_from object_format (Data line # packets) command =
     (let line = trim_line line in
      case strip_prefix (as_bytes ''command='') line of
        Some v \<Rightarrow>
          if command \<noteq> None then Err UpUnsupportedRequest else command_name_from object_format packets (Some v)
      | None \<Rightarrow>
          (case strip_prefix (as_bytes ''object-format='') line of
             Some v \<Rightarrow>
               if v \<noteq> as_bytes (hash_name object_format) then Err UpInvalidObjectId
               else command_name_from object_format packets command
           | None \<Rightarrow>
               if starts_with line (as_bytes ''agent='') then command_name_from object_format packets command
               else Err UpUnsupportedRequest))"
| "command_name_from object_format (_ # packets) command = Err UpUnsupportedRequest"

definition command_name :: "packet list \<Rightarrow> hash_kind \<Rightarrow> (upload_pack_error, blob) result" where
  "command_name packets object_format =
     try_then (command_name_from object_format packets None) (ok_or UpUnsupportedRequest)"

definition respond_v2 :: "gix \<Rightarrow> gix_listing \<Rightarrow> git_repository \<Rightarrow> (nat \<Rightarrow> nat \<Rightarrow> bool) \<Rightarrow> packet list
    \<Rightarrow> (upload_pack_error, blob) result" where
  "respond_v2 g l repository cancelled packets =
     (if Delimiter \<notin> set packets then Err UpUnsupportedRequest
      else
        let header = takeWhile (\<lambda>p. p \<noteq> Delimiter) packets;
            arguments = drop 1 (dropWhile (\<lambda>p. p \<noteq> Delimiter) packets) in
        try_then (command_name header (repo_format repository)) (\<lambda>command.
        if command = as_bytes ''ls-refs'' then respond_ls_refs l repository arguments
        else if command = as_bytes ''fetch'' then respond_fetch g l repository cancelled arguments
        else Err UpUnsupportedRequest))"

definition respond_with_cancellation :: "gix \<Rightarrow> gix_listing \<Rightarrow> git_repository \<Rightarrow> protocol_version \<Rightarrow> blob
    \<Rightarrow> (nat \<Rightarrow> nat \<Rightarrow> bool) \<Rightarrow> (upload_pack_error, blob) result" where
  "respond_with_cancellation g l repository version request cancelled =
     try_then (map_err UpPacketLine (decode request)) (\<lambda>packets.
     case version of
       V2 \<Rightarrow> respond_v2 g l repository cancelled packets
     | _ \<Rightarrow> respond_v1 g l repository cancelled packets)"

definition respond :: "gix \<Rightarrow> gix_listing \<Rightarrow> git_repository \<Rightarrow> protocol_version \<Rightarrow> blob \<Rightarrow> (upload_pack_error, blob) result" where
  "respond g l repository version request = respond_with_cancellation g l repository version request (\<lambda>_ _. False)"

section \<open>What a negotiation asks for\<close>

text \<open>The ids that the lines with a keyword name.\<close>

definition named_ids :: "gix \<Rightarrow> string \<Rightarrow> packet list \<Rightarrow> oid set" where
  "named_ids g keyword packets =
     {ident. \<exists>line v. Data line \<in> set packets \<and> trim_line line = as_bytes keyword @ v \<and> from_hex g v = Some ident}"

definition says_done :: "packet list \<Rightarrow> bool" where
  "says_done packets \<longleftrightarrow> (\<exists>line. Data line \<in> set packets \<and> trim_line line = as_bytes ''done'')"

lemma set_insert_id [simp]: "set (insert_id i ids) = insert i (set ids)"
  by (auto simp: insert_id_def)

lemma keywords_differ:
  "as_bytes ''want '' @ v \<noteq> as_bytes ''have '' @ v'" "as_bytes ''want '' @ v \<noteq> as_bytes ''done''"
  "as_bytes ''have '' @ v \<noteq> as_bytes ''done''"
  by (simp_all add: as_bytes_def byte_of_char_def)

lemma upload_parse_id_Ok:
  "upload_parse_id g repository v = Ok i \<longleftrightarrow> from_hex g v = Some i \<and> length i = hex_length (repo_format repository)"
  by (auto simp: upload_parse_id_def split: option.splits if_splits)

text \<open>What one line adds to a negotiation.\<close>

definition line_ids :: "gix \<Rightarrow> string \<Rightarrow> blob \<Rightarrow> oid set" where
  "line_ids g keyword line = {i. \<exists>v. line = as_bytes keyword @ v \<and> from_hex g v = Some i}"

lemma line_ids_other: "(\<And>v. line \<noteq> as_bytes keyword @ v) \<Longrightarrow> line_ids g keyword line = {}"
  by (auto simp: line_ids_def)

lemma line_ids_same: "from_hex g v = Some i \<Longrightarrow> line_ids g keyword (as_bytes keyword @ v) = {i}"
  by (auto simp: line_ids_def)

lemma strip_prefix_None: "strip_prefix p s = None \<longleftrightarrow> (\<forall>v. s \<noteq> p @ v)"
  by (metis not_None_eq strip_prefix_Some)

lemma negotiation_line_effect:
  assumes "negotiation_line g repository id ignored line n = Ok n'"
  shows "set (neg_wants n') = set (neg_wants n) \<union> line_ids g ''want '' line"
    and "set (neg_haves n') = set (neg_haves n) \<union> line_ids g ''have '' line"
    and "neg_done n' \<longleftrightarrow> neg_done n \<or> line = as_bytes ''done''"
proof -
  consider (wanted) v where "line = as_bytes ''want '' @ v"
    | (had) v where "line = as_bytes ''have '' @ v" "strip_prefix (as_bytes ''want '') line = None"
    | (other) "strip_prefix (as_bytes ''want '') line = None" "strip_prefix (as_bytes ''have '') line = None"
    by (metis strip_prefix_None)
  then have "set (neg_wants n') = set (neg_wants n) \<union> line_ids g ''want '' line
    \<and> set (neg_haves n') = set (neg_haves n) \<union> line_ids g ''have '' line
    \<and> (neg_done n' \<longleftrightarrow> neg_done n \<or> line = as_bytes ''done'')"
  proof cases
    case wanted
    have "line_ids g ''have '' line = {}" "line \<noteq> as_bytes ''done''"
      using keywords_differ unfolding wanted by (auto intro!: line_ids_other)
    then show ?thesis
      using assms line_ids_same [of g v _ "''want ''"]
      by (auto simp: wanted negotiation_line_def upload_parse_id_Ok split: if_splits)
  next
    case had
    have "line_ids g ''want '' line = {}" "line \<noteq> as_bytes ''done''"
      using keywords_differ had by (auto simp: strip_prefix_None intro!: line_ids_other)
    then show ?thesis
      using assms had line_ids_same [of g v _ "''have ''"]
      by (auto simp: negotiation_line_def upload_parse_id_Ok split: if_splits)
  next
    case other
    then have "line_ids g ''want '' line = {}" "line_ids g ''have '' line = {}"
      by (auto simp: strip_prefix_None intro!: line_ids_other)
    then show ?thesis
      using assms other by (auto simp: negotiation_line_def split: if_splits)
  qed
  then show "set (neg_wants n') = set (neg_wants n) \<union> line_ids g ''want '' line"
    and "set (neg_haves n') = set (neg_haves n) \<union> line_ids g ''have '' line"
    and "neg_done n' \<longleftrightarrow> neg_done n \<or> line = as_bytes ''done''" by auto
qed

lemma named_ids_simps:
  "named_ids g keyword [] = {}"
  "named_ids g keyword (Data line # packets) = line_ids g keyword (trim_line line) \<union> named_ids g keyword packets"
  "named_ids g keyword (Flush # packets) = named_ids g keyword packets"
  by (auto simp: named_ids_def line_ids_def)

lemma says_done_simps:
  "\<not> says_done []" "says_done (Data line # packets) \<longleftrightarrow> trim_line line = as_bytes ''done'' \<or> says_done packets"
  "says_done (Flush # packets) \<longleftrightarrow> says_done packets"
  by (auto simp: says_done_def)

lemma negotiate_v2_effect:
  "negotiate_v2 g repository packets n = Ok n' \<Longrightarrow>
     set (neg_wants n') = set (neg_wants n) \<union> named_ids g ''want '' packets
     \<and> set (neg_haves n') = set (neg_haves n) \<union> named_ids g ''have '' packets
     \<and> (neg_done n' \<longleftrightarrow> neg_done n \<or> says_done packets)"
proof (induction g repository packets n rule: negotiate_v2.induct)
  case (2 g repository line packets n)
  from "2.prems" obtain mid where mid: "negotiation_line g repository id
         [as_bytes ''thin-pack'', as_bytes ''no-progress'', as_bytes ''include-tag'', as_bytes ''ofs-delta'']
         (trim_line line) n = Ok mid" and rest: "negotiate_v2 g repository packets mid = Ok n'" by auto
  from "2.IH" [OF rest] negotiation_line_effect [OF mid] show ?case
    by (simp add: named_ids_simps says_done_simps Un_assoc) 
qed (auto simp: named_ids_simps says_done_simps)

section \<open>What a pack carries\<close>

lemma pack_entries_ids: "pack_entries g repository cancelled round packed ids = Ok entries \<Longrightarrow> map fst entries = ids"
  by (induction g repository cancelled round packed ids arbitrary: entries rule: pack_entries.induct)
    (auto simp: pack_entry_def map_err_Ok split: if_splits sum.splits option.splits)

lemma objects_to_send_exact:
  assumes "objects_to_send g l repository cancelled wants haves = Ok objects"
  obtains refs where "references l repository = Ok refs" and "set wants \<subseteq> set (advertised_ids refs)"
    and "distinct objects" and "wants \<noteq> []"
    and "set objects = {b. present g repository b \<and> (\<exists>w\<in>set wants. (refers_to g repository)\<^sup>*\<^sup>* w b)}
      - {b. present g repository b \<and> (\<exists>h\<in>set haves. (refers_to g repository)\<^sup>*\<^sup>* h b)}"
proof -
  from assms obtain refs excluded reached where
      refs: "references l repository = Ok refs" "wants \<noteq> []" "\<not> list_ex (\<lambda>want. want \<notin> set (advertised_ids refs)) wants"
    and excluded: "walk_reachable g repository haves (Some haves) (cancelled 0) = Ok excluded"
    and reached: "walk_reachable g repository wants None (cancelled 1) = Ok reached"
    and objects: "objects = sort_key (map (of_char :: char \<Rightarrow> nat)) (filter (\<lambda>i. i \<notin> set excluded) reached)"
    by (auto simp: objects_to_send_def Let_def split: if_splits)
  show thesis
  proof (rule that)
    show "references l repository = Ok refs" "wants \<noteq> []" by fact+
    show "set wants \<subseteq> set (advertised_ids refs)" using refs(3) by (auto simp: list_ex_iff)
    show "distinct objects" using walk_reachable_distinct [OF reached] by (simp add: objects)
    show "set objects = {b. present g repository b \<and> (\<exists>w\<in>set wants. (refers_to g repository)\<^sup>*\<^sup>* w b)}
      - {b. present g repository b \<and> (\<exists>h\<in>set haves. (refers_to g repository)\<^sup>*\<^sup>* h b)}"
      using walk_reachable_exact [OF reached] walk_reachable_exact [OF excluded] by (auto simp: objects)
  qed
qed

lemma encode_all_append: "encode_all (ps @ qs) outp = try_then (encode_all ps outp) (encode_all qs)"
proof (induction ps outp rule: encode_all.induct)
  case (2 d ps outp)
  then show ?case by (cases "encode_data d outp") auto
qed auto

lemma sideband_write_eq: "sideband_write = encode_sideband"
  by (intro ext) (simp add: sideband_write_def)

text \<open>What goes through the side band is a sequence of packets that carry the writes.\<close>

lemma sideband_writes:
  "counting_writer encode_sideband limit written writes outp = Ok outp' \<Longrightarrow>
     \<exists>parts. concat parts = concat writes \<and> encode_all (map (\<lambda>part. Data (1 # part)) parts) outp = Ok outp'"
proof (induction writes arbitrary: written outp)
  case Nil
  then show ?case by (intro exI [of _ "[]"]) simp
next
  case (Cons data writes)
  then obtain mid where mid: "encode_sideband data outp = Ok mid"
      and rest: "counting_writer encode_sideband limit (written + length data) writes mid = Ok outp'"
    by (auto split: if_splits)
  let ?parts = "chunks (MAX_PACKET_BYTES - 5) data"
  have first: "encode_all (map (\<lambda>part. Data (1 # part)) ?parts) outp = Ok mid" "concat ?parts = data"
    using mid chunks_concat [of "MAX_PACKET_BYTES - 5" data]
    by (simp_all add: encode_sideband_def encode_chunks_encode_all MAX_PACKET_BYTES_def)
  from Cons.IH [OF rest] obtain parts where "concat parts = concat writes"
      "encode_all (map (\<lambda>part. Data (1 # part)) parts) mid = Ok outp'" by blast
  with first show ?case by (intro exI [of _ "?parts @ parts"]) (simp add: encode_all_append)
qed

text \<open>C8. A fetch is answered with exactly the objects the client needs. If the server answers a protocol version 2 fetch
  that ends the negotiation, then every requested id is one it advertises, and the answer is the line
  \<^verbatim>\<open>packfile\<close>, data packets on band 1 and a flush, whose payloads together are gix's encoding of a pack. The pack
  has each object once, and its objects are those reachable from the wants and not reachable from the haves.\<close>

theorem fetch_sends_difference:
  assumes "decode request = Ok (header @ Delimiter # arguments)" and "Delimiter \<notin> set header"
    and "command_name header (repo_format repository) = Ok (as_bytes ''fetch'')" and "says_done arguments"
    and "respond_with_cancellation g l repository V2 request cancelled = Ok output"
  defines "reached keyword \<equiv> {b. present g repository b
      \<and> (\<exists>i\<in>named_ids g keyword arguments. (refers_to g repository)\<^sup>*\<^sup>* i b)}"
  shows "\<exists>refs entries writes parts. references l repository = Ok refs
    \<and> named_ids g ''want '' arguments \<subseteq> set (advertised_ids refs)
    \<and> decode_from output 0 []
       = Ok (Data (as_bytes ''packfile'' @ [byte_of_char newline]) # map (\<lambda>part. Data (1 # part)) parts @ [Flush])
    \<and> encode_pack l (repo_format repository) entries = Ok writes \<and> concat parts = concat writes
    \<and> distinct (map fst entries) \<and> set (map fst entries) = reached ''want '' - reached ''have ''"
proof -
  let ?line = "as_bytes ''packfile'' @ [byte_of_char newline]"
  have "takeWhile (\<lambda>p. p \<noteq> Delimiter) (header @ Delimiter # arguments) = header"
    "dropWhile (\<lambda>p. p \<noteq> Delimiter) (header @ Delimiter # arguments) = Delimiter # arguments"
    using assms(2) by (auto simp: takeWhile_append dropWhile_append)
  moreover have "as_bytes ''fetch'' \<noteq> as_bytes ''ls-refs''" by (simp add: as_bytes_def)
  ultimately have "respond_fetch g l repository cancelled arguments = Ok output"
    using assms(1,3,5) by (simp add: respond_with_cancellation_def respond_v2_def)
  then obtain n where n: "negotiate_v2 g repository arguments no_negotiation = Ok n"
      and answer: "(if neg_wants n = [] then Err UpIncompleteNegotiation
     else if \<not> neg_done n
     then try_then (encode_lines_to [''acknowledgments'', ''NAK''] []) (\<lambda>output. Ok (encode_flush output))
     else
       try_then (encode_line ''packfile'' []) (\<lambda>output.
       try_then (map_err UpRepository
         (write_pack g l repository cancelled (neg_wants n) (neg_haves n) sideband_write output)) (\<lambda>output.
       Ok (encode_flush output)))) = Ok output"
    by (auto simp: respond_fetch_def)
  note collected = negotiate_v2_effect [OF n]
  from answer collected assms(4) obtain start middle where start: "encode_data ?line [] = Ok start"
      and pack: "write_pack g l repository cancelled (neg_wants n) (neg_haves n) sideband_write start = Ok middle"
      and out: "output = encode_flush middle"
    by (auto split: if_splits)
  from pack obtain objects entries writes where
      objects: "objects_to_send g l repository cancelled (neg_wants n) (neg_haves n) = Ok objects"
    and entries: "pack_entries g repository (cancelled 2) 0 0 objects = Ok entries"
    and writes: "encode_pack l (repo_format repository) entries = Ok writes"
    and written: "counting_writer sideband_write REPOSITORY_MAX_PACK_BYTES 0 writes start = Ok middle"
    by (auto simp: write_pack_def)
  obtain refs where refs: "references l repository = Ok refs" "set (neg_wants n) \<subseteq> set (advertised_ids refs)"
      "distinct objects"
      "set objects = {b. present g repository b \<and> (\<exists>w\<in>set (neg_wants n). (refers_to g repository)\<^sup>*\<^sup>* w b)}
        - {b. present g repository b \<and> (\<exists>h\<in>set (neg_haves n). (refers_to g repository)\<^sup>*\<^sup>* h b)}"
    by (rule objects_to_send_exact [OF objects])
  obtain parts where parts: "concat parts = concat writes"
      "encode_all (map (\<lambda>part. Data (1 # part)) parts) start = Ok middle"
    using sideband_writes [OF written [unfolded sideband_write_eq]] by blast
  let ?packets = "Data ?line # map (\<lambda>part. Data (1 # part)) parts @ [Flush]"
  have "encode_all ?packets [] = Ok output"
    using start parts(2) out by (simp add: encode_all_append)
  moreover have "list_all well_formed_packet ?packets" by (auto simp: list_all_iff well_formed_packet_def)
  ultimately have "decode_from output 0 [] = Ok ?packets" using decode_from_encode_all [of ?packets "[]" _ "[]"] by simp
  then show ?thesis
    using refs writes parts(1) pack_entries_ids [OF entries] collected
    by (intro exI [of _ refs] exI [of _ entries] exI [of _ writes] exI [of _ parts]) (simp add: reached_def)
qed

text \<open>A client that has the first of two commits asks for the second, over their common tree.\<close>

definition second :: oid where "second = replicate 40 (CHR ''2'')"
definition first :: oid where "first = replicate 40 (CHR ''1'')"

definition sample_listing :: gix_listing where
  "sample_listing = \<lparr>all_references = (\<lambda>_. Ok [Ok \<lparr>raw_name = as_bytes ''refs/heads/main'', raw_id = Some second,
       raw_peeled = Err ''no tag''\<rparr>]),
     head_reference = (\<lambda>_. Ok None), encode_pack = (\<lambda>_ entries. Ok (map (\<lambda>(i, _, _). as_bytes i) entries))\<rparr>"

definition fetch_header :: "packet list" where "fetch_header = [Data (as_bytes ''command=fetch'')]"

definition fetch_arguments :: "packet list" where
  "fetch_arguments = [Data (as_bytes (''want '' @ second)), Data (as_bytes (''have '' @ first)), Data (as_bytes ''done''), Flush]"

definition fetch_request :: blob where
  "fetch_request = as_bytes (''0011command=fetch'' @ ''0001'' @ ''0031want '' @ second @ ''0031have '' @ first
     @ ''0008done'' @ ''0000'')"

lemma fetch_request_decodes: "decode fetch_request = Ok (fetch_header @ Delimiter # fetch_arguments)"
proof -
  have "format_04x 17 = ''0011''" "format_04x 49 = ''0031''" "format_04x 8 = ''0008''" by code_simp+
  then have "encode_all (fetch_header @ Delimiter # fetch_arguments) [] = Ok fetch_request"
    by (simp add: fetch_header_def fetch_arguments_def fetch_request_def encode_data_def encode_flush_def
        encode_delimiter_def Let_def MAX_PACKET_BYTES_def as_bytes_def second_def first_def)
  moreover have "list_all well_formed_packet (fetch_header @ Delimiter # fetch_arguments)"
    by (simp add: fetch_header_def fetch_arguments_def well_formed_packet_def as_bytes_def)
  moreover have "length fetch_request \<le> MAX_REQUEST_BYTES"
    by (simp add: fetch_request_def as_bytes_def second_def first_def MAX_REQUEST_BYTES_def)
  ultimately show ?thesis
    using decode_from_encode_all [of "fetch_header @ Delimiter # fetch_arguments" "[]" fetch_request "[]"]
    by (simp add: decode_def)
qed

lemma fetch_ids: "from_hex sample_gix (as_bytes second) = Some second \<and> from_hex sample_gix (as_bytes first) = Some first"
  by (simp add: sample_gix_def reference_gix_def second_def first_def lower_char_def ascii_defs list_all_iff)

lemma fetch_lines:
  "trim_line (as_bytes (''want '' @ second)) = as_bytes ''want '' @ as_bytes second"
  "trim_line (as_bytes (''have '' @ first)) = as_bytes ''have '' @ as_bytes first"
  "trim_line (as_bytes ''done'') = as_bytes ''done''"
  "strip_prefix (as_bytes ''want '') (as_bytes ''have '' @ v) = None"
  "strip_prefix (as_bytes ''want '') (as_bytes ''done'') = None"
  "strip_prefix (as_bytes ''have '') (as_bytes ''done'') = None"
  "from_hex sample_gix (as_bytes second) = Some second" "from_hex sample_gix (as_bytes first) = Some first"
proof -
  have "byte_of_char (CHR ''2'') \<noteq> byte_of_char newline" "byte_of_char (CHR ''1'') \<noteq> byte_of_char newline"
    "byte_of_char (CHR ''e'') \<noteq> byte_of_char newline"
    by (simp_all add: byte_of_char_def newline_def)
  then show "trim_line (as_bytes (''want '' @ second)) = as_bytes ''want '' @ as_bytes second"
    "trim_line (as_bytes (''have '' @ first)) = as_bytes ''have '' @ as_bytes first"
    "trim_line (as_bytes ''done'') = as_bytes ''done''"
    by (simp_all add: trim_line_def strip_suffix_def as_bytes_def second_def first_def)
  show "strip_prefix (as_bytes ''want '') (as_bytes ''have '' @ v) = None"
    "strip_prefix (as_bytes ''want '') (as_bytes ''done'') = None"
    "strip_prefix (as_bytes ''have '') (as_bytes ''done'') = None"
    unfolding strip_prefix_None by (metis keywords_differ)+
  show "from_hex sample_gix (as_bytes second) = Some second" "from_hex sample_gix (as_bytes first) = Some first"
    using fetch_ids by blast+
qed

lemma sample_ids:
  "length second = hex_length (repo_format sample_bare)" "length first = hex_length (repo_format sample_bare)"
  by (simp_all add: second_def first_def sample_bare_def hex_length_def)

lemma fetch_line_steps:
  "negotiation_line sample_gix sample_bare id ignored (as_bytes ''want '' @ as_bytes second) no_negotiation
   = Ok \<lparr>neg_wants = [second], neg_haves = [], neg_done = False\<rparr>"
  "negotiation_line sample_gix sample_bare id ignored (as_bytes ''have '' @ as_bytes first)
     \<lparr>neg_wants = [second], neg_haves = [], neg_done = False\<rparr>
   = Ok \<lparr>neg_wants = [second], neg_haves = [first], neg_done = False\<rparr>"
  "negotiation_line sample_gix sample_bare id ignored (as_bytes ''done'')
     \<lparr>neg_wants = [second], neg_haves = [first], neg_done = False\<rparr>
   = Ok \<lparr>neg_wants = [second], neg_haves = [first], neg_done = True\<rparr>"
  by (simp_all only: negotiation_line_def upload_parse_id_def fetch_lines strip_prefix_append sample_ids option.case
      id_apply)
    (simp_all add: insert_id_def MAX_NEGOTIATION_IDS_def)

lemma fetch_negotiated:
  "negotiate_v2 sample_gix sample_bare fetch_arguments no_negotiation
   = Ok \<lparr>neg_wants = [second], neg_haves = [first], neg_done = True\<rparr>"
  by (simp only: fetch_arguments_def negotiate_v2.simps fetch_lines fetch_line_steps try_then_simps)

lemma fetch_references:
  "references sample_listing sample_bare
   = Ok [\<lparr>ref_name = as_bytes ''refs/heads/main'', ref_target = second, ref_peeled = None, ref_symbolic_target = None\<rparr>]"
proof -
  have "\<not> starts_with (as_bytes ''refs/heads/main'') (as_bytes ''refs/tags/'')"
    "length (as_bytes ''refs/heads/main'') \<le> MAX_REFERENCE_NAME_BYTES"
    by (simp_all add: starts_with_def as_bytes_def MAX_REFERENCE_NAME_BYTES_def byte_of_char_def)
  then show ?thesis
    by (simp add: references_def references_with_limit_def sample_listing_def MAX_REFERENCES_def peeled_target_def)
qed

lemma fetch_walks:
  "walk_reachable sample_gix sample_bare [second] None (\<lambda>_. False) = Ok [replicate 40 (CHR ''e''), first, second]"
  "walk_reachable sample_gix sample_bare [first] (Some [first]) (\<lambda>_. False) = Ok [replicate 40 (CHR ''e''), first]"
proof -
  have ne: "replicate 40 c = replicate 40 d \<longleftrightarrow> c = d" for c d :: char by (simp add: replicate_eq_replicate)
  show "walk_reachable sample_gix sample_bare [second] None (\<lambda>_. False) = Ok [replicate 40 (CHR ''e''), first, second]"
    "walk_reachable sample_gix sample_bare [first] (Some [first]) (\<lambda>_. False) = Ok [replicate 40 (CHR ''e''), first]"
    by (simp_all add: walk_reachable_def sample_gix_def reference_gix_def sample_bare_def object_links_def parse_link_def
        hex_length_def MAX_OBJECTS_PER_PACK_def ne second_def first_def del: replicate.simps)
qed

lemma fetch_objects:
  "objects_to_send sample_gix sample_listing sample_bare (\<lambda>_ _. False) [second] [first] = Ok [second]"
proof -
  have "second \<noteq> first" "second \<noteq> replicate 40 (CHR ''e'')" by (simp_all add: second_def first_def)
  then show ?thesis
    by (simp add: objects_to_send_def sample_ids fetch_references fetch_walks advertised_ids_def Let_def)
qed

lemma fetch_answered:
  "\<exists>output. respond_with_cancellation sample_gix sample_listing sample_bare V2 fetch_request (\<lambda>_ _. False) = Ok output"
proof -
  have header: "takeWhile (\<lambda>p. p \<noteq> Delimiter) (fetch_header @ Delimiter # fetch_arguments) = fetch_header"
    "dropWhile (\<lambda>p. p \<noteq> Delimiter) (fetch_header @ Delimiter # fetch_arguments) = Delimiter # fetch_arguments"
    "command_name fetch_header (repo_format sample_bare) = Ok (as_bytes ''fetch'')"
    "as_bytes ''fetch'' \<noteq> as_bytes ''ls-refs''"
    by (simp_all add: fetch_header_def) code_simp+
  have entries: "pack_entries sample_gix sample_bare (\<lambda>_. False) 0 0 [second]
      = Ok [(second, CommitObject (replicate 40 (CHR ''e'')) [first], 10)]"
    by (simp add: pack_entry_def sample_gix_def second_def first_def REPOSITORY_MAX_OBJECT_BYTES_def REPOSITORY_MAX_PACK_BYTES_def)
  obtain start where start: "encode_data (as_bytes ''packfile'' @ [byte_of_char newline]) [] = Ok start"
    by (simp add: encode_data_def as_bytes_def MAX_PACKET_BYTES_def)
  have "list_all (\<lambda>c. length c + 5 \<le> MAX_PACKET_BYTES) (chunks (MAX_PACKET_BYTES - 5) (as_bytes second))"
    using chunks_bounded [of "MAX_PACKET_BYTES - 5" "as_bytes second"] by (auto simp: list_all_iff MAX_PACKET_BYTES_def)
  then obtain middle where "encode_sideband (as_bytes second) start = Ok middle"
    using encode_all_data_total [of "chunks (MAX_PACKET_BYTES - 5) (as_bytes second)" start]
    by (auto simp: encode_sideband_def encode_chunks_encode_all)
  moreover have packed: "encode_pack sample_listing k [(second, obj, 10)] = Ok [as_bytes second]"
    "length (as_bytes second) \<le> REPOSITORY_MAX_PACK_BYTES" "length (as_bytes second) < 2 ^ 64" for k obj
    by (simp_all add: sample_listing_def second_def as_bytes_def REPOSITORY_MAX_PACK_BYTES_def)
  ultimately have "write_pack sample_gix sample_listing sample_bare (\<lambda>_ _. False) [second] [first] sideband_write start = Ok middle"
    using packed by (simp add: write_pack_def fetch_objects entries sideband_write_def del: pack_entries.simps)
  then show ?thesis
    by (simp add: respond_with_cancellation_def fetch_request_decodes respond_v2_def header respond_fetch_def
        fetch_negotiated start)
qed

lemma fetch_sends_difference_witness:
  "\<exists>refs entries writes parts output. references sample_listing sample_bare = Ok refs
    \<and> named_ids sample_gix ''want '' fetch_arguments \<subseteq> set (advertised_ids refs)
    \<and> decode_from output 0 []
       = Ok (Data (as_bytes ''packfile'' @ [byte_of_char newline]) # map (\<lambda>part. Data (1 # part)) parts @ [Flush])
    \<and> encode_pack sample_listing (repo_format sample_bare) entries = Ok writes \<and> concat parts = concat writes"
proof -
  obtain bytes where answer:
      "respond_with_cancellation sample_gix sample_listing sample_bare V2 fetch_request (\<lambda>_ _. False) = Ok bytes"
    using fetch_answered by blast
  have "Delimiter \<notin> set fetch_header" "command_name fetch_header (repo_format sample_bare) = Ok (as_bytes ''fetch'')"
    by (simp add: fetch_header_def) code_simp
  moreover have "says_done fetch_arguments"
    unfolding fetch_arguments_def by (simp add: says_done_simps fetch_lines)
  ultimately show ?thesis using fetch_sends_difference [OF fetch_request_decodes _ _ _ answer] by blast
qed

end
