(* ===== verification/Utf8.thy ===== *)
theory Utf8
  imports Prelude
begin

text \<open>
  Which byte sequences \<^verbatim>\<open>std::str::from_utf8\<close> accepts: scalar values in their shortest form, without surrogates.
\<close>

definition continuation :: "nat \<Rightarrow> bool" where
  "continuation b \<longleftrightarrow> 128 \<le> b \<and> b < 192"

fun utf8_valid :: "nat list \<Rightarrow> bool" where
  "utf8_valid [] \<longleftrightarrow> True"
| "utf8_valid (b # bs) \<longleftrightarrow>
     (if b < 128 then utf8_valid bs
      else if 194 \<le> b \<and> b < 224 then
        (case bs of c # r \<Rightarrow> continuation c \<and> utf8_valid r | _ \<Rightarrow> False)
      else if 224 \<le> b \<and> b < 240 then
        (case bs of c # d # r \<Rightarrow>
           continuation c \<and> (b = 224 \<longrightarrow> 160 \<le> c) \<and> (b = 237 \<longrightarrow> c < 160) \<and> continuation d \<and> utf8_valid r
         | _ \<Rightarrow> False)
      else if 240 \<le> b \<and> b < 245 then
        (case bs of c # d # e # r \<Rightarrow>
           continuation c \<and> (b = 240 \<longrightarrow> 144 \<le> c) \<and> (b = 244 \<longrightarrow> c < 144) \<and> continuation d \<and> continuation e
           \<and> utf8_valid r
         | _ \<Rightarrow> False)
      else False)"

definition from_utf8 :: "blob \<Rightarrow> string option" where
  "from_utf8 bytes = (if utf8_valid (map unat bytes) then Some (string_of_bytes bytes) else None)"

lemma utf8_valid_ascii: "list_all (\<lambda>b. b < 128) bs \<Longrightarrow> utf8_valid bs"
  by (induction bs) auto

lemma unat_byte_of_char: "unat (byte_of_char c) = of_char c"
  by (simp add: byte_of_char_def unat_of_nat)

lemma from_utf8_ascii:
  assumes "list_all (\<lambda>c. of_char c < (128::nat)) s"
  shows "from_utf8 (as_bytes s) = Some s"
proof -
  have "utf8_valid (map unat (as_bytes s))"
    using assms by (intro utf8_valid_ascii) (simp add: as_bytes_def list_all_iff unat_byte_of_char)
  then show ?thesis by (simp add: from_utf8_def)
qed

text \<open>A string from its scalar values (\<^verbatim>\<open>collect::<String>()\<close>).\<close>

definition scalar_bytes :: "nat \<Rightarrow> nat list" where
  "scalar_bytes c =
     (if c < 128 then [c]
      else if c < 2048 then [192 + c div 64, 128 + c mod 64]
      else if c < 65536 then [224 + c div 4096, 128 + c div 64 mod 64, 128 + c mod 64]
      else [240 + c div 262144, 128 + c div 4096 mod 64, 128 + c div 64 mod 64, 128 + c mod 64])"

definition string_of_chars :: "nat list \<Rightarrow> string" where
  "string_of_chars cs = map char_of (concat (map scalar_bytes cs))"

definition is_scalar :: "nat \<Rightarrow> bool" where
  "is_scalar c \<longleftrightarrow> c < 1114112 \<and> \<not> (55296 \<le> c \<and> c < 57344)"

lemma utf8_scalars_scalar:
  assumes "c < 1114112"
  shows "utf8_scalars (scalar_bytes c @ bs) = c # utf8_scalars bs"
proof -
  have low: "(128 + x) mod 64 = x mod 64" "(192 + x) mod 32 = x mod 32" "(224 + x) mod 16 = x mod 16"
    "(240 + x) mod 8 = x mod 8" for x :: nat
  proof -
    show "(128 + x) mod 64 = x mod 64" using mod_mult_self4 [of 64 2 x] by simp
    show "(192 + x) mod 32 = x mod 32" using mod_mult_self4 [of 32 6 x] by simp
    show "(224 + x) mod 16 = x mod 16" using mod_mult_self4 [of 16 14 x] by simp
    show "(240 + x) mod 8 = x mod 8" using mod_mult_self4 [of 8 30 x] by simp
  qed
  have nested: "c div 64 div 64 = c div 4096" "c div 4096 div 64 = c div 262144"
    by (simp_all add: div_mult2_eq [symmetric])
  consider "c < 128" | "128 \<le> c" "c < 2048" | "2048 \<le> c" "c < 65536" | "65536 \<le> c" by linarith
  then show ?thesis
  proof cases
    case 2
    then have "c div 64 < 32" "2 \<le> c div 64" by auto
    then show ?thesis using 2 by (simp add: scalar_bytes_def low)
  next
    case 3
    then have "c div 4096 < 16" by auto
    moreover have "c div 4096 * 4096 + c div 64 mod 64 * 64 + c mod 64 = c"
      using div_mult_mod_eq [of c 64] div_mult_mod_eq [of "c div 64" 64] nested by linarith
    ultimately show ?thesis using 3 by (simp add: scalar_bytes_def low)
  next
    case 4
    have "c div 262144 < 8" using assms by auto
    moreover have "c div 262144 * 262144 + c div 4096 mod 64 * 4096 + c div 64 mod 64 * 64 + c mod 64 = c"
      using div_mult_mod_eq [of c 64] div_mult_mod_eq [of "c div 64" 64] div_mult_mod_eq [of "c div 4096" 64] nested
      by linarith
    ultimately show ?thesis using 4 by (simp add: scalar_bytes_def low)
  qed (simp add: scalar_bytes_def)
qed

lemma scalar_bytes_small: "c < 1114112 \<Longrightarrow> b \<in> set (scalar_bytes c) \<Longrightarrow> b < 256"
  by (auto simp: scalar_bytes_def split: if_splits)

lemma chars_string_of_chars:
  assumes "list_all (\<lambda>c. c < 1114112) cs"
  shows "chars (string_of_chars cs) = cs"
proof -
  have "map of_char (string_of_chars cs) = concat (map scalar_bytes cs)"
    using assms by (auto simp: string_of_chars_def list_all_iff intro!: map_idI mod_less scalar_bytes_small)
  moreover have "utf8_scalars (concat (map scalar_bytes cs)) = cs"
    using assms by (induction cs) (simp_all add: utf8_scalars_scalar)
  ultimately show ?thesis by (simp add: chars_def)
qed

lemma string_of_ascii: "list_all (\<lambda>c. of_char c < (128::nat)) s \<Longrightarrow> string_of_chars (map of_char s) = s"
  by (induction s) (simp_all add: string_of_chars_def scalar_bytes_def)

end
