(* ===== verification/Git_Transport.thy ===== *)
theory Git_Transport
  imports Push Utf8
begin

text \<open>
  From a Git command of an SSH client to a repository on disk, \<^verbatim>\<open>src/git/transport.rs\<close>: the parser of the command, the
  check of the names, the authorization and the path. Semaphores and the maintenance gate are not modelled.

  The theorems show that no command reaches a repository the actor has no right to, and decide for the commands that
  Git clients send what they resolve to.
\<close>

datatype repository_path_error =
    PathRoot string string
  | PathInvalidName
  | PathInvalidCommand
  | PathRepository string string
  | PathOutsideRoot
  | PathUnauthorized

text \<open>\<open>gr_policy\<close> says whether there is a policy; \<open>gr_canonicalize\<close> is \<^verbatim>\<open>fs::canonicalize\<close>.\<close>

record git_repositories =
  gr_root :: string
  gr_managed_public :: "(string \<times> string \<rightharpoonup> string) option"
  gr_policy :: bool
  gr_canonicalize :: "string \<Rightarrow> (string, string) result"

datatype git_ssh_service = UploadService string | ReceiveService string string string

definition valid_name :: "string \<Rightarrow> nat \<Rightarrow> bool" where
  "valid_name v maximum \<longleftrightarrow>
     v \<noteq> [] \<and> length v \<le> maximum \<and> list_all (\<lambda>c. of_char c < (128::nat)) v
     \<and> list_all (\<lambda>c. is_ascii_lowercase c \<or> is_ascii_digit c \<or> c \<in> set ''._-'') v
     \<and> hd v \<notin> set ''.-_'' \<and> last v \<notin> set ''.-_''
     \<and> \<not> sublist ''..'' v"

text \<open>\<^verbatim>\<open>s.strip_suffix(".git").unwrap_or(s)\<close>.\<close>

definition without_git :: "string \<Rightarrow> string" where
  "without_git s = (case strip_suffix ''.git'' s of None \<Rightarrow> s | Some t \<Rightarrow> t)"

definition path_within :: "string \<Rightarrow> string \<Rightarrow> bool" where
  "path_within path root \<longleftrightarrow> starts_with (path_components path) (path_components root)"

definition repository_candidate :: "git_repositories \<Rightarrow> database \<Rightarrow> string option \<Rightarrow> string \<Rightarrow> string
    \<Rightarrow> repository_operation \<Rightarrow> (repository_path_error, string) result" where
  "repository_candidate t db actor owner repository operation =
     (if gr_policy t
      then
        try_then (map_err (\<lambda>_. PathUnauthorized) (authorize db actor owner repository operation)) (\<lambda>record.
        Ok (path_join (gr_root t) (rr_id record @ ''.git'')))
      else
        (case gr_managed_public t of
           Some repositories \<Rightarrow>
             try_then (ok_or (PathRepository (path_join (path_join (gr_root t) owner) repository)
                 ''repository is not public and active'') (repositories (owner, repository))) (\<lambda>ident.
             Ok (path_join (gr_root t) (ident @ ''.git'')))
         | None \<Rightarrow> Ok (path_join (path_join (gr_root t) owner) (repository @ ''.git''))))"

definition resolve_for :: "git_repositories \<Rightarrow> database \<Rightarrow> string option \<Rightarrow> string \<Rightarrow> string
    \<Rightarrow> repository_operation \<Rightarrow> (repository_path_error, string) result" where
  "resolve_for t db actor owner repository operation =
     (if \<not> valid_name owner 40 then Err PathInvalidName
      else
        let repository = without_git repository in
        if \<not> valid_name repository 100 then Err PathInvalidName
        else
          try_then (repository_candidate t db actor owner repository operation) (\<lambda>candidate.
          try_then (map_err (PathRepository candidate) (gr_canonicalize t candidate)) (\<lambda>candidate.
          if \<not> path_within candidate (gr_root t) then Err PathOutsideRoot else Ok candidate)))"

definition quote :: char where "quote = CHR 0x27"

definition parse_ssh_repository :: "blob \<Rightarrow> string \<Rightarrow> (repository_path_error, string \<times> string) result" where
  "parse_ssh_repository command pre =
     try_then (ok_or PathInvalidCommand (from_utf8 command)) (\<lambda>command.
     try_then (ok_or PathInvalidCommand
       (Option.bind (strip_prefix pre command) (strip_suffix [quote]))) (\<lambda>path.
     if quote \<in> set path then Err PathInvalidCommand
     else
       let path = (case strip_prefix ''/'' path of None \<Rightarrow> path | Some rest \<Rightarrow> rest) in
       (case split_on (CHR ''/'') path of
          [owner, repository] \<Rightarrow> Ok (owner, without_git repository)
        | _ \<Rightarrow> Err PathInvalidCommand)))"

definition resolve_ssh_service_for :: "git_repositories \<Rightarrow> database \<Rightarrow> string option \<Rightarrow> blob
    \<Rightarrow> (repository_path_error, git_ssh_service) result" where
  "resolve_ssh_service_for t db actor command =
     (if starts_with command (as_bytes ''git-upload-pack '')
      then
        try_then (parse_ssh_repository command (''git-upload-pack '' @ [quote])) (\<lambda>(owner, repository).
        try_then (resolve_for t db actor owner repository ReadOp) (\<lambda>path.
        Ok (UploadService path)))
      else
        try_then (parse_ssh_repository command (''git-receive-pack '' @ [quote])) (\<lambda>(owner, repository).
        try_then (resolve_for t db actor owner repository WriteOp) (\<lambda>path.
        Ok (ReceiveService path owner repository))))"

definition transport_authorize :: "git_repositories \<Rightarrow> database \<Rightarrow> string \<Rightarrow> string \<Rightarrow> string \<Rightarrow> repository_operation
    \<Rightarrow> bool" where
  "transport_authorize t db actor owner repository operation \<longleftrightarrow>
     (gr_policy t \<longrightarrow> \<not> isl (authorize db (Some actor) owner repository operation))"

section \<open>Names\<close>

lemma slug_char_small: "slug_char c \<Longrightarrow> of_char c < (128::nat)"
  using slug_char_plain by (auto simp: plain_ascii_def)

lemma valid_slug_name:
  assumes "validate_slug slug = Ok ()"
  shows "valid_name slug 100 \<longleftrightarrow> \<not> sublist ''..'' slug"
proof -
  have s: "slug \<noteq> []" "length slug \<le> 100" "list_all slug_char slug" "is_ascii_alphanumeric (hd slug)"
      "is_ascii_alphanumeric (last slug)"
    using assms by (auto simp: validate_slug_def MAX_SLUG_BYTES_def split: if_splits)
  have ends: "c \<notin> set ''.-_''" if "is_ascii_alphanumeric c" for c using that by (auto simp: ascii_defs)
  have "list_all (\<lambda>c. of_char c < (128::nat)) slug" using s(3) by (auto simp: list_all_iff slug_char_small)
  then show ?thesis
    using s ends [OF s(4)] ends [OF s(5)] by (auto simp: valid_name_def list_all_iff slug_char_def)
qed

lemma username_name:
  assumes "validate_username owner = Ok ()"
  shows "valid_name owner 40" "CHR ''/'' \<notin> set owner" "quote \<notin> set owner" "list_all (\<lambda>c. of_char c < (128::nat)) owner"
proof -
  have o: "owner \<noteq> []" "length owner \<le> 40" "valid_character (hd owner)" "valid_character (last owner)"
      "\<And>c. c \<in> set owner \<Longrightarrow> valid_character c \<or> c = CHR ''-''"
    using assms by (auto simp: validate_username_def list_all_iff split: if_splits)
  have small: "valid_character c \<or> c = CHR ''-'' \<Longrightarrow> of_char c < (128::nat)" for c
    using username_char_plain by (auto simp: plain_ascii_def)
  have no: "CHR ''.'' \<notin> set owner" "CHR ''/'' \<notin> set owner" "quote \<notin> set owner"
  proof -
    have "c \<noteq> CHR ''.'' \<and> c \<noteq> CHR ''/'' \<and> c \<noteq> quote" if "valid_character c \<or> c = CHR ''-''" for c
      using that by (auto simp: valid_character_def ascii_defs quote_def)
    then show "CHR ''.'' \<notin> set owner" "CHR ''/'' \<notin> set owner" "quote \<notin> set owner" using o(5) by blast+
  qed
  then have "\<not> sublist ''..'' owner" by (auto simp: sublist_def)
  moreover have ends: "c \<notin> set ''.-_''" if "valid_character c" for c using that by (auto simp: valid_character_def ascii_defs)
  moreover show ascii: "list_all (\<lambda>c. of_char c < (128::nat)) owner" using o(5) small by (auto simp: list_all_iff)
  ultimately show "valid_name owner 40"
    using o(1,2,5) ends [OF o(3)] ends [OF o(4)] by (auto simp: valid_name_def list_all_iff valid_character_def)
  show "CHR ''/'' \<notin> set owner" "quote \<notin> set owner" by fact+
qed

lemma slug_text:
  assumes "validate_slug slug = Ok ()"
  shows "CHR ''/'' \<notin> set slug" "quote \<notin> set slug" "list_all (\<lambda>c. of_char c < (128::nat)) slug"
    and "without_git slug = slug" "without_git (slug @ ''.git'') = slug"
proof -
  have s: "list_all slug_char slug" "\<not> ends_with slug ''.git''"
    using assms by (auto simp: validate_slug_def split: if_splits)
  show "CHR ''/'' \<notin> set slug" "quote \<notin> set slug"
    using s(1) by (auto simp: list_all_iff slug_char_def ascii_defs quote_def)
  show "list_all (\<lambda>c. of_char c < (128::nat)) slug" using s(1) by (auto simp: list_all_iff slug_char_small)
  show "without_git slug = slug"
    using s(2) by (auto simp: without_git_def strip_suffix_Some ends_with_def split: option.split)
  show "without_git (slug @ ''.git'') = slug" unfolding without_git_def strip_suffix_append by simp
qed

section \<open>Commands\<close>

text \<open>The command of a Git client, with or without the leading slash and the suffix.\<close>

definition ssh_command :: "string \<Rightarrow> string \<Rightarrow> string \<Rightarrow> string \<Rightarrow> string \<Rightarrow> blob" where
  "ssh_command service lead owner slug ext =
     as_bytes (service @ '' '' @ [quote] @ lead @ owner @ ''/'' @ slug @ ext @ [quote])"

lemma parse_ssh_command:
  assumes "validate_username owner = Ok ()" and "validate_slug slug = Ok ()"
    and "lead \<in> {[], ''/''}" and "ext \<in> {[], ''.git''}" and "list_all (\<lambda>c. of_char c < (128::nat)) service"
  shows "parse_ssh_repository (ssh_command service lead owner slug ext) (service @ '' '' @ [quote]) = Ok (owner, slug)"
proof -
  note o = username_name [OF assms(1)] and s = slug_text [OF assms(2)]
  define path where "path = lead @ owner @ ''/'' @ slug @ ext"
  define rest where "rest = owner @ ''/'' @ slug @ ext"
  have chars: "of_char quote < (128::nat)" "of_char (CHR '' '') < (128::nat)" "of_char (CHR ''/'') < (128::nat)"
    "list_all (\<lambda>c. of_char c < (128::nat)) ''.git''" "quote \<noteq> CHR ''/''" "quote \<notin> set ''.git''"
    by (simp_all add: quote_def)
  have "list_all (\<lambda>c. of_char c < (128::nat)) (service @ '' '' @ [quote] @ path @ [quote])"
    unfolding path_def using assms(3-5) o(4) s(3) chars by auto
  then have "from_utf8 (as_bytes (service @ '' '' @ [quote] @ path @ [quote])) = Some (service @ '' '' @ [quote] @ path @ [quote])"
    by (rule from_utf8_ascii)
  then have decoded: "from_utf8 (ssh_command service lead owner slug ext) = Some (service @ '' '' @ [quote] @ path @ [quote])"
    by (simp add: ssh_command_def path_def)
  have stripped: "strip_prefix (service @ '' '' @ [quote]) (service @ '' '' @ [quote] @ path @ [quote]) = Some (path @ [quote])"
    using strip_prefix_append [of "service @ '' '' @ [quote]" "path @ [quote]"] by simp
  have free: "quote \<notin> set path" unfolding path_def using assms(3,4) o(3) s(2) chars by auto
  have lead: "(case strip_prefix ''/'' path of None \<Rightarrow> path | Some rest \<Rightarrow> rest) = rest"
  proof -
    have "owner \<noteq> []" using o(1) by (simp add: valid_name_def)
    moreover from this have "hd owner \<noteq> CHR ''/''" using o(2) hd_in_set by metis
    ultimately have "strip_prefix ''/'' rest = None" unfolding rest_def by (cases owner) (auto simp: strip_prefix_def)
    moreover have "path = rest \<or> path = ''/'' @ rest" using assms(3) by (auto simp: path_def rest_def)
    ultimately show ?thesis by (auto simp only: strip_prefix_append option.case)
  qed
  have parts: "split_on (CHR ''/'') rest = [owner, slug @ ext]"
    unfolding rest_def using o(2) s(1) assms(4) by (auto simp: split_on_append split_on_none)
  have "without_git (slug @ ext) = slug" using assms(4) s(4,5) by auto
  then show ?thesis
    by (simp only: parse_ssh_repository_def decoded stripped ok_or_simps try_then_simps bind.bind_lunit
        strip_suffix_append free if_False Let_def lead parts list.case)
qed

section \<open>Who reaches what\<close>

lemma resolve_for_Ok:
  assumes "resolve_for t db actor owner repository operation = Ok path" and "gr_policy t"
  obtains stored where "authorize db actor owner (without_git repository) operation = Ok stored"
    and "gr_canonicalize t (path_join (gr_root t) (rr_id stored @ ''.git'')) = Ok path" and "path_within path (gr_root t)"
  using assms by (auto simp: resolve_for_def repository_candidate_def Let_def split: if_splits)

text \<open>C14. No bytes that an SSH client sends as its command reach a repository without the right to it: whatever the
  command, if it is resolved to a service on a path, then the policy authorizes the actor for reading or, in the case of
  a push, for writing the repository whose directory this is, the path lies within the root, and the operation that
  was checked is the one the service performs.\<close>

theorem ssh_service_authorized:
  assumes "gr_policy t" and "resolve_ssh_service_for t db actor command = Ok service"
  shows "\<exists>owner slug record path.
    (service = UploadService path \<and> authorize db actor owner slug ReadOp = Ok record
      \<or> (\<exists>repository. service = ReceiveService path owner repository \<and> repository \<in> {slug, slug @ ''.git''}
          \<and> authorize db actor owner slug WriteOp = Ok record))
    \<and> gr_canonicalize t (path_join (gr_root t) (rr_id record @ ''.git'')) = Ok path \<and> path_within path (gr_root t)"
proof (cases "starts_with command (as_bytes ''git-upload-pack '')")
  case True
  with assms(2) obtain owner repository path where "resolve_for t db actor owner repository ReadOp = Ok path"
      "service = UploadService path"
    by (auto simp: resolve_ssh_service_for_def)
  then show ?thesis using assms(1) by (elim resolve_for_Ok) blast+
next
  case False
  with assms(2) obtain owner repository path where resolved: "resolve_for t db actor owner repository WriteOp = Ok path"
      "service = ReceiveService path owner repository"
    by (auto simp: resolve_ssh_service_for_def)
  have "repository \<in> {without_git repository, without_git repository @ ''.git''}"
    by (auto simp: without_git_def strip_suffix_Some split: option.split)
  with resolved show ?thesis using assms(1) by (elim resolve_for_Ok) blast+
qed

text \<open>C15. The commands that Git clients send are resolved as they should be, with one exception. For a valid owner and a
  valid repository name, with or without the leading slash and the suffix \<^verbatim>\<open>.git\<close>, the answer is that of the policy and
  of the directory on disk; but a repository whose name contains two dots in a row, which \<^verbatim>\<open>validate_slug\<close> admits, is
  refused to everyone, its owner included: it can be created and browsed, and neither fetched nor pushed over SSH.\<close>

theorem ssh_command_resolves:
  assumes "gr_policy t" and "validate_username owner = Ok ()" and "validate_slug slug = Ok ()"
    and "lead \<in> {[], ''/''}" and "ext \<in> {[], ''.git''}"
    and "(service, operation) \<in> {(''git-upload-pack'', ReadOp), (''git-receive-pack'', WriteOp)}"
  shows "resolve_ssh_service_for t db actor (ssh_command service lead owner slug ext) =
    (if sublist ''..'' slug then Err PathInvalidName
     else
       (case authorize db actor owner slug operation of
          Inl _ \<Rightarrow> Err PathUnauthorized
        | Inr record \<Rightarrow>
            let candidate = path_join (gr_root t) (rr_id record @ ''.git'') in
            (case gr_canonicalize t candidate of
               Inl e \<Rightarrow> Err (PathRepository candidate e)
             | Inr path \<Rightarrow>
                 if \<not> path_within path (gr_root t) then Err PathOutsideRoot
                 else Ok (if operation = ReadOp then UploadService path else ReceiveService path owner slug))))"
proof -
  have ascii: "list_all (\<lambda>c. of_char c < (128::nat)) service" using assms(6) by auto
  note parsed = parse_ssh_command [OF assms(2-5) ascii]
  note names = username_name(1) [OF assms(2)] valid_slug_name [OF assms(3)] slug_text(4) [OF assms(3)]
  have resolved: "resolve_for t db actor owner slug operation =
    (if sublist ''..'' slug then Err PathInvalidName
     else
       (case authorize db actor owner slug operation of
          Inl _ \<Rightarrow> Err PathUnauthorized
        | Inr record \<Rightarrow>
            let candidate = path_join (gr_root t) (rr_id record @ ''.git'') in
            (case gr_canonicalize t candidate of
               Inl e \<Rightarrow> Err (PathRepository candidate e)
             | Inr path \<Rightarrow> if \<not> path_within path (gr_root t) then Err PathOutsideRoot else Ok path)))"
    using names assms(1)
    by (simp add: resolve_for_def repository_candidate_def Let_def map_err_def try_then_def split: sum.split)
  have upload: "starts_with (ssh_command ''git-upload-pack'' lead owner slug ext) (as_bytes ''git-upload-pack '')"
    by (simp add: ssh_command_def starts_with_def as_bytes_def)
  have receive: "\<not> starts_with (ssh_command ''git-receive-pack'' lead owner slug ext) (as_bytes ''git-upload-pack '')"
    by (simp add: ssh_command_def starts_with_def as_bytes_def byte_of_char_def)
  have "resolve_ssh_service_for t db actor (ssh_command service lead owner slug ext) =
      try_then (resolve_for t db actor owner slug operation) (\<lambda>path.
        Ok (if operation = ReadOp then UploadService path else ReceiveService path owner slug))"
  proof (cases "operation = ReadOp")
    case True
    with assms(6) have service: "service = ''git-upload-pack''" by auto
    have "parse_ssh_repository (ssh_command ''git-upload-pack'' lead owner slug ext) (''git-upload-pack '' @ [quote])
        = Ok (owner, slug)"
      using parsed service by simp
    then show ?thesis
      by (simp only: resolve_ssh_service_for_def service upload if_True try_then_simps prod.case True) simp
  next
    case False
    with assms(6) have service: "service = ''git-receive-pack''" "operation = WriteOp" by auto
    have "parse_ssh_repository (ssh_command ''git-receive-pack'' lead owner slug ext) (''git-receive-pack '' @ [quote])
        = Ok (owner, slug)"
      using parsed service by simp
    then show ?thesis
      by (simp only: resolve_ssh_service_for_def service receive if_False try_then_simps prod.case
          repository_operation.distinct)
  qed
  then show ?thesis unfolding resolved by (simp add: Let_def try_then_def split: sum.split)
qed

definition sample_repositories :: git_repositories where
  "sample_repositories = \<lparr>gr_root = ''/r'', gr_managed_public = None, gr_policy = True, gr_canonicalize = Ok\<rparr>"

definition site_path :: string where "site_path = ''/r/'' @ id32 (CHR ''b'') @ ''.git''"

lemma ssh_command_resolves_witness:
  "resolve_ssh_service_for sample_repositories sample_db (Some ''bob'') (ssh_command ''git-receive-pack'' ''/'' ''acme'' ''site'' ''.git'')
     = Ok (ReceiveService site_path ''acme'' ''site'')
   \<and> resolve_ssh_service_for sample_repositories sample_db (Some ''bob'') (ssh_command ''git-upload-pack'' [] ''acme'' ''a..b'' [])
     = Err PathInvalidName"
proof -
  have names: "validate_username ''acme'' = Ok ()" "validate_slug ''site'' = Ok ()" "validate_slug ''a..b'' = Ok ()" by code_simp+
  have "authorize sample_db (Some ''bob'') ''acme'' ''site'' WriteOp
      = Ok (repository_from_row (db_repository sample_db ! 1) (db_namespace sample_db ! 4))"
    "path_join (gr_root sample_repositories)
       (rr_id (repository_from_row (db_repository sample_db ! 1) (db_namespace sample_db ! 4)) @ ''.git'') = site_path"
    "path_within site_path (gr_root sample_repositories)" "\<not> sublist ''..'' ''site''" "sublist ''..'' ''a..b''"
    by code_simp+
  moreover have "gr_policy sample_repositories" "gr_canonicalize sample_repositories site_path = Ok site_path"
    by (simp_all add: sample_repositories_def)
  ultimately show ?thesis
    using ssh_command_resolves [of sample_repositories "''acme''" "''site''" "''/''" "''.git''" "''git-receive-pack''" WriteOp
        sample_db "Some ''bob''"]
      ssh_command_resolves [of sample_repositories "''acme''" "''a..b''" "[]" "[]" "''git-upload-pack''" ReadOp
        sample_db "Some ''bob''"] names
    by (simp add: Let_def)
qed

lemma ssh_service_authorized_witness:
  "\<exists>owner slug record. authorize sample_db (Some ''bob'') owner slug ReadOp = Ok record
     \<and> gr_canonicalize sample_repositories (path_join (gr_root sample_repositories) (rr_id record @ ''.git'')) = Ok site_path"
proof -
  have "resolve_ssh_service_for sample_repositories sample_db (Some ''bob'') (ssh_command ''git-upload-pack'' ''/'' ''acme'' ''site'' ''.git'')
     = Ok (UploadService site_path)" by code_simp
  moreover have "gr_policy sample_repositories" by (simp add: sample_repositories_def)
  ultimately show ?thesis
    using ssh_service_authorized [of sample_repositories sample_db "Some ''bob''"
        "ssh_command ''git-upload-pack'' ''/'' ''acme'' ''site'' ''.git''" "UploadService site_path"] by auto
qed

end
