(* ===== verification/Metadata_Search.thy ===== *)
theory Metadata_Search
  imports Policy Utf8
begin

text \<open>
  The search over repository names, \<^verbatim>\<open>src/search.rs\<close>, as a fold over the rows that the store visits. \<open>lowercase\<close>
  stands for \<^verbatim>\<open>str::to_lowercase\<close>, which follows the Unicode tables, and \<open>late\<close> for the clock, read at each visit.

  The lemmas follow the visitor through the rows; the theorem states what a search shows, to whom, and that a search
  that was not cut short shows everything.
\<close>

definition MAX_QUERY_BYTES :: nat where "MAX_QUERY_BYTES = 256"
definition MAX_SCAN_ROWS :: nat where "MAX_SCAN_ROWS = 10000"
definition MAX_SCAN_BYTES :: nat where "MAX_SCAN_BYTES = 8 * 1024 * 1024"
definition MAX_RESULTS :: nat where "MAX_RESULTS = 100"

datatype metadata_search_error =
    SearchAuth auth_error
  | SearchStore store_error
  | SearchInvalidQuery
  | SearchLimit
  | SearchStoredCandidate

record metadata_search_candidate =
  msc_kind :: string
  msc_record_id :: string
  msc_owner :: string
  msc_repository :: string
  msc_title :: blob
  msc_body :: blob

record metadata_search_result =
  msr_kind :: string
  msr_url :: string
  msr_title :: string
  msr_summary :: string
  msr_stable_id :: string

record metadata_search_outcome =
  mso_query :: string
  mso_rows_scanned :: nat
  mso_bytes_scanned :: nat
  mso_truncated :: bool
  mso_results :: "metadata_search_result list"

text \<open>The columns of a visited row.\<close>

definition search_candidate :: "repository \<times> namespace \<Rightarrow> metadata_search_candidate" where
  "search_candidate = (\<lambda>(r, n).
     \<lparr>msc_kind = ''repository'', msc_record_id = repo_id r, msc_owner = ns_slug n, msc_repository = repo_slug r,
      msc_title = as_bytes (ns_slug n @ ''/'' @ repo_slug r), msc_body = []\<rparr>)"

text \<open>\<^verbatim>\<open>split_whitespace\<close>, on scalar values.\<close>

function split_whitespace :: "nat list \<Rightarrow> nat list list" where
  "split_whitespace cs =
     (let rest = dropWhile is_whitespace cs in
      if rest = [] then []
      else takeWhile (\<lambda>c. \<not> is_whitespace c) rest # split_whitespace (dropWhile (\<lambda>c. \<not> is_whitespace c) rest))"
  by pat_completeness auto
termination
proof (relation "measure length")
  fix cs rest :: "nat list"
  assume rest: "rest = dropWhile is_whitespace cs" "rest \<noteq> []"
  then have "\<not> is_whitespace (hd rest)" using hd_dropWhile [of is_whitespace cs] by simp
  then have "length (dropWhile (\<lambda>c. \<not> is_whitespace c) rest) < length rest"
    using rest(2) length_dropWhile_le [of "\<lambda>c. \<not> is_whitespace c" "tl rest"] by (cases rest) auto
  also have "length rest \<le> length cs" unfolding rest(1) by (rule length_dropWhile_le)
  finally show "(dropWhile (\<lambda>c. \<not> is_whitespace c) rest, cs) \<in> measure length" by simp
qed simp

declare split_whitespace.simps [simp del]

fun join_words :: "nat list list \<Rightarrow> nat list" where
  "join_words [] = []"
| "join_words [w] = w"
| "join_words (w # ws) = w @ 32 # join_words ws"

definition result_from_candidate :: "metadata_search_candidate
    \<Rightarrow> (metadata_search_error, metadata_search_result) result" where
  "result_from_candidate candidate =
     try_then (ok_or SearchStoredCandidate (from_utf8 (msc_title candidate))) (\<lambda>title.
     try_then (ok_or SearchStoredCandidate (from_utf8 (msc_body candidate))) (\<lambda>body.
     if msc_kind candidate \<noteq> ''repository'' then Err SearchStoredCandidate
     else Ok \<lparr>msr_kind = ''Repository'', msr_url = ''/'' @ msc_owner candidate @ ''/'' @ msc_repository candidate,
              msr_title = title,
              msr_summary = string_of_chars (take 160 (join_words (split_whitespace (chars body)))),
              msr_stable_id = msc_record_id candidate\<rparr>))"

text \<open>What the visitor has collected; \<open>sst_visits\<close> counts its calls.\<close>

record search_state =
  sst_visits :: nat
  sst_bytes :: nat
  sst_rows :: nat
  sst_seen :: "string list"
  sst_results :: "metadata_search_result list"
  sst_error :: "metadata_search_error option"

definition search_visit :: "(string \<Rightarrow> string) \<Rightarrow> (nat \<Rightarrow> bool) \<Rightarrow> string \<Rightarrow> metadata_search_candidate \<Rightarrow> search_state
    \<Rightarrow> bool \<times> search_state" where
  "search_visit lowercase late needle candidate st =
     (let st = st\<lparr>sst_visits := sst_visits st + 1\<rparr>;
          bytes = length (msc_title candidate) + length (msc_body candidate) in
      if late (sst_visits st) then (False, st)
      else if bytes \<ge> 2 ^ 64 then (False, st\<lparr>sst_error := Some SearchLimit\<rparr>)
      else if min (sst_bytes st + bytes) (2 ^ 64 - 1) > MAX_SCAN_BYTES then (False, st)
      else
        let st = st\<lparr>sst_bytes := sst_bytes st + bytes, sst_rows := sst_rows st + 1\<rparr> in
        (case (from_utf8 (msc_title candidate), from_utf8 (msc_body candidate)) of
           (Some title, Some body) \<Rightarrow>
             if \<not> sublist needle (lowercase title) \<and> \<not> sublist needle (lowercase body) then (True, st)
             else
               (case result_from_candidate candidate of
                  Inl _ \<Rightarrow> (False, st\<lparr>sst_error := Some SearchStoredCandidate\<rparr>)
                | Inr found \<Rightarrow>
                    if msr_url found \<in> set (sst_seen st) then (True, st)
                    else
                      let st = st\<lparr>sst_seen := msr_url found # sst_seen st\<rparr> in
                      if length (sst_results st) = MAX_RESULTS then (False, st)
                      else (True, st\<lparr>sst_results := sst_results st @ [found]\<rparr>))
         | _ \<Rightarrow> (False, st\<lparr>sst_error := Some SearchStoredCandidate\<rparr>)))"

definition trim_string :: "string \<Rightarrow> string" where
  "trim_string s = string_of_chars (trim (chars s))"

definition search :: "(string \<Rightarrow> string) \<Rightarrow> (nat \<Rightarrow> bool) \<Rightarrow> database \<Rightarrow> string option \<Rightarrow> string
    \<Rightarrow> (metadata_search_error, metadata_search_outcome) result" where
  "search lowercase late db actor query =
     try_then (case actor of None \<Rightarrow> Ok () | Some actor \<Rightarrow> map_err SearchAuth (validate_username actor)) (\<lambda>_.
     let query = trim_string query in
     if query = [] \<or> length query > MAX_QUERY_BYTES \<or> list_ex is_control (chars query) then Err SearchInvalidQuery
     else
       try_then (map_err SearchStore (visit_metadata_search_candidates db actor MAX_SCAN_ROWS
           (\<lambda>row st. search_visit lowercase late (lowercase query) (search_candidate row) st)
           \<lparr>sst_visits = 0, sst_bytes = 0, sst_rows = 0, sst_seen = [], sst_results = [], sst_error = None\<rparr>))
         (\<lambda>(truncated, st).
       case sst_error st of
         Some e \<Rightarrow> Err e
       | None \<Rightarrow> Ok \<lparr>mso_query = query, mso_rows_scanned = sst_rows st, mso_bytes_scanned = sst_bytes st,
                    mso_truncated = truncated, mso_results = sst_results st\<rparr>))"

section \<open>Rows and rights\<close>

lemma join_own_row:
  assumes "db_ok db" and "r \<in> set (db_repository db)" and "n \<in> set (db_namespace db)"
    and "ns_id n = repo_owner_namespace_id r"
  shows "join_repository db (ns_slug n) (repo_slug r) = Some (r, n)"
proof -
  let ?P = "\<lambda>(r', n'). ns_id n' = repo_owner_namespace_id r' \<and> ns_slug n' = ns_slug n \<and> repo_slug r' = repo_slug r"
  have uniq: "unique_by ns_slug (db_namespace db)" "repository_uniq (db_repository db)"
    using ns.ok_uniq [OF assms(1)] repo.ok_uniq [OF assms(1)] by (simp_all add: namespace_uniq_def)
  have "(r, n) \<in> set (List.product (db_repository db) (db_namespace db))" using assms(2,3) by simp
  moreover have "?P (r, n)" using assms(4) by simp
  ultimately obtain p where p: "find ?P (List.product (db_repository db) (db_namespace db)) = Some p"
    by (cases "find ?P (List.product (db_repository db) (db_namespace db))") (auto simp: find_None_iff)
  obtain r' n' where p': "p = (r', n')" by (cases p)
  from find_SomeD [OF p] p' have found: "r' \<in> set (db_repository db)" "n' \<in> set (db_namespace db)"
      "ns_id n' = repo_owner_namespace_id r'" "ns_slug n' = ns_slug n" "repo_slug r' = repo_slug r" by auto
  have "n' = n" by (rule unique_by_key [OF uniq(1) found(2) assms(3) found(4)])
  moreover from this have "r' = r"
    using unique_by_key [of "\<lambda>r. (repo_owner_namespace_id r, repo_slug r)" "db_repository db" r' r]
      uniq(2) found(1,3,5) assms(2,4) by (simp add: repository_uniq_def)
  ultimately show ?thesis using p p' by (simp add: join_repository_def)
qed

lemma no_role:
  assumes "db_ok db" and "\<And>a. a \<in> set (db_account db) \<Longrightarrow> acct_state a = ''active'' \<Longrightarrow> Some (acct_username a) \<noteq> actor"
  shows "effective_role db r n actor = None"
proof -
  have "\<not> holds_role db r n actor x" for x using assms(2) by (auto simp: holds_role_def)
  then show ?thesis using effective_role_Some [OF assms(1), of r n actor] by (metis not_None_eq)
qed

text \<open>The visibility filter of the SQL shows an actor exactly what the policy lets the actor read.\<close>

lemma visible_authorized:
  assumes "db_ok db" and "r \<in> set (db_repository db)" and "n \<in> set (db_namespace db)"
    and "ns_id n = repo_owner_namespace_id r"
  shows "visible_to db r n (map_option acct_id
      (find (\<lambda>a. Some (acct_username a) = actor \<and> acct_state a = ''active'') (db_account db)))
    \<longleftrightarrow> (\<exists>record. authorize db actor (ns_slug n) (repo_slug r) ReadOp = Ok record)"
proof -
  note allowed = authorize_found [OF assms(1) join_own_row [OF assms]]
  show ?thesis
  proof (cases "find (\<lambda>a. Some (acct_username a) = actor \<and> acct_state a = ''active'') (db_account db)")
    case None
    then have "effective_role db r n actor = None" by (intro no_role [OF assms(1)]) (auto simp: find_None_iff)
    with None show ?thesis unfolding allowed by (auto simp: visible_to_def permits_def sql_exists_def list_ex_iff)
  next
    case (Some a)
    from find_SomeD [OF Some] have a: "a \<in> set (db_account db)" "actor = Some (acct_username a)" "acct_state a = ''active''"
      by auto
    show ?thesis
      using visible_granted [OF assms(1), of r n a] effective_role_granted [OF assms(1) a(1,3), of r n]
      unfolding Some option.map allowed unfolding a(2) by (simp add: permits_def)
  qed
qed

lemma set_visible_repositories:
  assumes "db_ok db"
  shows "set (visible_repositories db actor) = {(r, n). r \<in> set (db_repository db) \<and> n \<in> set (db_namespace db)
    \<and> ns_id n = repo_owner_namespace_id r \<and> (\<exists>record. authorize db actor (ns_slug n) (repo_slug r) ReadOp = Ok record)}"
  using visible_authorized [OF assms] by (auto simp: visible_repositories_def Let_def)

section \<open>The visitor\<close>

definition row_url :: "repository \<times> namespace \<Rightarrow> string" where
  "row_url = (\<lambda>(r, n). ''/'' @ ns_slug n @ ''/'' @ repo_slug r)"

definition row_name :: "repository \<times> namespace \<Rightarrow> string" where
  "row_name = (\<lambda>(r, n). ns_slug n @ ''/'' @ repo_slug r)"

lemma row_url_name: "row_url row = ''/'' @ row_name row" by (cases row) (simp add: row_url_def row_name_def)

text \<open>A row whose name is plain ASCII and in lower case already.\<close>

definition plain_row :: "(string \<Rightarrow> string) \<Rightarrow> repository \<times> namespace \<Rightarrow> bool" where
  "plain_row lowercase row \<longleftrightarrow> from_utf8 (as_bytes (row_name row)) = Some (row_name row)
     \<and> lowercase (row_name row) = row_name row"

text \<open>While the rows are read, the results are exactly the matching rows among those seen.\<close>

definition running :: "string \<Rightarrow> (repository \<times> namespace) set \<Rightarrow> search_state \<Rightarrow> bool" where
  "running needle seen st \<longleftrightarrow>
     msr_url ` set (sst_results st) = row_url ` {row \<in> seen. sublist needle (row_name row)}
     \<and> set (sst_seen st) = msr_url ` set (sst_results st) \<and> length (sst_results st) \<le> MAX_RESULTS
     \<and> sst_bytes st \<le> MAX_SCAN_BYTES"

lemma from_utf8_empty [simp]: "from_utf8 [] = Some []" by (simp add: from_utf8_def string_of_bytes_def)

lemma search_candidate_result:
  assumes "from_utf8 (as_bytes (row_name row)) = Some (row_name row)"
  shows "\<exists>found. result_from_candidate (search_candidate row) = Ok found \<and> msr_url found = row_url row"
  using assms by (cases row) (simp add: result_from_candidate_def search_candidate_def row_url_def row_name_def)

lemma search_visit_step:
  assumes "running needle seen st" and "plain_row lowercase row" and "lowercase [] = []"
    and "search_visit lowercase late needle (search_candidate row) st = (proceed, st')"
  shows "sst_rows st' \<le> sst_rows st + 1 \<and> sst_bytes st' \<le> MAX_SCAN_BYTES
    \<and> (if proceed then running needle (insert row seen) st' else sst_results st' = sst_results st)"
proof -
  have utf8: "from_utf8 (msc_title (search_candidate row)) = Some (row_name row)" "msc_body (search_candidate row) = []"
    using assms(2) by (auto simp: plain_row_def search_candidate_def row_name_def split: prod.splits)
  have lower: "lowercase (row_name row) = row_name row" using assms(2) by (simp add: plain_row_def)
  obtain found where found: "result_from_candidate (search_candidate row) = Ok found" "msr_url found = row_url row"
    using search_candidate_result [of row] assms(2) unfolding plain_row_def by blast
  let ?bytes = "length (msc_title (search_candidate row)) + length (msc_body (search_candidate row))"
  let ?read = "st\<lparr>sst_visits := sst_visits st + 1, sst_bytes := sst_bytes st + ?bytes, sst_rows := sst_rows st + 1\<rparr>"
  consider (stop) "search_visit lowercase late needle (search_candidate row) st = (False, st')"
      "sst_rows st' = sst_rows st" "sst_bytes st' = sst_bytes st" "sst_results st' = sst_results st"
    | (read) "sst_bytes st + ?bytes \<le> MAX_SCAN_BYTES" "search_visit lowercase late needle (search_candidate row) st =
        (if \<not> sublist needle (row_name row) then (True, ?read)
         else if row_url row \<in> set (sst_seen st) then (True, ?read)
         else if length (sst_results st) = MAX_RESULTS then (False, ?read\<lparr>sst_seen := row_url row # sst_seen st\<rparr>)
         else (True, ?read\<lparr>sst_seen := row_url row # sst_seen st, sst_results := sst_results st @ [found]\<rparr>))"
  proof (cases "late (sst_visits st + 1) \<or> ?bytes \<ge> 2 ^ 64 \<or> min (sst_bytes st + ?bytes) (2 ^ 64 - 1) > MAX_SCAN_BYTES")
    case True
    with assms(4) show ?thesis by (intro stop) (auto simp: search_visit_def Let_def split: if_splits)
  next
    case False
    have "\<not> sublist needle (lowercase (row_name row)) \<and> \<not> sublist needle (lowercase []) \<longleftrightarrow> \<not> sublist needle (row_name row)"
      using assms(3) lower by auto
    with False show ?thesis
      by (intro read) (simp_all add: search_visit_def utf8 found Let_def MAX_SCAN_BYTES_def)
  qed
  then show ?thesis
  proof cases
    case stop
    with assms(1,4) show ?thesis by (simp add: running_def)
  next
    case read
    have split: "{r \<in> insert row seen. sublist needle (row_name r)}
        = (if sublist needle (row_name row) then {row} else {}) \<union> {r \<in> seen. sublist needle (row_name r)}" by auto
    show ?thesis
      using read assms(1,4) unfolding running_def split by (auto simp: found(2) split: if_splits)
  qed
qed

lemma visit_rows_running:
  "running needle seen st \<Longrightarrow> list_all (plain_row lowercase) pairs \<Longrightarrow> lowercase [] = [] \<Longrightarrow>
   visit_rows limit (\<lambda>row st. search_visit lowercase late needle (search_candidate row) st) st pairs = (truncated, st') \<Longrightarrow>
   sst_rows st' \<le> sst_rows st + limit \<and> sst_bytes st' \<le> MAX_SCAN_BYTES \<and> length (sst_results st') \<le> MAX_RESULTS
   \<and> msr_url ` set (sst_results st') \<subseteq> row_url ` {row \<in> seen \<union> set pairs. sublist needle (row_name row)}
   \<and> (\<not> truncated \<longrightarrow> length pairs \<le> limit \<and> running needle (seen \<union> set pairs) st')"
proof (induction pairs arbitrary: limit seen st)
  case Nil
  then show ?case by (auto simp: running_def)
next
  case (Cons row pairs)
  show ?case
  proof (cases limit)
    case 0
    then show ?thesis using Cons.prems by (auto simp: running_def)
  next
    case (Suc k)
    obtain proceed mid where step: "search_visit lowercase late needle (search_candidate row) st = (proceed, mid)"
      by (cases "search_visit lowercase late needle (search_candidate row) st")
    have "plain_row lowercase row" using Cons.prems(2) by simp
    note effect = search_visit_step [OF Cons.prems(1) this Cons.prems(3) step]
    show ?thesis
    proof (cases proceed)
      case True
      with effect have "running needle (insert row seen) mid" by simp
      from Cons.IH [OF this, of k] Cons.prems(2-4) Suc step True effect show ?thesis by auto
    next
      case False
      then have "st' = mid" "truncated" using Cons.prems(4) Suc step by auto
      with effect False Cons.prems(1) Suc show ?thesis by (auto simp: running_def)
    qed
  qed
qed

text \<open>\<^verbatim>\<open>to_lowercase\<close> on plain ASCII text without capital letters.\<close>

definition lowercase_law :: "(string \<Rightarrow> string) \<Rightarrow> bool" where
  "lowercase_law lowercase \<longleftrightarrow>
     (\<forall>s. list_all (\<lambda>c. of_char c < (128::nat) \<and> \<not> is_ascii_uppercase c) s \<longrightarrow> lowercase s = s)"

lemma plain_visible:
  assumes "db_ok db" and "lowercase_law lowercase"
  shows "list_all (plain_row lowercase) (visible_repositories db actor)"
proof -
  have "plain_row lowercase (r, n)" if "r \<in> set (db_repository db)" and "n \<in> set (db_namespace db)" for r n
  proof -
    have slug: "list_all slug_char (repo_slug r)"
      using repo.ok_chk [OF assms(1)] that(1)
      by (auto simp: list_all_iff repository_chk_def slug_check_def not_glob_outside_def)
    have owner: "list_all (\<lambda>c. valid_character c \<or> c = CHR ''-'') (ns_slug n)"
      using ns.ok_chk [OF assms(1)] that(2)
      by (auto simp: list_all_iff namespace_chk_def namespace_slug_check_def username_check_def not_glob_outside_def)
    have "of_char c < (128::nat) \<and> \<not> is_ascii_uppercase c" if "slug_char c \<or> valid_character c \<or> c = CHR ''-''" for c
      using that by (auto simp: slug_char_def valid_character_def ascii_defs)
    then have plain: "list_all (\<lambda>c. of_char c < (128::nat) \<and> \<not> is_ascii_uppercase c) (row_name (r, n))"
      using slug owner by (auto simp: row_name_def list_all_iff ascii_defs)
    then have "from_utf8 (as_bytes (row_name (r, n))) = Some (row_name (r, n))"
      by (intro from_utf8_ascii) (auto simp: list_all_iff)
    then show ?thesis using plain assms(2) by (simp add: plain_row_def lowercase_law_def)
  qed
  then show ?thesis using set_visible_repositories [OF assms(1)] by (auto simp: list_all_iff)
qed

lemma lowercase_empty: "lowercase_law lowercase \<Longrightarrow> lowercase [] = []"
  by (simp add: lowercase_law_def)

text \<open>C9. A search shows what it should and nothing else. Every result is a repository that the policy lets the actor read
  and whose name, with its owner, contains the query; a search that was not cut short shows every such
  repository; and no search reads or returns more than its limits. In particular, searching tells nobody that a
  private repository exists.\<close>

theorem search_exact:
  assumes "db_ok db" and "lowercase_law lowercase" and "search lowercase late db actor query = Ok outcome"
  defines "matches owner slug \<equiv> (\<exists>record. authorize db actor owner slug ReadOp = Ok record)
      \<and> sublist (lowercase (mso_query outcome)) (owner @ ''/'' @ slug)"
  shows "(\<forall>found\<in>set (mso_results outcome). \<exists>owner slug. msr_url found = ''/'' @ owner @ ''/'' @ slug \<and> matches owner slug)
    \<and> (mso_truncated outcome
        \<or> (\<forall>owner slug. matches owner slug \<longrightarrow> ''/'' @ owner @ ''/'' @ slug \<in> msr_url ` set (mso_results outcome)))
    \<and> length (mso_results outcome) \<le> MAX_RESULTS
    \<and> mso_rows_scanned outcome \<le> MAX_SCAN_ROWS \<and> mso_bytes_scanned outcome \<le> MAX_SCAN_BYTES"
proof -
  let ?rows = "visible_repositories db actor" and ?needle = "lowercase (mso_query outcome)"
  let ?visit = "\<lambda>row st. search_visit lowercase late ?needle (search_candidate row) st"
  let ?start = "\<lparr>sst_visits = 0, sst_bytes = 0, sst_rows = 0, sst_seen = [], sst_results = [], sst_error = None\<rparr>"
  from assms(3) obtain truncated st where
      run: "visit_rows MAX_SCAN_ROWS ?visit ?start (take (MAX_SCAN_ROWS + 1) ?rows) = (truncated, st)"
    and outcome: "mso_truncated outcome = truncated" "mso_results outcome = sst_results st"
      "mso_rows_scanned outcome = sst_rows st" "mso_bytes_scanned outcome = sst_bytes st"
    by (auto simp: search_def visit_metadata_search_candidates_def Let_def split: if_splits option.splits)
  have start: "running ?needle {} ?start" by (simp add: running_def)
  have plain: "list_all (plain_row lowercase) (take (MAX_SCAN_ROWS + 1) ?rows)"
    using plain_visible [OF assms(1,2)] by (auto simp: list_all_iff dest: in_set_takeD)
  have "sst_rows st \<le> 0 + MAX_SCAN_ROWS \<and> sst_bytes st \<le> MAX_SCAN_BYTES
      \<and> length (sst_results st) \<le> MAX_RESULTS
      \<and> msr_url ` set (sst_results st)
        \<subseteq> row_url ` {row \<in> {} \<union> set (take (MAX_SCAN_ROWS + 1) ?rows). sublist ?needle (row_name row)}
      \<and> (\<not> truncated \<longrightarrow> length (take (MAX_SCAN_ROWS + 1) ?rows) \<le> MAX_SCAN_ROWS
        \<and> running ?needle ({} \<union> set (take (MAX_SCAN_ROWS + 1) ?rows)) st)"
    using visit_rows_running [OF start plain lowercase_empty [OF assms(2)] run] by simp
  then have effect: "sst_rows st \<le> MAX_SCAN_ROWS" "sst_bytes st \<le> MAX_SCAN_BYTES"
      "length (sst_results st) \<le> MAX_RESULTS"
      "msr_url ` set (sst_results st)
        \<subseteq> row_url ` {row \<in> set (take (MAX_SCAN_ROWS + 1) ?rows). sublist ?needle (row_name row)}"
      "\<not> truncated \<Longrightarrow> length (take (MAX_SCAN_ROWS + 1) ?rows) \<le> MAX_SCAN_ROWS
        \<and> running ?needle (set (take (MAX_SCAN_ROWS + 1) ?rows)) st"
    unfolding Un_empty_left add_0 by blast+
  have sound: "\<exists>owner slug. msr_url found = ''/'' @ owner @ ''/'' @ slug \<and> matches owner slug"
    if "found \<in> set (sst_results st)" for found
  proof -
    from that effect(4) obtain row where "row \<in> set (take (MAX_SCAN_ROWS + 1) ?rows)" "msr_url found = row_url row"
        "sublist ?needle (row_name row)" by auto
    moreover from this have "row \<in> set ?rows" by (auto dest: in_set_takeD)
    ultimately show ?thesis
      using set_visible_repositories [OF assms(1)] by (cases row) (auto simp: matches_def row_url_def row_name_def)
  qed
  have complete: "''/'' @ owner @ ''/'' @ slug \<in> msr_url ` set (sst_results st)"
    if "\<not> truncated" and m: "matches owner slug" for owner slug
  proof -
    from effect(5) [OF that(1)] have all: "take (MAX_SCAN_ROWS + 1) ?rows = ?rows"
      by (cases "length ?rows \<le> MAX_SCAN_ROWS") auto
    have shown: "msr_url ` set (sst_results st) = row_url ` {row \<in> set ?rows. sublist ?needle (row_name row)}"
      using effect(5) [OF that(1)] unfolding all running_def by simp
    from m obtain r n where joined: "join_repository db owner slug = Some (r, n)"
      using authorize_missing [of db owner slug actor] unfolding matches_def by (cases "join_repository db owner slug") auto
    then have row: "r \<in> set (db_repository db)" "n \<in> set (db_namespace db)" "ns_id n = repo_owner_namespace_id r"
        "ns_slug n = owner" "repo_slug r = slug"
      by (auto simp: join_repository_def dest!: find_SomeD)
    then have "(r, n) \<in> set ?rows" using m set_visible_repositories [OF assms(1)] by (auto simp: matches_def)
    then show ?thesis
      unfolding shown using m row(4,5) by (intro image_eqI [of _ _ "(r, n)"]) (auto simp: row_url_def row_name_def matches_def)
  qed
  show ?thesis using sound complete effect(1-3) outcome by auto
qed

text \<open>Dave searches for the private repository he collaborates on.\<close>

definition lower_ascii :: "string \<Rightarrow> string" where
  "lower_ascii s = map (\<lambda>c. if is_ascii_uppercase c then char_of (of_char c + 32 :: nat) else c) s"

lemma lower_ascii_law: "lowercase_law lower_ascii"
  by (auto simp: lowercase_law_def lower_ascii_def list_all_iff intro!: map_idI)

definition site_row :: "repository \<times> namespace" where "site_row = (db_repository sample_db ! 1, db_namespace sample_db ! 4)"
definition tool_row :: "repository \<times> namespace" where "tool_row = (db_repository sample_db ! 0, db_namespace sample_db ! 0)"

lemma sample_visible: "visible_repositories sample_db (Some ''dave'') = [site_row, tool_row]"
  by code_simp

lemma search_visits:
  "search_candidate site_row = \<lparr>msc_kind = ''repository'', msc_record_id = id32 (CHR ''b''),
     msc_owner = ''acme'', msc_repository = ''site'', msc_title = as_bytes ''acme/site'', msc_body = []\<rparr>
   \<and> search_candidate tool_row = \<lparr>msc_kind = ''repository'', msc_record_id = id32 (CHR ''a''),
     msc_owner = ''alice'', msc_repository = ''tool'', msc_title = as_bytes ''alice/tool'', msc_body = []\<rparr>
   \<and> from_utf8 (as_bytes ''acme/site'') = Some ''acme/site'' \<and> from_utf8 (as_bytes ''alice/tool'') = Some ''alice/tool''
   \<and> lower_ascii ''acme/site'' = ''acme/site'' \<and> lower_ascii ''alice/tool'' = ''alice/tool''
   \<and> lower_ascii ''e/tool'' = ''e/tool'' \<and> lower_ascii [] = [] \<and> sublist ''e/tool'' ''alice/tool''
   \<and> \<not> sublist ''e/tool'' ''acme/site'' \<and> \<not> sublist ''e/tool'' []
   \<and> \<not> list_ex is_control (chars ''e/tool'') \<and> validate_username ''dave'' = Ok ()"
  by code_simp

lemma sample_trimmed: "trim_string ''e/tool '' = ''e/tool''"
proof -
  have "trim (chars ''e/tool '') = map of_char ''e/tool''" by (simp add: trim_def chars_def is_whitespace_def)
  then show ?thesis by (simp only: trim_string_def) (rule string_of_ascii, simp)
qed

lemma sample_search:
  "\<exists>outcome. search lower_ascii (\<lambda>_. False) sample_db (Some ''dave'') ''e/tool '' = Ok outcome
     \<and> mso_query outcome = ''e/tool'' \<and> \<not> mso_truncated outcome"
proof -
  have limit: "MAX_SCAN_ROWS = Suc (Suc 9998)" by (simp add: MAX_SCAN_ROWS_def)
  have visit: "visit_rows MAX_SCAN_ROWS v st [a, b] =
      (let (proceed, st) = v a st in if proceed then (let (proceed, st) = v b st in (\<not> proceed, st)) else (True, st))"
    for v :: "repository \<times> namespace \<Rightarrow> search_state \<Rightarrow> bool \<times> search_state" and st a b
    unfolding limit visit_rows.simps by (auto simp: Let_def split: prod.split)
  have small: "\<not> 9223372036854775807 \<le> MAX_SCAN_ROWS" by (simp add: MAX_SCAN_ROWS_def)
  have bounds: "MAX_SCAN_BYTES = 8388608" "length (as_bytes ''acme/site'') = 9" "length (as_bytes ''alice/tool'') = 10"
    "MAX_RESULTS = 100" "MAX_QUERY_BYTES = 256"
    by (simp_all add: MAX_SCAN_BYTES_def MAX_RESULTS_def MAX_QUERY_BYTES_def)
  have taken: "take (MAX_SCAN_ROWS + 1) (visible_repositories sample_db (Some ''dave'')) = [site_row, tool_row]"
    unfolding sample_visible limit by simp
  show ?thesis
    unfolding search_def visit_metadata_search_candidates_def taken
    by (simp add: visit small search_visits sample_trimmed search_visit_def bounds result_from_candidate_def Let_def)
qed

lemma search_exact_witness:
  "\<exists>outcome. search lower_ascii (\<lambda>_. False) sample_db (Some ''dave'') ''e/tool '' = Ok outcome
     \<and> ''/alice/tool'' \<in> msr_url ` set (mso_results outcome)"
proof -
  obtain outcome where outcome: "search lower_ascii (\<lambda>_. False) sample_db (Some ''dave'') ''e/tool '' = Ok outcome"
      "mso_query outcome = ''e/tool''" "\<not> mso_truncated outcome"
    using sample_search by blast
  have "\<not> isl (authorize sample_db (Some ''dave'') ''alice'' ''tool'' ReadOp)" by code_simp
  then have "\<exists>record. authorize sample_db (Some ''dave'') ''alice'' ''tool'' ReadOp = Ok record" using not_isl_Ok by blast
  moreover have "sublist (lower_ascii ''e/tool'') (''alice'' @ ''/'' @ ''tool'')" by code_simp
  ultimately have "''/'' @ ''alice'' @ ''/'' @ ''tool'' \<in> msr_url ` set (mso_results outcome)"
    using search_exact [OF sample_db_ok lower_ascii_law outcome(1)] outcome(2,3) by metis
  with outcome(1) show ?thesis by auto
qed

end
