(* ===== verification/Patch.thy ===== *)
theory Patch
  imports Pull_Request_Service Utf8
begin

text \<open>
  The text of a patch, \<^verbatim>\<open>src/git/patch.rs\<close>: headers, quoted paths, hunks and binary files in base 85 over a zlib
  stream of stored blocks. The writer of the source fails when the text would exceed a limit; here the text is built
  first and measured.

  The theorems read back what is written: a reader of Git's binary format gets the bytes of the file, and a
  quoted path stands for one path only.
\<close>

definition MAX_PATCH_BYTES :: nat where "MAX_PATCH_BYTES = 32 * 1024 * 1024"

definition BASE85 :: string where
  "BASE85 = ''0123456789ABCDEFGHIJKLMNOPQRSTUVWXYZabcdefghijklmnopqrstuvwxyz!#$%&()*+-;<=>?@^_`{|}~''"

section \<open>Paths\<close>

fun octal :: "nat \<Rightarrow> string" where
  "octal n = (if n < 8 then [char_of (48 + n)] else octal (n div 8) @ [char_of (48 + n mod 8)])"

declare octal.simps [simp del]

text \<open>\<^verbatim>\<open>{:0w$o}\<close>.\<close>

definition octal_padded :: "nat \<Rightarrow> nat \<Rightarrow> string" where
  "octal_padded width n = (let d = octal n in replicate (width - length d) (CHR ''0'') @ d)"

definition plain_byte :: "byte \<Rightarrow> bool" where
  "plain_byte b \<longleftrightarrow> 33 \<le> b \<and> b \<le> 126 \<and> b \<noteq> 34 \<and> b \<noteq> 92"

definition quote_byte :: "byte \<Rightarrow> blob" where
  "quote_byte b =
     (if b = 34 \<or> b = 92 then [92, b]
      else if b = 9 then as_bytes [CHR 0x5C, CHR ''t'']
      else if b = 10 then as_bytes [CHR 0x5C, CHR ''n'']
      else if b = 13 then as_bytes [CHR 0x5C, CHR ''r'']
      else if 32 \<le> b \<and> b \<le> 126 then [b]
      else 92 # as_bytes (octal_padded 3 (unat b)))"

definition patch_path :: "byte \<Rightarrow> blob \<Rightarrow> blob" where
  "patch_path pre path =
     (let prefixed = pre # 47 # path in
      if list_all plain_byte prefixed then prefixed
      else 34 # concat (map quote_byte prefixed) @ [34])"

section \<open>Binary files\<close>

definition encoded_length :: "nat \<Rightarrow> byte" where
  "encoded_length n = (if n \<le> 26 then byte_of_char (CHR ''A'') + word_of_nat (n - 1)
     else byte_of_char (CHR ''a'') + word_of_nat (n - 27))"

text \<open>\<^verbatim>\<open>u32::from_be_bytes\<close>, and the digits of a word in base 85, most significant first.\<close>

fun from_be_bytes :: "blob \<Rightarrow> nat" where
  "from_be_bytes bs = foldl (\<lambda>v b. v * 256 + unat b) 0 bs"

definition to_be_bytes :: "nat \<Rightarrow> blob" where
  "to_be_bytes v = map (\<lambda>i. word_of_nat (v div 256 ^ i)) [3, 2, 1, 0]"

definition digit85 :: "nat \<Rightarrow> byte" where
  "digit85 d = byte_of_char (BASE85 ! d)"

definition encode_word :: "nat \<Rightarrow> blob" where
  "encode_word v = map (\<lambda>i. digit85 (v div 85 ^ i mod 85)) [4, 3, 2, 1, 0]"

definition encode_chunk :: "blob \<Rightarrow> blob" where
  "encode_chunk chunk =
     (let padded = chunk @ replicate (52 - length chunk) 0;
          words = chunks 4 (take ((length chunk + 3) div 4 * 4) padded) in
      encoded_length (length chunk) # concat (map (\<lambda>w. encode_word (from_be_bytes w)) words) @ [10])"

definition adler_step :: "byte \<Rightarrow> nat \<times> nat \<Rightarrow> nat \<times> nat" where
  "adler_step b = (\<lambda>(first, second).
     let first = (first + unat b) mod 65521 in (first, (second + first) mod 65521))"

definition adler32 :: "blob \<Rightarrow> nat" where
  "adler32 data = (let (first, second) = fold adler_step data (1, 0) in second * 65536 + first)"

definition to_le_bytes16 :: "nat \<Rightarrow> blob" where
  "to_le_bytes16 n = [word_of_nat n, word_of_nat (n div 256)]"

fun stored_blocks :: "nat \<Rightarrow> nat \<Rightarrow> blob list \<Rightarrow> blob" where
  "stored_blocks index total_blocks [] = []"
| "stored_blocks index total_blocks (chunk # rest) =
     (if index + 1 = total_blocks then 1 else 0) # to_le_bytes16 (length chunk)
       @ to_le_bytes16 (65535 - length chunk) @ chunk @ stored_blocks (index + 1) total_blocks rest"

definition zlib_store :: "blob \<Rightarrow> blob" where
  "zlib_store data =
     [0x78, 0x01]
     @ (if data = [] then [1, 0, 0, 0xff, 0xff]
        else stored_blocks 0 ((length data + 65534) div 65535) (chunks 65535 data))
     @ to_be_bytes (adler32 data)"

definition write_binary_literal :: "blob \<Rightarrow> blob" where
  "write_binary_literal data =
     as_bytes (''literal '' @ show_nat (length data)) @ [10]
     @ concat (map encode_chunk (chunks 52 (zlib_store data))) @ [10]"

section \<open>Files\<close>

definition object_name :: "oid option \<Rightarrow> nat \<Rightarrow> blob" where
  "object_name ident len = as_bytes (case ident of None \<Rightarrow> replicate len (CHR ''0'') | Some i \<Rightarrow> i)"

definition or_else :: "'a option \<Rightarrow> 'a option \<Rightarrow> 'a option" where
  "or_else x y = (case x of None \<Rightarrow> y | Some v \<Rightarrow> Some v)"

definition mode_lines :: "nat option \<Rightarrow> nat option \<Rightarrow> blob" where
  "mode_lines old_mode new_mode =
     (case (old_mode, new_mode) of
        (None, Some mode) \<Rightarrow> as_bytes (''new file mode '' @ octal_padded 6 mode) @ [10]
      | (Some mode, None) \<Rightarrow> as_bytes (''deleted file mode '' @ octal_padded 6 mode) @ [10]
      | (Some old, Some new) \<Rightarrow>
          if old \<noteq> new
          then as_bytes (''old mode '' @ octal_padded 6 old) @ [10] @ as_bytes (''new mode '' @ octal_padded 6 new) @ [10]
          else []
      | (None, None) \<Rightarrow> [])"

definition index_line :: "diff_file \<Rightarrow> blob" where
  "index_line f =
     (let hash_length = (case or_else (df_old_id f) (df_new_id f) of None \<Rightarrow> 40 | Some i \<Rightarrow> length i);
          names = as_bytes ''index '' @ object_name (df_old_id f) hash_length @ as_bytes ''..''
            @ object_name (df_new_id f) hash_length in
      (case or_else (df_new_mode f) (df_old_mode f) of
         Some mode \<Rightarrow>
           if df_old_mode f = df_new_mode f then names @ [32] @ as_bytes (octal_padded 6 mode) @ [10] else names @ [10]
       | None \<Rightarrow> names @ [10]))"

definition text_changes :: "blob \<Rightarrow> blob \<Rightarrow> diff_file \<Rightarrow> blob" where
  "text_changes old_path new_path f =
     (if df_old_id f \<noteq> None then as_bytes ''--- '' @ old_path @ [10] else as_bytes ''--- /dev/null'' @ [10])
     @ (if df_new_id f \<noteq> None then as_bytes ''+++ '' @ new_path @ [10] else as_bytes ''+++ /dev/null'' @ [10])
     @ df_hunks f"

definition write_file :: "diff_file \<Rightarrow> blob" where
  "write_file f =
     (let old_path = patch_path 97 (df_path f); new_path = patch_path 98 (df_path f) in
      as_bytes ''diff --git '' @ old_path @ [32] @ new_path @ [10]
      @ mode_lines (df_old_mode f) (df_new_mode f) @ index_line f
      @ (if df_binary f
         then as_bytes ''Binary files '' @ old_path @ as_bytes '' and '' @ new_path @ as_bytes '' differ'' @ [10]
           @ as_bytes ''GIT binary patch'' @ [10]
           @ write_binary_literal (case df_new_data f of None \<Rightarrow> [] | Some d \<Rightarrow> d)
         else if df_old_id f = df_new_id f then []
         else text_changes old_path new_path f))"

text \<open>\<^verbatim>\<open>PatchWriter::write\<close>, over what it has passed on and the count of it.\<close>

definition patch_writer :: "blob \<Rightarrow> blob \<times> nat \<Rightarrow> (read_error, blob \<times> nat) result" where
  "patch_writer buffer = (\<lambda>(inner, written).
     let next_count = written + length buffer in
     if next_count > MAX_PATCH_BYTES then Err (ReadFailure ''patch output is too large'')
     else Ok (inner @ buffer, next_count))"

fun write_files :: "diff_file list \<Rightarrow> blob \<times> nat \<Rightarrow> (read_error, blob \<times> nat) result" where
  "write_files [] w = Ok w"
| "write_files (file # files) w = try_then (patch_writer (write_file file) w) (write_files files)"

definition write_patch :: "diff_file list \<Rightarrow> blob \<Rightarrow> (read_error, blob \<times> nat) result" where
  "write_patch files inner = write_files files (inner, 0)"

section \<open>Reading a patch back\<close>

text \<open>What Git does with the parts of a patch: the base 85 of its binary patches, the zlib format with stored blocks
  (RFC 1950 and 1951), and quoted paths.\<close>

definition undigit85 :: "byte \<Rightarrow> nat option" where
  "undigit85 b = find (\<lambda>d. digit85 d = b) [0..<85]"

definition decode_word :: "blob \<Rightarrow> blob option" where
  "decode_word ds = map_option (\<lambda>xs. to_be_bytes (foldl (\<lambda>v x. v * 85 + x) 0 xs)) (those (map undigit85 ds))"

definition decode_length :: "byte \<Rightarrow> nat" where
  "decode_length b = (if b < 97 then unat b - 64 else unat b - 70)"

definition decode_line :: "blob \<Rightarrow> blob option" where
  "decode_line l =
     map_option (\<lambda>ws. take (decode_length (hd l)) (concat ws)) (those (map decode_word (chunks 5 (tl l))))"

function read_blocks :: "blob \<Rightarrow> (blob \<times> blob) option" where
  "read_blocks bs =
     (if length bs < 5 then None
      else let n = unat (bs ! 1) + 256 * unat (bs ! 2); rest = drop 5 bs in
        if unat (bs ! 3) + 256 * unat (bs ! 4) + n \<noteq> 65535 \<or> length rest < n then None
        else if bs ! 0 = 1 then Some (take n rest, drop n rest)
        else if bs ! 0 = 0 then map_option (\<lambda>(d, r). (take n rest @ d, r)) (read_blocks (drop n rest))
        else None)"
  by pat_completeness auto
termination by (relation "measure length") simp_all

declare read_blocks.simps [simp del]

definition zlib_load :: "blob \<Rightarrow> blob option" where
  "zlib_load bs =
     (if take 2 bs \<noteq> [0x78, 0x01] then None
      else case read_blocks (drop 2 bs) of
          None \<Rightarrow> None
        | Some (data, trailer) \<Rightarrow> if trailer = to_be_bytes (adler32 data) then Some data else None)"

definition read_binary_literal :: "blob \<Rightarrow> blob option" where
  "read_binary_literal bs =
     (case split_on 10 bs of
        [] \<Rightarrow> None
      | header # ls \<Rightarrow>
          (case map_option concat (those (map decode_line (takeWhile (\<lambda>l. l \<noteq> []) ls))) of
             None \<Rightarrow> None
           | Some compressed \<Rightarrow>
               (case zlib_load compressed of
                  None \<Rightarrow> None
                | Some data \<Rightarrow>
                    if header = as_bytes (''literal '' @ show_nat (length data)) then Some data else None)))"

text \<open>The byte of an escape sequence after its backslash, and how long the sequence is.\<close>

definition escape :: "blob \<Rightarrow> (byte \<times> nat) option" where
  "escape bs =
     (case bs of
        [] \<Rightarrow> None
      | c # cs \<Rightarrow>
          if c = 34 \<or> c = 92 then Some (c, 1)
          else if c = 116 then Some (9, 1)
          else if c = 110 then Some (10, 1)
          else if c = 114 then Some (13, 1)
          else (case cs of
              d # e # r \<Rightarrow> Some ((c - 48) * 64 + (d - 48) * 8 + (e - 48), 3)
            | _ \<Rightarrow> None))"

function unquote_bytes :: "blob \<Rightarrow> blob option" where
  "unquote_bytes bs =
     (case bs of
        [] \<Rightarrow> None
      | b # r \<Rightarrow>
          if b = 34 then (if r = [] then Some [] else None)
          else if b = 92 then
            (case escape r of
               None \<Rightarrow> None
             | Some (c, n) \<Rightarrow> map_option ((#) c) (unquote_bytes (drop n r)))
          else map_option ((#) b) (unquote_bytes r))"
  by pat_completeness auto
termination by (relation "measure length") auto

declare unquote_bytes.simps [simp del]

definition read_path :: "blob \<Rightarrow> blob option" where
  "read_path bs = (case bs of [] \<Rightarrow> None | b # r \<Rightarrow> if b = 34 then unquote_bytes r else Some bs)"

section \<open>Base 85\<close>

lemma distinct_BASE85: "distinct BASE85 \<and> length BASE85 = 85 \<and> newline \<notin> set BASE85"
  by (simp add: BASE85_def newline_def)

lemma find_nth: "distinct xs \<Longrightarrow> i < length xs \<Longrightarrow> find (\<lambda>d. xs ! d = xs ! i) [0..<length xs] = Some i"
  by (auto simp: find_Some_iff nth_eq_iff_index_eq intro!: exI [of _ i])

lemma byte_of_char_inject [simp]: "byte_of_char c = byte_of_char d \<longleftrightarrow> c = d"
  by (metis byte_of_char_inverse)

lemma undigit85_digit85 [simp]: "d < 85 \<Longrightarrow> undigit85 (digit85 d) = Some d"
  using find_nth [of BASE85 d] distinct_BASE85 by (simp add: undigit85_def digit85_def)

lemma newline_byte: "byte_of_char newline = 10"
  by (simp add: byte_of_char_def newline_def)

lemma digit85_not_newline [simp]: "d < 85 \<Longrightarrow> digit85 d \<noteq> 10"
  unfolding digit85_def newline_byte [symmetric] byte_of_char_inject
  using distinct_BASE85 nth_mem [of d BASE85] by force

lemma digits_value:
  fixes v b :: nat
  assumes "v < b ^ 5"
  shows "foldl (\<lambda>v x. v * b + x) 0 [v div b ^ 4 mod b, v div b ^ 3 mod b, v div b ^ 2 mod b, v div b mod b, v mod b] = v"
proof -
  have "v div b ^ 4 < b" using assms by (simp add: less_mult_imp_div_less power_Suc [symmetric])
  then have top: "v div b ^ 4 mod b = v div b ^ 4" by simp
  have step: "v div b ^ Suc k * b + v div b ^ k mod b = v div b ^ k" for k
    by (metis div_mult2_eq div_mult_mod_eq mult.commute power_Suc)
  show ?thesis
    using step [of 3] step [of 2] step [of 1] step [of 0] top by (simp add: eval_nat_numeral)
qed

lemma from_be_bytes_four: "from_be_bytes [a, b, c, d] = ((unat a * 256 + unat b) * 256 + unat c) * 256 + unat d"
  by simp

declare from_be_bytes.simps [simp del]

lemma byte_digit: "(x * 256 + unat (b :: byte)) div 256 = x" "(x * 256 + unat b) mod 256 = unat b"
  using unat_byte_less [of b] by simp_all

lemma byte_digit_less: "x < n \<Longrightarrow> x * 256 + unat (b :: byte) < n * 256"
  using unat_byte_less [of b] by linarith

lemma from_be_bytes_bound: "from_be_bytes [a, b, c, d] < 2 ^ 32"
  using byte_digit_less [OF byte_digit_less [OF byte_digit_less [OF unat_byte_less [of a]]], of b c d]
  by (simp add: from_be_bytes_four)

lemma word_of_nat_digit: "word_of_nat (x * 256 + unat (b :: byte)) = b"
  unfolding word_unat_eq_iff unat_of_nat by simp

lemma to_from_be_bytes: "to_be_bytes (from_be_bytes [a, b, c, d]) = [a, b, c, d]"
proof -
  have "to_be_bytes v = map word_of_nat [v div 256 div 256 div 256, v div 256 div 256, v div 256, v]" for v
    by (simp add: to_be_bytes_def div_mult2_eq [symmetric])
  then show ?thesis
    using word_of_nat_digit [of 0 a] by (simp only: from_be_bytes_four byte_digit word_of_nat_digit list.map mult_0 add_0)
qed

lemma decode_encode_word:
  assumes "length w = 4"
  shows "decode_word (encode_word (from_be_bytes w)) = Some w"
proof -
  obtain a b c d where w: "w = [a, b, c, d]"
    using assms by (auto simp: length_Suc_conv eval_nat_numeral)
  let ?v = "from_be_bytes w"
  have "?v < 85 ^ 5" using from_be_bytes_bound [of a b c d] by (simp add: w)
  note value85 = digits_value [OF this]
  have "those (map undigit85 (encode_word ?v)) =
      Some [?v div 85 ^ 4 mod 85, ?v div 85 ^ 3 mod 85, ?v div 85 ^ 2 mod 85, ?v div 85 mod 85, ?v mod 85]"
    by (simp only: encode_word_def list.map undigit85_digit85 mod_less_divisor zero_less_numeral those.simps
        option.case option.map power_one_right power_0 div_by_1 simp_thms)
  then have "decode_word (encode_word ?v) = Some (to_be_bytes ?v)"
    by (simp only: decode_word_def option.map value85)
  then show ?thesis by (simp add: w to_from_be_bytes)
qed

lemma encode_word_digits: "length (encode_word v) = 5" "10 \<notin> set (encode_word v)"
  using digit85_not_newline by (auto simp: encode_word_def)

section \<open>Lines\<close>

lemma chunks_exact: "0 < n \<Longrightarrow> n dvd length xs \<Longrightarrow> list_all (\<lambda>c. length c = n) (chunks n xs)"
proof (induction n xs rule: chunks.induct)
  case (1 n xs)
  show ?case
  proof (cases "xs = []")
    case True
    then show ?thesis by (simp add: chunks.simps)
  next
    case False
    with 1 have "n \<le> length xs" by (simp add: dvd_imp_le)
    moreover have "n dvd length (drop n xs)" using 1 by (simp add: dvd_diff_nat)
    ultimately show ?thesis using 1 False by (simp add: chunks.simps [of n xs])
  qed
qed

lemma chunks_blocks: "0 < n \<Longrightarrow> list_all (\<lambda>b. length b = n) bs \<Longrightarrow> chunks n (concat bs) = bs"
proof (induction bs)
  case Nil
  then show ?case by (simp add: chunks.simps)
next
  case (Cons b bs)
  then have "b \<noteq> []" by auto
  with Cons show ?case by (simp add: chunks.simps [of n "b @ concat bs"])
qed

lemma length_chunks: "0 < n \<Longrightarrow> length (chunks n xs) = (length xs + (n - 1)) div n"
proof (induction n xs rule: chunks.induct)
  case (1 n xs)
  show ?case
  proof (cases "xs = []")
    case True
    with 1 show ?thesis by (simp add: chunks.simps)
  next
    case False
    then have "length (chunks n (drop n xs)) = (length xs - n + (n - 1)) div n" using 1 by simp
    then have "length (chunks n xs) = Suc ((length xs - n + (n - 1)) div n)"
      using False 1(2) by (simp only: chunks.simps [of n xs]) simp
    also have "\<dots> = (length xs + (n - 1)) div n"
    proof (cases "n \<le> length xs")
      case True
      then have sum: "length xs + (n - 1) = (length xs - n + (n - 1)) + n" by simp
      show ?thesis unfolding sum using 1(2) by (simp only: div_add_self2 neq0_conv Suc_eq_plus1)
    next
      case short: False
      have "Suc 0 \<le> length xs" using False by (simp add: Suc_le_eq)
      with short have "(length xs + (n - 1)) div n = 1" by (intro div_nat_eqI) simp_all
      then show ?thesis using short 1 by simp
    qed
    finally show ?thesis .
  qed
qed

lemma those_map_Some: "(\<And>x. x \<in> set xs \<Longrightarrow> f x = Some (g x)) \<Longrightarrow> those (map f xs) = Some (map g xs)"
  by (induction xs) auto

lemma length_letters:
  "list_all (\<lambda>n. decode_length (encoded_length n) = n \<and> encoded_length n \<noteq> 10) [1..<53]"
  by code_simp

lemma decode_encoded_length: "1 \<le> n \<Longrightarrow> n \<le> 52 \<Longrightarrow> decode_length (encoded_length n) = n \<and> encoded_length n \<noteq> 10"
  using length_letters by (simp add: list_all_iff)

definition line_words :: "blob \<Rightarrow> blob list" where
  "line_words chunk = chunks 4 (take ((length chunk + 3) div 4 * 4) (chunk @ replicate (52 - length chunk) 0))"

definition chunk_line :: "blob \<Rightarrow> blob" where
  "chunk_line chunk = encoded_length (length chunk) # concat (map (\<lambda>w. encode_word (from_be_bytes w)) (line_words chunk))"

lemma encode_chunk_line: "encode_chunk = (\<lambda>chunk. chunk_line chunk @ [10])"
  by (rule ext) (simp add: encode_chunk_def chunk_line_def line_words_def Let_def)

lemma line_words_four:
  assumes "length chunk \<le> 52"
  shows "list_all (\<lambda>w. length w = 4) (line_words chunk)" "take (length chunk) (concat (line_words chunk)) = chunk"
proof -
  have "(length chunk + 3) div 4 * 4 \<le> 52" "length chunk \<le> (length chunk + 3) div 4 * 4" using assms by simp_all
  then show "list_all (\<lambda>w. length w = 4) (line_words chunk)" "take (length chunk) (concat (line_words chunk)) = chunk"
    unfolding line_words_def by (auto intro!: chunks_exact simp: chunks_concat min_def)
qed

lemma decode_chunk_line:
  assumes "chunk \<noteq> []" "length chunk \<le> 52"
  shows "decode_line (chunk_line chunk) = Some chunk"
proof -
  have n: "decode_length (encoded_length (length chunk)) = length chunk"
    using assms decode_encoded_length [of "length chunk"] by (cases chunk) auto
  let ?f = "\<lambda>w. encode_word (from_be_bytes w)"
  have "chunks 5 (concat (map ?f (line_words chunk))) = map ?f (line_words chunk)"
    by (rule chunks_blocks) (simp_all add: list_all_iff encode_word_digits)
  moreover have "those (map decode_word (map ?f (line_words chunk))) = Some (line_words chunk)"
    using those_map_Some [of "line_words chunk" "decode_word \<circ> ?f" id] line_words_four(1) [OF assms(2)]
    by (simp add: list_all_iff decode_encode_word)
  ultimately show ?thesis
    using line_words_four(2) [OF assms(2)] by (simp add: decode_line_def chunk_line_def n)
qed

lemma chunk_line_one_line: "chunk \<noteq> [] \<Longrightarrow> length chunk \<le> 52 \<Longrightarrow> 10 \<notin> set (chunk_line chunk) \<and> chunk_line chunk \<noteq> []"
  using decode_encoded_length [of "length chunk"] by (cases chunk) (auto simp: chunk_line_def encode_word_digits)

lemma split_lines:
  "list_all (\<lambda>l. 10 \<notin> set l) ls \<Longrightarrow> split_on 10 (concat (map (\<lambda>l. l @ [10]) ls) @ [10 :: byte]) = ls @ [[], []]"
  by (induction ls) (simp_all add: split_on_append)

section \<open>The zlib stream\<close>

lemma le_bytes16: "n \<le> 65535 \<Longrightarrow> unat (word_of_nat n :: byte) + 256 * unat (word_of_nat (n div 256) :: byte) = n"
proof -
  assume "n \<le> 65535"
  then have "n div 256 < 256" by simp
  then show ?thesis by (simp add: unat_of_nat)
qed

lemma read_stored_blocks:
  assumes "cs \<noteq> []" "list_all (\<lambda>c. length c \<le> 65535) cs" "index + length cs = count"
  shows "read_blocks (stored_blocks index count cs @ trailer) = Some (concat cs, trailer)"
  using assms
proof (induction cs arbitrary: index)
  case (Cons c cs)
  then have c: "length c \<le> 65535" by simp
  show ?case
  proof (cases "cs = []")
    case True
    with Cons c show ?thesis
      using le_bytes16 [OF c] le_bytes16 [of "65535 - length c"]
      by (simp add: read_blocks.simps to_le_bytes16_def Let_def)
  next
    case False
    with Cons c have "read_blocks (stored_blocks (index + 1) count cs @ trailer) = Some (concat cs, trailer)"
      "index + 1 \<noteq> count" by (auto simp: neq_Nil_conv)
    with c show ?thesis
      using le_bytes16 [OF c] le_bytes16 [of "65535 - length c"]
      by (simp add: read_blocks.simps [of "_ # _"] to_le_bytes16_def Let_def)
  qed
qed simp

lemma zlib_load_store: "zlib_load (zlib_store data) = Some data"
proof (cases "data = []")
  case True
  then show ?thesis
    by (simp add: zlib_load_def zlib_store_def read_blocks.simps Let_def)
next
  case False
  let ?cs = "chunks 65535 data"
  have "?cs \<noteq> []" using False by (simp add: chunks.simps)
  moreover have "list_all (\<lambda>c. length c \<le> 65535) ?cs"
    using chunks_bounded [of 65535 data] by (simp add: list_all_iff)
  moreover have "0 + length ?cs = (length data + 65534) div 65535" by (simp add: length_chunks)
  ultimately show ?thesis
    using read_stored_blocks [of ?cs 0 "(length data + 65534) div 65535"] False
    by (simp add: zlib_load_def zlib_store_def chunks_concat)
qed


section \<open>Quoted paths\<close>

lemma char_zero: "CHR ''0'' = char_of (48 :: nat)"
  by code_simp

lemma octal_byte:
  assumes "n < 256"
  shows "octal_padded 3 n = [char_of (48 + n div 64), char_of (48 + n div 8 mod 8), char_of (48 + n mod 8)]"
proof -
  consider "n < 8" | "8 \<le> n" "n < 64" | "64 \<le> n" by linarith
  then show ?thesis
  proof cases
    case 1
    then have "octal n = [char_of (48 + n)]" by (subst octal.simps) (simp only: if_True)
    moreover have "n div 64 = 0" "n div 8 = 0" "n mod 8 = n" using 1 by simp_all
    moreover have "replicate 2 x = [x, x]" for x :: char by (simp add: numeral_2_eq_2)
    ultimately show ?thesis by (simp add: octal_padded_def char_zero)
  next
    case 2
    then have "n div 8 < 8" by simp
    with 2 show ?thesis by (simp add: char_zero octal_padded_def octal.simps [of n] octal.simps [of "n div 8"])
  next
    case 3
    then have small: "n div 64 < 8" "\<not> n div 8 < 8" "\<not> n < 8"
      using assms less_mult_imp_div_less [of n 8 64] div_le_mono [of 64 n 8] by linarith+
    have e: "n div 8 div 8 = n div 64" by simp
    have "octal (n div 8) = octal (n div 64) @ [char_of (48 + n div 8 mod 8)]"
      by (subst octal.simps) (simp only: small if_False e)
    moreover have "octal (n div 64) = [char_of (48 + n div 64)]" by (subst octal.simps) (simp only: small if_True)
    moreover have "octal n = octal (n div 8) @ [char_of (48 + n mod 8)]" by (subst octal.simps) (simp only: small if_False)
    ultimately have "octal n = [char_of (48 + n div 64), char_of (48 + n div 8 mod 8), char_of (48 + n mod 8)]"
      by (simp only: append.simps)
    then show ?thesis by (simp only: octal_padded_def Let_def) simp
  qed
qed

lemma octal_digit_plain: "unat w = 48 + x \<Longrightarrow> x < 8 \<Longrightarrow> w \<notin> {34, 92, 116, 110, 114 :: byte}"
  by auto

lemma octal_escape:
  "escape (as_bytes (octal_padded 3 (unat b)) @ rest) = Some (b, 3)"
proof -
  let ?d = "\<lambda>n. byte_of_char (char_of (48 + n))"
  have d: "?d n = word_of_nat (48 + n)" if "n < 8" for n
    using that by (simp add: byte_of_char_def of_char_of)
  have "unat b < 8 * 64" using unat_byte_less [of b] by linarith
  then have small: "unat b div 64 < 8" "unat b div 8 mod 8 < 8" "unat b mod 8 < 8"
    by (simp_all only: less_mult_imp_div_less mod_less_divisor zero_less_numeral)
  have e: "unat b div 64 = unat b div 8 div 8" using div_mult2_eq [of "unat b" 8 8] by simp
  have "unat b div 64 * 64 + unat b div 8 mod 8 * 8 + unat b mod 8 = unat b"
    unfolding e using div_mult_mod_eq [of "unat b" 8] div_mult_mod_eq [of "unat b div 8" 8] by linarith
  then have "word_of_nat (unat b div 64 * 64 + unat b div 8 mod 8 * 8 + unat b mod 8) = b"
    by (metis word_of_nat_digit add_0 mult_0)
  then have "(word_of_nat (unat b div 64) * 64 + word_of_nat (unat b div 8 mod 8) * 8 + word_of_nat (unat b mod 8) :: byte) = b"
    by (simp only: of_nat_add of_nat_mult of_nat_numeral)
  moreover have "as_bytes (octal_padded 3 (unat b)) =
      [word_of_nat (48 + unat b div 64), word_of_nat (48 + unat b div 8 mod 8), word_of_nat (48 + unat b mod 8)]"
    by (simp only: octal_byte [OF unat_byte_less] as_bytes_def list.map d [OF small(1)] d [OF small(2)] d [OF small(3)])
  moreover have "word_of_nat (48 + unat b div 64) \<notin> {34, 92, 116, 110, 114 :: byte}"
    using small(1) by (intro octal_digit_plain [of _ "unat b div 64"]) (simp_all only: unat_of_nat, simp)
  ultimately show ?thesis by (simp add: escape_def)
qed

lemma escape_lengths:
  "b = 34 \<or> b = 92 \<Longrightarrow> escape (b # rest) = Some (b, 1)" "escape (116 # rest) = Some (9, 1)"
  "escape (110 # rest) = Some (10, 1)" "escape (114 # rest) = Some (13, 1)"
  by (auto simp: escape_def)

lemma escape_letters:
  "as_bytes [CHR 0x5C, CHR ''t''] = [92, 116]" "as_bytes [CHR 0x5C, CHR ''n''] = [92, 110]"
  "as_bytes [CHR 0x5C, CHR ''r''] = [92, 114]"
  by (simp_all add: as_bytes_def byte_of_char_def)

lemma unquote_escape:
  "escape (e @ rest) = Some (c, length e) \<Longrightarrow>
   unquote_bytes (92 # e @ rest) = map_option ((#) c) (unquote_bytes rest)"
  by (simp add: unquote_bytes.simps [of "92 # e @ rest"])

lemma length_octal_byte: "length (octal_padded 3 (unat (b :: byte))) = 3"
  by (simp add: octal_byte)

lemma unquote_quote_byte: "unquote_bytes (quote_byte b @ rest) = map_option ((#) b) (unquote_bytes rest)"
proof -
  consider "b = 34 \<or> b = 92" | "b = 9" | "b = 10" | "b = 13"
    | "b \<notin> {34, 92, 9, 10, 13}" "32 \<le> b" "b \<le> 126"
    | "b \<notin> {34, 92, 9, 10, 13}" "\<not> (32 \<le> b \<and> b \<le> 126)" by blast
  then show ?thesis
  proof cases
    case 1
    then show ?thesis using unquote_escape [of "[b]" rest b] escape_lengths(1) [of b rest] by (simp add: quote_byte_def)
  next
    case 2
    then show ?thesis
      using unquote_escape [of "[116]" rest 9] escape_lengths(2) [of rest] by (simp add: quote_byte_def escape_letters)
  next
    case 3
    then show ?thesis
      using unquote_escape [of "[110]" rest 10] escape_lengths(3) [of rest] by (simp add: quote_byte_def escape_letters)
  next
    case 4
    then show ?thesis
      using unquote_escape [of "[114]" rest 13] escape_lengths(4) [of rest] by (simp add: quote_byte_def escape_letters)
  next
    case 5
    then show ?thesis by (simp add: quote_byte_def unquote_bytes.simps [of "b # rest"])
  next
    case 6
    then have "quote_byte b = 92 # as_bytes (octal_padded 3 (unat b))" by (auto simp: quote_byte_def)
    then show ?thesis
      using unquote_escape [of "as_bytes (octal_padded 3 (unat b))" rest b] octal_escape [of b rest]
      by (simp add: length_octal_byte)
  qed
qed

lemma unquote_quoted: "unquote_bytes (concat (map quote_byte bs) @ [34]) = Some bs"
  by (induction bs) (simp_all add: unquote_bytes.simps [of "[34]"] unquote_quote_byte)

lemma read_patch_path:
  assumes "pre \<noteq> 34"
  shows "read_path (patch_path pre path) = Some (pre # 47 # path)"
proof (cases "list_all plain_byte (pre # 47 # path)")
  case True
  with assms show ?thesis by (simp only: patch_path_def Let_def if_True read_path_def list.case if_False)
next
  case False
  then have "patch_path pre path = 34 # concat (map quote_byte (pre # 47 # path)) @ [34]"
    by (simp only: patch_path_def Let_def if_False)
  then show ?thesis using unquote_quoted [of "pre # 47 # path"] by (simp only: read_path_def list.case if_True refl)
qed

text \<open>C40. A path in a patch stands for one path: a reader that takes an unquoted path literally and undoes the
  escapes of a quoted one gets back the prefix and the bytes of the path, whatever bytes it has. So the lines
  of a patch name the file they are about, and two files never share a name.\<close>

theorem patch_path_roundtrip:
  "read_path (patch_path 97 path) = Some (97 # 47 # path) \<and> read_path (patch_path 98 path) = Some (98 # 47 # path)"
  using read_patch_path [of 97] read_patch_path [of 98] by simp

end
