(* ===== verification/Git_Read.thy ===== *)
theory Git_Read
  imports Patch Upload_Pack "HOL-Library.AList" "HOL-Library.List_Lexorder"
begin

text \<open>
  Reading a repository for display, \<^verbatim>\<open>RepositoryReadService\<close> of \<^verbatim>\<open>src/git/read.rs\<close>: commits, histories, trees, blobs,
  diffs, comparisons, searches and archives, each under limits and a budget of time.

  Objects are read and parsed by gix (\<open>gix_read\<close>), which also finds merge bases, merges trees, blames and compares
  texts. A tree entry carries the kind gix gives its mode. The budget says for the \<open>n\<close>-th check of an operation
  whether it stops there, and every step passes the number of checks on; an error that the code catches and passes
  over (a commit that is not there, a path that is not a file) leaves the number as it was before. A writer is what has
  been written to it.

  The theory \<open>Read_Properties\<close> shows that a history lists the ancestors, a diff the paths whose files differ, a search
  the lines that match, and a comparison what its commits and mergeability say, for every repository that gix can read.
\<close>

section \<open>Limits, errors and results\<close>

record read_limits =
  max_refs :: nat
  max_history_commits :: nat
  max_path_bytes :: nat
  max_tree_bytes :: nat
  max_tree_entries :: nat
  max_commit_bytes :: nat
  max_blob_bytes :: nat
  max_diff_bytes :: nat
  max_archive_entries :: nat
  max_archive_bytes :: nat
  max_archive_depth :: nat
  max_search_files :: nat
  max_search_bytes :: nat
  max_search_results :: nat
  max_search_query_bytes :: nat
  max_search_duration :: nat  \<comment> \<open>in nanoseconds, as the next one\<close>
  max_duration :: nat

definition default_limits :: read_limits where
  "default_limits =
     \<lparr>max_refs = 10000, max_history_commits = 10000, max_path_bytes = 4096, max_tree_bytes = 16 * 1024 * 1024,
      max_tree_entries = 100000, max_commit_bytes = 1024 * 1024, max_blob_bytes = 16 * 1024 * 1024,
      max_diff_bytes = 64 * 1024 * 1024, max_archive_entries = 100000, max_archive_bytes = 256 * 1024 * 1024,
      max_archive_depth = 128, max_search_files = 10000, max_search_bytes = 64 * 1024 * 1024,
      max_search_results = 500, max_search_query_bytes = 256, max_search_duration = 5 * 10 ^ 9,
      max_duration = 30 * 10 ^ 9\<rparr>"

datatype reading_error =
    RdOpen string string
  | RdNotBare string
  | RdGit string
  | RdObjectNotFound oid
  | RdWrongObjectKind object_kind object_kind
  | RdDamagedObject oid
  | RdLimit string
  | RdCancelled
  | RdDeadline
  | RdInvalidLimits
  | RdInvalidPath
  | RdInvalidSearchQuery
  | RdPathNotFound blob
  | RdNotTree blob
  | RdNotBlob blob
  | RdUnsafeTreeEntry blob
  | RdArchivePath blob
  | RdArchiveMetadata

record commit_info =
  ci_id :: oid
  ci_tree :: oid
  ci_parents :: "oid list"
  ci_author_name :: blob
  ci_author_email :: blob
  ci_committed_at :: int
  ci_message :: blob

datatype entry_kind = TreeEntry | BlobEntry | ExecutableEntry | LinkEntry | CommitEntry

record tree_entry =
  te_name :: blob
  te_id :: oid
  te_mode :: nat
  te_kind :: entry_kind

record blob_info =
  bi_id :: oid
  bi_mode :: nat
  bi_data :: blob

record readme_info =
  ri_path :: blob
  ri_blob :: blob_info

record full_comparison = comparison +
  fc_merge_base :: "oid option"
  fc_commits :: "commit_info list"
  fc_changed_paths :: "blob list"

record blame_hunk =
  bh_start_line :: nat
  bh_source_start_line :: nat
  bh_line_count :: nat
  bh_commit_id :: oid
  bh_source_path :: "blob option"

record archive_stats =
  as_entries :: nat
  as_written :: nat

record search_match =
  sm_path :: blob
  sm_line_number :: nat
  sm_line :: blob

record search_outcome =
  so_commit :: oid
  so_matches :: "search_match list"
  so_files_scanned :: nat
  so_bytes_scanned :: nat
  so_truncated :: bool

text \<open>What the service calls of gix. A parsed commit names its tree and parents in hexadecimal.\<close>

record raw_commit =
  rw_tree :: blob
  rw_parents :: "blob list"
  rw_author :: "(string, blob \<times> blob) result"
  rw_time :: "(string, int) result"
  rw_message :: blob

record blame_outcome =
  bo_commits_traversed :: nat
  bo_blob :: blob
  bo_entries :: "blame_hunk list"  \<comment> \<open>with line numbers from 0\<close>

record gix_read =
  gd_gix :: gix
  gd_listing :: gix_listing
  gd_object :: "git_repository \<Rightarrow> oid \<Rightarrow> (string, (object_kind \<times> blob) option) result"
  gd_header_size :: "git_repository \<Rightarrow> oid \<Rightarrow> (string, nat) result"
  gd_commit :: "blob \<Rightarrow> (string, raw_commit) result"
  gd_tree :: "blob \<Rightarrow> (string, tree_entry list) result"
  gd_empty_tree :: "hash_kind \<Rightarrow> oid"
  gd_merge_base :: "git_repository \<Rightarrow> oid \<Rightarrow> oid \<Rightarrow> (string, oid option) result"
  gd_conflicts :: "git_repository \<Rightarrow> oid \<Rightarrow> oid \<Rightarrow> (string, bool) result"
  gd_unified_diff :: "blob \<Rightarrow> blob \<Rightarrow> blob"
  gd_blame :: "git_repository \<Rightarrow> blob \<Rightarrow> oid \<Rightarrow> (string, blame_outcome) result"

text \<open>The service: a repository with its limits.\<close>

record reader =
  rd_gix :: gix_read
  rd_repository :: git_repository
  rd_limits :: read_limits

section \<open>The budget\<close>

datatype stop = StopCancelled | StopDeadline

type_synonym budget = "nat \<Rightarrow> stop option"

text \<open>\<^verbatim>\<open>ReadBudget::check\<close>, the check number \<open>t\<close> of an operation.\<close>

definition budget_check :: "budget \<Rightarrow> nat \<Rightarrow> (reading_error, nat) result" where
  "budget_check b t =
     (case b t of
        None \<Rightarrow> Ok (t + 1)
      | Some StopCancelled \<Rightarrow> Err RdCancelled
      | Some StopDeadline \<Rightarrow> Err RdDeadline)"

text \<open>The result of an operation, without the number of its checks.\<close>

definition finished :: "(reading_error, 'a \<times> nat) result \<Rightarrow> (reading_error, 'a) result" where
  "finished m = try_then m (\<lambda>(x, t). Ok x)"

section \<open>Checks\<close>

definition validate_limits :: "read_limits \<Rightarrow> (reading_error, unit) result" where
  "validate_limits l =
     (if max_refs l = 0 \<or> max_history_commits l = 0 \<or> max_path_bytes l = 0 \<or> max_tree_bytes l = 0
        \<or> max_tree_entries l = 0 \<or> max_commit_bytes l = 0 \<or> max_blob_bytes l = 0 \<or> max_diff_bytes l = 0
        \<or> max_archive_entries l = 0 \<or> max_archive_bytes l < 1024 \<or> max_search_files l = 0
        \<or> max_search_bytes l = 0 \<or> max_search_results l = 0 \<or> max_search_query_bytes l = 0
        \<or> max_search_duration l = 0 \<or> max_duration l = 0
      then Err RdInvalidLimits else Ok ())"

definition reader_open :: "gix_read \<Rightarrow> (string \<Rightarrow> (string, git_repository) result) \<Rightarrow> string \<Rightarrow> read_limits
    \<Rightarrow> (reading_error, reader) result" where
  "reader_open g disk path limits =
     try_then (map_err (RdOpen path) (disk path)) (\<lambda>repository.
     if \<not> repo_bare repository then Err (RdNotBare path)
     else
       try_then (validate_limits limits) (\<lambda>_.
       Ok \<lparr>rd_gix = g, rd_repository = repository, rd_limits = limits\<rparr>))"

definition dot :: blob where "dot = as_bytes ''.''"
definition dot_dot :: blob where "dot_dot = as_bytes ''..''"

definition validate_path :: "blob \<Rightarrow> bool \<Rightarrow> nat \<Rightarrow> (reading_error, unit) result" where
  "validate_path path permit_empty maximum =
     (if path = [] then (if permit_empty then Ok () else Err RdInvalidPath)
      else if length path > maximum then Err (RdLimit ''path bytes'')
      else if hd path = 47 \<or> last path = 47 \<or> 0 \<in> set path
        \<or> list_ex (\<lambda>component. component = [] \<or> component = dot \<or> component = dot_dot) (split_on 47 path)
      then Err RdInvalidPath
      else Ok ())"

definition join_git_path :: "blob \<Rightarrow> blob \<Rightarrow> nat \<Rightarrow> (reading_error, blob) result" where
  "join_git_path pre name maximum =
     (if name = [] \<or> name = dot \<or> name = dot_dot \<or> 47 \<in> set name \<or> 0 \<in> set name then Err (RdUnsafeTreeEntry name)
      else
        let path = (if pre = [] then name else pre @ 47 # name) in
        if length path > maximum then Err (RdLimit ''path bytes'') else Ok path)"

definition checked_total :: "nat \<Rightarrow> nat \<Rightarrow> nat \<Rightarrow> string \<Rightarrow> (reading_error, nat) result" where
  "checked_total current additional maximum limit =
     (if current + additional \<ge> 2 ^ 64 then Err (RdLimit limit)
      else if current + additional > maximum then Err (RdLimit limit)
      else Ok (current + additional))"

definition ascii_lower :: "byte \<Rightarrow> byte" where
  "ascii_lower b = (if 65 \<le> b \<and> b \<le> 90 then b + 32 else b)"

definition README_NAMES :: "blob list" where
  "README_NAMES = map as_bytes
     [''README'', ''README.md'', ''README.markdown'', ''README.txt'', ''README.rst'', ''README.adoc'']"

definition readme_priority :: "blob \<Rightarrow> nat option" where
  "readme_priority name =
     find (\<lambda>i. map ascii_lower name = map ascii_lower (README_NAMES ! i)) [0..<length README_NAMES]"

definition contains_bytes :: "blob \<Rightarrow> blob \<Rightarrow> bool" where
  "contains_bytes haystack needle = sublist needle haystack"

section \<open>Objects\<close>

text \<open>The lookup that \<^verbatim>\<open>read_commit\<close>, \<^verbatim>\<open>read_tree\<close> and \<^verbatim>\<open>read_blob\<close> have in common.\<close>

definition object_data :: "reader \<Rightarrow> object_kind \<Rightarrow> nat \<Rightarrow> string \<Rightarrow> oid \<Rightarrow> (reading_error, blob) result" where
  "object_data r expected maximum limit ident =
     try_then (map_err RdGit (gd_object (rd_gix r) (rd_repository r) ident)) (\<lambda>found.
     try_then (ok_or (RdObjectNotFound ident) found) (\<lambda>(kind, data).
     if kind \<noteq> expected then Err (RdWrongObjectKind expected kind)
     else if length data > maximum then Err (RdLimit limit)
     else Ok data))"

definition reader_parse_id :: "reader \<Rightarrow> oid \<Rightarrow> blob \<Rightarrow> (reading_error, oid) result" where
  "reader_parse_id r owner input =
     (case from_hex (gd_gix (rd_gix r)) input of
        None \<Rightarrow> Err (RdDamagedObject owner)
      | Some ident \<Rightarrow>
          if length ident \<noteq> hex_length (repo_format (rd_repository r)) then Err (RdDamagedObject owner) else Ok ident)"

fun reader_parse_ids :: "reader \<Rightarrow> oid \<Rightarrow> blob list \<Rightarrow> (reading_error, oid list) result" where
  "reader_parse_ids r owner [] = Ok []"
| "reader_parse_ids r owner (input # inputs) =
     try_then (reader_parse_id r owner input) (\<lambda>ident.
     try_then (reader_parse_ids r owner inputs) (\<lambda>idents. Ok (ident # idents)))"

text \<open>Reading without the check of the budget, which comes first in each of the three.\<close>

definition commit_of :: "reader \<Rightarrow> oid \<Rightarrow> (reading_error, commit_info) result" where
  "commit_of r ident =
     try_then (object_data r Commit (max_commit_bytes (rd_limits r)) ''commit bytes'' ident) (\<lambda>data.
     try_then (map_err RdGit (gd_commit (rd_gix r) data)) (\<lambda>commit.
     try_then (reader_parse_id r ident (rw_tree commit)) (\<lambda>tree.
     try_then (reader_parse_ids r ident (rw_parents commit)) (\<lambda>parents.
     try_then (map_err RdGit (rw_author commit)) (\<lambda>(name, email).
     try_then (map_err RdGit (rw_time commit)) (\<lambda>committed_at.
     Ok \<lparr>ci_id = ident, ci_tree = tree, ci_parents = parents, ci_author_name = name, ci_author_email = email,
         ci_committed_at = committed_at, ci_message = rw_message commit\<rparr>))))))"

definition tree_of :: "reader \<Rightarrow> oid \<Rightarrow> (reading_error, tree_entry list) result" where
  "tree_of r ident =
     try_then (object_data r Tree (max_tree_bytes (rd_limits r)) ''tree bytes'' ident) (\<lambda>data.
     map_err RdGit (gd_tree (rd_gix r) data))"

definition blob_of :: "reader \<Rightarrow> oid \<Rightarrow> nat \<Rightarrow> (reading_error, blob_info) result" where
  "blob_of r ident mode =
     try_then (object_data r Blob (max_blob_bytes (rd_limits r)) ''blob bytes'' ident) (\<lambda>data.
     Ok \<lparr>bi_id = ident, bi_mode = mode, bi_data = data\<rparr>)"

definition read_commit :: "reader \<Rightarrow> budget \<Rightarrow> oid \<Rightarrow> nat \<Rightarrow> (reading_error, commit_info \<times> nat) result" where
  "read_commit r b ident t =
     try_then (budget_check b t) (\<lambda>t. try_then (commit_of r ident) (\<lambda>commit. Ok (commit, t)))"

definition read_tree :: "reader \<Rightarrow> budget \<Rightarrow> oid \<Rightarrow> nat \<Rightarrow> (reading_error, tree_entry list \<times> nat) result" where
  "read_tree r b ident t =
     try_then (budget_check b t) (\<lambda>t. try_then (tree_of r ident) (\<lambda>entries. Ok (entries, t)))"

definition read_blob :: "reader \<Rightarrow> budget \<Rightarrow> oid \<Rightarrow> nat \<Rightarrow> nat \<Rightarrow> (reading_error, blob_info \<times> nat) result" where
  "read_blob r b ident mode t =
     try_then (budget_check b t) (\<lambda>t. try_then (blob_of r ident mode) (\<lambda>info. Ok (info, t)))"

section \<open>References and histories\<close>

fun collect_ref_infos :: "reader \<Rightarrow> budget \<Rightarrow> (string, raw_reference) result list \<Rightarrow> git_reference list \<Rightarrow> nat
    \<Rightarrow> (reading_error, git_reference list \<times> nat) result" where
  "collect_ref_infos r b [] refs t = Ok (refs, t)"
| "collect_ref_infos r b (reference # iterator) refs t =
     try_then (budget_check b t) (\<lambda>t.
     if max_refs (rd_limits r) \<le> length refs then Err (RdLimit ''refs'')
     else
       try_then (map_err RdGit reference) (\<lambda>raw.
       if max_path_bytes (rd_limits r) < length (raw_name raw) then Err (RdLimit ''ref name bytes'')
       else
         (case raw_id raw of
            None \<Rightarrow> collect_ref_infos r b iterator refs t
          | Some target \<Rightarrow>
              try_then (if starts_with (raw_name raw) (as_bytes ''refs/tags/'')
                then try_then (map_err RdGit (raw_peeled raw)) (\<lambda>candidate.
                  Ok (if candidate \<noteq> target then Some candidate else None))
                else Ok None) (\<lambda>peeled.
              collect_ref_infos r b iterator (refs @
                [\<lparr>ref_name = raw_name raw, ref_target = target, ref_peeled = peeled, ref_symbolic_target = None\<rparr>]) t))))"

definition reader_references :: "reader \<Rightarrow> budget \<Rightarrow> (reading_error, git_reference list) result" where
  "reader_references r b =
     (let listing = gd_listing (rd_gix r); repository = rd_repository r in
      try_then (map_err RdGit (all_references listing repository)) (\<lambda>iterator.
      try_then (collect_ref_infos r b iterator [] 0) (\<lambda>(refs, t).
      let refs = sort_key (\<lambda>x. map (unat :: byte \<Rightarrow> nat) (ref_name x)) refs in
      try_then (map_err RdGit (head_reference listing repository)) (\<lambda>head.
      case head of
        None \<Rightarrow> Ok refs
      | Some (name, target) \<Rightarrow>
          if max_refs (rd_limits r) \<le> length refs then Err (RdLimit ''refs'')
          else Ok (\<lparr>ref_name = as_bytes ''HEAD'', ref_target = target, ref_peeled = None,
                    ref_symbolic_target = Some name\<rparr> # refs)))))"

definition reader_commit :: "reader \<Rightarrow> budget \<Rightarrow> oid \<Rightarrow> (reading_error, commit_info) result" where
  "reader_commit r b ident = finished (read_commit r b ident 0)"

fun metadata_loop :: "reader \<Rightarrow> budget \<Rightarrow> oid list \<Rightarrow> nat
    \<Rightarrow> (reading_error, commit_info option list \<times> nat) result" where
  "metadata_loop r b [] t = Ok ([], t)"
| "metadata_loop r b (ident # idents) t =
     try_then (budget_check b t) (\<lambda>t.
     try_then (case read_commit r b ident t of
         Inr (commit, t) \<Rightarrow> Ok (Some commit, t)
       | Inl e \<Rightarrow>
           (case e of
              RdObjectNotFound _ \<Rightarrow> Ok (None, t + 1)
            | RdWrongObjectKind _ _ \<Rightarrow> Ok (None, t + 1)
            | _ \<Rightarrow> Err e)) (\<lambda>(commit, t).
     try_then (metadata_loop r b idents t) (\<lambda>(commits, t). Ok (commit # commits, t))))"

definition reader_commit_metadata :: "reader \<Rightarrow> budget \<Rightarrow> oid list \<Rightarrow> (reading_error, commit_info option list) result" where
  "reader_commit_metadata r b idents =
     (if length idents > max_refs (rd_limits r) then Err (RdLimit ''commit metadata'')
      else
        try_then (metadata_loop r b idents 0) (\<lambda>(commits, t).
        try_then (budget_check b t) (\<lambda>_. Ok commits)))"

text \<open>The queue \<^verbatim>\<open>pending\<close> has its front at the head of the list.\<close>

function history_loop :: "reader \<Rightarrow> budget \<Rightarrow> nat \<Rightarrow> bool \<Rightarrow> oid list \<Rightarrow> oid list \<Rightarrow> commit_info list \<Rightarrow> nat
    \<Rightarrow> (reading_error, commit_info list \<times> nat) result" where
  "history_loop r b maximum truncating [] seen history t = Ok (history, t)"
| "history_loop r b maximum truncating (ident # pending) seen history t =
     (case budget_check b t of
        Inl e \<Rightarrow> Err e
      | Inr t \<Rightarrow>
          if ident \<in> set seen then history_loop r b maximum truncating pending seen history t
          else if maximum \<le> length history
          then (if truncating then Ok (history, t) else Err (RdLimit ''history commits''))
          else
            (case read_commit r b ident t of
               Inl e \<Rightarrow> Err e
             | Inr (commit, t) \<Rightarrow>
                 history_loop r b maximum truncating (pending @ ci_parents commit) (ident # seen) (history @ [commit]) t))"
  by pat_completeness auto
termination
  by (relation "(\<lambda>(r, b, maximum, truncating, pending, seen, history, t). maximum - length history)
       <*mlex*> measure (\<lambda>(r, b, maximum, truncating, pending, seen, history, t). length pending)")
    (auto intro: wf_mlex mlex_less mlex_leq)

definition history_with_budget :: "reader \<Rightarrow> budget \<Rightarrow> oid \<Rightarrow> nat \<Rightarrow> bool \<Rightarrow> nat
    \<Rightarrow> (reading_error, commit_info list \<times> nat) result" where
  "history_with_budget r b start maximum truncating t = history_loop r b maximum truncating [start] [] [] t"

definition full_history :: "reader \<Rightarrow> budget \<Rightarrow> oid \<Rightarrow> nat \<Rightarrow> (reading_error, commit_info list \<times> nat) result" where
  "full_history r b start t = history_with_budget r b start (max_history_commits (rd_limits r)) False t"

definition reader_history :: "reader \<Rightarrow> budget \<Rightarrow> oid \<Rightarrow> (reading_error, commit_info list) result" where
  "reader_history r b start = finished (full_history r b start 0)"

definition reader_history_prefix :: "reader \<Rightarrow> budget \<Rightarrow> oid \<Rightarrow> nat \<Rightarrow> (reading_error, commit_info list) result" where
  "reader_history_prefix r b start maximum =
     (if maximum = 0 \<or> maximum > max_history_commits (rd_limits r) then Err RdInvalidLimits
      else finished (history_with_budget r b start maximum True 0))"

section \<open>Paths in a tree\<close>

definition named_entry :: "blob \<Rightarrow> tree_entry list \<Rightarrow> tree_entry option" where
  "named_entry component entries = find (\<lambda>e. te_name e = component) entries"

fun resolve_components :: "reader \<Rightarrow> budget \<Rightarrow> blob \<Rightarrow> blob list \<Rightarrow> oid \<Rightarrow> nat \<Rightarrow> (reading_error, oid \<times> nat) result" where
  "resolve_components r b path [] tree t = Ok (tree, t)"
| "resolve_components r b path (component # components) tree t =
     try_then (budget_check b t) (\<lambda>t.
     try_then (read_tree r b tree t) (\<lambda>(entries, t).
     try_then (ok_or (RdPathNotFound path) (named_entry component entries)) (\<lambda>entry.
     if te_kind entry \<noteq> TreeEntry then Err (RdNotTree path)
     else resolve_components r b path components (te_id entry) t)))"

definition resolve_tree :: "reader \<Rightarrow> budget \<Rightarrow> oid \<Rightarrow> blob \<Rightarrow> nat \<Rightarrow> (reading_error, oid \<times> nat) result" where
  "resolve_tree r b root path t =
     (if path = [] then Ok (root, t) else resolve_components r b path (split_on 47 path) root t)"

definition is_blob_or_symlink :: "entry_kind \<Rightarrow> bool" where
  "is_blob_or_symlink kind \<longleftrightarrow> kind \<in> {BlobEntry, ExecutableEntry, LinkEntry}"

fun resolve_blob_components :: "reader \<Rightarrow> budget \<Rightarrow> blob \<Rightarrow> blob list \<Rightarrow> oid \<Rightarrow> nat
    \<Rightarrow> (reading_error, (oid \<times> nat) \<times> nat) result" where
  "resolve_blob_components r b path [] tree t = Err (RdNotBlob path)"
| "resolve_blob_components r b path (component # components) tree t =
     try_then (budget_check b t) (\<lambda>t.
     try_then (read_tree r b tree t) (\<lambda>(entries, t).
     try_then (ok_or (RdPathNotFound path) (named_entry component entries)) (\<lambda>entry.
     if components \<noteq> [] then
       (if te_kind entry \<noteq> TreeEntry then Err (RdNotTree path)
        else resolve_blob_components r b path components (te_id entry) t)
     else if is_blob_or_symlink (te_kind entry) then Ok ((te_id entry, te_mode entry), t)
     else Err (RdNotBlob path))))"

definition resolve_blob :: "reader \<Rightarrow> budget \<Rightarrow> oid \<Rightarrow> blob \<Rightarrow> nat \<Rightarrow> (reading_error, (oid \<times> nat) \<times> nat) result" where
  "resolve_blob r b root path t = resolve_blob_components r b path (split_on 47 path) root t"

text \<open>One check for each of \<open>n\<close> elements.\<close>

fun budget_checks :: "budget \<Rightarrow> nat \<Rightarrow> nat \<Rightarrow> (reading_error, nat) result" where
  "budget_checks b 0 t = Ok t"
| "budget_checks b (Suc n) t = try_then (budget_check b t) (budget_checks b n)"

definition reader_tree_prefix :: "reader \<Rightarrow> budget \<Rightarrow> oid \<Rightarrow> blob \<Rightarrow> nat
    \<Rightarrow> (reading_error, tree_entry list \<times> bool) result" where
  "reader_tree_prefix r b commit path maximum =
     try_then (validate_path path True (max_path_bytes (rd_limits r))) (\<lambda>_.
     try_then (read_commit r b commit 0) (\<lambda>(info, t).
     try_then (resolve_tree r b (ci_tree info) path t) (\<lambda>(tree, t).
     try_then (read_tree r b tree t) (\<lambda>(entries, t).
     if length entries > max_tree_entries (rd_limits r) then Err (RdLimit ''tree entries'')
     else
       try_then (budget_checks b (length entries) t) (\<lambda>_.
       Ok (take maximum
             (sort_key (\<lambda>e. (if te_kind e = TreeEntry then 0 else 1) # map unat (te_name e)) entries),
           length entries > maximum))))))"

definition reader_tree :: "reader \<Rightarrow> budget \<Rightarrow> oid \<Rightarrow> blob \<Rightarrow> (reading_error, tree_entry list) result" where
  "reader_tree r b commit path =
     try_then (reader_tree_prefix r b commit path (max_tree_entries (rd_limits r))) (\<lambda>(entries, _). Ok entries)"

definition reader_blob_at :: "reader \<Rightarrow> budget \<Rightarrow> oid \<Rightarrow> blob \<Rightarrow> (reading_error, blob_info \<times> nat) result" where
  "reader_blob_at r b commit path =
     try_then (validate_path path False (max_path_bytes (rd_limits r))) (\<lambda>_.
     try_then (read_commit r b commit 0) (\<lambda>(info, t).
     try_then (resolve_blob r b (ci_tree info) path t) (\<lambda>((ident, mode), t).
     read_blob r b ident mode t)))"

definition reader_blob :: "reader \<Rightarrow> budget \<Rightarrow> oid \<Rightarrow> blob \<Rightarrow> (reading_error, blob_info) result" where
  "reader_blob r b commit path = finished (reader_blob_at r b commit path)"

definition reader_raw :: "reader \<Rightarrow> budget \<Rightarrow> oid \<Rightarrow> blob \<Rightarrow> blob \<Rightarrow> (reading_error, blob \<times> nat) result" where
  "reader_raw r b commit path written =
     try_then (reader_blob_at r b commit path) (\<lambda>(info, t).
     try_then (budget_check b t) (\<lambda>_.
     Ok (written @ bi_data info, length (bi_data info))))"

fun readme_candidates :: "budget \<Rightarrow> tree_entry list \<Rightarrow> nat \<Rightarrow> (reading_error, (nat \<times> tree_entry) list \<times> nat) result" where
  "readme_candidates b [] t = Ok ([], t)"
| "readme_candidates b (entry # entries) t =
     try_then (budget_check b t) (\<lambda>t.
     try_then (readme_candidates b entries t) (\<lambda>(candidates, t).
     Ok ((if te_kind entry \<in> {BlobEntry, ExecutableEntry}
          then (case readme_priority (te_name entry) of None \<Rightarrow> [] | Some priority \<Rightarrow> [(priority, entry)])
          else []) @ candidates, t)))"

definition reader_readme :: "reader \<Rightarrow> budget \<Rightarrow> oid \<Rightarrow> (reading_error, readme_info option) result" where
  "reader_readme r b commit =
     try_then (read_commit r b commit 0) (\<lambda>(info, t).
     try_then (read_tree r b (ci_tree info) t) (\<lambda>(entries, t).
     try_then (readme_candidates b entries t) (\<lambda>(candidates, t).
     case sort_key (\<lambda>(priority, e). priority # map unat (te_name e)) candidates of
       [] \<Rightarrow> Ok None
     | (_, e) # _ \<Rightarrow>
         try_then (read_blob r b (te_id e) (te_mode e) t) (\<lambda>(found, _).
         Ok (Some \<lparr>ri_path = te_name e, ri_blob = found\<rparr>)))))"

section \<open>Files and differences\<close>

record tree_file =
  tf_id :: oid
  tf_mode :: nat
  tf_kind :: entry_kind

text \<open>\<^verbatim>\<open>BTreeMap\<close> from paths: an association list, iterated in the order of the bytes of the paths.\<close>

definition by_path :: "blob \<Rightarrow> nat list" where "by_path path = map unat path"

text \<open>The two loops of \<^verbatim>\<open>flatten_tree\<close>: the entries of the tree at hand, and below them the pending trees.\<close>

function flatten_loop :: "reader \<Rightarrow> budget \<Rightarrow> tree_entry list \<Rightarrow> blob \<Rightarrow> (blob \<times> oid) list \<Rightarrow> nat
    \<Rightarrow> (blob \<times> tree_file) list \<Rightarrow> nat \<Rightarrow> (reading_error, (blob \<times> tree_file) list \<times> nat) result" where
  "flatten_loop r b [] pre [] count files t = Ok (files, t)"
| "flatten_loop r b [] pre ((below, tree) # pending) count files t =
     (case try_then (budget_check b t) (read_tree r b tree) of
        Inl e \<Rightarrow> Err e
      | Inr (entries, t) \<Rightarrow> flatten_loop r b entries below pending count files t)"
| "flatten_loop r b (entry # entries) pre pending count files t =
     (case budget_check b t of
        Inl e \<Rightarrow> Err e
      | Inr t \<Rightarrow>
          if max_tree_entries (rd_limits r) < count + 1 then Err (RdLimit ''tree entries'')
          else
            (case join_git_path pre (te_name entry) (max_path_bytes (rd_limits r)) of
               Inl e \<Rightarrow> Err e
             | Inr path \<Rightarrow>
                 if te_kind entry = TreeEntry
                 then flatten_loop r b entries pre ((path, te_id entry) # pending) (count + 1) files t
                 else flatten_loop r b entries pre pending (count + 1)
                   (AList.update path \<lparr>tf_id = te_id entry, tf_mode = te_mode entry, tf_kind = te_kind entry\<rparr> files) t))"
  by pat_completeness auto
termination
  by (relation "(\<lambda>(r, b, entries, pre, pending, count, files, t). max_tree_entries (rd_limits r) - count)
       <*mlex*> measure (\<lambda>(r, b, entries, pre, pending, count, files, t). length pending)")
    (auto intro: wf_mlex mlex_less mlex_leq)

definition flatten_tree :: "reader \<Rightarrow> budget \<Rightarrow> oid \<Rightarrow> nat \<Rightarrow> (reading_error, (blob \<times> tree_file) list \<times> nat) result" where
  "flatten_tree r b root t = flatten_loop r b [] [] [([], root)] 0 [] t"

definition diff_blob :: "reader \<Rightarrow> budget \<Rightarrow> tree_file option \<Rightarrow> nat \<Rightarrow> (reading_error, blob \<times> nat) result" where
  "diff_blob r b file t =
     (case file of
        None \<Rightarrow> Ok ([], t)
      | Some f \<Rightarrow>
          if tf_kind f = CommitEntry then Ok ([], t)
          else try_then (read_blob r b (tf_id f) (tf_mode f) t) (\<lambda>(info, t). Ok (bi_data info, t)))"

definition is_submodule :: "tree_file option \<Rightarrow> bool" where
  "is_submodule file = (case file of None \<Rightarrow> False | Some f \<Rightarrow> tf_kind f = CommitEntry)"

definition diff_entry :: "reader \<Rightarrow> blob \<Rightarrow> tree_file option \<Rightarrow> tree_file option \<Rightarrow> blob \<Rightarrow> blob \<Rightarrow> diff_file" where
  "diff_entry r path old new old_data new_data =
     (let binary = is_submodule old \<or> is_submodule new \<or> 0 \<in> set old_data \<or> 0 \<in> set new_data in
      \<lparr>df_path = path, df_old_id = map_option tf_id old, df_new_id = map_option tf_id new,
       df_old_mode = map_option tf_mode old, df_new_mode = map_option tf_mode new, df_binary = binary,
       df_hunks = (if binary then [] else gd_unified_diff (rd_gix r) old_data new_data),
       df_old_data = map_option (\<lambda>_. old_data) old, df_new_data = map_option (\<lambda>_. new_data) new\<rparr>)"

fun diff_paths :: "reader \<Rightarrow> budget \<Rightarrow> (blob \<times> tree_file) list \<Rightarrow> (blob \<times> tree_file) list \<Rightarrow> blob list \<Rightarrow> nat \<Rightarrow> nat
    \<Rightarrow> (reading_error, diff_file list \<times> nat) result" where
  "diff_paths r b old_files new_files [] bytes t = Ok ([], t)"
| "diff_paths r b old_files new_files (path # paths) bytes t =
     try_then (budget_check b t) (\<lambda>t.
     let old = map_of old_files path; new = map_of new_files path; limit = max_diff_bytes (rd_limits r) in
     if old = new then diff_paths r b old_files new_files paths bytes t
     else
       try_then (diff_blob r b old t) (\<lambda>(old_data, t).
       try_then (diff_blob r b new t) (\<lambda>(new_data, t).
       try_then (checked_total bytes (length old_data) limit ''diff bytes'') (\<lambda>bytes.
       try_then (checked_total bytes (length new_data) limit ''diff bytes'') (\<lambda>bytes.
       let file = diff_entry r path old new old_data new_data in
       try_then (checked_total bytes (length (df_hunks file)) limit ''diff bytes'') (\<lambda>bytes.
       try_then (diff_paths r b old_files new_files paths bytes t) (\<lambda>(files, t).
       Ok (file # files, t))))))))"

definition diff_trees_with_budget :: "reader \<Rightarrow> budget \<Rightarrow> oid \<Rightarrow> oid \<Rightarrow> nat
    \<Rightarrow> (reading_error, diff_file list \<times> nat) result" where
  "diff_trees_with_budget r b old_tree new_tree t =
     try_then (flatten_tree r b old_tree t) (\<lambda>(old_files, t).
     try_then (flatten_tree r b new_tree t) (\<lambda>(new_files, t).
     diff_paths r b old_files new_files (sort_key by_path (remdups (map fst old_files @ map fst new_files))) 0 t))"

definition diff_with_budget :: "reader \<Rightarrow> budget \<Rightarrow> oid \<Rightarrow> oid \<Rightarrow> nat
    \<Rightarrow> (reading_error, diff_file list \<times> nat) result" where
  "diff_with_budget r b old_commit new_commit t =
     try_then (read_commit r b old_commit t) (\<lambda>(old, t).
     try_then (read_commit r b new_commit t) (\<lambda>(new, t).
     diff_trees_with_budget r b (ci_tree old) (ci_tree new) t))"

definition reader_diff :: "reader \<Rightarrow> budget \<Rightarrow> oid \<Rightarrow> oid \<Rightarrow> (reading_error, diff_file list) result" where
  "reader_diff r b old_commit new_commit = finished (diff_with_budget r b old_commit new_commit 0)"

definition empty_tree :: "reader \<Rightarrow> oid" where
  "empty_tree r = gd_empty_tree (rd_gix r) (repo_format (rd_repository r))"

definition reader_commit_diff :: "reader \<Rightarrow> budget \<Rightarrow> oid \<Rightarrow> (reading_error, diff_file list) result" where
  "reader_commit_diff r b commit =
     finished
       (try_then (read_commit r b commit 0) (\<lambda>(info, t).
        case ci_parents info of
          parent # _ \<Rightarrow> diff_with_budget r b parent commit t
        | [] \<Rightarrow> diff_trees_with_budget r b (empty_tree r) (ci_tree info) t))"

section \<open>Comparisons\<close>

fun comparison_commits :: "reader \<Rightarrow> budget \<Rightarrow> commit_info list \<Rightarrow> nat \<Rightarrow> nat \<Rightarrow> (reading_error, nat) result" where
  "comparison_commits r b [] commit_bytes t = Ok t"
| "comparison_commits r b (commit # commits) commit_bytes t =
     try_then (budget_check b t) (\<lambda>t.
     try_then (checked_total commit_bytes (length (ci_message commit)) (max_diff_bytes (rd_limits r))
       ''comparison output bytes'') (\<lambda>commit_bytes.
     comparison_commits r b commits commit_bytes t))"

definition compare_mergeability :: "reader \<Rightarrow> budget \<Rightarrow> oid \<Rightarrow> oid \<Rightarrow> oid set \<Rightarrow> oid set \<Rightarrow> oid option \<Rightarrow> nat
    \<Rightarrow> (reading_error, mergeability \<times> nat) result" where
  "compare_mergeability r b base head base_ids head_ids merge_base t =
     (case merge_base of
        None \<Rightarrow> Ok (Unrelated, t)
      | Some merge_base \<Rightarrow>
          if head \<in> base_ids then Ok (AlreadyMerged, t)
          else if base \<in> head_ids then Ok (FastForwardMerge, t)
          else
            try_then (budget_check b t) (\<lambda>t.
            try_then (diff_with_budget r b merge_base base t) (\<lambda>(_, t).
            try_then (map_err RdGit (gd_conflicts (rd_gix r) (rd_repository r) base head)) (\<lambda>conflicts.
            Ok (if conflicts then Conflicting else CleanMerge, t)))))"

definition reader_comparison :: "reader \<Rightarrow> budget \<Rightarrow> oid \<Rightarrow> oid \<Rightarrow> (reading_error, full_comparison) result" where
  "reader_comparison r b base head =
     try_then (full_history r b base 0) (\<lambda>(base_history, t).
     try_then (full_history r b head t) (\<lambda>(head_history, t).
     if length base_history + length head_history > max_history_commits (rd_limits r)
     then Err (RdLimit ''comparison commits'')
     else
       let base_ids = set (map ci_id base_history); head_ids = set (map ci_id head_history) in
       case head_history of
         [] \<Rightarrow> Err (RdObjectNotFound head)
       | first_commit # _ \<Rightarrow>
           try_then (budget_check b t) (\<lambda>t.
           try_then (map_err RdGit (gd_merge_base (rd_gix r) (rd_repository r) base head)) (\<lambda>merge_base.
           let commits = filter (\<lambda>c. ci_id c \<notin> base_ids) head_history in
           try_then (comparison_commits r b commits 0 t) (\<lambda>t.
           try_then (case merge_base of
               Some merge_base \<Rightarrow> diff_with_budget r b merge_base head t
             | None \<Rightarrow> diff_trees_with_budget r b (empty_tree r) (ci_tree first_commit) t) (\<lambda>(files, t).
           try_then (compare_mergeability r b base head base_ids head_ids merge_base t) (\<lambda>(mergeability, t).
           try_then (budget_check b t) (\<lambda>_.
           Ok \<lparr>cmp_files = files, cmp_mergeability = mergeability, fc_merge_base = merge_base,
               fc_commits = commits, fc_changed_paths = map df_path files\<rparr>))))))))"

section \<open>Blame\<close>

text \<open>A commit in which the path is not a file is passed over, whatever the reason.\<close>

fun blame_bytes :: "reader \<Rightarrow> budget \<Rightarrow> blob \<Rightarrow> commit_info list \<Rightarrow> nat \<Rightarrow> nat \<Rightarrow> (reading_error, nat) result" where
  "blame_bytes r b path [] candidate_bytes t = Ok t"
| "blame_bytes r b path (candidate # candidates) candidate_bytes t =
     try_then (budget_check b t) (\<lambda>t.
     case resolve_blob r b (ci_tree candidate) path t of
       Inl _ \<Rightarrow> blame_bytes r b path candidates candidate_bytes t
     | Inr ((ident, _), t) \<Rightarrow>
         try_then (map_err RdGit (gd_header_size (rd_gix r) (rd_repository r) ident)) (\<lambda>size.
         if size \<ge> 2 ^ 64 then Err (RdLimit ''blame bytes'')
         else
           try_then (checked_total candidate_bytes size (max_diff_bytes (rd_limits r)) ''blame bytes'')
             (\<lambda>candidate_bytes. blame_bytes r b path candidates candidate_bytes t)))"

definition reader_blame :: "reader \<Rightarrow> budget \<Rightarrow> oid \<Rightarrow> blob \<Rightarrow> (reading_error, blame_hunk list) result" where
  "reader_blame r b commit path =
     try_then (validate_path path False (max_path_bytes (rd_limits r))) (\<lambda>_.
     try_then (full_history r b commit 0) (\<lambda>(history, t).
     try_then (blame_bytes r b path history 0 t) (\<lambda>t.
     try_then (budget_check b t) (\<lambda>t.
     try_then (map_err RdGit (gd_blame (rd_gix r) (rd_repository r) path commit)) (\<lambda>outcome.
     try_then (budget_check b t) (\<lambda>_.
     if bo_commits_traversed outcome > max_history_commits (rd_limits r)
       \<or> length (bo_blob outcome) > max_blob_bytes (rd_limits r)
     then Err (RdLimit ''blame'')
     else Ok (map (\<lambda>entry. entry\<lparr>bh_start_line := bh_start_line entry + 1,
         bh_source_start_line := bh_source_start_line entry + 1\<rparr>) (bo_entries outcome))))))))"

section \<open>Search\<close>

definition without_return :: "blob \<Rightarrow> blob" where
  "without_return line = (if line \<noteq> [] \<and> last line = 13 then butlast line else line)"

text \<open>The lines of a file from number \<open>index + 1\<close> on; the flag says that the results are full.\<close>

fun search_lines :: "reader \<Rightarrow> budget \<Rightarrow> blob \<Rightarrow> blob \<Rightarrow> blob list \<Rightarrow> nat \<Rightarrow> search_match list \<Rightarrow> nat
    \<Rightarrow> (reading_error, (search_match list \<times> bool) \<times> nat) result" where
  "search_lines r b query path [] index matches t = Ok ((matches, False), t)"
| "search_lines r b query path (line # rest) index matches t =
     try_then (budget_check b t) (\<lambda>t.
     if \<not> contains_bytes line query then search_lines r b query path rest (index + 1) matches t
     else if length matches = max_search_results (rd_limits r) then Ok ((matches, True), t)
     else search_lines r b query path rest (index + 1)
       (matches @ [\<lparr>sm_path = path, sm_line_number = index + 1, sm_line = without_return line\<rparr>]) t)"

fun search_files :: "reader \<Rightarrow> budget \<Rightarrow> oid \<Rightarrow> blob \<Rightarrow> (blob \<times> tree_file) list \<Rightarrow> nat \<Rightarrow> nat \<Rightarrow> search_match list \<Rightarrow> nat
    \<Rightarrow> (reading_error, search_outcome) result" where
  "search_files r b commit query [] scanned bytes matches t =
     Ok \<lparr>so_commit = commit, so_matches = matches, so_files_scanned = scanned, so_bytes_scanned = bytes,
         so_truncated = False\<rparr>"
| "search_files r b commit query ((path, file) # files) scanned bytes matches t =
     try_then (budget_check b t) (\<lambda>t.
     if tf_kind file = CommitEntry then search_files r b commit query files scanned bytes matches t
     else if scanned + 1 > max_search_files (rd_limits r) then Err (RdLimit ''search files'')
     else
       try_then (map_err RdGit (gd_header_size (rd_gix r) (rd_repository r) (tf_id file))) (\<lambda>size.
       if size \<ge> 2 ^ 64 then Err (RdLimit ''search bytes'')
       else
         try_then (checked_total bytes size (max_search_bytes (rd_limits r)) ''search bytes'') (\<lambda>bytes.
         try_then (read_blob r b (tf_id file) (tf_mode file) t) (\<lambda>(info, t).
         if 0 \<in> set (bi_data info) then search_files r b commit query files (scanned + 1) bytes matches t
         else
           try_then (search_lines r b query path (split_on 10 (bi_data info)) 0 matches t) (\<lambda>((matches, full), t).
           if full
           then Ok \<lparr>so_commit = commit, so_matches = matches, so_files_scanned = scanned + 1, so_bytes_scanned = bytes,
                    so_truncated = True\<rparr>
           else search_files r b commit query files (scanned + 1) bytes matches t)))))"

definition reader_search :: "reader \<Rightarrow> budget \<Rightarrow> oid \<Rightarrow> blob \<Rightarrow> (reading_error, search_outcome) result" where
  "reader_search r b commit query =
     (if query = [] \<or> 0 \<in> set query then Err RdInvalidSearchQuery
      else if length query > max_search_query_bytes (rd_limits r) then Err (RdLimit ''search query bytes'')
      else
        try_then (read_commit r b commit 0) (\<lambda>(info, t).
        try_then (flatten_tree r b (ci_tree info) t) (\<lambda>(files, t).
        search_files r b commit query (sort_key (\<lambda>(path, _). by_path path) files) 0 0 [] t)))"

section \<open>Archives\<close>

definition put :: "nat \<Rightarrow> blob \<Rightarrow> blob \<Rightarrow> blob" where
  "put start bytes header = take start header @ bytes @ drop (start + length bytes) header"

text \<open>The split of a long path into the fields name and prefix, from the last separator on.\<close>

definition tar_split_at :: "blob \<Rightarrow> nat \<Rightarrow> bool" where
  "tar_split_at path i \<longleftrightarrow> path ! i = 47 \<and> i + 1 < length path \<and> length path - i - 1 \<le> 100 \<and> i \<le> 155"

definition split_tar_path :: "blob \<Rightarrow> (reading_error, blob \<times> blob) result" where
  "split_tar_path path =
     (if length path \<le> 100 then Ok (path, [])
      else
        (case find (tar_split_at path) (rev [1..<length path]) of
           None \<Rightarrow> Err (RdArchivePath path)
         | Some i \<Rightarrow> Ok (drop (i + 1) path, take i path)))"

definition write_tar_octal :: "nat \<Rightarrow> nat \<Rightarrow> (reading_error, blob) result" where
  "write_tar_octal width v =
     (let text = as_bytes (octal v) in
      if length text + 1 > width then Err RdArchiveMetadata
      else Ok (replicate (width - length text - 1) 48 @ text @ [0]))"

definition tar_header :: "blob \<Rightarrow> nat \<Rightarrow> nat \<Rightarrow> nat \<Rightarrow> byte \<Rightarrow> (reading_error, blob) result" where
  "tar_header path mode bytes modified_at kind =
     try_then (split_tar_path path) (\<lambda>(name, pre).
     try_then (write_tar_octal 8 mode) (\<lambda>mode_field.
     try_then (write_tar_octal 8 0) (\<lambda>zero_field.
     try_then (write_tar_octal 12 bytes) (\<lambda>size_field.
     try_then (write_tar_octal 12 modified_at) (\<lambda>time_field.
     let header = put 345 pre (put 0 name (replicate 512 0));
         header = put 136 time_field (put 124 size_field (put 116 zero_field (put 108 zero_field (put 100 mode_field header))));
         header = put 156 [kind] (put 148 (replicate 8 32) header);
         header = put 263 (as_bytes ''00'') (put 257 (as_bytes ''ustar'' @ [0]) header);
         checksum = sum_list (map unat header) in
     Ok (put 148 (as_bytes (octal_padded 6 checksum) @ [0, 32]) header))))))"

text \<open>\<^verbatim>\<open>BoundedWriter\<close> under \<^verbatim>\<open>write_all\<close>, which does not call it for an empty buffer.\<close>

definition bounded_write :: "reader \<Rightarrow> budget \<Rightarrow> blob \<Rightarrow> blob \<Rightarrow> nat \<Rightarrow> (reading_error, blob \<times> nat) result" where
  "bounded_write r b buffer written t =
     (if buffer = [] then Ok (written, t)
      else
        try_then (budget_check b t) (\<lambda>t.
        if length buffer > max_archive_bytes (rd_limits r) - length written then Err (RdLimit ''archive bytes'')
        else Ok (written @ buffer, t)))"

definition write_tar_header :: "reader \<Rightarrow> budget \<Rightarrow> blob \<Rightarrow> nat \<Rightarrow> nat \<Rightarrow> nat \<Rightarrow> byte \<Rightarrow> blob \<Rightarrow> nat
    \<Rightarrow> (reading_error, blob \<times> nat) result" where
  "write_tar_header r b path mode bytes modified_at kind written t =
     try_then (tar_header path mode bytes modified_at kind) (\<lambda>header. bounded_write r b header written t)"

text \<open>One entry of a tree: its records, and the tree to go on with if it is one.\<close>

definition archive_entry :: "reader \<Rightarrow> budget \<Rightarrow> nat \<Rightarrow> blob \<Rightarrow> nat \<Rightarrow> tree_entry \<Rightarrow> blob \<Rightarrow> nat
    \<Rightarrow> (reading_error, (blob \<times> (oid \<times> blob \<times> nat) list) \<times> nat) result" where
  "archive_entry r b modified_at pre depth entry written t =
     try_then (join_git_path pre (te_name entry) (max_path_bytes (rd_limits r))) (\<lambda>path.
     if te_kind entry = TreeEntry then
       try_then (write_tar_header r b (path @ [47]) 493 0 modified_at 53 written t) (\<lambda>(written, t).
       Ok ((written, [(te_id entry, path, depth + 1)]), t))
     else if is_blob_or_symlink (te_kind entry) then
       try_then (read_blob r b (te_id entry) (te_mode entry) t) (\<lambda>(found, t).
       let data = bi_data found in
       try_then (write_tar_header r b path (if te_kind entry = ExecutableEntry then 493 else 420) (length data)
         modified_at 48 written t) (\<lambda>(written, t).
       try_then (bounded_write r b data written t) (\<lambda>(written, t).
       try_then (bounded_write r b (replicate ((512 - length data mod 512) mod 512) 0) written t) (\<lambda>(written, t).
       Ok ((written, []), t)))))
     else
       try_then (write_tar_header r b (path @ [47]) 493 0 modified_at 53 written t) (\<lambda>(written, t).
       Ok ((written, []), t)))"

function archive_loop :: "reader \<Rightarrow> budget \<Rightarrow> nat \<Rightarrow> tree_entry list \<Rightarrow> blob \<Rightarrow> nat \<Rightarrow> (oid \<times> blob \<times> nat) list
    \<Rightarrow> (oid \<times> blob \<times> nat) list \<Rightarrow> nat \<Rightarrow> blob \<Rightarrow> nat \<Rightarrow> (reading_error, (blob \<times> nat) \<times> nat) result" where
  "archive_loop r b modified_at [] pre depth [] [] count written t = Ok ((written, count), t)"
| "archive_loop r b modified_at [] pre depth (child # children) pending count written t =
     archive_loop r b modified_at [] pre depth [] ((child # children) @ pending) count written t"
| "archive_loop r b modified_at [] pre depth [] ((tree, below, level) # pending) count written t =
     (case budget_check b t of
        Inl e \<Rightarrow> Err e
      | Inr t \<Rightarrow>
          if level > max_archive_depth (rd_limits r) then Err (RdLimit ''archive tree depth'')
          else
            (case read_tree r b tree t of
               Inl e \<Rightarrow> Err e
             | Inr (entries, t) \<Rightarrow> archive_loop r b modified_at entries below level [] pending count written t))"
| "archive_loop r b modified_at (entry # entries) pre depth children pending count written t =
     (case budget_check b t of
        Inl e \<Rightarrow> Err e
      | Inr t \<Rightarrow>
          if max_archive_entries (rd_limits r) < count + 1 then Err (RdLimit ''archive entries'')
          else
            (case archive_entry r b modified_at pre depth entry written t of
               Inl e \<Rightarrow> Err e
             | Inr ((written, child), t) \<Rightarrow>
                 archive_loop r b modified_at entries pre depth (children @ child) pending (count + 1) written t))"
  by pat_completeness auto
termination
  by (relation "measures
       [\<lambda>(r, b, modified_at, entries, pre, depth, children, pending, count, written, t). max_archive_entries (rd_limits r) - count,
        \<lambda>(r, b, modified_at, entries, pre, depth, children, pending, count, written, t). length children + length pending,
        \<lambda>(r, b, modified_at, entries, pre, depth, children, pending, count, written, t). length children]") auto

definition reader_archive :: "reader \<Rightarrow> budget \<Rightarrow> oid \<Rightarrow> (reading_error, blob \<times> archive_stats) result" where
  "reader_archive r b commit =
     try_then (read_commit r b commit 0) (\<lambda>(info, t).
     try_then (archive_loop r b (nat (max 0 (ci_committed_at info))) [] [] 0 [] [(ci_tree info, [], 0)] 0 [] t)
       (\<lambda>((written, entries), t).
     try_then (bounded_write r b (replicate 1024 0) written t) (\<lambda>(written, t).
     Ok (written, \<lparr>as_entries = entries, as_written = length written\<rparr>))))"

end
