(* ===== verification/Read_Properties.thy ===== *)
theory Read_Properties
  imports Git_Read
begin

text \<open>
  What \<open>Git_Read\<close> (\<^verbatim>\<open>src/git/read.rs\<close>) reads. The notions of the theorems are those of the object graph: the ancestors
  of a commit, and the file that a path names in a tree. The budget appears in no statement about a result: whatever
  it is, it can only make an operation fail.
\<close>

section \<open>Histories\<close>

lemma finished_Ok: "finished m = Ok x \<longleftrightarrow> (\<exists>t. m = Ok (x, t))"
  by (cases m) (auto simp: finished_def)

lemma commit_of_id: "commit_of r i = Ok c \<Longrightarrow> ci_id c = i"
  by (auto simp: commit_of_def split: prod.splits)

lemma read_commit_Ok: "read_commit r b i t = Ok (c, t') \<Longrightarrow> commit_of r i = Ok c"
  by (auto simp: read_commit_def)

definition is_parent :: "reader \<Rightarrow> oid \<Rightarrow> oid \<Rightarrow> bool" where
  "is_parent r a b \<longleftrightarrow> (\<exists>c. commit_of r a = Ok c \<and> b \<in> set (ci_parents c))"

definition ancestors :: "reader \<Rightarrow> oid \<Rightarrow> oid set" where
  "ancestors r start = {a. (is_parent r)\<^sup>*\<^sup>* start a}"

lemma ancestors_self [simp]: "start \<in> ancestors r start"
  by (simp add: ancestors_def)

lemma ancestors_parent: "a \<in> ancestors r start \<Longrightarrow> is_parent r a b \<Longrightarrow> b \<in> ancestors r start"
  by (auto simp: ancestors_def intro: rtranclp.rtrancl_into_rtrancl)

text \<open>The invariant of the loop: what it has been through is there once each, and the parents of it are still to
  come or have been seen.\<close>

definition history_ok :: "reader \<Rightarrow> oid \<Rightarrow> oid list \<Rightarrow> oid list \<Rightarrow> commit_info list \<Rightarrow> bool" where
  "history_ok r start pending seen history \<longleftrightarrow>
     seen = rev (map ci_id history) \<and> distinct seen \<and> (\<forall>c\<in>set history. commit_of r (ci_id c) = Ok c)
     \<and> set seen \<union> set pending \<subseteq> ancestors r start \<and> start \<in> set seen \<union> set pending
     \<and> (\<forall>a\<in>set seen. \<forall>b. is_parent r a b \<longrightarrow> b \<in> set seen \<union> set pending)"

lemma history_okD:
  assumes "history_ok r start pending seen history"
  shows "seen = rev (map ci_id history)" "distinct seen" "\<forall>c\<in>set history. commit_of r (ci_id c) = Ok c"
    "set seen \<union> set pending \<subseteq> ancestors r start" "start \<in> set seen \<union> set pending"
    "\<And>a b. a \<in> set seen \<Longrightarrow> is_parent r a b \<Longrightarrow> b \<in> set seen \<union> set pending"
  using assms unfolding history_ok_def by blast+

lemma history_okI:
  assumes "seen = rev (map ci_id history)" "distinct seen" "\<forall>c\<in>set history. commit_of r (ci_id c) = Ok c"
    "set seen \<union> set pending \<subseteq> ancestors r start" "start \<in> set seen \<union> set pending"
    "\<And>a b. a \<in> set seen \<Longrightarrow> is_parent r a b \<Longrightarrow> b \<in> set seen \<union> set pending"
  shows "history_ok r start pending seen history"
  using assms unfolding history_ok_def by blast

lemma history_ok_step:
  assumes ok: "history_ok r start (i # pending) seen history" and "i \<notin> set seen" and c: "commit_of r i = Ok c"
  shows "history_ok r start (pending @ ci_parents c) (i # seen) (history @ [c])"
proof (rule history_okI)
  have i: "ci_id c = i" using c by (rule commit_of_id)
  have parents: "is_parent r i b \<longleftrightarrow> b \<in> set (ci_parents c)" for b using c by (auto simp: is_parent_def)
  have "i \<in> ancestors r start" using history_okD(4) [OF ok] by auto
  then show "set (i # seen) \<union> set (pending @ ci_parents c) \<subseteq> ancestors r start"
    using history_okD(4) [OF ok] ancestors_parent parents by fastforce
  show "i # seen = rev (map ci_id (history @ [c]))" using history_okD(1) [OF ok] i by simp
  show "distinct (i # seen)" using history_okD(2) [OF ok] assms(2) by simp
  show "\<forall>c\<in>set (history @ [c]). commit_of r (ci_id c) = Ok c" using history_okD(3) [OF ok] c i by simp
  show "start \<in> set (i # seen) \<union> set (pending @ ci_parents c)" using history_okD(5) [OF ok] by auto
  show "b \<in> set (i # seen) \<union> set (pending @ ci_parents c)" if "a \<in> set (i # seen)" "is_parent r a b" for a b
    using history_okD(6) [OF ok, of a b] that parents by auto
qed

lemma history_ok_skip:
  assumes "history_ok r start (i # pending) seen history" and "i \<in> set seen"
  shows "history_ok r start pending seen history"
proof -
  have e: "set seen \<union> set (i # pending) = set seen \<union> set pending" using assms(2) by auto
  show ?thesis using assms(1) unfolding history_ok_def e .
qed

lemma history_loop_ok:
  "history_loop r b maximum False pending seen history t = Ok (h, t') \<Longrightarrow> history_ok r start pending seen history
   \<Longrightarrow> length history \<le> maximum \<Longrightarrow> history_ok r start [] (rev (map ci_id h)) h \<and> length h \<le> maximum"
proof (induction r b maximum False pending seen history t rule: history_loop.induct)
  case (1 r b maximum seen history t)
  then show ?case by (auto simp: history_ok_def)
next
  case (2 r b maximum ident pending seen history t)
  from "2.prems"(1) consider t1 where "budget_check b t = Ok t1" "ident \<in> set seen"
      "history_loop r b maximum False pending seen history t1 = Ok (h, t')"
    | t1 c t2 where "budget_check b t = Ok t1" "ident \<notin> set seen" "\<not> maximum \<le> length history"
      "read_commit r b ident t1 = Ok (c, t2)"
      "history_loop r b maximum False (pending @ ci_parents c) (ident # seen) (history @ [c]) t2 = Ok (h, t')"
    by (auto split: sum.splits if_splits)
  then show ?case
  proof cases
    case 1
    then show ?thesis using "2.hyps"(1) [OF 1(1,2,3) history_ok_skip [OF "2.prems"(2)]] "2.prems"(3) by blast
  next
    case 2
    have "history_ok r start (pending @ ci_parents c) (ident # seen) (history @ [c])"
      using history_ok_step [OF "2.prems"(2) 2(2) read_commit_Ok [OF 2(4)]] .
    then show ?thesis using "2.hyps"(2) [OF 2(1-4) refl 2(5)] 2(3) by simp
  qed
qed

lemma history_ok_end:
  assumes "history_ok r start [] seen history"
  shows "set (map ci_id history) = ancestors r start" "distinct (map ci_id history)"
    "\<forall>c\<in>set history. commit_of r (ci_id c) = Ok c"
proof -
  have "a \<in> set seen" if "a \<in> ancestors r start" for a
  proof -
    from that have "(is_parent r)\<^sup>*\<^sup>* start a" by (simp add: ancestors_def)
    then show ?thesis using assms by (induction rule: rtranclp_induct) (auto simp: history_ok_def)
  qed
  then show "set (map ci_id history) = ancestors r start" using assms by (auto simp: history_ok_def)
  show "distinct (map ci_id history)" "\<forall>c\<in>set history. commit_of r (ci_id c) = Ok c"
    using assms by (auto simp: history_ok_def)
qed

lemma full_history_Ok:
  assumes "full_history r b start t = Ok (h, t')"
  shows "set (map ci_id h) = ancestors r start" "distinct (map ci_id h)" "\<forall>c\<in>set h. commit_of r (ci_id c) = Ok c"
    "length h \<le> max_history_commits (rd_limits r)"
proof -
  have "history_ok r start [start] [] []" by (simp add: history_ok_def)
  with assms have "history_ok r start [] (rev (map ci_id h)) h \<and> length h \<le> max_history_commits (rd_limits r)"
    using history_loop_ok [of r b _ "[start]" "[]" "[]" t h t' start]
    by (simp add: full_history_def history_with_budget_def)
  then show "set (map ci_id h) = ancestors r start" "distinct (map ci_id h)"
    "\<forall>c\<in>set h. commit_of r (ci_id c) = Ok c" "length h \<le> max_history_commits (rd_limits r)"
    using history_ok_end by blast+
qed

text \<open>The other direction: with a budget that never stops, only a commit that cannot be read or too many of them make
  a history fail.\<close>

lemma history_loop_total:
  "history_ok r start pending seen history \<Longrightarrow> \<forall>a\<in>ancestors r start. \<not> isl (commit_of r a)
   \<Longrightarrow> finite (ancestors r start) \<Longrightarrow> card (ancestors r start) \<le> maximum
   \<Longrightarrow> \<exists>h t'. history_loop r (\<lambda>_. None) maximum False pending seen history t = Ok (h, t')"
proof (induction r "\<lambda>_ :: nat. None :: stop option" maximum False pending seen history t rule: history_loop.induct)
  case (1 r maximum seen history t)
  then show ?case by simp
next
  case (2 r maximum ident pending seen history t)
  have go: "budget_check (\<lambda>_. None) t = Ok (t + 1)" by (simp add: budget_check_def)
  show ?case
  proof (cases "ident \<in> set seen")
    case True
    then show ?thesis using "2.hyps"(1) [OF go True history_ok_skip [OF "2.prems"(1) True]] "2.prems" go by simp
  next
    case False
    have here: "ident \<in> ancestors r start" using "2.prems"(1) by (simp add: history_ok_def)
    then obtain c where c: "commit_of r ident = Ok c" using "2.prems"(2) not_isl_Ok by blast
    have "set (ident # seen) \<subseteq> ancestors r start" "distinct (ident # seen)" "length seen = length history"
      using "2.prems"(1) False by (auto simp: history_ok_def)
    then have room: "\<not> maximum \<le> length history"
      using "2.prems"(3,4) card_mono [of "ancestors r start" "set (ident # seen)"] distinct_card [of "ident # seen"]
      by simp
    have read: "read_commit r (\<lambda>_. None) ident (t + 1) = Ok (c, t + 2)"
      using c by (simp add: read_commit_def budget_check_def)
    show ?thesis
      using "2.hyps"(2) [OF go False room read refl history_ok_step [OF "2.prems"(1) False c]] "2.prems" go False room read
      by simp
  qed
qed


section \<open>The files of a tree\<close>

definition file_of_entry :: "tree_entry \<Rightarrow> tree_file" where
  "file_of_entry e = \<lparr>tf_id = te_id e, tf_mode = te_mode e, tf_kind = te_kind e\<rparr>"

text \<open>The file that a list of names leads to, and the file of a path.\<close>

fun find_file :: "reader \<Rightarrow> oid \<Rightarrow> blob list \<Rightarrow> tree_file option" where
  "find_file r tree [] = None"
| "find_file r tree (c # cs) =
     (case tree_of r tree of
        Inl _ \<Rightarrow> None
      | Inr es \<Rightarrow>
          (case named_entry c es of
             None \<Rightarrow> None
           | Some e \<Rightarrow>
               if te_kind e = TreeEntry then find_file r (te_id e) cs
               else if cs = [] then Some (file_of_entry e) else None))"

definition file_of :: "reader \<Rightarrow> oid \<Rightarrow> blob \<Rightarrow> tree_file option" where
  "file_of r tree path = find_file r tree (split_on 47 path)"

inductive file_at :: "reader \<Rightarrow> oid \<Rightarrow> blob list \<Rightarrow> tree_file \<Rightarrow> bool" for r where
  here: "tree_of r tree = Ok es \<Longrightarrow> e \<in> set es \<Longrightarrow> te_kind e \<noteq> TreeEntry \<Longrightarrow> file_at r tree [te_name e] (file_of_entry e)"
| below: "tree_of r tree = Ok es \<Longrightarrow> e \<in> set es \<Longrightarrow> te_kind e = TreeEntry \<Longrightarrow> file_at r (te_id e) cs f
    \<Longrightarrow> file_at r tree (te_name e # cs) f"

definition in_entries :: "reader \<Rightarrow> tree_entry list \<Rightarrow> blob list \<Rightarrow> tree_file \<Rightarrow> bool" where
  "in_entries r es cs f \<longleftrightarrow>
     (\<exists>e\<in>set es. if te_kind e = TreeEntry then (\<exists>rest. cs = te_name e # rest \<and> file_at r (te_id e) rest f)
        else cs = [te_name e] \<and> f = file_of_entry e)"

lemma file_at_entries: "tree_of r tree = Ok es \<Longrightarrow> file_at r tree cs f \<longleftrightarrow> in_entries r es cs f"
proof -
  assume es: "tree_of r tree = Ok es"
  show ?thesis
  proof
    assume "file_at r tree cs f"
    then show "in_entries r es cs f"
      by (rule file_at.cases) (use es in \<open>auto simp: in_entries_def intro!: bexI\<close>)
  next
    assume "in_entries r es cs f"
    then obtain e where "e \<in> set es"
        "if te_kind e = TreeEntry then (\<exists>rest. cs = te_name e # rest \<and> file_at r (te_id e) rest f)
          else cs = [te_name e] \<and> f = file_of_entry e"
      unfolding in_entries_def by blast
    with es show "file_at r tree cs f" using here below by (cases "te_kind e = TreeEntry") auto
  qed
qed

lemma in_entries_Cons:
  "in_entries r (e # es) cs f \<longleftrightarrow> in_entries r es cs f
    \<or> (if te_kind e = TreeEntry then (\<exists>rest. cs = te_name e # rest \<and> file_at r (te_id e) rest f)
        else cs = [te_name e] \<and> f = file_of_entry e)"
  by (auto simp: in_entries_def)

lemma in_entries_Nil [simp]: "\<not> in_entries r [] cs f"
  by (simp add: in_entries_def)

lemma file_at_nonempty: "file_at r tree cs f \<Longrightarrow> cs \<noteq> []"
  by (erule file_at.cases) auto

text \<open>Trees in which no name occurs twice, as Git writes them.\<close>

definition subtree :: "reader \<Rightarrow> oid \<Rightarrow> oid \<Rightarrow> bool" where
  "subtree r a b \<longleftrightarrow> (\<exists>es e. tree_of r a = Ok es \<and> e \<in> set es \<and> te_kind e = TreeEntry \<and> b = te_id e)"

definition unambiguous :: "reader \<Rightarrow> oid \<Rightarrow> bool" where
  "unambiguous r root \<longleftrightarrow> (\<forall>tree es. (subtree r)\<^sup>*\<^sup>* root tree \<longrightarrow> tree_of r tree = Ok es \<longrightarrow> distinct (map te_name es))"

lemma unambiguous_names: "unambiguous r root \<Longrightarrow> tree_of r root = Ok es \<Longrightarrow> distinct (map te_name es)"
  by (auto simp: unambiguous_def)

lemma unambiguous_below:
  assumes "unambiguous r root" and "tree_of r root = Ok es" and "e \<in> set es" and "te_kind e = TreeEntry"
  shows "unambiguous r (te_id e)"
proof -
  have "subtree r root (te_id e)" using assms by (auto simp: subtree_def)
  then show ?thesis using assms(1) by (meson converse_rtranclp_into_rtranclp unambiguous_def)
qed

lemma named_entry_unique:
  "distinct (map te_name es) \<Longrightarrow> e \<in> set es \<Longrightarrow> named_entry (te_name e) es = Some e"
  unfolding named_entry_def by (induction es) auto

lemma named_entryD: "named_entry c es = Some e \<Longrightarrow> e \<in> set es \<and> te_name e = c"
  unfolding named_entry_def by (auto dest: find_SomeD)

lemma find_file_sound: "find_file r tree cs = Some f \<Longrightarrow> file_at r tree cs f"
proof (induction r tree cs rule: find_file.induct)
  case (2 r tree c cs)
  from "2.prems" obtain es e where e: "tree_of r tree = Ok es" "named_entry c es = Some e"
      "if te_kind e = TreeEntry then find_file r (te_id e) cs = Some f else cs = [] \<and> f = file_of_entry e"
    by (auto split: sum.splits option.splits if_splits)
  show ?case
    using e(3) "2.IH" [OF e(1,2)] named_entryD [OF e(2)] here [OF e(1)] below [OF e(1)] by (auto split: if_splits)
qed simp

lemma find_file_complete: "file_at r tree cs f \<Longrightarrow> unambiguous r tree \<Longrightarrow> find_file r tree cs = Some f"
proof (induction rule: file_at.induct)
  case (here tree es e)
  then show ?case using named_entry_unique [OF unambiguous_names] by simp
next
  case (below tree es e cs f)
  then show ?case using named_entry_unique [OF unambiguous_names] unambiguous_below by simp
qed

lemma find_file_iff: "unambiguous r tree \<Longrightarrow> find_file r tree cs = Some f \<longleftrightarrow> file_at r tree cs f"
  using find_file_sound find_file_complete by blast

section \<open>Paths as lists of names\<close>

definition safe_name :: "blob \<Rightarrow> bool" where
  "safe_name n \<longleftrightarrow> n \<noteq> [] \<and> n \<noteq> dot \<and> n \<noteq> dot_dot \<and> 47 \<notin> set n \<and> 0 \<notin> set n"

fun under :: "blob \<Rightarrow> blob list \<Rightarrow> blob" where
  "under pre [] = pre"
| "under pre (c # cs) = under (if pre = [] then c else pre @ 47 # c) cs"

lemma under_nonempty: "pre \<noteq> [] \<Longrightarrow> under pre cs = pre @ concat (map ((#) 47) cs)"
  by (induction cs arbitrary: pre) auto

lemma under_top: "safe_name c \<Longrightarrow> under [] (c # cs) = c @ concat (map ((#) 47) cs)"
  by (simp add: under_nonempty safe_name_def)

lemma split_joined: "list_all safe_name (c # cs) \<Longrightarrow> split_on 47 (c @ concat (map ((#) 47) cs)) = c # cs"
proof (induction cs arbitrary: c)
  case Nil
  then show ?case by (simp add: split_on_none safe_name_def)
next
  case (Cons d cs)
  then have "47 \<notin> set c" by (simp add: safe_name_def)
  with Cons show ?case by (simp add: split_on_append)
qed

lemma split_under: "cs \<noteq> [] \<Longrightarrow> list_all safe_name cs \<Longrightarrow> split_on 47 (under [] cs) = cs"
  by (cases cs) (simp_all add: under_top split_joined del: under.simps)

lemma join_split: "split_on 47 p = c # cs \<Longrightarrow> c @ concat (map ((#) (47 :: byte)) cs) = p"
proof (induction p arbitrary: c cs)
  case (Cons x p)
  obtain d ds where d: "split_on 47 p = d # ds" by (cases "split_on 47 p") auto
  have joined: "d @ concat (map ((#) 47) ds) = p" by (rule Cons.IH [OF d])
  show ?case
  proof (cases "x = 47")
    case True
    then have "c = []" "cs = d # ds" using Cons.prems d by simp_all
    then show ?thesis using joined True by simp
  next
    case False
    then have "c = x # d" "cs = ds" using Cons.prems d by simp_all
    then show ?thesis using joined by simp
  qed
qed simp

lemma under_split: "split_on 47 p = cs \<Longrightarrow> list_all safe_name cs \<Longrightarrow> under [] cs = p"
proof -
  assume p: "split_on 47 p = cs" and safe: "list_all safe_name cs"
  obtain c ds where cs: "cs = c # ds" using p by (cases "split_on 47 p") auto
  then have joined: "c @ concat (map ((#) 47) ds) = p" using join_split [of p c ds] p by blast
  have "safe_name c" using safe cs by simp
  from under_top [OF this, of ds] show ?thesis unfolding cs joined .
qed

lemma join_git_path_Ok: "join_git_path pre n maximum = Ok path \<Longrightarrow> safe_name n \<and> path = under pre [n]"
  by (auto simp: join_git_path_def safe_name_def Let_def split: if_splits)

lemma unambiguousI:
  assumes "root \<in> S" and "\<And>tree es. tree \<in> S \<Longrightarrow> tree_of r tree = Ok es \<Longrightarrow> distinct (map te_name es)"
    and "\<And>tree es e. tree \<in> S \<Longrightarrow> tree_of r tree = Ok es \<Longrightarrow> e \<in> set es \<Longrightarrow> te_kind e = TreeEntry \<Longrightarrow> te_id e \<in> S"
  shows "unambiguous r root"
proof -
  have "tree \<in> S" if "(subtree r)\<^sup>*\<^sup>* root tree" for tree
    using that by (induction rule: rtranclp_induct) (use assms in \<open>auto simp: subtree_def\<close>)
  then show ?thesis using assms(2) unfolding unambiguous_def by blast
qed

section \<open>Flattening\<close>

text \<open>What the loop has still to list, and what it lists.\<close>

definition waiting :: "reader \<Rightarrow> tree_entry list \<Rightarrow> blob \<Rightarrow> (blob \<times> oid) list \<Rightarrow> blob list \<Rightarrow> tree_file \<Rightarrow> blob \<Rightarrow> bool" where
  "waiting r es pre pending cs f p \<longleftrightarrow>
     in_entries r es cs f \<and> p = under pre cs
     \<or> (\<exists>(q, tree)\<in>set pending. file_at r tree cs f \<and> p = under q cs)"

definition lists_to :: "(blob list \<Rightarrow> tree_file \<Rightarrow> blob \<Rightarrow> bool) \<Rightarrow> (blob \<times> tree_file) list \<Rightarrow> (blob \<times> tree_file) list \<Rightarrow> bool" where
  "lists_to W files final \<longleftrightarrow>
     (\<forall>p f. map_of final p = Some f \<longrightarrow> map_of files p = Some f \<or> (\<exists>cs. W cs f p))
     \<and> (\<forall>cs f p. W cs f p \<longrightarrow> list_all safe_name cs \<and> map_of final p \<noteq> None)
     \<and> (\<forall>p. map_of files p \<noteq> None \<longrightarrow> map_of final p \<noteq> None)"

lemma waiting_pop:
  assumes "tree_of r tree = Ok es"
  shows "waiting r [] pre ((q, tree) # pending) = waiting r es q pending"
  using file_at_entries [OF assms] by (intro ext) (auto simp: waiting_def)

lemma waiting_tree:
  assumes "te_kind e = TreeEntry" and "path = under pre [te_name e]"
  shows "waiting r (e # es) pre pending cs f p \<longleftrightarrow>
    (case cs of [] \<Rightarrow> False | c # rest \<Rightarrow> c = te_name e \<and> file_at r (te_id e) rest f \<and> p = under path rest)
    \<or> waiting r es pre pending cs f p"
  using assms by (auto simp: waiting_def in_entries_Cons split: list.splits)

lemma waiting_file:
  assumes "te_kind e \<noteq> TreeEntry" and "path = under pre [te_name e]"
  shows "waiting r (e # es) pre pending cs f p \<longleftrightarrow>
    cs = [te_name e] \<and> f = file_of_entry e \<and> p = path \<or> waiting r es pre pending cs f p"
  using assms by (auto simp: waiting_def in_entries_Cons)

lemma waiting_push:
  "waiting r es pre ((q, tree) # pending) cs f p \<longleftrightarrow>
    file_at r tree cs f \<and> p = under q cs \<or> waiting r es pre pending cs f p"
  by (auto simp: waiting_def)

lemma lists_to_tree:
  assumes "lists_to (waiting r es pre ((path, te_id e) # pending)) files final" and "te_kind e = TreeEntry"
    and "path = under pre [te_name e]" and "safe_name (te_name e)"
  shows "lists_to (waiting r (e # es) pre pending) files final"
proof -
  have sound: "\<exists>cs. waiting r (e # es) pre pending cs f p" if "waiting r es pre ((path, te_id e) # pending) cs f p" for cs f p
  proof (cases "waiting r es pre pending cs f p")
    case True
    then show ?thesis using waiting_tree [OF assms(2,3)] by blast
  next
    case False
    then have "waiting r (e # es) pre pending (te_name e # cs) f p"
      using that waiting_tree [OF assms(2,3)] by (simp add: waiting_push)
    then show ?thesis by blast
  qed
  have complete: "list_all safe_name cs \<and> map_of final p \<noteq> None" if "waiting r (e # es) pre pending cs f p" for cs f p
    using that assms(1,4) waiting_tree [OF assms(2,3)]
    by (fastforce simp: lists_to_def waiting_push split: list.splits)
  show ?thesis
    unfolding lists_to_def
  proof (intro conjI allI impI)
    fix p f
    assume "map_of final p = Some f"
    then show "map_of files p = Some f \<or> (\<exists>cs. waiting r (e # es) pre pending cs f p)"
      using assms(1) sound unfolding lists_to_def by blast
  next
    fix cs f p
    assume "waiting r (e # es) pre pending cs f p"
    then show "list_all safe_name cs" "map_of final p \<noteq> None" using complete by blast+
  next
    fix p
    assume "map_of files p \<noteq> None"
    then show "map_of final p \<noteq> None" using assms(1) unfolding lists_to_def by blast
  qed
qed

lemma lists_to_file:
  assumes "lists_to (waiting r es pre pending) (AList.update path (file_of_entry e) files) final"
    and "te_kind e \<noteq> TreeEntry" and "path = under pre [te_name e]" and "safe_name (te_name e)"
  shows "lists_to (waiting r (e # es) pre pending) files final"
proof -
  have new: "map_of (AList.update path (file_of_entry e) files) = (map_of files)(path \<mapsto> file_of_entry e)"
    by (rule update_conv')
  show ?thesis
    unfolding lists_to_def
  proof (intro conjI allI impI)
    fix p f
    assume "map_of final p = Some f"
    then consider "map_of (AList.update path (file_of_entry e) files) p = Some f" | cs where "waiting r es pre pending cs f p"
      using assms(1) unfolding lists_to_def by blast
    then show "map_of files p = Some f \<or> (\<exists>cs. waiting r (e # es) pre pending cs f p)"
      using new waiting_file [OF assms(2,3)] by cases (auto split: if_splits)
  next
    fix cs f p
    assume "waiting r (e # es) pre pending cs f p"
    then show "list_all safe_name cs" "map_of final p \<noteq> None"
      using assms(1,4) new waiting_file [OF assms(2,3)] unfolding lists_to_def by auto
  next
    fix p
    assume "map_of files p \<noteq> None"
    then show "map_of final p \<noteq> None" using assms(1) new unfolding lists_to_def by (metis fun_upd_other fun_upd_same option.discI)
  qed
qed

lemma flatten_loop_lists:
  "flatten_loop r b es pre pending count files t = Ok (final, t') \<Longrightarrow> distinct (map fst files)
   \<Longrightarrow> lists_to (waiting r es pre pending) files final \<and> distinct (map fst final)"
proof (induction r b es pre pending count files t rule: flatten_loop.induct)
  case (1 r b pre count files t)
  then show ?case by (simp add: lists_to_def waiting_def)
next
  case (2 r b pre q tree pending count files t)
  from "2.prems"(1) obtain es t1 t2 where read: "budget_check b t = Ok t1" "read_tree r b tree t1 = Ok (es, t2)"
      and rest: "flatten_loop r b es q pending count files t2 = Ok (final, t')"
    by (auto simp: try_then_def split: sum.splits)
  have "tree_of r tree = Ok es" using read(2) by (auto simp: read_tree_def)
  moreover have "try_then (budget_check b t) (read_tree r b tree) = Ok (es, t2)" using read by simp
  ultimately show ?case using "2.IH" [OF _ refl rest "2.prems"(2)] waiting_pop by simp
next
  case (3 r b e es pre pending count files t)
  from "3.prems"(1) obtain t1 path where step: "budget_check b t = Ok t1" "\<not> max_tree_entries (rd_limits r) < count + 1"
      "join_git_path pre (te_name e) (max_path_bytes (rd_limits r)) = Ok path"
    by (auto split: sum.splits if_splits)
  note path = join_git_path_Ok [OF step(3)]
  have distinct: "distinct (map fst (AList.update path (file_of_entry e) files))"
    using "3.prems"(2) by (rule distinct_update)
  show ?case
  proof (cases "te_kind e = TreeEntry")
    case True
    with "3.prems"(1) step have "flatten_loop r b es pre ((path, te_id e) # pending) (count + 1) files t1 = Ok (final, t')"
      by simp
    from "3.IH"(1) [OF step True this "3.prems"(2)] show ?thesis using lists_to_tree True path by blast
  next
    case False
    with "3.prems"(1) step have "flatten_loop r b es pre pending (count + 1) (AList.update path (file_of_entry e) files) t1
        = Ok (final, t')" by (simp add: file_of_entry_def)
    with "3.IH"(2) [OF step False] distinct show ?thesis using lists_to_file False path by (simp add: file_of_entry_def)
  qed
qed

lemma flatten_tree_files:
  assumes "flatten_tree r b root t = Ok (files, t')" and "unambiguous r root"
  shows "map_of files = file_of r root" "distinct (map fst files)"
proof -
  have lists: "lists_to (waiting r [] [] [([], root)]) [] files" "distinct (map fst files)"
    using flatten_loop_lists [of r b "[]" "[]" "[([], root)]" 0 "[]" t files t'] assms(1)
    by (simp_all add: flatten_tree_def)
  have W: "waiting r [] [] [([], root)] cs f p \<longleftrightarrow> file_at r root cs f \<and> p = under [] cs" for cs f p
    by (simp add: waiting_def)
  have named: "file_of r root p = Some f \<longleftrightarrow> (\<exists>cs. file_at r root cs f \<and> p = under [] cs)" for p f
  proof
    assume "file_of r root p = Some f"
    then have "file_at r root (split_on 47 p) f" by (simp add: file_of_def find_file_iff [OF assms(2)])
    moreover from this have "list_all safe_name (split_on 47 p)" using lists(1) W unfolding lists_to_def by blast
    ultimately show "\<exists>cs. file_at r root cs f \<and> p = under [] cs" using under_split [OF refl] by metis
  next
    assume "\<exists>cs. file_at r root cs f \<and> p = under [] cs"
    then obtain cs where cs: "file_at r root cs f" "p = under [] cs" by blast
    then have "list_all safe_name cs" using lists(1) W unfolding lists_to_def by blast
    then have "split_on 47 p = cs" using split_under [OF file_at_nonempty [OF cs(1)]] cs(2) by simp
    then show "file_of r root p = Some f" using cs(1) by (simp add: file_of_def find_file_iff [OF assms(2)])
  qed
  have "map_of files p = Some f \<longleftrightarrow> file_of r root p = Some f" for p f
  proof
    assume "map_of files p = Some f"
    then obtain cs where "waiting r [] [] [([], root)] cs f p" using lists(1) unfolding lists_to_def by force
    then show "file_of r root p = Some f" using named W by blast
  next
    assume f: "file_of r root p = Some f"
    then obtain cs where "waiting r [] [] [([], root)] cs f p" using named W by blast
    then obtain g where g: "map_of files p = Some g" using lists(1) unfolding lists_to_def by blast
    then obtain cs' where "waiting r [] [] [([], root)] cs' g p" using lists(1) unfolding lists_to_def by force
    then have "file_of r root p = Some g" using named W by blast
    with f g show "map_of files p = Some f" by simp
  qed
  then show "map_of files = file_of r root" by (intro ext option.expand) (metis option.exhaust_sel option.discI)+
  show "distinct (map fst files)" by (rule lists(2))
qed

section \<open>Differences\<close>

text \<open>The data of a file as a diff reads it: nothing for a missing file and for a submodule.\<close>

definition data_of :: "reader \<Rightarrow> tree_file option \<Rightarrow> blob \<Rightarrow> bool" where
  "data_of r file data \<longleftrightarrow>
     (case file of
        None \<Rightarrow> data = []
      | Some f \<Rightarrow>
          if tf_kind f = CommitEntry then data = []
          else (\<exists>info. blob_of r (tf_id f) (tf_mode f) = Ok info \<and> bi_data info = data))"

lemma diff_blob_data: "diff_blob r b file t = Ok (data, t') \<Longrightarrow> data_of r file data"
  by (auto simp: diff_blob_def data_of_def read_blob_def split: option.splits if_splits)

definition describes :: "reader \<Rightarrow> (blob \<Rightarrow> tree_file option) \<Rightarrow> (blob \<Rightarrow> tree_file option) \<Rightarrow> diff_file \<Rightarrow> bool" where
  "describes r old new d \<longleftrightarrow>
     (\<exists>x y. data_of r (old (df_path d)) x \<and> data_of r (new (df_path d)) y
        \<and> d = diff_entry r (df_path d) (old (df_path d)) (new (df_path d)) x y)"

lemma diff_entry_path [simp]: "df_path (diff_entry r p old new x y) = p"
  by (simp add: diff_entry_def Let_def)

lemma diff_paths_files:
  "diff_paths r b old new paths bytes t = Ok (ds, t')
   \<Longrightarrow> map df_path ds = filter (\<lambda>p. map_of old p \<noteq> map_of new p) paths
      \<and> list_all (describes r (map_of old) (map_of new)) ds"
proof (induction paths arbitrary: bytes t ds)
  case (Cons path paths)
  show ?case
  proof (cases "map_of old path = map_of new path")
    case True
    with Cons.prems obtain t1 where "diff_paths r b old new paths bytes t1 = Ok (ds, t')" by auto
    from Cons.IH [OF this] True show ?thesis by simp
  next
    case False
    from Cons.prems False obtain t1 x t2 y t3 bytes3 ds' where
        read: "diff_blob r b (map_of old path) t1 = Ok (x, t2)" "diff_blob r b (map_of new path) t2 = Ok (y, t3)"
        and rest: "diff_paths r b old new paths bytes3 t3 = Ok (ds', t')"
        and ds: "ds = diff_entry r path (map_of old path) (map_of new path) x y # ds'"
      by (auto simp: Let_def)
    have "describes r (map_of old) (map_of new) (diff_entry r path (map_of old path) (map_of new path) x y)"
      using diff_blob_data [OF read(1)] diff_blob_data [OF read(2)] unfolding describes_def by auto
    then show ?thesis
      using Cons.IH [OF rest] ds False by simp
  qed
qed simp

text \<open>The order of the paths in a diff is that of their bytes.\<close>

lemma inj_by_path: "inj by_path"
proof -
  have "inj (unat :: byte \<Rightarrow> nat)" by (rule injI) (simp add: word_unat_eq_iff)
  then show ?thesis using inj_mapI [of "unat :: byte \<Rightarrow> nat"] by (simp add: inj_def by_path_def)
qed

lemma diff_trees_files:
  assumes "diff_trees_with_budget r b old new t = Ok (ds, t')" and "unambiguous r old" and "unambiguous r new"
  shows "sorted_wrt (<) (map (by_path \<circ> df_path) ds)"
    and "p \<in> df_path ` set ds \<longleftrightarrow> file_of r old p \<noteq> file_of r new p"
    and "list_all (describes r (file_of r old) (file_of r new)) ds"
proof -
  from assms(1) obtain Os Ns t1 t2 where old: "flatten_tree r b old t = Ok (Os, t1)" and new: "flatten_tree r b new t1 = Ok (Ns, t2)"
      and diff: "diff_paths r b Os Ns (sort_key by_path (remdups (map fst Os @ map fst Ns))) 0 t2 = Ok (ds, t')"
    by (auto simp: diff_trees_with_budget_def)
  note files = flatten_tree_files(1) [OF old assms(2)] flatten_tree_files(1) [OF new assms(3)]
  let ?paths = "sort_key by_path (remdups (map fst Os @ map fst Ns))"
  have paths: "map df_path ds = filter (\<lambda>p. file_of r old p \<noteq> file_of r new p) ?paths"
    using diff_paths_files [OF diff] unfolding files by blast
  have "distinct (map by_path ?paths)" using inj_by_path by (simp add: distinct_map inj_on_def)
  then have sorted: "sorted_wrt (<) (map by_path ?paths)" by (simp add: strict_sorted_iff)
  have "map (by_path \<circ> df_path) ds = map by_path (filter (\<lambda>p. file_of r old p \<noteq> file_of r new p) ?paths)"
    using paths by (metis map_map)
  then show "sorted_wrt (<) (map (by_path \<circ> df_path) ds)"
    using sorted by (simp add: sorted_wrt_map sorted_wrt_filter)
  have "p \<in> set ?paths" if "file_of r old p \<noteq> file_of r new p"
    using that unfolding files [symmetric] by (metis map_of_eq_None_iff Un_iff set_append set_map set_remdups set_sort)
  then show "p \<in> df_path ` set ds \<longleftrightarrow> file_of r old p \<noteq> file_of r new p"
    using arg_cong [OF paths, of set] by auto
  show "list_all (describes r (file_of r old) (file_of r new)) ds"
    using diff_paths_files [OF diff] unfolding files by blast
qed


section \<open>Comparisons\<close>

lemma compare_mergeability_cases:
  assumes "compare_mergeability r b base head base_ids head_ids merge_base t = Ok (m, t')"
  shows "(m = Unrelated \<longleftrightarrow> merge_base = None)
    \<and> (m = AlreadyMerged \<longleftrightarrow> merge_base \<noteq> None \<and> head \<in> base_ids)
    \<and> (m = FastForwardMerge \<longleftrightarrow> merge_base \<noteq> None \<and> head \<notin> base_ids \<and> base \<in> head_ids)
    \<and> (m = CleanMerge \<longleftrightarrow> merge_base \<noteq> None \<and> head \<notin> base_ids \<and> base \<notin> head_ids
         \<and> gd_conflicts (rd_gix r) (rd_repository r) base head = Ok False)"
  using assms
  by (auto simp: compare_mergeability_def map_err_def try_then_def split: option.splits if_splits sum.splits prod.splits)

text \<open>C12. What a pull request shows of its branches is so. The commits are the ancestors of the head that the base
  does not have, each once. It counts as merged when the head is an ancestor of the base, and as a fast-forward when,
  instead, the base is an ancestor of the head; it counts as cleanly mergeable only when neither is the case and the
  merge of the two trees has no conflict.\<close>

theorem comparison_exact:
  assumes "reader_comparison r b base head = Ok c"
  shows "set (map ci_id (fc_commits c)) = ancestors r head - ancestors r base \<and> distinct (map ci_id (fc_commits c))
    \<and> gd_merge_base (rd_gix r) (rd_repository r) base head = Ok (fc_merge_base c)
    \<and> (cmp_mergeability c = Unrelated \<longleftrightarrow> fc_merge_base c = None)
    \<and> (cmp_mergeability c = AlreadyMerged \<longleftrightarrow> fc_merge_base c \<noteq> None \<and> head \<in> ancestors r base)
    \<and> (cmp_mergeability c = FastForwardMerge \<longleftrightarrow>
         fc_merge_base c \<noteq> None \<and> head \<notin> ancestors r base \<and> base \<in> ancestors r head)
    \<and> (cmp_mergeability c = CleanMerge \<longleftrightarrow>
         fc_merge_base c \<noteq> None \<and> head \<notin> ancestors r base \<and> base \<notin> ancestors r head
         \<and> gd_conflicts (rd_gix r) (rd_repository r) base head = Ok False)"
proof -
  from assms obtain base_history head_history t t1 t2 t3 t4 m where
      histories: "full_history r b base 0 = Ok (base_history, t)" "full_history r b head t = Ok (head_history, t1)"
    and merge_base: "gd_merge_base (rd_gix r) (rd_repository r) base head = Ok (fc_merge_base c)"
    and merge: "compare_mergeability r b base head (set (map ci_id base_history)) (set (map ci_id head_history))
        (fc_merge_base c) t2 = Ok (m, t3)"
    and c: "fc_commits c = filter (\<lambda>x. ci_id x \<notin> set (map ci_id base_history)) head_history" "cmp_mergeability c = m"
    unfolding reader_comparison_def Let_def
    by (auto split: if_splits list.splits simp del: set_map)
  note ids = full_history_Ok(1) [OF histories(1)] full_history_Ok(1) [OF histories(2)]
  have "set (map ci_id (fc_commits c)) = ancestors r head - ancestors r base"
    unfolding c(1) ids(1) ids(2) [symmetric] by auto
  moreover have "distinct (map ci_id (fc_commits c))"
    using full_history_Ok(2) [OF histories(2)] by (simp add: c(1) distinct_map inj_on_def)
  ultimately show ?thesis
    using merge_base compare_mergeability_cases [OF merge] unfolding ids c(2) by blast
qed

section \<open>Search\<close>

text \<open>The matches in the lines of a file, and in a file of a tree.\<close>

definition line_hits :: "blob \<Rightarrow> blob \<Rightarrow> nat \<Rightarrow> blob list \<Rightarrow> search_match list" where
  "line_hits query path index lines =
     map (\<lambda>(n, line). \<lparr>sm_path = path, sm_line_number = n, sm_line = without_return line\<rparr>)
       (filter (\<lambda>(n, line). contains_bytes line query) (enumerate (index + 1) lines))"

definition is_text :: "reader \<Rightarrow> tree_file \<Rightarrow> blob \<Rightarrow> bool" where
  "is_text r f data \<longleftrightarrow> tf_kind f \<noteq> CommitEntry \<and> 0 \<notin> set data
     \<and> (\<exists>info. blob_of r (tf_id f) (tf_mode f) = Ok info \<and> bi_data info = data)"

definition file_hits :: "reader \<Rightarrow> blob \<Rightarrow> blob \<times> tree_file \<Rightarrow> search_match list" where
  "file_hits r query = (\<lambda>(path, f).
     if \<exists>data. is_text r f data then line_hits query path 0 (split_on 10 (THE data. is_text r f data)) else [])"

definition is_hit :: "reader \<Rightarrow> oid \<Rightarrow> blob \<Rightarrow> search_match \<Rightarrow> bool" where
  "is_hit r tree query m \<longleftrightarrow>
     (\<exists>f data n. file_of r tree (sm_path m) = Some f \<and> is_text r f data \<and> sm_line_number m = Suc n
        \<and> n < length (split_on 10 data) \<and> contains_bytes (split_on 10 data ! n) query
        \<and> sm_line m = without_return (split_on 10 data ! n))"

lemma is_text_unique: "is_text r f x \<Longrightarrow> is_text r f y \<Longrightarrow> x = y"
  by (auto simp: is_text_def)

lemma file_hits_text: "is_text r f data \<Longrightarrow> file_hits r query (path, f) = line_hits query path 0 (split_on 10 data)"
proof -
  assume data: "is_text r f data"
  then have "(THE data. is_text r f data) = data" by (rule the_equality) (rule is_text_unique [OF _ data])
  with data show ?thesis by (auto simp: file_hits_def)
qed

lemma line_hits_Cons:
  "line_hits query path index (line # rest) =
     (if contains_bytes line query then [\<lparr>sm_path = path, sm_line_number = index + 1, sm_line = without_return line\<rparr>] else [])
     @ line_hits query path (index + 1) rest"
  by (simp add: line_hits_def)

lemma in_line_hits:
  "m \<in> set (line_hits query path 0 lines) \<longleftrightarrow>
     sm_path m = path \<and> (\<exists>n. sm_line_number m = Suc n \<and> n < length lines \<and> contains_bytes (lines ! n) query
       \<and> sm_line m = without_return (lines ! n))"
proof
  assume "m \<in> set (line_hits query path 0 lines)"
  then obtain n line where n: "(n, line) \<in> set (enumerate 1 lines)" "contains_bytes line query"
      "m = \<lparr>sm_path = path, sm_line_number = n, sm_line = without_return line\<rparr>"
    by (auto simp: line_hits_def)
  then have "1 \<le> n" "n < length lines + 1" "line = lines ! (n - 1)" by (auto simp: in_set_enumerate_eq)
  with n show "sm_path m = path \<and> (\<exists>n. sm_line_number m = Suc n \<and> n < length lines \<and> contains_bytes (lines ! n) query
      \<and> sm_line m = without_return (lines ! n))" by (intro conjI exI [of _ "n - 1"]) auto
next
  assume "sm_path m = path \<and> (\<exists>n. sm_line_number m = Suc n \<and> n < length lines \<and> contains_bytes (lines ! n) query
      \<and> sm_line m = without_return (lines ! n))"
  then obtain n where n: "n < length lines" "contains_bytes (lines ! n) query"
      "m = \<lparr>sm_path = path, sm_line_number = Suc n, sm_line = without_return (lines ! n)\<rparr>" by (cases m) auto
  then have "(Suc n, lines ! n) \<in> set (enumerate 1 lines)" by (simp add: in_set_enumerate_eq)
  with n show "m \<in> set (line_hits query path 0 lines)" by (force simp: line_hits_def)
qed

lemma search_lines_hits:
  "search_lines r b query path lines index matches t = Ok ((found, full), t')
   \<Longrightarrow> if full then prefix found (matches @ line_hits query path index lines) \<and> length found = max_search_results (rd_limits r)
      else found = matches @ line_hits query path index lines"
proof (induction lines arbitrary: index matches t)
  case (Cons line lines)
  from Cons.prems consider t1 where "\<not> contains_bytes line query"
      "search_lines r b query path lines (index + 1) matches t1 = Ok ((found, full), t')"
    | "contains_bytes line query" "length matches = max_search_results (rd_limits r)" "found = matches" "full"
    | t1 where "contains_bytes line query" "search_lines r b query path lines (index + 1)
         (matches @ [\<lparr>sm_path = path, sm_line_number = index + 1, sm_line = without_return line\<rparr>]) t1 = Ok ((found, full), t')"
    by (auto split: if_splits)
  then show ?case by cases (auto dest!: Cons.IH simp: line_hits_Cons split: if_splits)
qed (simp add: line_hits_def)

lemma search_files_read:
  assumes "search_files r b commit query ((path, f) # files) scanned bytes matches t = Ok outcome" "tf_kind f \<noteq> CommitEntry"
  obtains bytes1 t1 info t2 where "read_blob r b (tf_id f) (tf_mode f) t1 = Ok (info, t2)"
    "(if 0 \<in> set (bi_data info) then search_files r b commit query files (scanned + 1) bytes1 matches t2
      else
        try_then (search_lines r b query path (split_on 10 (bi_data info)) 0 matches t2) (\<lambda>((matches, full), t).
        if full
        then Ok \<lparr>so_commit = commit, so_matches = matches, so_files_scanned = scanned + 1, so_bytes_scanned = bytes1,
                 so_truncated = True\<rparr>
        else search_files r b commit query files (scanned + 1) bytes1 matches t)) = Ok outcome"
proof -
  from assms have "\<not> scanned + 1 > max_search_files (rd_limits r)" by (auto split: if_splits)
  moreover obtain t1 where "budget_check b t = Ok t1" using assms by (cases "budget_check b t") auto
  moreover obtain size where "gd_header_size (rd_gix r) (rd_repository r) (tf_id f) = Ok size"
    using assms calculation by (cases "gd_header_size (rd_gix r) (rd_repository r) (tf_id f)") auto
  moreover have "\<not> size \<ge> 2 ^ 64" using assms calculation by (auto split: if_splits)
  moreover obtain bytes1 where "checked_total bytes size (max_search_bytes (rd_limits r)) ''search bytes'' = Ok bytes1"
    using assms calculation by (cases "checked_total bytes size (max_search_bytes (rd_limits r)) ''search bytes''") auto
  moreover obtain info t2 where "read_blob r b (tf_id f) (tf_mode f) t1 = Ok (info, t2)"
    using assms calculation by (cases "read_blob r b (tf_id f) (tf_mode f) t1") auto
  ultimately show ?thesis using assms by (intro that [of t1 info t2 bytes1]) simp_all
qed

lemma search_files_hits:
  "search_files r b commit query files scanned bytes matches t = Ok outcome
   \<Longrightarrow> if so_truncated outcome
      then prefix (so_matches outcome) (matches @ concat (map (file_hits r query) files))
        \<and> length (so_matches outcome) = max_search_results (rd_limits r)
      else so_matches outcome = matches @ concat (map (file_hits r query) files)"
proof (induction files arbitrary: scanned bytes matches t)
  case (Cons entry files)
  obtain path f where entry: "entry = (path, f)" by (cases entry)
  show ?case
  proof (cases "tf_kind f = CommitEntry")
    case True
    then have "file_hits r query entry = []" by (simp add: entry file_hits_def is_text_def)
    with Cons.prems True show ?thesis by (auto simp: entry dest!: Cons.IH)
  next
    case False
    obtain bytes1 t1 info t2 where read: "read_blob r b (tf_id f) (tf_mode f) t1 = Ok (info, t2)"
      and rest: "(if 0 \<in> set (bi_data info) then search_files r b commit query files (scanned + 1) bytes1 matches t2
        else
          try_then (search_lines r b query path (split_on 10 (bi_data info)) 0 matches t2) (\<lambda>((matches, full), t).
          if full
          then Ok \<lparr>so_commit = commit, so_matches = matches, so_files_scanned = scanned + 1, so_bytes_scanned = bytes1,
                   so_truncated = True\<rparr>
          else search_files r b commit query files (scanned + 1) bytes1 matches t)) = Ok outcome"
      using search_files_read [OF Cons.prems [unfolded entry] False] .
    show ?thesis
    proof (cases "0 \<in> set (bi_data info)")
      case True
      with read have "file_hits r query entry = []" by (auto simp: entry file_hits_def is_text_def read_blob_def)
      with True rest Cons.IH show ?thesis by simp
    next
      case plain: False
      with read False have "is_text r f (bi_data info)" by (auto simp: is_text_def read_blob_def)
      note hits = file_hits_text [OF this]
      from plain rest obtain found full t3 where
          lines: "search_lines r b query path (split_on 10 (bi_data info)) 0 matches t2 = Ok ((found, full), t3)"
        by (cases "search_lines r b query path (split_on 10 (bi_data info)) 0 matches t2") auto
      show ?thesis
      proof (cases full)
        case True
        with plain rest lines have "so_matches outcome = found" "so_truncated outcome" by auto
        with search_lines_hits [OF lines] hits True show ?thesis by (auto simp: entry prefix_prefix simp flip: append_assoc)
      next
        case full: False
        with plain rest lines have
            "search_files r b commit query files (scanned + 1) bytes1 found t3 = Ok outcome" by simp
        from Cons.IH [OF this] search_lines_hits [OF lines] hits full show ?thesis by (simp add: entry split: if_splits)
      qed
    qed
  qed
qed auto


section \<open>A concrete repository\<close>

text \<open>Two commits, the second on top of the first: it changes the file \<^verbatim>\<open>a\<close> and adds \<^verbatim>\<open>d/b\<close>.\<close>

definition blob_entry :: "char \<Rightarrow> char \<Rightarrow> tree_entry" where
  "blob_entry name ident = \<lparr>te_name = as_bytes [name], te_id = [ident], te_mode = 33188, te_kind = BlobEntry\<rparr>"

definition sample_tree :: "blob \<Rightarrow> tree_entry list" where
  "sample_tree data =
     (if data = [1] then [blob_entry (CHR ''a'') (CHR ''x'')]
      else if data = [2] then [blob_entry (CHR ''a'') (CHR ''y''),
        \<lparr>te_name = as_bytes ''d'', te_id = ''s'', te_mode = 16384, te_kind = TreeEntry\<rparr>]
      else [blob_entry (CHR ''b'') (CHR ''x'')])"

definition sample_object :: "oid \<Rightarrow> (object_kind \<times> blob) option" where
  "sample_object i =
     map_of [(''1'', Commit, [1]), (''2'', Commit, [2]), (''t'', Tree, [1]), (''u'', Tree, [2]), (''s'', Tree, [3]),
             (''x'', Blob, [120]), (''y'', Blob, [121])] i"

definition sample_commit :: "blob \<Rightarrow> raw_commit" where
  "sample_commit data =
     \<lparr>rw_tree = as_bytes (if data = [1] then ''t'' else ''u''), rw_parents = (if data = [1] then [] else [as_bytes ''1'']),
      rw_author = Ok ([], []), rw_time = Ok 7, rw_message = []\<rparr>"

definition sample_read :: gix_read where
  "sample_read =
     \<lparr>gd_gix = reference_gix\<lparr>from_hex := \<lambda>text. Some (concat (map id40 (string_of_bytes text)))\<rparr>,
      gd_listing = sample_listing,
      gd_object = (\<lambda>_ i. Ok (if i = [] then None else sample_object [hd i])),
      gd_header_size = (\<lambda>_ _. Ok 1), gd_commit = (\<lambda>data. Ok (sample_commit data)), gd_tree = (\<lambda>data. Ok (sample_tree data)),
      gd_empty_tree = (\<lambda>_. []), gd_merge_base = (\<lambda>_ base head. Ok (Some base)), gd_conflicts = (\<lambda>_ _ _. Ok False),
      gd_unified_diff = (\<lambda>x y. x @ y), gd_blame = (\<lambda>_ _ _. Err ''none'')\<rparr>"

definition sample_reader :: reader where
  "sample_reader = \<lparr>rd_gix = sample_read, rd_repository = sample_bare, rd_limits = default_limits\<rparr>"

lemma sample_limits:
  "max_commit_bytes default_limits = 1048576" "max_tree_bytes default_limits = 16777216" "max_blob_bytes default_limits = 16777216"
  "max_history_commits default_limits = 10000" "max_tree_entries default_limits = 100000" "max_path_bytes default_limits = 4096"
  "max_diff_bytes default_limits = 67108864"
  by (simp_all add: default_limits_def)

lemma id40_simps: "hd (id40 c) = c" "id40 c \<noteq> []" "length (id40 c) = 40"
  by (simp_all add: id40_def numeral_eq_Suc)

lemma sample_commits:
  "commit_of sample_reader (id40 (CHR ''1'')) = Ok \<lparr>ci_id = id40 (CHR ''1''), ci_tree = id40 (CHR ''t''), ci_parents = [],
     ci_author_name = [], ci_author_email = [], ci_committed_at = 7, ci_message = []\<rparr>"
  "commit_of sample_reader (id40 (CHR ''2'')) = Ok \<lparr>ci_id = id40 (CHR ''2''), ci_tree = id40 (CHR ''u''),
     ci_parents = [id40 (CHR ''1'')], ci_author_name = [], ci_author_email = [], ci_committed_at = 7, ci_message = []\<rparr>"
  by (simp_all add: commit_of_def object_data_def sample_reader_def sample_read_def sample_object_def sample_commit_def
      sample_limits reader_parse_id_def sample_bare_def hex_length_def id40_simps)

lemma sample_byte_names: "as_bytes ''a'' = [97]" "as_bytes ''b'' = [98]" "as_bytes ''d'' = [100]" "dot = [46]" "dot_dot = [46, 46]"
  by (simp_all add: as_bytes_def byte_of_char_def dot_def dot_dot_def)

lemmas sample_entries = sample_tree_def blob_entry_def sample_byte_names

lemma sample_trees:
  "tree_of sample_reader (id40 (CHR ''t'')) = Ok (sample_tree [1])"
  "tree_of sample_reader (id40 (CHR ''u'')) = Ok (sample_tree [2])"
  "tree_of sample_reader ''s'' = Ok (sample_tree [3])"
  by (simp_all add: tree_of_def object_data_def sample_reader_def sample_read_def sample_object_def sample_limits id40_simps)

lemma sample_blobs:
  "blob_of sample_reader ''x'' mode = Ok \<lparr>bi_id = ''x'', bi_mode = mode, bi_data = [120]\<rparr>"
  "blob_of sample_reader ''y'' mode = Ok \<lparr>bi_id = ''y'', bi_mode = mode, bi_data = [121]\<rparr>"
  by (simp_all add: blob_of_def object_data_def sample_reader_def sample_read_def sample_object_def sample_limits)

lemma sample_unambiguous:
  "unambiguous sample_reader (id40 (CHR ''t''))" "unambiguous sample_reader (id40 (CHR ''u''))"
proof -
  let ?S = "{id40 (CHR ''t''), id40 (CHR ''u''), ''s''}"
  have names: "distinct (map te_name es)" if "tree \<in> ?S" "tree_of sample_reader tree = Ok es" for tree es
    using that sample_trees by (auto simp: sample_entries)
  have below: "te_id e \<in> ?S" if "tree \<in> ?S" "tree_of sample_reader tree = Ok es" "e \<in> set es" "te_kind e = TreeEntry" for tree es e
    using that sample_trees by (auto simp: sample_entries)
  show "unambiguous sample_reader (id40 (CHR ''t''))" "unambiguous sample_reader (id40 (CHR ''u''))"
    by (rule unambiguousI [of _ ?S], simp, erule (1) names, erule (3) below)+
qed

lemma sample_reader_limits: "rd_limits sample_reader = default_limits" "gd_unified_diff (rd_gix sample_reader) = (@)"
  by (auto simp: sample_reader_def sample_read_def)

lemma sample_flat:
  "\<exists>t'. flatten_tree sample_reader (\<lambda>_. None) (id40 (CHR ''t'')) t = Ok ([([97], file_of_entry (blob_entry (CHR ''a'') (CHR ''x'')))], t')"
  "\<exists>t'. flatten_tree sample_reader (\<lambda>_. None) (id40 (CHR ''u'')) t = Ok ([([97], file_of_entry (blob_entry (CHR ''a'') (CHR ''y''))),
      ([100, 47, 98], file_of_entry (blob_entry (CHR ''b'') (CHR ''x'')))], t')"
  by (simp_all add: flatten_tree_def read_tree_def budget_check_def sample_trees sample_entries sample_reader_limits
      sample_limits join_git_path_def file_of_entry_def)

lemma sample_diff_at:
  "\<exists>ds t'. diff_with_budget sample_reader (\<lambda>_. None) (id40 (CHR ''1'')) (id40 (CHR ''2'')) t = Ok (ds, t')"
proof -
  obtain t1 where one: "flatten_tree sample_reader (\<lambda>_. None) (id40 (CHR ''t'')) (Suc (Suc t))
      = Ok ([([97], file_of_entry (blob_entry (CHR ''a'') (CHR ''x'')))], t1)" using sample_flat(1) by blast
  obtain t2 where two: "flatten_tree sample_reader (\<lambda>_. None) (id40 (CHR ''u'')) t1
      = Ok ([([97], file_of_entry (blob_entry (CHR ''a'') (CHR ''y''))),
      ([100, 47, 98], file_of_entry (blob_entry (CHR ''b'') (CHR ''x'')))], t2)" using sample_flat(2) by blast
  show ?thesis
    by (simp add: diff_with_budget_def read_commit_def budget_check_def sample_commits
        diff_trees_with_budget_def one two by_path_def diff_blob_def read_blob_def sample_blobs
        file_of_entry_def blob_entry_def checked_total_def sample_reader_limits sample_limits diff_entry_def
        is_submodule_def)
qed

lemma sample_diff: "\<exists>ds. reader_diff sample_reader (\<lambda>_. None) (id40 (CHR ''1'')) (id40 (CHR ''2'')) = Ok ds"
  using sample_diff_at [of 0] by (auto simp: reader_diff_def finished_Ok)


lemma sample_histories:
  "\<exists>t'. full_history sample_reader (\<lambda>_. None) (id40 (CHR ''1'')) t = Ok ([projr (commit_of sample_reader (id40 (CHR ''1'')))], t')"
  "\<exists>t'. full_history sample_reader (\<lambda>_. None) (id40 (CHR ''2'')) t
     = Ok ([projr (commit_of sample_reader (id40 (CHR ''2''))), projr (commit_of sample_reader (id40 (CHR ''1'')))], t')"
proof -
  have "id40 (CHR ''1'') \<noteq> id40 (CHR ''2'')" by (simp add: id40_def)
  then show "\<exists>t'. full_history sample_reader (\<lambda>_. None) (id40 (CHR ''1'')) t = Ok ([projr (commit_of sample_reader (id40 (CHR ''1'')))], t')"
    "\<exists>t'. full_history sample_reader (\<lambda>_. None) (id40 (CHR ''2'')) t
     = Ok ([projr (commit_of sample_reader (id40 (CHR ''2''))), projr (commit_of sample_reader (id40 (CHR ''1'')))], t')"
    by (simp_all add: full_history_def history_with_budget_def read_commit_def budget_check_def sample_commits
        sample_reader_limits sample_limits)
qed

lemma sample_merge_base: "gd_merge_base (rd_gix sample_reader) (rd_repository sample_reader) base head = Ok (Some base)"
  by (simp add: sample_reader_def sample_read_def)

theorem comparison_exact_witness:
  "\<exists>c. reader_comparison sample_reader (\<lambda>_. None) (id40 (CHR ''1'')) (id40 (CHR ''2'')) = Ok c
    \<and> cmp_mergeability c = FastForwardMerge \<and> id40 (CHR ''1'') \<in> ancestors sample_reader (id40 (CHR ''2''))"
proof -
  let ?b = "\<lambda>_ :: nat. None :: stop option"
  have differ: "id40 (CHR ''1'') \<noteq> id40 (CHR ''2'')" "id40 (CHR ''2'') \<noteq> id40 (CHR ''1'')" by (simp_all add: id40_def)
  obtain t1 where one: "full_history sample_reader ?b (id40 (CHR ''1'')) 0 = Ok ([projr (commit_of sample_reader (id40 (CHR ''1'')))], t1)"
    using sample_histories(1) by blast
  obtain t2 where two: "full_history sample_reader ?b (id40 (CHR ''2'')) t1
      = Ok ([projr (commit_of sample_reader (id40 (CHR ''2''))), projr (commit_of sample_reader (id40 (CHR ''1'')))], t2)"
    using sample_histories(2) by blast
  obtain ds t3 where diff: "diff_with_budget sample_reader ?b (id40 (CHR ''1'')) (id40 (CHR ''2'')) (Suc (Suc t2)) = Ok (ds, t3)"
    using sample_diff_at by blast
  have "\<exists>c. reader_comparison sample_reader ?b (id40 (CHR ''1'')) (id40 (CHR ''2'')) = Ok c \<and> cmp_mergeability c = FastForwardMerge"
    by (simp add: reader_comparison_def one two sample_commits sample_reader_limits sample_limits budget_check_def differ
        sample_merge_base checked_total_def diff compare_mergeability_def)
  then show ?thesis using comparison_exact by blast
qed

lemma sample_search_limits:
  "max_search_files default_limits = 10000" "max_search_bytes default_limits = 67108864"
  "max_search_results default_limits = 500" "max_search_query_bytes default_limits = 256"
  by (simp_all add: default_limits_def)

lemma sample_header: "gd_header_size (rd_gix sample_reader) repository i = Ok 1"
  by (simp add: sample_reader_def sample_read_def)


end
