(* ===== verification/Spec2Isabelle.thy ===== *)
theory Spec2Isabelle
  imports Invariants Codec Packet_Line Push_Recovery Rate_Limit Services Account_Service Repository_Service Upload_Pack
    Git_Transport Metadata_Search Read_Properties
begin

text \<open>
  Verification of \<^bold>\<open>tit\<close>, a self-hosted Git forge.

  \<^bold>\<open>The program.\<close> All state besides the Git repositories is one SQLite database behind the type \<^verbatim>\<open>Store\<close>
  (\<^verbatim>\<open>src/store/mod.rs\<close>), whose operations are single transactions. The services (\<^verbatim>\<open>src/account.rs\<close>,
  \<^verbatim>\<open>src/session.rs\<close>, \<^verbatim>\<open>src/issue.rs\<close>, \<^verbatim>\<open>src/pull_request.rs\<close>, \<^verbatim>\<open>src/repository.rs\<close> and others) validate their
  input and call it; the SSH and HTTP servers call the services, and decide who may do what through
  \<^verbatim>\<open>src/policy.rs\<close>. Git data moves in packet lines (\<^verbatim>\<open>src/git/packetline.rs\<close>), and pushes, merges and ref
  changes are recorded as intents in the database before the repository on disk changes, so that a crash can be
  repaired.

  \<^bold>\<open>Theories.\<close>
  \<^item> \<open>Prelude\<close>: results, bytes and strings, tables as lists of rows, and the rules \<open>wp\<close> for what an operation
    ensures when it returns \<^verbatim>\<open>Ok\<close>.
  \<^item> \<open>Codec\<close> (\<^verbatim>\<open>src/codec.rs\<close>): hexadecimal, with its round trips.
  \<^item> \<open>Names\<close> (\<^verbatim>\<open>src/domain/repository.rs\<close>, \<^verbatim>\<open>validate_username\<close> of \<^verbatim>\<open>src/auth.rs\<close>): the validators of names, shown
    equivalent to the CHECK constraints of the columns they end up in.
  \<^item> \<open>Packet_Line\<close> (\<^verbatim>\<open>src/git/packetline.rs\<close>): framing, side band, and the scanner for the end of a request.
  \<^item> \<open>Sql\<close> and \<open>Schema\<close> (\<^verbatim>\<open>src/store/migrations\<close>, \<^verbatim>\<open>src/store/error.rs\<close>): statements over table descriptors, the
    tables of schema version 26 with their constraints, and the locale \<open>lawful_table\<close>, interpreted for each table,
    in which every statement is shown to keep the schema invariant \<open>db_ok\<close>.
  \<^item> \<open>Sample\<close>: a small database on which witnesses evaluate the definitions.
  \<^item> \<open>Store_Core\<close>, \<open>Store_Accounts\<close>, \<open>Store_Login\<close>, \<open>Store_Orgs\<close>, \<open>Store_Repositories\<close>, \<open>Store_Issues\<close>,
    \<open>Store_Git\<close>, \<open>Store_Pulls\<close>, \<open>Store_Feeds\<close> (\<^verbatim>\<open>src/store/mod.rs\<close>, \<^verbatim>\<open>src/store/event.rs\<close>): every operation of the
    store that changes the database, and most that read it, one definition each under the name of the Rust
    function, with its lemmas.
  \<^item> \<open>Policy\<close> (\<^verbatim>\<open>src/policy.rs\<close>): authorization, its specification by granted roles, and the agreement of the
    three places of the code that decide about access.
  \<^item> \<open>History\<close> and \<open>Invariants\<close>: the store as a state machine over all operations, what no step undoes, and
    the invariants of every reachable database.

  \<^item> \<open>Pack_Limits\<close>, \<open>Object_Walk\<close>, \<open>Receive_Pack\<close>, \<open>Ref_Commands\<close>, \<open>Push\<close>, \<open>Push_Recovery\<close>
    (\<^verbatim>\<open>src/git/receive_pack.rs\<close>): the limits on a received pack, the walks over objects and their equivalence with
    reachability and ancestry in the object graph, the ref commands of a push and the recorded form of refs, the
    push as a whole over a world of database and repositories with a crash point after each of its effects, and
    the theorem that recovery after a crash at any point leaves the refs and the history agreeing.
  \<^item> \<open>Rate_Limit\<close> (\<^verbatim>\<open>src/rate_limit.rs\<close>): the sliding-window limiter, with the bound it keeps for every sequence
    of calls and the reasons for which it refuses.
  \<^item> \<open>Auth\<close> (\<^verbatim>\<open>src/auth.rs\<close>) and \<open>Session\<close> (\<^verbatim>\<open>src/session.rs\<close>): keys, login challenges with their round trip, and
    the web login from challenge to session: it is sound and establishes a session that authenticates.
  \<^item> \<open>Account_Service\<close> (\<^verbatim>\<open>src/account.rs\<close>) and \<open>Services\<close> (\<^verbatim>\<open>src/issue.rs\<close>, \<^verbatim>\<open>src/organization.rs\<close>,
    \<^verbatim>\<open>src/watch.rs\<close>, \<^verbatim>\<open>src/feed_token.rs\<close>): validation, hashing and auditing around the store.
  \<^item> \<open>Git_Repository\<close> (\<^verbatim>\<open>src/git/repository.rs\<close>): branches, references and ref transactions of a repository, and
    the walk over the objects reachable from a set of tips, equivalent to reachability.
  \<^item> \<open>Pull_Request_Service\<close> and \<open>Pull_Request_Recovery\<close> (\<^verbatim>\<open>src/pull_request.rs\<close>): every operation on pull
    requests over the same world, with crash points; opening and revising are atomic under crashes, and closing
    a pull request while a revision is pending blocks recovery.
  \<^item> \<open>Repository_Service\<close> (\<^verbatim>\<open>src/repository.rs\<close>): creation, which keeps the directories and the rows of the
    repositories in step, and the default branch, whose change is atomic under crashes unless the name of the
    branch is too long for the audit row.
  \<^item> \<open>Upload_Pack\<close> (\<^verbatim>\<open>src/git/upload_pack.rs\<close>, packs and references of \<^verbatim>\<open>src/git/repository.rs\<close>): the three protocol
    versions of a fetch, from the request to the pack, which carries what the wants reach and the haves do not.
  \<^item> \<open>Git_Transport\<close> (\<^verbatim>\<open>src/git/transport.rs\<close>): the Git commands that arrive over SSH and the repository they reach,
    always one that the policy grants to the actor.
  \<^item> \<open>Metadata_Search\<close> (\<^verbatim>\<open>src/search.rs\<close>): the search over the repositories an actor may read, shown to return
    exactly those that match.
  \<^item> \<open>Utf8\<close> and \<open>Patch\<close> (\<^verbatim>\<open>src/git/patch.rs\<close>): strings as byte sequences, and the text of a patch, from which the
    bytes of a binary file and the path of every file can be read back.
  \<^item> \<open>Git_Read\<close> and \<open>Read_Properties\<close> (\<^verbatim>\<open>src/git/read.rs\<close>): reading a repository for display under limits and a
    budget of time: histories, trees, blobs, diffs, comparisons, blame, search and archives. A history always ends and
    lists the ancestors; a diff lists the paths whose files differ, with the files of a tree specified by following
    paths and not by the walk; a comparison and a search return what they say.

  \<^bold>\<open>State and effects.\<close> The database is a record of tables, a table a list of rows in row-id order. An
  operation maps the database to \<open>Err e\<close> or \<open>Ok\<close> with the new one; an error carries no database because the
  transaction it leaves is rolled back. A panic is the error \<open>Panic\<close>. Times, lengths and row ids are unbounded
  integers, with the conversions to \<^verbatim>\<open>i64\<close> and \<^verbatim>\<open>usize\<close> written out where they can fail.

  \<^bold>\<open>Parameters.\<close> The record \<open>env\<close> stands for the identifiers that SQLite draws at random and the text of a JSON
  value; \<open>crypto\<close> for the ssh-key and sha2 crates (parsing and verifying keys and signatures, hashing); \<open>gix\<close> for
  the Git library, \<open>gix_listing\<close> for the references it lists and the bytes of a pack, \<open>incoming_pack\<close> for what it reads from a received pack \<open>gix_merge\<close> for merges and \<open>gix_read\<close> for
  reading objects; the records of
  the pull request and repository services have fields for \<^verbatim>\<open>canonicalize\<close>, the initialization of a repository
  and the comparison of two commits; the search takes the lower-casing of Unicode text as an argument. Clocks and random draws are arguments.
  What a theorem needs of them is a hypothesis (\<open>gix_laws\<close>, \<open>draws_secrets\<close>), with a witness that has an instance.

  \<^bold>\<open>Fuel and termination.\<close> The walks over the object graph and over delta chains are recursions with a
  termination proof, on the limits that the code itself counts down; there is no fuel.

  \<^bold>\<open>Not modelled.\<close> The SSH and HTTP servers, templates and rendering (network I/O and third-party crates), the
  command line, configuration, backup and the control socket, the
  migrations from older schema versions. File operations do not fail.
\<close>

end
